(* ===== verification/Prelude.thy ===== *)
theory Prelude
  imports Main "HOL-Library.Word"
begin

text \<open>
  Shared ground of the development: the machine integers of the eBPF programs, little-endian
  byte encodings of them, byte ranges written into an address-indexed array, and the named
  collections of rewrite rules the component theories add to.
\<close>

unbundle bit_operations_syntax

type_synonym u8 = "8 word"
type_synonym u16 = "16 word"
type_synonym u32 = "32 word"
type_synonym u64 = "64 word"

text \<open>\<open>const_simps\<close> unfolds the numeric constants of the C headers; \<open>buf_simps\<close> holds the
  field equations of the submit buffer; \<open>op_defs\<close> the definitions of the interpreter's
  instructions.\<close>

named_theorems const_simps
named_theorems buf_simps
named_theorems op_defs

subsection \<open>Little-endian bytes\<close>

fun le_bytes :: "nat \<Rightarrow> 'a::len word \<Rightarrow> u8 list" where
  "le_bytes 0 w = []"
| "le_bytes (Suc n) w = ucast w # le_bytes n (drop_bit 8 w)"

fun le_word :: "u8 list \<Rightarrow> 'a::len word" where
  "le_word [] = 0"
| "le_word (b # bs) = ucast b OR push_bit 8 (le_word bs)"

lemma length_le_bytes [simp]: "length (le_bytes n w) = n"
  by (induction n arbitrary: w) auto

lemma le_word_le_bytes: "le_word (le_bytes n w) = take_bit (8 * n) w"
proof (induction n arbitrary: w)
  case 0
  then show ?case by simp
next
  case (Suc n)
  show ?case
    by (rule bit_word_eqI)
      (auto simp: Suc bit_or_iff bit_push_bit_iff bit_take_bit_iff bit_drop_bit_eq bit_ucast_iff
        possible_bit_word)
qed

lemma le_word_le_bytes_u32 [simp]: "le_word (le_bytes 4 w) = (w :: u32)"
  by (simp add: le_word_le_bytes take_bit_word_eq_self)

lemma le_word_le_bytes_u64 [simp]: "le_word (le_bytes 8 w) = (w :: u64)"
  by (simp add: le_word_le_bytes take_bit_word_eq_self)

lemma le_bytes_inj_u64: "le_bytes 8 v = le_bytes 8 w \<Longrightarrow> v = (w :: u64)"
  by (metis le_word_le_bytes_u64)

subsection \<open>Byte ranges of an array\<close>

definition upd_range :: "(nat \<Rightarrow> 'b) \<Rightarrow> nat \<Rightarrow> 'b list \<Rightarrow> (nat \<Rightarrow> 'b)" where
  "upd_range f off bs = (\<lambda>i. if off \<le> i \<and> i < off + length bs then bs ! (i - off) else f i)"

definition range_of :: "(nat \<Rightarrow> 'b) \<Rightarrow> nat \<Rightarrow> nat \<Rightarrow> 'b list" where
  "range_of f off n = map f [off..<off + n]"

lemma length_range_of [simp]: "length (range_of f off n) = n"
  by (simp add: range_of_def)

lemma upd_range_Nil [simp]: "upd_range f off [] = f"
  by (rule ext) (auto simp: upd_range_def)

lemma upd_range_outside [simp]:
  "i < off \<or> off + length bs \<le> i \<Longrightarrow> upd_range f off bs i = f i"
  by (auto simp: upd_range_def)

lemma upd_range_adjacent:
  "upd_range (upd_range f off bs) (off + length bs) cs = upd_range f off (bs @ cs)"
  by (rule ext) (auto simp: upd_range_def nth_append)

lemma upd_range_disjoint_commute:
  "off + length bs \<le> off' \<Longrightarrow>
    upd_range (upd_range f off bs) off' cs = upd_range (upd_range f off' cs) off bs"
  by (rule ext) (auto simp: upd_range_def)

lemma upd_range_adjacent_before:
  "upd_range (upd_range f (off + length bs) cs) off bs = upd_range f off (bs @ cs)"
  using upd_range_adjacent [of f off bs cs] upd_range_disjoint_commute [of off bs "off + length bs" f cs]
  by simp

lemma range_of_upd_range_prefix:
  "n \<le> off \<Longrightarrow> range_of (upd_range f off bs) 0 n = range_of f 0 n"
  by (auto simp: range_of_def)

lemma range_of_upd_range_append:
  "range_of (upd_range f off bs) 0 (off + length bs) = range_of f 0 off @ bs"
  by (rule nth_equalityI) (auto simp: range_of_def nth_append upd_range_def)

text \<open>The bytes of an object after the first \<open>length ws\<close> of them were overwritten by \<open>ws\<close>.\<close>

definition overlay :: "'b list \<Rightarrow> 'b list \<Rightarrow> 'b list" where
  "overlay old ws = ws @ drop (length ws) old"

lemma length_overlay [simp]: "length ws \<le> length old \<Longrightarrow> length (overlay old ws) = length old"
  by (simp add: overlay_def)

lemma overlay_all [simp]: "length ws = length old \<Longrightarrow> overlay old ws = ws"
  by (simp add: overlay_def)

lemma overlay_Nil [simp]: "overlay old [] = old"
  by (simp add: overlay_def)

subsection \<open>Indexing with a bound\<close>

text \<open>An array read that says when the index is out of range.\<close>

definition nth_opt :: "'a list \<Rightarrow> nat \<Rightarrow> 'a option" where
  "nth_opt xs i = (if i < length xs then Some (xs ! i) else None)"

lemma nth_opt_Some [simp]: "i < length xs \<Longrightarrow> nth_opt xs i = Some (xs ! i)"
  by (simp add: nth_opt_def)

lemma nth_opt_None_iff [simp]: "nth_opt xs i = None \<longleftrightarrow> length xs \<le> i"
  by (simp add: nth_opt_def not_less)

lemma nth_opt_append [simp]: "nth_opt (xs @ y # ys) (length xs) = Some y"
  by (simp add: nth_opt_def)

subsection \<open>Words\<close>

lemma unat_add_small:
  "unat a + unat b < 2 ^ LENGTH('a) \<Longrightarrow> unat (a + b) = unat a + unat (b :: 'a::len word)"
  by (simp add: unat_add_lem)

lemma word_and_mask_bound: "unat (w AND mask n) < 2 ^ n"
  by (simp flip: take_bit_eq_mask add: unsigned_take_bit_eq)

end
