(* ===== verification/Consts.thy ===== *)
theory Consts
  imports Prelude
begin

text \<open>
  The constants and enumerations of \<open>src/src/common/consts.h\<close> and \<open>src/src/types.h\<close>. Sizes that
  the code compares with \<open>u32\<close> offsets are natural numbers, keys and codes are 32-bit words. The
  constants that depend on the preprocessor take the build target as an argument.
\<close>

subsection \<open>The build: \<open>__TARGET_ARCH_*\<close> and \<open>__MODULE_*\<close>\<close>

datatype target_arch = TARGET_ARCH_arm | TARGET_ARCH_arm64

datatype module_kind = MODULE_STACK | MODULE_SYSCALL | MODULE_OTHER

subsection \<open>Sizes\<close>

definition TASK_COMM_LEN :: nat where [const_simps]: "TASK_COMM_LEN = 16"
definition MAX_COUNT :: nat where [const_simps]: "MAX_COUNT = 20"
definition MAX_FILTER_COUNT :: nat where [const_simps]: "MAX_FILTER_COUNT = 6"
definition MAX_PATH_COMPONENTS :: nat where [const_simps]: "MAX_PATH_COMPONENTS = 48"
definition MAX_LOOP_COUNT :: u8 where [const_simps]: "MAX_LOOP_COUNT = 32"
definition MAX_STRCMP_LEN :: u32 where [const_simps]: "MAX_STRCMP_LEN = 256"
definition STRARR_MAGIC_LEN :: u32 where [const_simps]: "STRARR_MAGIC_LEN = 0xffff0000"

fun MAX_OP_COUNT :: "module_kind \<Rightarrow> nat" where
  "MAX_OP_COUNT MODULE_STACK = 64"
| "MAX_OP_COUNT MODULE_SYSCALL = 256"
| "MAX_OP_COUNT MODULE_OTHER = 512"

definition TIF_32BIT :: u64 where [const_simps]: "TIF_32BIT = push_bit 22 1"

fun PTR_SIZE :: "target_arch \<Rightarrow> nat" where
  "PTR_SIZE TARGET_ARCH_arm = 4"
| "PTR_SIZE TARGET_ARCH_arm64 = 8"

definition MAX_PERCPU_BUFSIZE :: nat where [const_simps]: "MAX_PERCPU_BUFSIZE = 2 ^ 15"
definition PATH_MAX :: nat where [const_simps]: "PATH_MAX = 4096"
definition MAX_STRING_SIZE :: nat where [const_simps]: "MAX_STRING_SIZE = 4096"
definition MAX_BYTES_ARR_SIZE :: nat where [const_simps]: "MAX_BYTES_ARR_SIZE = 4096"
definition MAX_BUF_READ_SIZE :: nat where [const_simps]: "MAX_BUF_READ_SIZE = 4096"
definition ARGS_BUF_SIZE :: nat where [const_simps]: "ARGS_BUF_SIZE = 32000"

lemma MAX_OP_COUNT_pos [simp]: "0 < MAX_OP_COUNT m"
  by (cases m) auto

lemma MAX_OP_COUNT_le: "MAX_OP_COUNT m \<le> 512"
  by (cases m) auto

lemma PTR_SIZE_le [simp]: "PTR_SIZE a \<le> 8"
  by (cases a) auto

lemma PTR_SIZE_pos [simp]: "0 < PTR_SIZE a"
  by (cases a) auto

subsection \<open>Key ranges of \<open>common_list\<close>\<close>

text \<open>
  The macros after the first are unparenthesised sums. They are only used as summands, where the
  missing parentheses do not matter.
\<close>

definition SYS_WHITELIST_START :: u32 where [const_simps]: "SYS_WHITELIST_START = 0x400"
definition SYS_BLACKLIST_START :: u32 where
  [const_simps]: "SYS_BLACKLIST_START = SYS_WHITELIST_START + 0x400"
definition UID_WHITELIST_START :: u32 where
  [const_simps]: "UID_WHITELIST_START = SYS_BLACKLIST_START + 0x400"
definition UID_BLACKLIST_START :: u32 where
  [const_simps]: "UID_BLACKLIST_START = UID_WHITELIST_START + 0x400"
definition PID_WHITELIST_START :: u32 where
  [const_simps]: "PID_WHITELIST_START = UID_BLACKLIST_START + 0x400"
definition PID_BLACKLIST_START :: u32 where
  [const_simps]: "PID_BLACKLIST_START = PID_WHITELIST_START + 0x400"
definition TID_WHITELIST_START :: u32 where
  [const_simps]: "TID_WHITELIST_START = PID_BLACKLIST_START + 0x400"
definition TID_BLACKLIST_START :: u32 where
  [const_simps]: "TID_BLACKLIST_START = TID_WHITELIST_START + 0x400"

definition THREAD_NAME_WHITELIST :: u32 where [const_simps]: "THREAD_NAME_WHITELIST = 1"
definition THREAD_NAME_BLACKLIST :: u32 where [const_simps]: "THREAD_NAME_BLACKLIST = 2"

definition TRACE_COMMON :: u32 where [const_simps]: "TRACE_COMMON = 0"
definition TRACE_ALL :: u32 where [const_simps]: "TRACE_ALL = 1"

datatype buf_idx_e = STRING_BUF_IDX | ZERO_BUF_IDX | MAX_BUFFERS

fun buf_idx_num :: "buf_idx_e \<Rightarrow> nat" where
  "buf_idx_num STRING_BUF_IDX = 0"
| "buf_idx_num ZERO_BUF_IDX = 1"
| "buf_idx_num MAX_BUFFERS = 2"

subsection \<open>Enumerations of \<open>types.h\<close>\<close>

datatype arg_filter_e = UNKNOWN_FILTER | EQUAL_FILTER | GREATER_FILTER | LESS_FILTER
  | WHITELIST_FILTER | BLACKLIST_FILTER | REPLACE_FILTER

fun arg_filter_num :: "arg_filter_e \<Rightarrow> u32" where
  "arg_filter_num UNKNOWN_FILTER = 0"
| "arg_filter_num EQUAL_FILTER = 1"
| "arg_filter_num GREATER_FILTER = 2"
| "arg_filter_num LESS_FILTER = 3"
| "arg_filter_num WHITELIST_FILTER = 4"
| "arg_filter_num BLACKLIST_FILTER = 5"
| "arg_filter_num REPLACE_FILTER = 6"

definition GROUP_NONE :: u32 where [const_simps]: "GROUP_NONE = push_bit 0 1"
definition GROUP_ROOT :: u32 where [const_simps]: "GROUP_ROOT = push_bit 1 1"
definition GROUP_SYSTEM :: u32 where [const_simps]: "GROUP_SYSTEM = push_bit 2 1"
definition GROUP_SHELL :: u32 where [const_simps]: "GROUP_SHELL = push_bit 3 1"
definition GROUP_APP :: u32 where [const_simps]: "GROUP_APP = push_bit 4 1"
definition GROUP_ISO :: u32 where [const_simps]: "GROUP_ISO = push_bit 5 1"

definition SYSCALL_ENTER :: u32 where [const_simps]: "SYSCALL_ENTER = 456"
definition SYSCALL_EXIT :: u32 where [const_simps]: "SYSCALL_EXIT = 457"
definition UPROBE_ENTER :: u32 where [const_simps]: "UPROBE_ENTER = 458"
definition UPROBE_EXIT :: u32 where [const_simps]: "UPROBE_EXIT = 459"

datatype op_code_e = OP_SKIP | OP_RESET_CTX | OP_SET_REG_INDEX | OP_SET_READ_LEN
  | OP_SET_READ_LEN_REG_VALUE | OP_SET_READ_LEN_POINTER_VALUE | OP_SET_READ_COUNT
  | OP_ADD_OFFSET | OP_SUB_OFFSET | OP_MOVE_REG_VALUE | OP_MOVE_POINTER_VALUE
  | OP_MOVE_TMP_VALUE | OP_SET_TMP_VALUE | OP_FOR_BREAK | OP_SET_BREAK_COUNT
  | OP_SET_BREAK_COUNT_REG_VALUE | OP_SET_BREAK_COUNT_POINTER_VALUE | OP_SAVE_ADDR
  | OP_ADD_REG | OP_SUB_REG | OP_READ_REG | OP_SAVE_REG | OP_READ_POINTER | OP_SAVE_POINTER
  | OP_SAVE_STRUCT | OP_FILTER_VALUE | OP_FILTER_BUFFER | OP_FILTER_STRING | OP_SAVE_STRING
  | OP_SAVE_PTR_STRING | OP_READ_STD_STRING | OP_READ_RET

text \<open>
  The enumerators in declaration order: \<open>OP_SKIP = 233\<close> and each next one is one more. A code
  that is not an enumerator falls into the \<open>default\<close> branch of the interpreter's switch.
\<close>

definition op_code_order :: "op_code_e list" where
  "op_code_order =
    [OP_SKIP, OP_RESET_CTX, OP_SET_REG_INDEX, OP_SET_READ_LEN,
     OP_SET_READ_LEN_REG_VALUE, OP_SET_READ_LEN_POINTER_VALUE, OP_SET_READ_COUNT,
     OP_ADD_OFFSET, OP_SUB_OFFSET, OP_MOVE_REG_VALUE, OP_MOVE_POINTER_VALUE,
     OP_MOVE_TMP_VALUE, OP_SET_TMP_VALUE, OP_FOR_BREAK, OP_SET_BREAK_COUNT,
     OP_SET_BREAK_COUNT_REG_VALUE, OP_SET_BREAK_COUNT_POINTER_VALUE, OP_SAVE_ADDR,
     OP_ADD_REG, OP_SUB_REG, OP_READ_REG, OP_SAVE_REG, OP_READ_POINTER, OP_SAVE_POINTER,
     OP_SAVE_STRUCT, OP_FILTER_VALUE, OP_FILTER_BUFFER, OP_FILTER_STRING, OP_SAVE_STRING,
     OP_SAVE_PTR_STRING, OP_READ_STD_STRING, OP_READ_RET]"

fun op_num :: "op_code_e \<Rightarrow> u32" where
  "op_num OP_SKIP = 233"
| "op_num OP_RESET_CTX = 234"
| "op_num OP_SET_REG_INDEX = 235"
| "op_num OP_SET_READ_LEN = 236"
| "op_num OP_SET_READ_LEN_REG_VALUE = 237"
| "op_num OP_SET_READ_LEN_POINTER_VALUE = 238"
| "op_num OP_SET_READ_COUNT = 239"
| "op_num OP_ADD_OFFSET = 240"
| "op_num OP_SUB_OFFSET = 241"
| "op_num OP_MOVE_REG_VALUE = 242"
| "op_num OP_MOVE_POINTER_VALUE = 243"
| "op_num OP_MOVE_TMP_VALUE = 244"
| "op_num OP_SET_TMP_VALUE = 245"
| "op_num OP_FOR_BREAK = 246"
| "op_num OP_SET_BREAK_COUNT = 247"
| "op_num OP_SET_BREAK_COUNT_REG_VALUE = 248"
| "op_num OP_SET_BREAK_COUNT_POINTER_VALUE = 249"
| "op_num OP_SAVE_ADDR = 250"
| "op_num OP_ADD_REG = 251"
| "op_num OP_SUB_REG = 252"
| "op_num OP_READ_REG = 253"
| "op_num OP_SAVE_REG = 254"
| "op_num OP_READ_POINTER = 255"
| "op_num OP_SAVE_POINTER = 256"
| "op_num OP_SAVE_STRUCT = 257"
| "op_num OP_FILTER_VALUE = 258"
| "op_num OP_FILTER_BUFFER = 259"
| "op_num OP_FILTER_STRING = 260"
| "op_num OP_SAVE_STRING = 261"
| "op_num OP_SAVE_PTR_STRING = 262"
| "op_num OP_READ_STD_STRING = 263"
| "op_num OP_READ_RET = 264"

definition op_code_of :: "u32 \<Rightarrow> op_code_e option" where
  "op_code_of w = find (\<lambda>c. op_num c = w) op_code_order"

lemma op_code_of_num [simp]: "op_code_of (op_num c) = Some c"
  by (cases c) (simp_all add: op_code_of_def op_code_order_def)

lemma op_code_of_Some: "op_code_of w = Some c \<Longrightarrow> w = op_num c"
  by (auto simp: op_code_of_def find_Some_iff)

lemma op_num_eq_SKIP [simp]: "op_num c = 233 \<longleftrightarrow> c = OP_SKIP"
  by (cases c) simp_all

lemma op_num_inj: "op_num c = op_num d \<longleftrightarrow> c = d"
  by (metis op_code_of_num option.inject)

text \<open>Operations are ordered as the enumeration orders them.\<close>

instantiation op_code_e :: linorder
begin

definition less_eq_op_code_e :: "op_code_e \<Rightarrow> op_code_e \<Rightarrow> bool" where
  "less_eq_op_code_e c d \<longleftrightarrow> op_num c \<le> op_num d"

definition less_op_code_e :: "op_code_e \<Rightarrow> op_code_e \<Rightarrow> bool" where
  "less_op_code_e c d \<longleftrightarrow> op_num c < op_num d"

instance
proof
  fix x y z :: op_code_e
  show "x < y \<longleftrightarrow> x \<le> y \<and> \<not> y \<le> x"
    unfolding less_eq_op_code_e_def less_op_code_e_def by (rule less_le_not_le)
  show "x \<le> x" by (simp add: less_eq_op_code_e_def)
  show "x \<le> y \<Longrightarrow> y \<le> z \<Longrightarrow> x \<le> z"
    unfolding less_eq_op_code_e_def by (rule order_trans)
  show "x \<le> y \<Longrightarrow> y \<le> x \<Longrightarrow> x = y"
    unfolding less_eq_op_code_e_def by (rule op_num_inj [THEN iffD1], rule antisym)
  show "x \<le> y \<or> y \<le> x"
    unfolding less_eq_op_code_e_def by (rule linear)
qed

end

lemma op_code_order_complete: "set op_code_order = UNIV"
proof -
  have "c \<in> set op_code_order" for c by (cases c) (simp_all add: op_code_order_def)
  then show ?thesis by blast
qed

lemma op_code_order_sorted: "sorted op_code_order" and op_code_order_distinct: "distinct op_code_order"
  by (simp_all add: op_code_order_def less_eq_op_code_e_def)

lemma op_code_order_numbers: "map op_num op_code_order = map (\<lambda>i. 233 + of_nat i) [0..<32]"
  by (simp add: op_code_order_def upt_rec)

subsection \<open>Register indices\<close>

definition REG_ARM64_X0 :: nat where [const_simps]: "REG_ARM64_X0 = 0"
definition REG_ARM64_X29 :: nat where [const_simps]: "REG_ARM64_X29 = 29"
definition REG_ARM64_LR :: nat where [const_simps]: "REG_ARM64_LR = 30"
definition REG_ARM64_SP :: nat where [const_simps]: "REG_ARM64_SP = 31"
definition REG_ARM64_PC :: nat where [const_simps]: "REG_ARM64_PC = 32"
definition REG_ARM64_MAX :: u8 where [const_simps]: "REG_ARM64_MAX = 33"
definition REG_ARM64_INDEX :: u8 where [const_simps]: "REG_ARM64_INDEX = 34"
definition REG_ARM64_ABS :: u8 where [const_simps]: "REG_ARM64_ABS = 35"

end
