(* ===== verification/Types.thy ===== *)
theory Types
  imports Consts
begin

text \<open>
  The structures of \<open>src/src/types.h\<close> and \<open>src/src/utils.h\<close> as records, and their memory layout
  under the C rules of the 64-bit little-endian eBPF target. Field names that two structures share
  carry a prefix, as does the event context, whose C name is a keyword here (\<open>point_signal\<close>, \<open>filter_str_val\<close>, \<open>cfg_code\<close>).
\<close>

subsection \<open>Structures\<close>

record common_filter_t =
  is_32bit :: u32
  trace_mode :: u32
  trace_uid_group :: u32
  signal :: u32
  tsignal :: u32

record ctx_regs_t =
  regs :: "u64 list" \<comment> \<open>\<open>u64 regs[31]\<close>\<close>
  sp :: u64
  pc :: u64
  flag :: u64

record thread_name_t =
  thread_name :: "u8 list" \<comment> \<open>\<open>char name[16]\<close>\<close>

record str_buf_t =
  str_val :: "u8 list" \<comment> \<open>\<open>char str_val[256]\<close>\<close>

record arg_filter_t =
  filter_type :: u32
  filter_str_val :: "u8 list" \<comment> \<open>\<open>char str_val[256]\<close>\<close>
  filter_str_len :: u32
  num_val :: u64

record config_entry_t =
  stackplz_pid :: u32
  thread_whitelist :: u32

record op_ctx_t =
  save_index :: u8
  reg_index :: u8
  loop_count :: u8
  break_count :: u8
  apply_filter :: u8
  skip_flag :: u8
  match_whitelist :: u8
  match_blacklist :: u8
  loop_index :: u32
  op_key_index :: u32
  op_code :: u32
  post_code :: u32
  str_len :: u32
  read_len :: u32
  read_addr :: u64
  reg_value :: u64
  pointer_value :: u64
  tmp_value :: u64
  reg_0 :: u64

record op_config_t =
  cfg_code :: u32
  cfg_pre_code :: u32
  cfg_post_code :: u32
  cfg_value :: u64

record point_args_t =
  enter_key :: u32
  point_signal :: u32
  op_count :: u32
  op_key_list :: "u32 list" \<comment> \<open>\<open>u32 op_key_list[MAX_OP_COUNT]\<close>\<close>

record event_context_t =
  ts :: u64
  eventid :: u32
  host_tid :: u32
  host_pid :: u32
  tid :: u32
  pid :: u32
  uid :: u32
  comm :: "u8 list" \<comment> \<open>\<open>char comm[TASK_COMM_LEN]\<close>\<close>
  argnum :: u8
  ctx_padding :: "u8 list" \<comment> \<open>\<open>char padding[7]\<close>\<close>

text \<open>
  The payload array of an event is a function from offsets to bytes, so that a write past its end
  is expressible: staying inside \<open>ARGS_BUF_SIZE\<close> is proved of every writer, not built in.
\<close>

record event_data_t =
  ev_context :: event_context_t
  args :: "nat \<Rightarrow> u8" \<comment> \<open>\<open>char args[ARGS_BUF_SIZE]\<close>\<close>
  buf_off :: u32
  task :: u64 \<comment> \<open>\<open>struct task_struct *task\<close>\<close>

record point_arg_t =
  point_flag :: u32
  filter_idx :: "u32 list" \<comment> \<open>\<open>u32 filter_idx[MAX_FILTER_COUNT]\<close>\<close>
  read_index :: u32
  read_offset :: u32
  base_type :: u32
  alias_type :: u32
  read_count :: u32
  item_persize :: u32
  item_countindex :: u32
  tmp_index :: u32

record simple_buf_t =
  simple_bytes :: "u8 list" \<comment> \<open>\<open>u8 buf[MAX_PERCPU_BUFSIZE]\<close>\<close>

record vma_arg_t =
  vma_ptr :: u64

text \<open>The union of an inline path and a pointer to one.\<close>

datatype file_path = Pathname "u8 list" | Pathname_p u64

record file_info_t =
  file_pathname :: file_path
  device :: u32
  inode :: u64
  ctime :: u64

subsection \<open>Enumerations used as data\<close>

datatype arg_type_e = TYPE_NONE | TYPE_NUM | TYPE_EXP_INT | TYPE_INT | TYPE_UINT | TYPE_INT8
  | TYPE_INT16 | TYPE_UINT8 | TYPE_UINT16 | TYPE_INT32 | TYPE_UINT32 | TYPE_INT64 | TYPE_UINT64
  | TYPE_STRING | TYPE_STRING_ARR | TYPE_POINTER | TYPE_STRUCT | TYPE_TIMESPEC | TYPE_STAT
  | TYPE_STATFS | TYPE_SIGACTION | TYPE_UTSNAME | TYPE_SOCKADDR | TYPE_RUSAGE | TYPE_IOVEC
  | TYPE_EPOLLEVENT | TYPE_SIGSET | TYPE_POLLFD | TYPE_SYSINFO | TYPE_SIGINFO | TYPE_MSGHDR
  | TYPE_ITIMERSPEC | TYPE_STACK_T | TYPE_TIMEVAL | TYPE_TIMEZONE | TYPE_PTHREAD_ATTR
  | TYPE_ARRAY | TYPE_ARRAY_INT32 | TYPE_ARRAY_UINT32 | TYPE_BUFFER

datatype point_flag_e = FORBIDDEN | SYS_ENTER_EXIT | SYS_ENTER | SYS_EXIT | UPROBE_ENTER_READ

subsection \<open>Layout\<close>

text \<open>
  A field is its name, the size of one element (which is also its alignment: all elements are
  scalars or pointers) and the number of elements. \<open>place off fs\<close> gives each field its offset,
  \<open>struct_size\<close> rounds the end up to the largest alignment.
\<close>

type_synonym cfield = "string \<times> nat \<times> nat"

definition align_up :: "nat \<Rightarrow> nat \<Rightarrow> nat" where
  "align_up a n = (n + a - 1) div a * a"

fun place :: "nat \<Rightarrow> cfield list \<Rightarrow> (string \<times> nat \<times> nat) list" where
  "place off [] = []"
| "place off ((f, sz, n) # fs) =
     (let o1 = align_up sz off in (f, o1, sz * n) # place (o1 + sz * n) fs)"

fun place_end :: "nat \<Rightarrow> cfield list \<Rightarrow> nat" where
  "place_end off [] = off"
| "place_end off ((f, sz, n) # fs) = place_end (align_up sz off + sz * n) fs"

definition struct_align :: "cfield list \<Rightarrow> nat" where
  "struct_align fs = foldr (\<lambda>(f, sz, n) a. max sz a) fs 1"

definition struct_size :: "cfield list \<Rightarrow> nat" where
  "struct_size fs = align_up (struct_align fs) (place_end 0 fs)"

text \<open>The fields that a write to the first \<open>k\<close> bytes of a structure covers completely.\<close>

definition covered_fields :: "nat \<Rightarrow> cfield list \<Rightarrow> string list" where
  "covered_fields k fs = map fst (filter (\<lambda>(f, off, n). off + n \<le> k) (place 0 fs))"

text \<open>The fields that such a write touches at all.\<close>

definition touched_fields :: "nat \<Rightarrow> cfield list \<Rightarrow> string list" where
  "touched_fields k fs = map fst (filter (\<lambda>(f, off, n). off < k) (place 0 fs))"

definition op_ctx_layout :: "cfield list" where
  "op_ctx_layout =
    [(''save_index'', 1, 1), (''reg_index'', 1, 1), (''loop_count'', 1, 1),
     (''break_count'', 1, 1), (''apply_filter'', 1, 1), (''skip_flag'', 1, 1),
     (''match_whitelist'', 1, 1), (''match_blacklist'', 1, 1),
     (''loop_index'', 4, 1), (''op_key_index'', 4, 1), (''op_code'', 4, 1),
     (''post_code'', 4, 1), (''str_len'', 4, 1), (''read_len'', 4, 1),
     (''read_addr'', 8, 1), (''reg_value'', 8, 1), (''pointer_value'', 8, 1),
     (''tmp_value'', 8, 1), (''reg_0'', 8, 1)]"

definition event_context_layout :: "cfield list" where
  "event_context_layout =
    [(''ts'', 8, 1), (''eventid'', 4, 1), (''host_tid'', 4, 1), (''host_pid'', 4, 1),
     (''tid'', 4, 1), (''pid'', 4, 1), (''uid'', 4, 1), (''comm'', 1, TASK_COMM_LEN),
     (''argnum'', 1, 1), (''padding'', 1, 7)]"

text \<open>The nested context is spelled as 8-byte units: its size is a multiple of its alignment.\<close>

definition event_data_layout :: "cfield list" where
  "event_data_layout =
    [(''context'', 8, struct_size event_context_layout div 8),
     (''args'', 1, ARGS_BUF_SIZE), (''buf_off'', 4, 1), (''task'', 8, 1)]"

definition ctx_regs_layout :: "cfield list" where
  "ctx_regs_layout = [(''regs'', 8, 31), (''sp'', 8, 1), (''pc'', 8, 1), (''flag'', 8, 1)]"

definition op_config_layout :: "cfield list" where
  "op_config_layout = [(''code'', 4, 1), (''pre_code'', 4, 1), (''post_code'', 4, 1), (''value'', 8, 1)]"

definition arg_filter_layout :: "cfield list" where
  "arg_filter_layout =
    [(''filter_type'', 4, 1), (''str_val'', 1, 256), (''str_len'', 4, 1), (''num_val'', 8, 1)]"

definition point_args_layout :: "module_kind \<Rightarrow> cfield list" where
  "point_args_layout m =
    [(''enter_key'', 4, 1), (''signal'', 4, 1), (''op_count'', 4, 1),
     (''op_key_list'', 4, MAX_OP_COUNT m)]"

definition sizeof_event_context :: nat where
  "sizeof_event_context = struct_size event_context_layout"

text \<open>\<open>sizeof(event_context_t) + ARGS_BUF_SIZE\<close>, used as a whole operand.\<close>

definition MAX_EVENT_SIZE :: nat where
  "MAX_EVENT_SIZE = sizeof_event_context + ARGS_BUF_SIZE"

lemmas layout_defs = align_up_def struct_align_def struct_size_def covered_fields_def
  touched_fields_def op_ctx_layout_def event_context_layout_def event_data_layout_def
  ctx_regs_layout_def op_config_layout_def arg_filter_layout_def point_args_layout_def

lemma sizeof_event_context_eq [simp]: "sizeof_event_context = 56"
  by (simp add: sizeof_event_context_def layout_defs const_simps)

lemma MAX_EVENT_SIZE_eq [simp]: "MAX_EVENT_SIZE = 32056"
  by (simp add: MAX_EVENT_SIZE_def const_simps)

subsection \<open>Well-formed values\<close>

text \<open>The array fields have their declared lengths.\<close>

definition wf_ctx_regs :: "ctx_regs_t \<Rightarrow> bool" where
  "wf_ctx_regs r \<longleftrightarrow> length (regs r) = 31"

definition wf_point_args :: "module_kind \<Rightarrow> point_args_t \<Rightarrow> bool" where
  "wf_point_args m pa \<longleftrightarrow> length (op_key_list pa) = MAX_OP_COUNT m"

definition wf_context :: "event_context_t \<Rightarrow> bool" where
  "wf_context c \<longleftrightarrow> length (comm c) = TASK_COMM_LEN \<and> length (ctx_padding c) = 7"

definition wf_arg_filter :: "arg_filter_t \<Rightarrow> bool" where
  "wf_arg_filter f \<longleftrightarrow> length (filter_str_val f) = 256"

subsection \<open>The register file as one array\<close>

text \<open>
  \<open>ctx_regs->regs[i]\<close> with \<open>i\<close> past 30 reads the fields that follow the array in memory:
  \<open>sp\<close>, \<open>pc\<close>, \<open>flag\<close>. Past the structure there is nothing to read.
\<close>

definition ctx_regs_words :: "ctx_regs_t \<Rightarrow> u64 list" where
  "ctx_regs_words r = regs r @ [sp r, pc r, flag r]"

definition ctx_regs_at :: "ctx_regs_t \<Rightarrow> nat \<Rightarrow> u64 option" where
  "ctx_regs_at r i = nth_opt (ctx_regs_words r) i"

lemma ctx_regs_at_gpr: "wf_ctx_regs r \<Longrightarrow> i < 31 \<Longrightarrow> ctx_regs_at r i = Some (regs r ! i)"
  by (simp add: ctx_regs_at_def ctx_regs_words_def wf_ctx_regs_def nth_append)

lemma ctx_regs_at_sp: "wf_ctx_regs r \<Longrightarrow> ctx_regs_at r REG_ARM64_SP = Some (sp r)"
  by (simp add: ctx_regs_at_def ctx_regs_words_def wf_ctx_regs_def nth_append const_simps)

lemma ctx_regs_at_pc: "wf_ctx_regs r \<Longrightarrow> ctx_regs_at r REG_ARM64_PC = Some (pc r)"
  by (simp add: ctx_regs_at_def ctx_regs_words_def wf_ctx_regs_def nth_append const_simps)

lemma ctx_regs_at_in_struct:
  "wf_ctx_regs r \<Longrightarrow> i < 34 \<Longrightarrow> ctx_regs_at r i = Some (ctx_regs_words r ! i)"
  by (simp add: ctx_regs_at_def ctx_regs_words_def wf_ctx_regs_def)

end
