(* ===== verification/BPF_Maps.thy ===== *)
theory BPF_Maps
  imports Types "HOL-Library.AList"
begin

text \<open>
  The maps of \<open>src/src/maps.h\<close> and the three helpers that act on them, with the behaviour that
  \<open>src/src/bpf/bpf_helper_defs.h\<close> documents. A hash map is an association list with a capacity, an
  LRU hash one in recency order, an array a list whose elements always exist. The laws the
  programs rely on are the locales \<open>bpf_dict\<close> and \<open>bpf_hash\<close>.
\<close>

subsection \<open>The interface\<close>

text \<open>
  Every map with keys: a successful update is seen by the next lookup of the key, and loses other
  entries at most (an LRU map evicts); a deleted key is gone, the others stay.
\<close>

locale bpf_dict =
  fixes lookup :: "'m \<Rightarrow> 'k \<Rightarrow> 'v option"
    and update :: "'k \<Rightarrow> 'v \<Rightarrow> 'm \<Rightarrow> int \<times> 'm"
    and delete :: "'k \<Rightarrow> 'm \<Rightarrow> int \<times> 'm"
  assumes update_same: "fst (update k v m) = 0 \<Longrightarrow> lookup (snd (update k v m)) k = Some v"
    and update_weak: "k' \<noteq> k \<Longrightarrow> lookup (snd (update k v m)) k' \<in> {lookup m k', None}"
    and update_present: "lookup m k \<noteq> None \<Longrightarrow> fst (update k v m) = 0"
    and delete_same: "lookup (snd (delete k m)) k = None"
    and delete_other: "k' \<noteq> k \<Longrightarrow> lookup (snd (delete k m)) k' = lookup m k'"
begin

lemma update_no_new: "k' \<noteq> k \<Longrightarrow> lookup m k' = None \<Longrightarrow> lookup (snd (update k v m)) k' = None"
  using update_weak [of k' k v m] by auto

lemma update_twice:
  assumes "fst (update k v m) = 0"
  shows "fst (update k w (snd (update k v m))) = 0"
    and "lookup (snd (update k w (snd (update k v m)))) k = Some w"
proof -
  show ok: "fst (update k w (snd (update k v m))) = 0"
    using update_present update_same [OF assms] by simp
  show "lookup (snd (update k w (snd (update k v m)))) k = Some w"
    by (rule update_same [OF ok])
qed

lemma delete_lookup: "lookup (snd (delete k m)) k' = (if k' = k then None else lookup m k')"
  by (simp add: delete_same delete_other)

end

text \<open>A hash map moreover keeps the other entries, and a failed update changes nothing.\<close>

locale bpf_hash = bpf_dict lookup update delete
  for lookup :: "'m \<Rightarrow> 'k \<Rightarrow> 'v option"
    and update :: "'k \<Rightarrow> 'v \<Rightarrow> 'm \<Rightarrow> int \<times> 'm"
    and delete :: "'k \<Rightarrow> 'm \<Rightarrow> int \<times> 'm" +
  assumes update_other: "k' \<noteq> k \<Longrightarrow> lookup (snd (update k v m)) k' = lookup m k'"
    and update_fail: "fst (update k v m) \<noteq> 0 \<Longrightarrow> snd (update k v m) = m"
begin

lemma update_lookup:
  "fst (update k v m) = 0 \<Longrightarrow>
    lookup (snd (update k v m)) k' = (if k' = k then Some v else lookup m k')"
  by (simp add: update_same update_other)

text \<open>A temporary entry under a fresh key leaves no trace.\<close>

lemma update_delete_restores:
  assumes "lookup m k = None"
  shows "lookup (snd (delete k (snd (update k v m)))) = lookup m"
proof
  fix k'
  show "lookup (snd (delete k (snd (update k v m)))) k' = lookup m k'"
    using assms by (cases "k' = k") (simp_all add: delete_same delete_other update_other)
qed

end

subsection \<open>Hash maps\<close>

type_synonym ('k, 'v) hmap = "('k \<times> 'v) list"

definition ENOENT :: int where [const_simps]: "ENOENT = 2"
definition E2BIG :: int where [const_simps]: "E2BIG = 7"

text \<open>\<open>bpf_map_lookup_elem\<close>: the value, or NULL when there is no entry.\<close>

definition bpf_map_lookup_elem :: "('k, 'v) hmap \<Rightarrow> 'k \<Rightarrow> 'v option" where
  "bpf_map_lookup_elem m k = map_of m k"

text \<open>
  \<open>bpf_map_update_elem\<close> with \<open>BPF_ANY\<close> on a map declared with \<open>n\<close> entries: 0, or a negative
  error when a new key does not fit.
\<close>

definition bpf_map_update_elem :: "nat \<Rightarrow> 'k \<Rightarrow> 'v \<Rightarrow> ('k, 'v) hmap \<Rightarrow> int \<times> ('k, 'v) hmap" where
  "bpf_map_update_elem n k v m =
     (if map_of m k \<noteq> None \<or> length m < n then (0, AList.update k v m) else (- E2BIG, m))"

definition bpf_map_delete_elem :: "'k \<Rightarrow> ('k, 'v) hmap \<Rightarrow> int \<times> ('k, 'v) hmap" where
  "bpf_map_delete_elem k m =
     (if map_of m k \<noteq> None then (0, AList.delete k m) else (- ENOENT, m))"

lemma map_of_AList_delete: "map_of (AList.delete k m) k' = (if k' = k then None else map_of m k')"
  by (simp add: AList.delete_conv)

interpretation hm: bpf_hash bpf_map_lookup_elem "bpf_map_update_elem n" bpf_map_delete_elem
  for n :: nat
  by unfold_locales
    (auto simp: bpf_map_lookup_elem_def bpf_map_update_elem_def bpf_map_delete_elem_def
      AList.update_conv map_of_AList_delete const_simps split: if_splits)

text \<open>The number of entries: an update adds at most one and never exceeds the capacity.\<close>

lemma length_AList_update:
  "length (AList.update k v m) = (if map_of m k = None then Suc (length m) else length m)"
  by (induction m) auto

lemma bpf_map_update_elem_capacity:
  "length m \<le> n \<Longrightarrow> length (snd (bpf_map_update_elem n k v m)) \<le> n"
  by (auto simp: bpf_map_update_elem_def length_AList_update)

lemma bpf_map_update_elem_room:
  "length m < n \<Longrightarrow> fst (bpf_map_update_elem n k v m) = 0"
  by (simp add: bpf_map_update_elem_def)

subsection \<open>LRU hash maps\<close>

text \<open>
  The association list is in recency order, the next victim first. An update never fails for lack
  of room: it evicts.
\<close>

definition lru_update_elem :: "nat \<Rightarrow> 'k \<Rightarrow> 'v \<Rightarrow> ('k, 'v) hmap \<Rightarrow> int \<times> ('k, 'v) hmap" where
  "lru_update_elem n k v m =
     (let m1 = (if map_of m k = None \<and> n \<le> length m \<and> m \<noteq> []
                then AList.delete (fst (hd m)) m else m)
      in (0, AList.delete k m1 @ [(k, v)]))"

interpretation lru: bpf_dict bpf_map_lookup_elem "lru_update_elem n" bpf_map_delete_elem
  for n :: nat
  by unfold_locales
    (auto simp: bpf_map_lookup_elem_def lru_update_elem_def bpf_map_delete_elem_def Let_def
      map_add_def map_of_AList_delete split: if_splits option.splits)

lemma lru_update_ok [simp]: "fst (lru_update_elem n k v m) = 0"
  by (simp add: lru_update_elem_def Let_def)

subsection \<open>Array maps\<close>

text \<open>Every element of an array map exists; an index outside is NULL.\<close>

definition array_lookup_elem :: "'v list \<Rightarrow> u32 \<Rightarrow> 'v option" where
  "array_lookup_elem m k = nth_opt m (unat k)"

subsection \<open>Declarations\<close>

datatype bpf_map_type = BPF_MAP_TYPE_UNSPEC | BPF_MAP_TYPE_HASH | BPF_MAP_TYPE_ARRAY
  | BPF_MAP_TYPE_PROG_ARRAY | BPF_MAP_TYPE_PERF_EVENT_ARRAY | BPF_MAP_TYPE_PERCPU_HASH
  | BPF_MAP_TYPE_PERCPU_ARRAY | BPF_MAP_TYPE_STACK_TRACE | BPF_MAP_TYPE_CGROUP_ARRAY
  | BPF_MAP_TYPE_LRU_HASH

record map_decl =
  decl_type :: bpf_map_type
  key_size :: nat
  value_size :: nat
  max_entries :: nat

text \<open>The declaration macros: the element type's sizes come from the layouts.\<close>

definition BPF_MAP :: "bpf_map_type \<Rightarrow> nat \<Rightarrow> nat \<Rightarrow> nat \<Rightarrow> map_decl" where
  "BPF_MAP t ks vs n = \<lparr>decl_type = t, key_size = ks, value_size = vs, max_entries = n\<rparr>"

definition BPF_HASH :: "nat \<Rightarrow> nat \<Rightarrow> nat \<Rightarrow> map_decl" where
  "BPF_HASH ks vs n = BPF_MAP BPF_MAP_TYPE_HASH ks vs n"

definition BPF_LRU_HASH :: "nat \<Rightarrow> nat \<Rightarrow> nat \<Rightarrow> map_decl" where
  "BPF_LRU_HASH ks vs n = BPF_MAP BPF_MAP_TYPE_LRU_HASH ks vs n"

definition BPF_PERCPU_ARRAY :: "nat \<Rightarrow> nat \<Rightarrow> map_decl" where
  "BPF_PERCPU_ARRAY vs n = BPF_MAP BPF_MAP_TYPE_PERCPU_ARRAY 4 vs n"

definition BPF_PERF_OUTPUT :: "nat \<Rightarrow> map_decl" where
  "BPF_PERF_OUTPUT n = BPF_MAP BPF_MAP_TYPE_PERF_EVENT_ARRAY 4 4 n"

definition BPF_ARRAY :: "nat \<Rightarrow> nat \<Rightarrow> map_decl" where
  "BPF_ARRAY vs n = BPF_MAP BPF_MAP_TYPE_ARRAY 4 vs n"

text \<open>The declared maps, in the order of the file.\<close>

definition maps_h :: "module_kind \<Rightarrow> (string \<times> map_decl) list" where
  "maps_h m =
    [(''bufs'', BPF_PERCPU_ARRAY MAX_PERCPU_BUFSIZE (buf_idx_num MAX_BUFFERS)),
     (''events'', BPF_PERF_OUTPUT 1024),
     (''ctx_regs_map'', BPF_HASH 8 (struct_size ctx_regs_layout) 1024),
     (''child_parent_map'', BPF_HASH 4 4 512),
     (''common_filter'', BPF_HASH 4 20 1),
     (''common_list'', BPF_HASH 4 4 1024),
     (''thread_filter'', BPF_HASH 16 4 40),
     (''arg_filter'', BPF_HASH 8 (struct_size arg_filter_layout) 40),
     (''str_buf'', BPF_HASH 256 4 256),
     (''str_buf_gen'', BPF_ARRAY 256 1),
     (''str_buf_map'', BPF_LRU_HASH 8 256 256),
     (''event_data_map'', BPF_PERCPU_ARRAY (struct_size event_data_layout) 1),
     (''op_ctx_map'', BPF_PERCPU_ARRAY (struct_size op_ctx_layout) 2),
     (''op_list'', BPF_HASH 4 (struct_size op_config_layout) 256),
     (''uprobe_point_args'', BPF_HASH 4 (struct_size (point_args_layout m)) 6),
     (''uretprobe_point_args'', BPF_HASH 4 (struct_size (point_args_layout m)) 6),
     (''sysenter_point_args'', BPF_HASH 4 (struct_size (point_args_layout m)) 512),
     (''sysexit_point_args'', BPF_HASH 4 (struct_size (point_args_layout m)) 512),
     (''base_config'', BPF_ARRAY 8 1)]"

text \<open>
  The maps of \<open>perf_mmap.c\<close>, which give a type and leave the sizes and the number of entries to the
  loader.
\<close>

definition perf_mmap_maps :: "(string \<times> map_decl) list" where
  "perf_mmap_maps =
    [(''fake_events'', BPF_MAP BPF_MAP_TYPE_PERF_EVENT_ARRAY 0 0 0),
     (''brk_events'', BPF_MAP BPF_MAP_TYPE_PERF_EVENT_ARRAY 0 0 0)]"

definition capacity :: "string \<Rightarrow> nat" where
  "capacity n = (case map_of (maps_h MODULE_OTHER) n of None \<Rightarrow> 0 | Some d \<Rightarrow> max_entries d)"

lemma capacities [simp]:
  "capacity ''ctx_regs_map'' = 1024" "capacity ''child_parent_map'' = 512"
  "capacity ''str_buf'' = 256" "capacity ''str_buf_map'' = 256"
  by (simp_all add: capacity_def maps_h_def BPF_HASH_def BPF_LRU_HASH_def BPF_MAP_def
    BPF_PERCPU_ARRAY_def BPF_PERF_OUTPUT_def BPF_ARRAY_def)

subsection \<open>The state of the maps\<close>

datatype sent_signal = Send_signal u32 | Send_signal_thread u32

text \<open>
  One CPU's view of all maps (the per-CPU arrays hold that CPU's elements), and what the programs
  have sent out of the kernel: submitted records, signals and trace lines, oldest first.
\<close>

record maps =
  bufs :: "simple_buf_t list"
  base_config :: "config_entry_t list"
  event_data_map :: "event_data_t list"
  op_ctx_map :: "op_ctx_t list"
  str_buf_gen :: "str_buf_t list"
  common_filter :: "(u32, common_filter_t) hmap"
  common_list :: "(u32, u32) hmap"
  thread_filter :: "(thread_name_t, u32) hmap"
  arg_filter :: "(u64, arg_filter_t) hmap"
  str_buf :: "(str_buf_t, u32) hmap"
  str_buf_map :: "(u64, str_buf_t) hmap"
  child_parent_map :: "(u32, u32) hmap"
  ctx_regs_map :: "(u64, ctx_regs_t) hmap"
  op_list :: "(u32, op_config_t) hmap"
  uprobe_point_args :: "(u32, point_args_t) hmap"
  uretprobe_point_args :: "(u32, point_args_t) hmap"
  sysenter_point_args :: "(u32, point_args_t) hmap"
  sysexit_point_args :: "(u32, point_args_t) hmap"
  perf_events :: "u8 list list"
  signals :: "sent_signal list"
  trace_pipe :: "u32 list"

text \<open>\<open>get_buf\<close> of \<open>common/buffer.h\<close>.\<close>

definition get_buf :: "maps \<Rightarrow> u32 \<Rightarrow> simple_buf_t option" where
  "get_buf S idx = array_lookup_elem (bufs S) idx"

end
