(* ===== verification/Kernel_Env.thy ===== *)
theory Kernel_Env
  imports BPF_Maps
begin

unbundle bit_operations_syntax

text \<open>
  What a program run finds in the kernel. The memory of the traced process and of the kernel, the
  current task and the results of the helpers are a parameter, the record \<open>kenv\<close>; field offsets
  inside kernel structures are relocated when the program is loaded, so they are a parameter too
  (\<open>core_off\<close>). On top of it: \<open>READ_KERN\<close> and \<open>READ_USER\<close> of \<open>common/common.h\<close>, the task and
  memory accessors of \<open>common/task.h\<close> and \<open>memory.h\<close>, and the event set-up of \<open>common/context.h\<close>.
\<close>

subsection \<open>The environment of one run\<close>

datatype kfield = Task_thread_pid | Task_group_leader | Task_mm | Pid_level | Pid_numbers
  | Upid_nr | Mm_arg_start | Mm_arg_end | Mm_env_start | Mm_env_end | Vma_vm_flags
  | Vma_vm_start | Vma_vm_end | Mount_mnt | Regs_regs | Regs_sp | Regs_pc | Regs_syscallno

text \<open>
  A memory read helper takes an address and a size and returns its status with the bytes it wrote
  at the start of the destination (all of them on success; how many on failure is left open). The
  string helper returns the number of bytes written or a negative error. \<open>raw_arg\<close> is the direct load
  \<open>ctx->args[i]\<close> of a raw tracepoint's context, which the verifier has checked and cannot fail.
\<close>

record kenv =
  build_arch :: target_arch
  build_module :: module_kind
  get_current_pid_tgid :: u64
  get_current_uid_gid :: u64
  get_current_task :: u64
  get_current_comm :: "nat \<Rightarrow> int \<times> u8 list"
  ktime_get_ns :: u64
  task_thread_info_flags :: u64
  core_off :: "kfield \<Rightarrow> u64"
  raw_arg :: "u64 \<Rightarrow> nat \<Rightarrow> u64"
  mem_probe_read :: "u64 \<Rightarrow> nat \<Rightarrow> int \<times> u8 list"
  mem_probe_read_user :: "u64 \<Rightarrow> nat \<Rightarrow> int \<times> u8 list"
  mem_probe_read_kernel :: "u64 \<Rightarrow> nat \<Rightarrow> int \<times> u8 list"
  mem_probe_read_str :: "u64 \<Rightarrow> nat \<Rightarrow> int \<times> u8 list"
  mem_probe_read_user_str :: "u64 \<Rightarrow> nat \<Rightarrow> int \<times> u8 list"
  perf_output_ret :: "u8 list \<Rightarrow> int"

text \<open>The documented contract of the read helpers, which theorems take as a hypothesis.\<close>

definition read_law :: "(u64 \<Rightarrow> nat \<Rightarrow> int \<times> u8 list) \<Rightarrow> bool" where
  "read_law rd \<longleftrightarrow> (\<forall>a n. length (snd (rd a n)) \<le> n \<and> (fst (rd a n) = 0 \<longrightarrow> length (snd (rd a n)) = n))"

definition read_str_law :: "(u64 \<Rightarrow> nat \<Rightarrow> int \<times> u8 list) \<Rightarrow> bool" where
  "read_str_law rd \<longleftrightarrow>
     (\<forall>a n. length (snd (rd a n)) \<le> n \<and> (0 \<le> fst (rd a n) \<longrightarrow> fst (rd a n) = int (length (snd (rd a n)))))"

definition helper_laws :: "kenv \<Rightarrow> bool" where
  "helper_laws K \<longleftrightarrow> read_law (mem_probe_read K) \<and> read_law (mem_probe_read_user K) \<and>
     read_law (mem_probe_read_kernel K) \<and> read_str_law (mem_probe_read_str K) \<and> read_str_law (mem_probe_read_user_str K) \<and>
     (\<forall>n. length (snd (get_current_comm K n)) \<le> n)"

lemma read_lawD:
  assumes "read_law rd"
  shows "length (snd (rd a n)) \<le> n" and "fst (rd a n) = 0 \<Longrightarrow> length (snd (rd a n)) = n"
  using assms by (auto simp: read_law_def)

lemma read_str_lawD:
  assumes "read_str_law rd"
  shows "length (snd (rd a n)) \<le> n"
    and "0 \<le> fst (rd a n) \<Longrightarrow> fst (rd a n) = int (length (snd (rd a n)))"
  using assms by (auto simp: read_str_law_def)

lemma helper_lawsD:
  assumes "helper_laws K"
  shows "read_law (mem_probe_read K)" "read_law (mem_probe_read_user K)"
    "read_law (mem_probe_read_kernel K)"
    "read_str_law (mem_probe_read_str K)" "read_str_law (mem_probe_read_user_str K)"
    "length (snd (get_current_comm K n)) \<le> n"
  using assms by (auto simp: helper_laws_def)

text \<open>
  The pointer given to a read helper is an address, or the address of an object of the program
  itself (a stack variable or a map element), whose bytes are always readable.
\<close>

datatype probe_ptr = Addr u64 | Obj "u8 list"

fun bpf_probe_read :: "kenv \<Rightarrow> probe_ptr \<Rightarrow> nat \<Rightarrow> int \<times> u8 list" where
  "bpf_probe_read K (Addr a) n = mem_probe_read K a n"
| "bpf_probe_read K (Obj bs) n = (0, take n bs)"

fun bpf_probe_read_str :: "kenv \<Rightarrow> probe_ptr \<Rightarrow> nat \<Rightarrow> int \<times> u8 list" where
  "bpf_probe_read_str K (Addr a) n = mem_probe_read_str K a n"
| "bpf_probe_read_str K (Obj bs) n = (int (length (take n bs)), take n bs)"

fun ptr_ok :: "probe_ptr \<Rightarrow> nat \<Rightarrow> bool" where
  "ptr_ok (Addr a) n = True"
| "ptr_ok (Obj bs) n = (n \<le> length bs)"

lemma bpf_probe_read_length:
  assumes "helper_laws K"
  shows "length (snd (bpf_probe_read K p n)) \<le> n"
  using read_lawD(1) [OF helper_lawsD(1) [OF assms]] by (cases p) auto

lemma bpf_probe_read_ok:
  assumes "helper_laws K" and "ptr_ok p n" and "fst (bpf_probe_read K p n) = 0"
  shows "length (snd (bpf_probe_read K p n)) = n"
  using assms read_lawD(2) [OF helper_lawsD(1) [OF assms(1)]] by (cases p) auto

lemma bpf_probe_read_str_length:
  assumes "helper_laws K"
  shows "length (snd (bpf_probe_read_str K p n)) \<le> n"
  using read_str_lawD(1) [OF helper_lawsD(4) [OF assms]] by (cases p) auto

lemma bpf_probe_read_str_ok:
  assumes "helper_laws K" and "0 \<le> fst (bpf_probe_read_str K p n)"
  shows "fst (bpf_probe_read_str K p n) = int (length (snd (bpf_probe_read_str K p n)))"
  using assms read_str_lawD(2) [OF helper_lawsD(4) [OF assms(1)]] by (cases p) auto

subsection \<open>\<open>common/common.h\<close>: reads into a cleared temporary\<close>

definition READ_KERN :: "kenv \<Rightarrow> nat \<Rightarrow> u64 \<Rightarrow> 'a::len word" where
  "READ_KERN K n a = le_word (overlay (replicate n 0) (snd (bpf_probe_read K (Addr a) n)))"

definition READ_USER :: "kenv \<Rightarrow> nat \<Rightarrow> u64 \<Rightarrow> 'a::len word" where
  "READ_USER K n a = le_word (overlay (replicate n 0) (snd (mem_probe_read_user K a n)))"

text \<open>\<open>READ_KERN_STR_INTO(dst, src)\<close>: the status and the new contents of \<open>dst\<close>.\<close>

definition READ_KERN_STR_INTO :: "kenv \<Rightarrow> u8 list \<Rightarrow> u64 \<Rightarrow> int \<times> u8 list" where
  "READ_KERN_STR_INTO K dst a =
     (let (r, ws) = bpf_probe_read_str K (Addr a) (length dst) in (r, overlay dst ws))"

lemma READ_KERN_ok:
  assumes "helper_laws K" and "mem_probe_read K a n = (0, bs)"
  shows "READ_KERN K n a = le_word bs"
proof -
  have "length bs = n"
    using read_lawD(2) [OF helper_lawsD(1) [OF assms(1)], of a n] assms(2) by simp
  then show ?thesis using assms(2) by (simp add: READ_KERN_def)
qed

subsection \<open>\<open>common/task.h\<close>\<close>

text \<open>\<open>sizeof(struct upid)\<close>: an \<open>int\<close>, padding and a pointer.\<close>

definition sizeof_upid :: u64 where [const_simps]: "sizeof_upid = 16"

definition get_task_pid_vnr :: "kenv \<Rightarrow> u64 \<Rightarrow> u32" where
  "get_task_pid_vnr K t =
     (let p = READ_KERN K 8 (t + core_off K Task_thread_pid) :: u64;
          level = READ_KERN K 4 (p + core_off K Pid_level) :: u32
      in READ_KERN K 4 (p + core_off K Pid_numbers + ucast level * sizeof_upid + core_off K Upid_nr))"

definition get_task_ns_pid :: "kenv \<Rightarrow> u64 \<Rightarrow> u32" where
  "get_task_ns_pid K t = get_task_pid_vnr K t"

definition get_task_ns_tgid :: "kenv \<Rightarrow> u64 \<Rightarrow> u32" where
  "get_task_ns_tgid K t =
     (let group_leader = READ_KERN K 8 (t + core_off K Task_group_leader)
      in get_task_pid_vnr K group_leader)"

subsection \<open>\<open>memory.h\<close>\<close>

definition get_mm_from_task :: "kenv \<Rightarrow> u64 \<Rightarrow> u64" where
  "get_mm_from_task K t = READ_KERN K 8 (t + core_off K Task_mm)"

definition get_arg_start_from_mm :: "kenv \<Rightarrow> u64 \<Rightarrow> u64" where
  "get_arg_start_from_mm K mm = READ_KERN K 8 (mm + core_off K Mm_arg_start)"

definition get_arg_end_from_mm :: "kenv \<Rightarrow> u64 \<Rightarrow> u64" where
  "get_arg_end_from_mm K mm = READ_KERN K 8 (mm + core_off K Mm_arg_end)"

definition get_env_start_from_mm :: "kenv \<Rightarrow> u64 \<Rightarrow> u64" where
  "get_env_start_from_mm K mm = READ_KERN K 8 (mm + core_off K Mm_env_start)"

definition get_env_end_from_mm :: "kenv \<Rightarrow> u64 \<Rightarrow> u64" where
  "get_env_end_from_mm K mm = READ_KERN K 8 (mm + core_off K Mm_env_end)"

definition get_vma_flags :: "kenv \<Rightarrow> u64 \<Rightarrow> u64" where
  "get_vma_flags K vma = READ_KERN K 8 (vma + core_off K Vma_vm_flags)"

definition get_vma_start :: "kenv \<Rightarrow> u64 \<Rightarrow> u64" where
  "get_vma_start K vma = READ_KERN K 8 (vma + core_off K Vma_vm_start)"

definition get_vma_end :: "kenv \<Rightarrow> u64 \<Rightarrow> u64" where
  "get_vma_end K vma = READ_KERN K 8 (vma + core_off K Vma_vm_end)"

text \<open>\<open>container_of(mnt, struct mount, mnt)\<close>.\<close>

definition real_mount :: "kenv \<Rightarrow> u64 \<Rightarrow> u64" where
  "real_mount K m = m - core_off K Mount_mnt"

subsection \<open>\<open>common/context.h\<close>\<close>

record program_data_t =
  pd_config :: config_entry_t
  pd_event :: event_data_t
  pd_ctx :: u64

definition init_context :: "kenv \<Rightarrow> event_context_t \<Rightarrow> u64 \<Rightarrow> int \<times> event_context_t" where
  "init_context K c tsk =
     (let i = get_current_pid_tgid K;
          (ret, ws) = get_current_comm K TASK_COMM_LEN;
          c1 = c\<lparr>host_tid := ucast i, host_pid := ucast (drop_bit 32 i),
                 tid := get_task_ns_pid K tsk, pid := get_task_ns_tgid K tsk,
                 uid := ucast (get_current_uid_gid K),
                 comm := overlay (replicate TASK_COMM_LEN 0) ws\<rparr>
      in if ret < 0 then (-1, c1)
         else (0, c1\<lparr>ts := ktime_get_ns K, argnum := 0\<rparr>))"

text \<open>
  \<open>p->event\<close> points into \<open>event_data_map\<close>. While a program runs, the element lives in its program
  data; \<open>put_event\<close> is the state with that element in place, and every exit goes through it.
\<close>

definition put_event :: "maps \<Rightarrow> event_data_t \<Rightarrow> maps" where
  "put_event S e = S\<lparr>event_data_map := (event_data_map S)[0 := e]\<rparr>"

definition init_program_data :: "kenv \<Rightarrow> maps \<Rightarrow> u64 \<Rightarrow> maps \<times> program_data_t option" where
  "init_program_data K S ctx =
     (case array_lookup_elem (event_data_map S) 0 of
        None \<Rightarrow> (S, None)
      | Some e \<Rightarrow>
        (case array_lookup_elem (base_config S) 0 of
           None \<Rightarrow> (S, None)
         | Some cfg \<Rightarrow>
           let e1 = e\<lparr>task := get_current_task K\<rparr>;
               (ret, c) = init_context K (ev_context e1) (task e1);
               e2 = e1\<lparr>ev_context := c\<rparr>
           in if ret < 0 then (put_event S e2, None)
              else let e3 = e2\<lparr>buf_off := 0\<rparr>
                   in (put_event S e3, Some \<lparr>pd_config = cfg, pd_event = e3, pd_ctx = ctx\<rparr>)))"

lemma init_context_wf:
  assumes "helper_laws K" and "wf_context c"
  shows "wf_context (snd (init_context K c t))"
  using assms helper_lawsD(6) [OF assms(1), of TASK_COMM_LEN]
  by (auto simp: init_context_def wf_context_def Let_def split: prod.splits)

lemma init_program_data_Some:
  assumes "init_program_data K S ctx = (S', Some p)"
  shows "buf_off (pd_event p) = 0" and "argnum (ev_context (pd_event p)) = 0"
    and "S' = put_event S (pd_event p)" and "pd_ctx p = ctx"
    and "array_lookup_elem (base_config S) 0 = Some (pd_config p)"
  using assms
  by (auto simp: init_program_data_def init_context_def Let_def split: option.splits prod.splits if_splits)

lemma init_program_data_context:
  assumes "init_program_data K S ctx = (S', Some p)"
  shows "tid (ev_context (pd_event p)) = get_task_ns_pid K (get_current_task K)"
    and "pid (ev_context (pd_event p)) = get_task_ns_tgid K (get_current_task K)"
    and "uid (ev_context (pd_event p)) = ucast (get_current_uid_gid K)"
    and "host_tid (ev_context (pd_event p)) = ucast (get_current_pid_tgid K)"
    and "host_pid (ev_context (pd_event p)) = ucast (drop_bit 32 (get_current_pid_tgid K))"
  using assms
  by (auto simp: init_program_data_def init_context_def Let_def split: option.splits prod.splits if_splits)

lemma put_event_simps [simp]:
  "bufs (put_event S e) = bufs S"
  "base_config (put_event S e) = base_config S" "op_ctx_map (put_event S e) = op_ctx_map S"
  "common_filter (put_event S e) = common_filter S" "common_list (put_event S e) = common_list S"
  "thread_filter (put_event S e) = thread_filter S" "arg_filter (put_event S e) = arg_filter S"
  "str_buf (put_event S e) = str_buf S" "str_buf_map (put_event S e) = str_buf_map S"
  "str_buf_gen (put_event S e) = str_buf_gen S"
  "child_parent_map (put_event S e) = child_parent_map S"
  "ctx_regs_map (put_event S e) = ctx_regs_map S" "op_list (put_event S e) = op_list S"
  "uprobe_point_args (put_event S e) = uprobe_point_args S"
  "uretprobe_point_args (put_event S e) = uretprobe_point_args S"
  "sysenter_point_args (put_event S e) = sysenter_point_args S"
  "sysexit_point_args (put_event S e) = sysexit_point_args S"
  "perf_events (put_event S e) = perf_events S" "signals (put_event S e) = signals S"
  "trace_pipe (put_event S e) = trace_pipe S"
  "event_data_map (put_event S e) = (event_data_map S)[0 := e]"
  by (simp_all add: put_event_def)

subsection \<open>A memory-backed environment\<close>

text \<open>
  An executable instance of the helpers over a byte memory: an access succeeds when every byte of
  it is mapped. It is what examples run in.
\<close>

definition mem_read :: "(u64 \<Rightarrow> u8 option) \<Rightarrow> u64 \<Rightarrow> nat \<Rightarrow> int \<times> u8 list" where
  "mem_read mem a n =
     (let cells = map (\<lambda>i. mem (a + of_nat i)) [0..<n]
      in if list_all (\<lambda>c. c \<noteq> None) cells then (0, map the cells) else (-14, []))"

fun mem_str :: "(u64 \<Rightarrow> u8 option) \<Rightarrow> u64 \<Rightarrow> nat \<Rightarrow> u8 list option" where
  "mem_str mem a 0 = Some []"
| "mem_str mem a (Suc n) =
     (case mem a of None \<Rightarrow> None
      | Some b \<Rightarrow> if b = 0 \<or> n = 0 then Some [0] else map_option ((#) b) (mem_str mem (a + 1) n))"

definition mem_read_str :: "(u64 \<Rightarrow> u8 option) \<Rightarrow> u64 \<Rightarrow> nat \<Rightarrow> int \<times> u8 list" where
  "mem_read_str mem a n =
     (case mem_str mem a n of None \<Rightarrow> (-14, []) | Some bs \<Rightarrow> (int (length bs), bs))"

lemma mem_read_law: "read_law (mem_read mem)"
  by (simp add: read_law_def mem_read_def Let_def)

lemma mem_str_length: "mem_str mem a n = Some bs \<Longrightarrow> length bs \<le> n"
proof (induction mem a n arbitrary: bs rule: mem_str.induct)
  case (2 mem a n)
  then show ?case by (auto split: option.splits if_splits)
qed simp

lemma mem_read_str_law: "read_str_law (mem_read_str mem)"
  by (auto simp: read_str_law_def mem_read_str_def dest: mem_str_length split: option.splits)

definition mem_kenv :: "target_arch \<Rightarrow> module_kind \<Rightarrow> u64 \<Rightarrow> (u64 \<Rightarrow> u8 option) \<Rightarrow> kenv" where
  "mem_kenv arch m pid_tgid mem =
     \<lparr>build_arch = arch, build_module = m, get_current_pid_tgid = pid_tgid,
      get_current_uid_gid = 0, get_current_task = 4096,
      get_current_comm = (\<lambda>n. (0, take n [104, 105])), ktime_get_ns = 7,
      task_thread_info_flags = 0, core_off = (\<lambda>_. 0),
      raw_arg = (\<lambda>a i. le_word (snd (mem_read mem (a + of_nat (8 * i)) 8))),
      mem_probe_read = mem_read mem, mem_probe_read_user = mem_read mem,
      mem_probe_read_kernel = mem_read mem,
      mem_probe_read_str = mem_read_str mem, mem_probe_read_user_str = mem_read_str mem,
      perf_output_ret = (\<lambda>_. 0)\<rparr>"

lemma mem_kenv_laws [simp]: "helper_laws (mem_kenv arch m i mem)"
  by (simp add: helper_laws_def mem_kenv_def mem_read_law mem_read_str_law)

lemma mem_kenv_simps [simp]:
  "build_arch (mem_kenv arch m i mem) = arch" "build_module (mem_kenv arch m i mem) = m"
  "get_current_pid_tgid (mem_kenv arch m i mem) = i"
  "mem_probe_read (mem_kenv arch m i mem) = mem_read mem"
  "mem_probe_read_user (mem_kenv arch m i mem) = mem_read mem"
  "mem_probe_read_kernel (mem_kenv arch m i mem) = mem_read mem"
  "mem_probe_read_str (mem_kenv arch m i mem) = mem_read_str mem"
  "mem_probe_read_user_str (mem_kenv arch m i mem) = mem_read_str mem"
  by (simp_all add: mem_kenv_def)

text \<open>
  The environments that meet the helpers' contract; the memory-backed one does. Lemmas about
  programs that read memory are proved for this interface.
\<close>

locale kernel_env =
  fixes K :: kenv
  assumes laws: "helper_laws K"

interpretation mem_env: kernel_env "mem_kenv arch m i mem"
  for arch :: target_arch and m :: module_kind and i :: u64 and mem :: "u64 \<Rightarrow> u8 option"
  by unfold_locales (rule mem_kenv_laws)

end
