(* ===== verification/Submit_Buffer.thy ===== *)
theory Submit_Buffer
  imports Kernel_Env
begin

unbundle bit_operations_syntax

text \<open>
  The submit buffer of \<open>src/src/common/buffer.h\<close>: the writers that append an argument to
  \<open>event->args\<close>, and \<open>events_perf_submit\<close>. The contract all writers share is the locale
  \<open>frame_writer\<close>: a call either appends one whole frame and counts it, or leaves the committed part
  of the buffer as it was, and never writes outside the array.
\<close>

subsection \<open>Writing into the argument array\<close>

definition put_args :: "event_data_t \<Rightarrow> nat \<Rightarrow> u8 list \<Rightarrow> event_data_t" where
  "put_args e off bs = e\<lparr>args := upd_range (args e) off bs\<rparr>"

text \<open>The two assignments of every writer's commit: the offset and the argument count.\<close>

definition commit_arg :: "event_data_t \<Rightarrow> u32 \<Rightarrow> event_data_t" where
  "commit_arg e n =
     e\<lparr>buf_off := buf_off e + n, ev_context := (ev_context e)\<lparr>argnum := argnum (ev_context e) + 1\<rparr>\<rparr>"

definition MAX_ELEMENT_SIZE :: nat where
  "MAX_ELEMENT_SIZE = 2 + 108" \<comment> \<open>\<open>sizeof(struct sockaddr_un)\<close>\<close>

text \<open>Data saved: \<open>[index][ ... buffer[size] ... ]\<close>.\<close>

definition save_to_submit_buf ::
    "kenv \<Rightarrow> event_data_t \<Rightarrow> probe_ptr \<Rightarrow> u32 \<Rightarrow> u8 \<Rightarrow> event_data_t \<times> int" where
  "save_to_submit_buf K e p nsize idx =
     (if nsize = 0 then (e, 0)
      else if ARGS_BUF_SIZE - 1 < unat (buf_off e) then (e, 0)
      else
        let e1 = put_args e (unat (buf_off e)) [idx] in
        if ARGS_BUF_SIZE - (MAX_ELEMENT_SIZE + 1) < unat (buf_off e1) then (e1, 0)
        else
          let (r, ws) = bpf_probe_read K p (unat nsize);
              e2 = put_args e1 (unat (buf_off e1) + 1) ws
          in if r = 0 then (commit_arg e2 (nsize + 1), 1) else (e2, 0))"

text \<open>
  Data saved: \<open>[index][size][ ... bytes ... ]\<close>. The size field is written before \<open>size\<close> is
  masked, and the masked size is what is copied.
\<close>

definition save_bytes_to_buf ::
    "kenv \<Rightarrow> event_data_t \<Rightarrow> probe_ptr \<Rightarrow> u32 \<Rightarrow> u8 \<Rightarrow> event_data_t \<times> int" where
  "save_bytes_to_buf K e p nsize idx =
     (if ARGS_BUF_SIZE - 1 < unat (buf_off e) then (e, 0)
      else
        let off = unat (buf_off e); e1 = put_args e off [idx] in
        if ARGS_BUF_SIZE - (4 + 1) < off then (e1, 0)
        else
          let (r, ws) = bpf_probe_read K (Obj (le_bytes 4 nsize)) 4;
              e2 = put_args e1 (off + 1) ws
          in if r \<noteq> 0 then (e2, 0)
             else if ARGS_BUF_SIZE - (MAX_BYTES_ARR_SIZE + 1 + 4) < off then (e2, 0)
             else if 0 < nsize then
               let size1 = (if nsize \<noteq> of_nat MAX_BYTES_ARR_SIZE
                            then nsize AND (of_nat MAX_BYTES_ARR_SIZE - 1) else nsize);
                   (r2, ws2) = bpf_probe_read K p (unat size1);
                   e3 = put_args e2 (off + 1 + 4) ws2
               in if r2 = 0 then (commit_arg e3 (size1 + 1 + 4), 1) else (e3, 0)
             else (commit_arg e2 (nsize + 1 + 4), 1))"

text \<open>Data saved: \<open>[index][size][ ... string ... ]\<close>.\<close>

definition save_str_to_buf ::
    "kenv \<Rightarrow> event_data_t \<Rightarrow> probe_ptr \<Rightarrow> u8 \<Rightarrow> event_data_t \<times> int" where
  "save_str_to_buf K e p idx =
     (if ARGS_BUF_SIZE - 1 < unat (buf_off e) then (e, 0)
      else
        let off = unat (buf_off e); e1 = put_args e off [idx] in
        if ARGS_BUF_SIZE - (MAX_STRING_SIZE + 1 + 4) < off then (e1, 0)
        else
          let (sz, ws) = bpf_probe_read_str K p MAX_STRING_SIZE;
              e2 = put_args e1 (off + 1 + 4) ws
          in if 0 \<le> sz then
               (if ARGS_BUF_SIZE - (MAX_STRING_SIZE + 1 + 4) < off then (e2, 0)
                else
                  let e3 = put_args e2 (off + 1) (le_bytes 4 (word_of_int sz :: u32))
                  in (commit_arg e3 (word_of_int sz + 4 + 1), 1))
             else (e2, 0))"

text \<open>
  Data saved: \<open>[index][string count][str1 size][str1][str2 size][str2]...\<close>. One turn of the
  unrolled loop either jumps to \<open>out\<close> or stores the string the pointer array's element names.
\<close>

definition MAX_STR_ARR_ELEM :: nat where [const_simps]: "MAX_STR_ARR_ELEM = 128"

definition save_str_arr_elem ::
    "kenv \<Rightarrow> event_data_t \<Rightarrow> probe_ptr \<Rightarrow> u8 \<Rightarrow> (event_data_t \<times> u8) \<times> bool" where
  "save_str_arr_elem K e p elem_num =
     (if ARGS_BUF_SIZE - MAX_STRING_SIZE - 4 < unat (buf_off e) then ((e, elem_num), False)
      else
        let (sz, ws) =
              (case p of
                 Addr a \<Rightarrow> mem_probe_read_user_str K a MAX_STRING_SIZE
               | Obj bs \<Rightarrow> (int (length (take MAX_STRING_SIZE bs)), take MAX_STRING_SIZE bs));
            e1 = put_args e (unat (buf_off e) + 4) ws
        in if 0 < sz then
             (if ARGS_BUF_SIZE - 4 < unat (buf_off e1) then ((e1, elem_num), False)
              else
                let e2 = put_args e1 (unat (buf_off e1)) (le_bytes 4 (word_of_int sz :: u32))
                in ((e2\<lparr>buf_off := buf_off e2 + (word_of_int sz + 4)\<rparr>, elem_num + 1), True))
           else ((e1, elem_num), False))"

fun save_str_arr_loop ::
    "kenv \<Rightarrow> u64 \<Rightarrow> nat \<Rightarrow> nat \<Rightarrow> event_data_t \<Rightarrow> u8 \<Rightarrow> (event_data_t \<times> u8) \<times> bool" where
  "save_str_arr_loop K ptr 0 i e elem_num = ((e, elem_num), True)"
| "save_str_arr_loop K ptr (Suc n) i e elem_num =
     (let argp = READ_USER K 8 (ptr + of_nat (8 * i)) :: u64
      in if argp = 0 then ((e, elem_num), False)
         else case save_str_arr_elem K e (Addr argp) elem_num of
           ((e1, m), True) \<Rightarrow> save_str_arr_loop K ptr n (Suc i) e1 m
         | ((e1, m), False) \<Rightarrow> ((e1, m), False))"

definition save_str_arr_to_buf ::
    "kenv \<Rightarrow> event_data_t \<Rightarrow> u64 \<Rightarrow> u8 \<Rightarrow> event_data_t \<times> int" where
  "save_str_arr_to_buf K e ptr idx =
     (if ARGS_BUF_SIZE - 1 < unat (buf_off e) then (e, 0)
      else
        let e1 = put_args e (unat (buf_off e)) [idx];
            orig_off = buf_off e1 + 1;
            e2 = e1\<lparr>buf_off := buf_off e1 + 2\<rparr>;
            ((e3, m), full) = save_str_arr_loop K ptr MAX_STR_ARR_ELEM 0 e2 0;
            (e4, m2) = (if full then fst (save_str_arr_elem K e3 (Obj [46, 46, 46, 0]) m) else (e3, m))
        in if ARGS_BUF_SIZE - 1 < unat orig_off then (e4, 0)
           else
             let e5 = put_args e4 (unat orig_off) [m2]
             in (e5\<lparr>ev_context := (ev_context e5)\<lparr>argnum := argnum (ev_context e5) + 1\<rparr>\<rparr>, 1))"

subsection \<open>\<open>events_perf_submit\<close>\<close>

text \<open>\<open>event_context_t\<close> as it lies in memory.\<close>

definition context_bytes :: "event_context_t \<Rightarrow> u8 list" where
  "context_bytes c =
     le_bytes 8 (ts c) @ le_bytes 4 (eventid c) @ le_bytes 4 (host_tid c) @ le_bytes 4 (host_pid c) @
     le_bytes 4 (tid c) @ le_bytes 4 (pid c) @ le_bytes 4 (uid c) @ comm c @ [argnum c] @ ctx_padding c"

text \<open>The first bytes of \<open>event_data_t\<close>: the context, then the argument array.\<close>

definition event_prefix :: "event_data_t \<Rightarrow> nat \<Rightarrow> u8 list" where
  "event_prefix e n = take n (context_bytes (ev_context e)) @ range_of (args e) 0 (n - sizeof_event_context)"

definition events_perf_submit ::
    "kenv \<Rightarrow> event_data_t \<Rightarrow> u32 \<Rightarrow> event_data_t \<times> u8 list \<times> int" where
  "events_perf_submit K e i =
     (let e1 = e\<lparr>ev_context := (ev_context e)\<lparr>eventid := i\<rparr>\<rparr>;
          size0 = of_nat sizeof_event_context + buf_off e1;
          nbytes = (if unat size0 < MAX_EVENT_SIZE then unat size0 else MAX_EVENT_SIZE);
          record_bytes = event_prefix e1 nbytes
      in (e1, record_bytes, perf_output_ret K record_bytes))"

subsection \<open>The committed part of the buffer\<close>

definition buf_bytes :: "event_data_t \<Rightarrow> u8 list" where
  "buf_bytes e = range_of (args e) 0 (unat (buf_off e))"

definition buf_ok :: "event_data_t \<Rightarrow> bool" where
  "buf_ok e \<longleftrightarrow> unat (buf_off e) \<le> ARGS_BUF_SIZE"

lemma put_args_simps [buf_simps, simp]:
  "buf_off (put_args e off bs) = buf_off e" "ev_context (put_args e off bs) = ev_context e"
  "task (put_args e off bs) = task e" "args (put_args e off bs) = upd_range (args e) off bs"
  by (simp_all add: put_args_def)

lemma commit_arg_simps [buf_simps, simp]:
  "buf_off (commit_arg e n) = buf_off e + n" "args (commit_arg e n) = args e"
  "task (commit_arg e n) = task e"
  "ev_context (commit_arg e n) = (ev_context e)\<lparr>argnum := argnum (ev_context e) + 1\<rparr>"
  by (simp_all add: commit_arg_def)

lemma buf_bytes_commit:
  assumes "args e' = upd_range (args e) (unat (buf_off e)) bs"
    and "unat (buf_off e') = unat (buf_off e) + length bs"
  shows "buf_bytes e' = buf_bytes e @ bs"
  using assms by (simp add: buf_bytes_def range_of_upd_range_append)

lemma buf_bytes_uncommitted:
  assumes "args e' = upd_range (args e) (unat (buf_off e)) bs" and "buf_off e' = buf_off e"
  shows "buf_bytes e' = buf_bytes e"
  using assms by (simp add: buf_bytes_def range_of_upd_range_prefix)

lemma length_buf_bytes [simp]: "length (buf_bytes e) = unat (buf_off e)"
  by (simp add: buf_bytes_def)

subsection \<open>The writers' contract\<close>

text \<open>
  \<open>appended e e' fs\<close>: \<open>e'\<close> is \<open>e\<close> after committing the frames \<open>fs\<close>, each counted once (the count is
  a \<open>u8\<close>), with nothing outside the array changed.
\<close>

definition appended :: "event_data_t \<Rightarrow> event_data_t \<Rightarrow> u8 list list \<Rightarrow> bool" where
  "appended e e' fs \<longleftrightarrow>
     buf_bytes e' = buf_bytes e @ concat fs \<and>
     ev_context e' = (ev_context e)\<lparr>argnum := argnum (ev_context e) + of_nat (length fs)\<rparr> \<and>
     task e' = task e \<and> (\<forall>i\<ge>ARGS_BUF_SIZE. args e' i = args e i) \<and> (buf_ok e \<longrightarrow> buf_ok e')"

lemma appended_refl [simp]: "appended e e []"
  by (simp add: appended_def)

lemma appended_trans: "appended e e1 fs \<Longrightarrow> appended e1 e2 gs \<Longrightarrow> appended e e2 (fs @ gs)"
  by (auto simp: appended_def algebra_simps)

lemma appended_buf_bytes: "appended e e' fs \<Longrightarrow> buf_bytes e' = buf_bytes e @ concat fs"
  by (simp add: appended_def)

lemma appended_buf_ok: "appended e e' fs \<Longrightarrow> buf_ok e \<Longrightarrow> buf_ok e'"
  by (simp add: appended_def)

lemma appended_buf_off:
  assumes "appended e e' fs"
  shows "unat (buf_off e') = unat (buf_off e) + length (concat fs)"
  using arg_cong [OF appended_buf_bytes [OF assms], of length] by simp

locale frame_writer =
  fixes save :: "event_data_t \<Rightarrow> event_data_t \<times> int"
    and frame :: "u8 list \<Rightarrow> bool"
  assumes save_status: "snd (save e) \<in> {0, 1}"
    and save_ok: "snd (save e) = 1 \<Longrightarrow> \<exists>f. frame f \<and> appended e (fst (save e)) [f]"
    and save_fail: "snd (save e) = 0 \<Longrightarrow> appended e (fst (save e)) []"
begin

lemma save_appends: "\<exists>fs. length fs \<le> 1 \<and> list_all frame fs \<and> appended e (fst (save e)) fs"
proof (cases "snd (save e) = 1")
  case True
  then obtain f where "frame f" "appended e (fst (save e)) [f]" using save_ok by blast
  then show ?thesis by (intro exI [of _ "[f]"]) simp
next
  case False
  then have "snd (save e) = 0" using save_status [of e] by simp
  then show ?thesis using save_fail by (intro exI [of _ "[]"]) simp
qed

lemma save_keeps_ok: "buf_ok e \<Longrightarrow> buf_ok (fst (save e))"
  using save_appends appended_buf_ok by blast

lemma save_keeps_prefix: "take (unat (buf_off e)) (buf_bytes (fst (save e))) = buf_bytes e"
proof -
  obtain fs where "appended e (fst (save e)) fs" using save_appends by blast
  then show ?thesis by (simp add: appended_buf_bytes)
qed

lemma save_failed_iff: "snd (save e) = 0 \<longleftrightarrow> snd (save e) \<noteq> 1"
  using save_status [of e] by auto

end

text \<open>The frames: an index with a value of fixed size, or an index, a size and that many bytes.\<close>

definition value_frame :: "u8 \<Rightarrow> nat \<Rightarrow> u8 list \<Rightarrow> bool" where
  "value_frame idx n f \<longleftrightarrow> (\<exists>bs. length bs = n \<and> f = idx # bs)"

definition sized_frame :: "u8 \<Rightarrow> u32 \<Rightarrow> nat \<Rightarrow> u8 list \<Rightarrow> bool" where
  "sized_frame idx field n f \<longleftrightarrow> (\<exists>bs. length bs = n \<and> f = idx # le_bytes 4 field @ bs)"

definition string_frame :: "u8 \<Rightarrow> u8 list \<Rightarrow> bool" where
  "string_frame idx f \<longleftrightarrow> (\<exists>n\<le>MAX_STRING_SIZE. sized_frame idx (of_nat n) n f)"


subsection \<open>The writers meet the contract\<close>

lemma appended_commit:
  assumes "args e' = upd_range (args e) (unat (buf_off e)) f"
    and "buf_off e' = buf_off e + n" and "unat n = length f"
    and "unat (buf_off e) + length f \<le> ARGS_BUF_SIZE"
    and "ev_context e' = (ev_context e)\<lparr>argnum := argnum (ev_context e) + 1\<rparr>" and "task e' = task e"
  shows "appended e e' [f]"
proof -
  have off: "unat (buf_off e') = unat (buf_off e) + length f"
    using assms(2-4) by (simp add: unat_add_small const_simps)
  then show ?thesis
    using assms by (simp add: appended_def buf_bytes_commit buf_ok_def)
qed

lemma appended_uncommitted:
  assumes "args e' = upd_range (args e) (unat (buf_off e)) bs" and "buf_off e' = buf_off e"
    and "unat (buf_off e) + length bs \<le> ARGS_BUF_SIZE"
    and "ev_context e' = ev_context e" and "task e' = task e"
  shows "appended e e' []"
  using assms by (simp add: appended_def buf_bytes_uncommitted buf_ok_def)

lemma appended_untouched:
  assumes "\<And>i. i < unat (buf_off e) \<or> ARGS_BUF_SIZE \<le> i \<Longrightarrow> args e' i = args e i"
    and "buf_off e' = buf_off e" and "ev_context e' = ev_context e" and "task e' = task e"
  shows "appended e e' []"
  using assms by (auto simp: appended_def buf_bytes_def range_of_def buf_ok_def)

lemma put_index_bytes:
  "args (put_args (put_args e off [idx]) (off + 1) ws) = upd_range (args e) off (idx # ws)"
  using upd_range_adjacent [of "args e" off "[idx]" ws] by simp

lemma save_to_submit_buf_result:
  assumes K: "helper_laws K" and p: "ptr_ok p (unat n)" and n: "0 < n" "unat n \<le> MAX_ELEMENT_SIZE"
  shows "if unat (buf_off e) \<le> 31889 \<and> fst (bpf_probe_read K p (unat n)) = 0
    then snd (save_to_submit_buf K e p n idx) = 1 \<and>
      appended e (fst (save_to_submit_buf K e p n idx)) [idx # snd (bpf_probe_read K p (unat n))]
    else snd (save_to_submit_buf K e p n idx) = 0 \<and>
      appended e (fst (save_to_submit_buf K e p n idx)) []"
proof -
  obtain r ws where rd: "bpf_probe_read K p (unat n) = (r, ws)" by fastforce
  have len: "length ws \<le> 110"
    using bpf_probe_read_length [OF K, of p "unat n"] rd n(2) by (simp add: MAX_ELEMENT_SIZE_def)
  have ok: "r = 0 \<Longrightarrow> length ws = unat n"
    using bpf_probe_read_ok [OF K p] rd by simp
  have n0: "n \<noteq> 0" using n(1) by auto
  have n1: "unat (n + 1) = Suc (unat n)"
    using n(2) unat_add_small [of n 1] by (simp add: MAX_ELEMENT_SIZE_def)
  let ?e2 = "put_args (put_args e (unat (buf_off e)) [idx]) (unat (buf_off e) + 1) ws"
  consider (full) "ARGS_BUF_SIZE - 1 < unat (buf_off e)"
    | (tight) "unat (buf_off e) \<le> ARGS_BUF_SIZE - 1" "31889 < unat (buf_off e)"
    | (failed) "unat (buf_off e) \<le> 31889" "r \<noteq> 0" | (stored) "unat (buf_off e) \<le> 31889" "r = 0"
    by fastforce
  then show ?thesis
  proof cases
    case full
    then show ?thesis using n0 by (simp add: save_to_submit_buf_def const_simps)
  next
    case tight
    then have "save_to_submit_buf K e p n idx = (put_args e (unat (buf_off e)) [idx], 0)"
      using n0 by (simp add: save_to_submit_buf_def const_simps MAX_ELEMENT_SIZE_def)
    moreover have "appended e (put_args e (unat (buf_off e)) [idx]) []"
      using tight by (intro appended_uncommitted [where bs = "[idx]"]) (simp_all add: const_simps)
    ultimately show ?thesis using tight by simp
  next
    case failed
    then have "save_to_submit_buf K e p n idx = (?e2, 0)"
      using n0 rd by (simp add: save_to_submit_buf_def const_simps MAX_ELEMENT_SIZE_def)
    moreover have "appended e ?e2 []"
      using failed len put_index_bytes
      by (intro appended_uncommitted [where bs = "idx # ws"]) (simp_all add: const_simps)
    ultimately show ?thesis using failed rd by simp
  next
    case stored
    then have "save_to_submit_buf K e p n idx = (commit_arg ?e2 (n + 1), 1)"
      using n0 rd by (simp add: save_to_submit_buf_def const_simps MAX_ELEMENT_SIZE_def)
    moreover have "appended e (commit_arg ?e2 (n + 1)) [idx # ws]"
      using stored len ok n1 put_index_bytes
      by (intro appended_commit [where n = "n + 1"]) (simp_all add: const_simps)
    ultimately show ?thesis using stored rd by simp
  qed
qed

text \<open>The size \<open>save_bytes_to_buf\<close> really copies.\<close>

definition masked_size :: "u32 \<Rightarrow> u32" where
  "masked_size n = (if n = 4096 then n else n AND 4095)"

lemma masked_size_le: "unat (masked_size n) \<le> 4096"
proof -
  have "unat (n AND mask 12) < 2 ^ 12" by (rule word_and_mask_bound)
  moreover have "(mask 12 :: u32) = 4095" by (simp add: mask_eq_exp_minus_1)
  ultimately show ?thesis by (simp add: masked_size_def)
qed

lemma masked_size_small:
  assumes "unat n \<le> 4096"
  shows "masked_size n = n"
proof (cases "n = 4096")
  case False
  have "unat n \<noteq> 4096"
  proof
    assume "unat n = 4096"
    then have "n = of_nat 4096" by (simp add: word_unat_eq_iff)
    with False show False by simp
  qed
  with assms have "unat (take_bit 12 n) = unat n"
    by (simp add: unsigned_take_bit_eq take_bit_nat_eq_self)
  then have "n AND mask 12 = n" by (simp add: take_bit_eq_mask word_unat_eq_iff)
  moreover have "(mask 12 :: u32) = 4095" by (simp add: mask_eq_exp_minus_1)
  ultimately show ?thesis by (simp add: masked_size_def)
qed (simp add: masked_size_def)

lemma masked_size_0 [simp]: "masked_size 0 = 0"
  by (simp add: masked_size_def)

lemma put_sized_bytes:
  "args (put_args (put_args (put_args e off [idx]) (off + 1) (le_bytes 4 n)) (off + 5) ws) =
    upd_range (args e) off (idx # le_bytes 4 n @ ws)"
  using upd_range_adjacent [of "args e" off "[idx]" "le_bytes 4 n"]
    upd_range_adjacent [of "args e" off "idx # le_bytes 4 n" ws]
  by (simp add: add.commute [of 5])

lemma save_bytes_to_buf_result:
  assumes K: "helper_laws K" and p: "ptr_ok p (unat (masked_size n))"
    and ws: "ws = (if n = 0 then [] else snd (bpf_probe_read K p (unat (masked_size n))))"
  shows "if unat (buf_off e) \<le> 27899 \<and>
      (n = 0 \<or> fst (bpf_probe_read K p (unat (masked_size n))) = 0)
    then snd (save_bytes_to_buf K e p n idx) = 1 \<and> length ws = unat (masked_size n) \<and>
      appended e (fst (save_bytes_to_buf K e p n idx)) [idx # le_bytes 4 n @ ws]
    else snd (save_bytes_to_buf K e p n idx) = 0 \<and>
      appended e (fst (save_bytes_to_buf K e p n idx)) []"
proof -
  define r where "r = (if n = 0 then 0 else fst (bpf_probe_read K p (unat (masked_size n))))"
  define m where "m = masked_size n"
  have m: "unat m \<le> 4096" by (simp add: m_def masked_size_le)
  have len: "length ws \<le> unat m"
    using bpf_probe_read_length [OF K, of p "unat m"] by (simp add: ws m_def)
  have ok: "r = 0 \<Longrightarrow> length ws = unat m"
    using bpf_probe_read_ok [OF K p] by (simp add: ws m_def r_def split: if_splits)
  have m5: "unat (m + 5) = unat m + 5"
    using m unat_add_small [of m 5] by simp
  let ?off = "unat (buf_off e)"
  let ?e1 = "put_args e ?off [idx]"
  let ?e2 = "put_args ?e1 (?off + 1) (le_bytes 4 n)"
  let ?e3 = "put_args ?e2 (?off + 5) ws"
  have e1: "appended e ?e1 []" if "?off \<le> 31999"
    using that by (intro appended_uncommitted [where bs = "[idx]"]) (simp_all add: const_simps)
  have e2: "appended e ?e2 []" if "?off \<le> 31995"
    using that put_index_bytes
    by (intro appended_uncommitted [where bs = "idx # le_bytes 4 n"]) (simp_all add: const_simps)
  have e3: "appended e ?e3 []" if "?off \<le> 27899"
    using that len m put_sized_bytes
    by (intro appended_uncommitted [where bs = "idx # le_bytes 4 n @ ws"]) (simp_all add: const_simps)
  have e4: "appended e (commit_arg ?e3 (m + 5)) [idx # le_bytes 4 n @ ws]" if "?off \<le> 27899" "r = 0"
    using that ok m m5 put_sized_bytes
    by (intro appended_commit [where n = "m + 5"]) (simp_all add: const_simps)
  consider (full) "31999 < ?off" | (nosize) "?off \<le> 31999" "31995 < ?off"
    | (tight) "?off \<le> 31995" "27899 < ?off" | (fits) "?off \<le> 27899" by linarith
  then show ?thesis
  proof cases
    case full
    then show ?thesis by (simp add: save_bytes_to_buf_def const_simps Let_def)
  next
    case nosize
    then have "save_bytes_to_buf K e p n idx = (?e1, 0)"
      by (simp add: save_bytes_to_buf_def const_simps Let_def)
    then show ?thesis using nosize e1 by simp
  next
    case tight
    then have "save_bytes_to_buf K e p n idx = (?e2, 0)"
      by (simp add: save_bytes_to_buf_def const_simps Let_def)
    then show ?thesis using tight e2 by simp
  next
    case fits
    obtain r2 w2 where rd: "bpf_probe_read K p (unat m) = (r2, w2)" by fastforce
    have "save_bytes_to_buf K e p n idx = (if r = 0 then (commit_arg ?e3 (m + 5), 1) else (?e3, 0))"
    proof (cases "n = 0")
      case True
      then show ?thesis using fits ws by (simp add: save_bytes_to_buf_def const_simps Let_def r_def m_def)
    next
      case False
      then have "r = r2" "ws = w2" using rd by (simp_all add: r_def m_def ws)
      then show ?thesis using fits rd False
        by (cases "n = 4096")
          (simp_all add: save_bytes_to_buf_def const_simps Let_def m_def masked_size_def word_neq_0_conv
            add.commute [of 5])
    qed
    then show ?thesis using fits e3 e4 ok by (auto simp: r_def m_def)
  qed
qed

lemma put_string_bytes:
  "args (put_args (put_args (put_args e off [idx]) (off + 5) ws) (off + 1) (le_bytes 4 n)) =
    upd_range (args e) off (idx # le_bytes 4 n @ ws)"
  using upd_range_adjacent [of "args e" off "[idx]" "le_bytes 4 n @ ws"]
    upd_range_adjacent_before [of "upd_range (args e) off [idx]" "off + 1" "le_bytes 4 n" ws]
  by (simp add: add.commute [of 5])

lemma word_of_int_small_u32:
  "0 \<le> z \<Longrightarrow> z \<le> 4096 \<Longrightarrow> unat (word_of_int z :: u32) = nat z"
  by (simp add: unat_eq_nat_uint uint_word_of_int)

lemma word_of_nat_small_u32 [simp]: "n \<le> 4096 \<Longrightarrow> unat (word_of_nat n :: u32) = n"
  by (simp add: unat_of_nat take_bit_nat_eq_self)

lemma save_str_to_buf_result:
  assumes K: "helper_laws K" and rd: "bpf_probe_read_str K p MAX_STRING_SIZE = (sz, ws)"
  shows "if unat (buf_off e) \<le> 27899 \<and> 0 \<le> sz
    then snd (save_str_to_buf K e p idx) = 1 \<and> sz = int (length ws) \<and>
      appended e (fst (save_str_to_buf K e p idx)) [idx # le_bytes 4 (of_nat (length ws) :: u32) @ ws]
    else snd (save_str_to_buf K e p idx) = 0 \<and> appended e (fst (save_str_to_buf K e p idx)) []"
proof -
  let ?off = "unat (buf_off e)"
  let ?n = "word_of_int sz :: u32"
  let ?e1 = "put_args e ?off [idx]"
  let ?e2 = "put_args ?e1 (?off + 5) ws"
  let ?e3 = "put_args ?e2 (?off + 1) (le_bytes 4 ?n)"
  have len: "length ws \<le> 4096"
    using bpf_probe_read_str_length [OF K, of p MAX_STRING_SIZE] rd by (simp add: const_simps)
  have ok: "0 \<le> sz \<Longrightarrow> sz = int (length ws)"
    using bpf_probe_read_str_ok [OF K, of p MAX_STRING_SIZE] rd by simp
  have n5: "unat (?n + 4 + 1) = unat ?n + 5" if "0 \<le> sz"
    using that ok len unat_add_small [of ?n 5] word_of_int_small_u32 [of sz]
    by (simp add: add.assoc)
  have e1: "appended e ?e1 []" if "?off \<le> 31999"
    using that by (intro appended_uncommitted [where bs = "[idx]"]) (simp_all add: const_simps)
  consider (full) "31999 < ?off" | (tight) "?off \<le> 31999" "27899 < ?off"
    | (failed) "?off \<le> 27899" "sz < 0" | (stored) "?off \<le> 27899" "0 \<le> sz" by linarith
  then show ?thesis
  proof cases
    case full
    then show ?thesis by (simp add: save_str_to_buf_def const_simps)
  next
    case tight
    then have "save_str_to_buf K e p idx = (?e1, 0)" by (simp add: save_str_to_buf_def const_simps)
    then show ?thesis using tight e1 by simp
  next
    case failed
    then have eq: "save_str_to_buf K e p idx = (?e2, 0)"
      using rd by (simp add: save_str_to_buf_def const_simps Let_def add.commute [of 5])
    have "appended e ?e2 []"
      using failed len by (intro appended_untouched) (auto simp: const_simps)
    then show ?thesis using eq failed by simp
  next
    case stored
    then have "save_str_to_buf K e p idx = (commit_arg ?e3 (?n + 4 + 1), 1)"
      using rd by (simp add: save_str_to_buf_def const_simps Let_def add.commute [of 5])
    moreover have "appended e (commit_arg ?e3 (?n + 4 + 1)) [idx # le_bytes 4 ?n @ ws]"
      using stored len ok n5 put_string_bytes
      by (intro appended_commit [where n = "?n + 4 + 1"])
        (simp_all add: const_simps word_of_int_small_u32)
    ultimately show ?thesis using stored ok by simp
  qed
qed

subsection \<open>The writers in one environment\<close>

lemma save_obj_result:
  assumes "length bs = unat n" "0 < n" "unat n \<le> MAX_ELEMENT_SIZE"
  shows "if unat (buf_off e) \<le> 31889
    then snd (save_to_submit_buf K e (Obj bs) n idx) = 1 \<and>
      appended e (fst (save_to_submit_buf K e (Obj bs) n idx)) [idx # bs]
    else snd (save_to_submit_buf K e (Obj bs) n idx) = 0 \<and>
      appended e (fst (save_to_submit_buf K e (Obj bs) n idx)) []"
proof -
  let ?M = "mem_kenv TARGET_ARCH_arm64 MODULE_STACK 0 Map.empty"
  have "save_to_submit_buf K e (Obj bs) n idx = save_to_submit_buf ?M e (Obj bs) n idx"
    by (simp add: save_to_submit_buf_def Let_def)
  then show ?thesis
    using save_to_submit_buf_result [of ?M "Obj bs" n e idx] assms
    by (cases "unat (buf_off e) \<le> 31889") simp_all
qed

lemma frame_writerI:
  assumes "\<And>e. if ok e then snd (save e) = 1 \<and> frame (f e) \<and> appended e (fst (save e)) [f e]
    else snd (save e) = 0 \<and> appended e (fst (save e)) []"
  shows "frame_writer save frame"
proof
  fix e
  show "snd (save e) \<in> {0, 1}" using assms [of e] by (cases "ok e") auto
  show "snd (save e) = 1 \<Longrightarrow> \<exists>f. frame f \<and> appended e (fst (save e)) [f]"
    using assms [of e] by (cases "ok e") auto
  show "snd (save e) = 0 \<Longrightarrow> appended e (fst (save e)) []"
    using assms [of e] by (cases "ok e") auto
qed

context kernel_env
begin

sublocale u64_writer: frame_writer
  "\<lambda>e. save_to_submit_buf K e (Obj (le_bytes 8 (w :: u64))) 8 idx" "\<lambda>f. f = idx # le_bytes 8 w"
  for w idx
  by (rule frame_writerI [where ok = "\<lambda>e. unat (buf_off e) \<le> 31889" and f = "\<lambda>_. idx # le_bytes 8 w"])
    (use save_obj_result [of "le_bytes 8 w" 8] in \<open>simp add: MAX_ELEMENT_SIZE_def split: if_split_asm\<close>)

sublocale u32_writer: frame_writer
  "\<lambda>e. save_to_submit_buf K e (Obj (le_bytes 4 (w :: u32))) 4 idx" "\<lambda>f. f = idx # le_bytes 4 w"
  for w idx
  by (rule frame_writerI [where ok = "\<lambda>e. unat (buf_off e) \<le> 31889" and f = "\<lambda>_. idx # le_bytes 4 w"])
    (use save_obj_result [of "le_bytes 4 w" 4] in \<open>simp add: MAX_ELEMENT_SIZE_def split: if_split_asm\<close>)

sublocale bytes_writer: frame_writer
  "\<lambda>e. save_bytes_to_buf K e (Addr a) n idx" "sized_frame idx n (unat (masked_size n))" for a n idx
proof (rule frame_writerI [where ok = "\<lambda>e. unat (buf_off e) \<le> 27899 \<and>
      (n = 0 \<or> fst (bpf_probe_read K (Addr a) (unat (masked_size n))) = 0)"
    and f = "\<lambda>_. idx # le_bytes 4 n @
      (if n = 0 then [] else snd (bpf_probe_read K (Addr a) (unat (masked_size n))))"], goal_cases)
  case (1 e)
  then show ?case
    using save_bytes_to_buf_result [OF laws, where p = "Addr a" and n = n and e = e and idx = idx, OF _ refl]
    by (simp only: sized_frame_def) (auto split: if_split_asm)
qed

sublocale str_writer: frame_writer
  "\<lambda>e. save_str_to_buf K e (Addr a) idx" "string_frame idx" for a idx
proof (rule frame_writerI [where ok = "\<lambda>e. unat (buf_off e) \<le> 27899 \<and>
      0 \<le> fst (bpf_probe_read_str K (Addr a) MAX_STRING_SIZE)"
    and f = "\<lambda>_. idx # le_bytes 4 (of_nat (length (snd (bpf_probe_read_str K (Addr a) MAX_STRING_SIZE))) :: u32)
      @ snd (bpf_probe_read_str K (Addr a) MAX_STRING_SIZE)"], goal_cases)
  case (1 e)
  have len: "length (snd (bpf_probe_read_str K (Addr a) MAX_STRING_SIZE)) \<le> MAX_STRING_SIZE"
    by (rule bpf_probe_read_str_length [OF laws])
  have "string_frame idx
      (idx # le_bytes 4 (of_nat (length (snd (bpf_probe_read_str K (Addr a) MAX_STRING_SIZE))) :: u32)
       @ snd (bpf_probe_read_str K (Addr a) MAX_STRING_SIZE))"
    unfolding string_frame_def sized_frame_def using len by blast
  then show ?case
    using save_str_to_buf_result [OF laws prod.collapse [symmetric], where p = "Addr a" and e = e and idx = idx] by presburger
qed

end

text \<open>\<open>save_str_arr_to_buf\<close> reserves the index and count bytes before it checks for room: with
31999 bytes used it moves the offset to 32001, past the 32000 bytes of \<open>args\<close>, and reports that
nothing was written.\<close>

lemma save_str_arr_elem_full:
  "27900 < unat (buf_off e) \<Longrightarrow> save_str_arr_elem K e p m = ((e, m), False)"
  by (simp add: save_str_arr_elem_def const_simps)

lemma save_str_arr_loop_full:
  "27900 < unat (buf_off e) \<Longrightarrow> save_str_arr_loop K a (Suc n) i e m = ((e, m), False)"
  by (simp add: save_str_arr_elem_full Let_def)

lemma save_str_arr_to_buf_overruns:
  assumes "buf_off e = 31999"
  shows "snd (save_str_arr_to_buf K e a idx) = 0" and "buf_off (fst (save_str_arr_to_buf K e a idx)) = 32001"
proof -
  let ?e2 = "(put_args e 31999 [idx])\<lparr>buf_off := 32001\<rparr>"
  have "save_str_arr_loop K a (Suc 127) 0 ?e2 0 = ((?e2, 0), False)"
    by (rule save_str_arr_loop_full) simp
  then have "save_str_arr_loop K a 128 0 ?e2 0 = ((?e2, 0), False)"
    by (simp del: save_str_arr_loop.simps)
  then have "save_str_arr_to_buf K e a idx = (?e2, 0)"
    using assms by (simp add: save_str_arr_to_buf_def const_simps Let_def del: save_str_arr_loop.simps)
  then show "snd (save_str_arr_to_buf K e a idx) = 0" and "buf_off (fst (save_str_arr_to_buf K e a idx)) = 32001"
    by simp_all
qed

end
