(* ===== verification/Str_Match.thy ===== *)
theory Str_Match
  imports Kernel_Env
begin

unbundle bit_operations_syntax

text \<open>
  String comparison by map lookup, \<open>make_str_buf\<close> and \<open>strcmp_by_map\<close> of
  \<open>src/src/common/buffer.h\<close>: the rule's string is put into \<open>str_buf\<close> as a key, the bytes read from
  the process are looked up as a key, and the rule's key is removed again. The theorem is that this
  compares a prefix, provided the map holds no other key.
\<close>

text \<open>The returned pointer names the element of \<open>str_buf_map\<close> under the thread's id.\<close>

definition make_str_buf :: "kenv \<Rightarrow> maps \<Rightarrow> maps \<times> str_buf_t option" where
  "make_str_buf K S =
     (case array_lookup_elem (str_buf_gen S) 0 of
        None \<Rightarrow> (S, None)
      | Some gen_key \<Rightarrow>
          let i = get_current_pid_tgid K;
              m = snd (lru_update_elem (capacity ''str_buf_map'') i gen_key (str_buf_map S))
          in (S\<lparr>str_buf_map := m\<rparr>, bpf_map_lookup_elem m i))"

text \<open>A store through that pointer.\<close>

definition set_str_value :: "kenv \<Rightarrow> maps \<Rightarrow> u8 list \<Rightarrow> maps" where
  "set_str_value K S bs =
     S\<lparr>str_buf_map := AList.update (get_current_pid_tgid K) \<lparr>str_val = bs\<rparr> (str_buf_map S)\<rparr>"

definition strcmp_by_map :: "kenv \<Rightarrow> maps \<Rightarrow> op_ctx_t \<Rightarrow> arg_filter_t \<Rightarrow> maps \<times> u32" where
  "strcmp_by_map K S oc f =
     (case make_str_buf K S of
        (S1, None) \<Rightarrow> (S1, 0)
      | (S1, Some v) \<Rightarrow>
          let zeros = replicate 256 0; S2 = set_str_value K S1 zeros in
          if str_len oc < filter_str_len f then (S2, 0)
          else
            let read_str_len = (if MAX_STRCMP_LEN < filter_str_len f then MAX_STRCMP_LEN else filter_str_len f);
                (r, ws) = bpf_probe_read K (Addr (read_addr oc)) (unat read_str_len);
                got = overlay zeros ws;
                S3 = set_str_value K S2 got;
                rule_key = \<lparr>str_val = filter_str_val f\<rparr>;
                sb = snd (bpf_map_update_elem (capacity ''str_buf'') rule_key read_str_len (str_buf S3));
                found = bpf_map_lookup_elem sb \<lparr>str_val = got\<rparr>;
                S4 = S3\<lparr>str_buf := snd (bpf_map_delete_elem rule_key sb)\<rparr>
            in (S4, if found = None then 0 else 1))"

subsection \<open>What it compares\<close>

text \<open>
  The reference: the process memory at the address starts with the rule's string. The rule is
  zero-padded to 256 bytes, as user space stores it.
\<close>

definition padded_rule :: "arg_filter_t \<Rightarrow> u8 list \<Rightarrow> bool" where
  "padded_rule f pat \<longleftrightarrow> length pat \<le> 256 \<and> filter_str_len f = of_nat (length pat) \<and>
     filter_str_val f = pat @ replicate (256 - length pat) 0"

lemma overlay_zeros_eq_padded:
  assumes "length ws = length pat" and "length pat \<le> 256"
  shows "overlay (replicate 256 0) ws = pat @ replicate (256 - length pat) (0 :: u8) \<longleftrightarrow> ws = pat"
  using assms by (simp add: overlay_def)

lemma make_str_buf_Some:
  assumes "str_buf_gen S \<noteq> []"
  obtains v where "make_str_buf K S =
    (S\<lparr>str_buf_map := snd (lru_update_elem 256 (get_current_pid_tgid K) v (str_buf_map S))\<rparr>, Some v)"
proof -
  from assms obtain g gs where "str_buf_gen S = g # gs" by (cases "str_buf_gen S") auto
  then show ?thesis
    by (intro that [of g])
      (simp add: make_str_buf_def array_lookup_elem_def nth_opt_def Let_def lru.update_same)
qed

lemma strcmp_by_map_found:
  assumes gen: "str_buf_gen S \<noteq> []" and empty: "str_buf S = []"
    and len: "filter_str_len f \<le> str_len oc"
  shows "snd (strcmp_by_map K S oc f) =
    (if overlay (replicate 256 0)
          (snd (bpf_probe_read K (Addr (read_addr oc)) (unat (min 256 (filter_str_len f))))) = filter_str_val f
     then 1 else 0)"
proof -
  obtain v where mk: "make_str_buf K S =
      (S\<lparr>str_buf_map := snd (lru_update_elem 256 (get_current_pid_tgid K) v (str_buf_map S))\<rparr>, Some v)"
    using make_str_buf_Some [OF gen] by blast
  have "(if MAX_STRCMP_LEN < filter_str_len f then MAX_STRCMP_LEN else filter_str_len f) =
      min 256 (filter_str_len f)"
    by (auto simp: const_simps min_def not_le less_imp_le)
  then show ?thesis
    using empty len
    by (auto simp: strcmp_by_map_def mk Let_def case_prod_unfold set_str_value_def
      bpf_map_update_elem_def bpf_map_lookup_elem_def)
qed

lemma strcmp_by_map_short:
  "str_len oc < filter_str_len f \<Longrightarrow> snd (strcmp_by_map K S oc f) = 0"
  by (auto simp: strcmp_by_map_def Let_def split: prod.splits option.splits)

lemma strcmp_by_map_result: "snd (strcmp_by_map K S oc f) \<in> {0, 1}"
  by (auto simp: strcmp_by_map_def Let_def split: prod.splits option.splits)

text \<open>The temporary key is gone afterwards: an empty \<open>str_buf\<close> stays empty.\<close>

lemma strcmp_by_map_restores:
  "str_buf S = [] \<Longrightarrow> str_buf (fst (strcmp_by_map K S oc f)) = []"
  by (auto simp: strcmp_by_map_def make_str_buf_def set_str_value_def Let_def bpf_map_update_elem_def
    bpf_map_delete_elem_def split: prod.splits option.splits)

lemma strcmp_by_map_frame:
  "fst (strcmp_by_map K S oc f) =
    S\<lparr>str_buf := str_buf (fst (strcmp_by_map K S oc f)),
      str_buf_map := str_buf_map (fst (strcmp_by_map K S oc f))\<rparr>"
  by (auto simp: strcmp_by_map_def make_str_buf_def set_str_value_def Let_def split: prod.splits option.splits)

text \<open>What a prefix rule decides: the bytes read from the process equal the pattern.\<close>

lemma strcmp_by_map_prefix:
  assumes K: "helper_laws K" and gen: "str_buf_gen S \<noteq> []" and empty: "str_buf S = []"
    and rule: "padded_rule f pat" and len: "filter_str_len f \<le> str_len oc"
    and rd: "fst (mem_probe_read K (read_addr oc) (length pat)) = 0"
  shows "snd (strcmp_by_map K S oc f) = (if snd (mem_probe_read K (read_addr oc) (length pat)) = pat then 1 else 0)"
proof -
  have f: "length pat \<le> 256" "filter_str_len f = of_nat (length pat)"
    "filter_str_val f = pat @ replicate (256 - length pat) 0"
    using rule by (simp_all add: padded_rule_def)
  have n: "unat (min 256 (filter_str_len f)) = length pat"
    using f(1,2) by (auto simp: min_def word_le_nat_alt unat_of_nat take_bit_nat_eq_self)
  have "length (snd (mem_probe_read K (read_addr oc) (length pat))) = length pat"
    by (rule read_lawD(2) [OF helper_lawsD(1) [OF K] rd])
  then show ?thesis
    using strcmp_by_map_found [OF gen empty len, of K] overlay_zeros_eq_padded [OF _ f(1)] n f(3) by simp
qed

end
