(* ===== verification/Read_Args.thy ===== *)
theory Read_Args
  imports Submit_Buffer Str_Match
begin

unbundle bit_operations_syntax

text \<open>
  The argument reader, \<open>read_args\<close> of \<open>src/src/utils.h\<close>: an interpreter for lists of operations.
  Each operation is one definition; \<open>exec_op\<close> is the switch, \<open>fetch\<close> the choice of the next
  operation, \<open>read_loop\<close> the bounded loop and \<open>read_args\<close> the whole function. An array read out of
  bounds is the outcome \<open>Fault\<close>, which no theorem assumes away.
\<close>

subsection \<open>State and outcomes\<close>

text \<open>What the function can write: the maps, \<open>*p->event\<close> and \<open>*op_ctx\<close>.\<close>

record rstate =
  rs_maps :: maps
  rs_event :: event_data_t
  rs_ctx :: op_ctx_t

text \<open>An operation ends with \<open>break\<close> (of the switch), with \<open>return 0\<close>, or reads out of bounds.\<close>

datatype flow = Next | Return0 | Fault

definition map_ctx :: "(op_ctx_t \<Rightarrow> op_ctx_t) \<Rightarrow> rstate \<Rightarrow> rstate" where
  "map_ctx f st = st\<lparr>rs_ctx := f (rs_ctx st)\<rparr>"

definition ADDR_MASK :: u64 where [const_simps]: "ADDR_MASK = 0xffffffffffff"

subsection \<open>Operations on the context\<close>

definition op_reset_ctx :: "op_ctx_t \<Rightarrow> op_ctx_t" where
  [op_defs]: "op_reset_ctx c = c\<lparr>break_count := 0, reg_index := 0, read_addr := 0, read_len := 0,
     reg_value := 0, pointer_value := 0\<rparr>"

definition op_set_reg_index :: "op_config_t \<Rightarrow> op_ctx_t \<Rightarrow> op_ctx_t" where
  [op_defs]: "op_set_reg_index op c = c\<lparr>reg_index := ucast (cfg_value op)\<rparr>"

definition op_set_read_len :: "op_config_t \<Rightarrow> op_ctx_t \<Rightarrow> op_ctx_t" where
  [op_defs]: "op_set_read_len op c = c\<lparr>read_len := ucast (cfg_value op)\<rparr>"

definition op_set_read_len_reg_value :: "op_ctx_t \<Rightarrow> op_ctx_t" where
  [op_defs]: "op_set_read_len_reg_value c =
     (if reg_value c < ucast (read_len c) then c\<lparr>read_len := ucast (reg_value c)\<rparr> else c)"

definition op_set_read_len_pointer_value :: "op_ctx_t \<Rightarrow> op_ctx_t" where
  [op_defs]: "op_set_read_len_pointer_value c =
     (if pointer_value c < ucast (read_len c) then c\<lparr>read_len := ucast (pointer_value c)\<rparr> else c)"

text \<open>\<open>u32 *= u64\<close>: the product is formed in 64 bits and truncated.\<close>

definition op_set_read_count :: "op_config_t \<Rightarrow> op_ctx_t \<Rightarrow> op_ctx_t" where
  [op_defs]: "op_set_read_count op c = c\<lparr>read_len := ucast ((ucast (read_len c) :: u64) * cfg_value op)\<rparr>"

definition op_add_offset :: "op_config_t \<Rightarrow> op_ctx_t \<Rightarrow> op_ctx_t" where
  [op_defs]: "op_add_offset op c = c\<lparr>read_addr := read_addr c + cfg_value op\<rparr>"

definition op_sub_offset :: "op_config_t \<Rightarrow> op_ctx_t \<Rightarrow> op_ctx_t" where
  [op_defs]: "op_sub_offset op c = c\<lparr>read_addr := read_addr c - cfg_value op\<rparr>"

definition op_move_reg_value :: "op_ctx_t \<Rightarrow> op_ctx_t" where
  [op_defs]: "op_move_reg_value c = c\<lparr>read_addr := reg_value c\<rparr>"

definition op_move_pointer_value :: "op_ctx_t \<Rightarrow> op_ctx_t" where
  [op_defs]: "op_move_pointer_value c = c\<lparr>read_addr := pointer_value c\<rparr>"

definition op_move_tmp_value :: "op_ctx_t \<Rightarrow> op_ctx_t" where
  [op_defs]: "op_move_tmp_value c = c\<lparr>read_addr := tmp_value c\<rparr>"

definition op_set_tmp_value :: "op_ctx_t \<Rightarrow> op_ctx_t" where
  [op_defs]: "op_set_tmp_value c = c\<lparr>tmp_value := read_addr c\<rparr>"

definition op_for_break :: "op_ctx_t \<Rightarrow> op_ctx_t" where
  [op_defs]: "op_for_break c =
     (let c1 = (if loop_count c = 0 then c\<lparr>loop_index := op_key_index c\<rparr> else c)
      in if break_count c1 \<le> loop_count c1
         then c1\<lparr>loop_count := 0, break_count := 0, loop_index := 0\<rparr>
         else c1\<lparr>loop_count := loop_count c1 + 1, op_key_index := loop_index c1\<rparr>)"

text \<open>The three ways to set the number of turns: at most \<open>MAX_LOOP_COUNT\<close>.\<close>

definition limit_break_count :: "u64 \<Rightarrow> u8" where
  "limit_break_count v = (if v < ucast MAX_LOOP_COUNT then ucast v else MAX_LOOP_COUNT)"

definition op_set_break_count :: "op_config_t \<Rightarrow> op_ctx_t \<Rightarrow> op_ctx_t" where
  [op_defs]: "op_set_break_count op c = c\<lparr>break_count := limit_break_count (cfg_value op)\<rparr>"

definition op_set_break_count_reg_value :: "op_ctx_t \<Rightarrow> op_ctx_t" where
  [op_defs]: "op_set_break_count_reg_value c = c\<lparr>break_count := limit_break_count (reg_value c)\<rparr>"

definition op_set_break_count_pointer_value :: "op_ctx_t \<Rightarrow> op_ctx_t" where
  [op_defs]: "op_set_break_count_pointer_value c =
     c\<lparr>break_count := limit_break_count (pointer_value c)\<rparr>"

definition op_add_reg :: "op_ctx_t \<Rightarrow> op_ctx_t" where
  [op_defs]: "op_add_reg c = c\<lparr>read_addr := read_addr c + reg_value c\<rparr>"

definition op_sub_reg :: "op_ctx_t \<Rightarrow> op_ctx_t" where
  [op_defs]: "op_sub_reg c = c\<lparr>read_addr := read_addr c - reg_value c\<rparr>"

definition op_read_ret :: "op_ctx_t \<Rightarrow> op_ctx_t" where
  [op_defs]: "op_read_ret c = c\<lparr>reg_value := reg_0 c\<rparr>"

definition op_read_reg :: "op_config_t \<Rightarrow> ctx_regs_t \<Rightarrow> op_ctx_t \<Rightarrow> op_ctx_t \<times> flow" where
  "op_read_reg op r c =
     (let c1 = (if cfg_pre_code op = op_num OP_SET_REG_INDEX
                then c\<lparr>reg_index := ucast (cfg_value op)\<rparr> else c)
      in if REG_ARM64_MAX \<le> reg_index c1 then (c1, Return0)
         else case ctx_regs_at r (unat (reg_index c1)) of
                None \<Rightarrow> (c1, Fault)
              | Some v \<Rightarrow> (c1\<lparr>reg_value := v\<rparr>, Next))"

text \<open>A read of \<open>n\<close> bytes from user memory into the start of a \<open>u64\<close> variable.\<close>

definition read_user_u64 :: "kenv \<Rightarrow> u64 \<Rightarrow> nat \<Rightarrow> u64 \<Rightarrow> u64" where
  "read_user_u64 K old n a = le_word (overlay (le_bytes 8 old) (snd (mem_probe_read_user K a n)))"

definition op_read_pointer :: "kenv \<Rightarrow> op_config_t \<Rightarrow> op_ctx_t \<Rightarrow> op_ctx_t" where
  "op_read_pointer K op c =
     (let a = (if cfg_pre_code op = op_num OP_ADD_OFFSET then read_addr c + cfg_value op
               else if cfg_pre_code op = op_num OP_SUB_OFFSET then read_addr c - cfg_value op
               else read_addr c)
      in c\<lparr>pointer_value := read_user_u64 K (pointer_value c) (PTR_SIZE (build_arch K)) a\<rparr>)"

definition op_read_std_string :: "kenv \<Rightarrow> op_ctx_t \<Rightarrow> op_ctx_t" where
  "op_read_std_string K c =
     (let base = read_addr c AND ADDR_MASK;
          last_off = of_nat (PTR_SIZE (build_arch K) * 3) - 1 :: u64;
          last = le_word (overlay [0] (snd (mem_probe_read_user K (base + last_off) 1))) :: u8
      in if last AND 0x80 \<noteq> 0 then c\<lparr>read_addr := read_user_u64 K 0 8 base\<rparr>
         else c\<lparr>read_addr := base\<rparr>)"

subsection \<open>Operations that save\<close>

text \<open>\<open>save_to_submit_buf\<close> of an 8-byte field, then \<open>save_index += 1\<close>.\<close>

definition save_u64 :: "kenv \<Rightarrow> u64 \<Rightarrow> rstate \<Rightarrow> rstate" where
  "save_u64 K v st =
     st\<lparr>rs_event := fst (save_to_submit_buf K (rs_event st) (Obj (le_bytes 8 v)) 8 (save_index (rs_ctx st))),
        rs_ctx := (rs_ctx st)\<lparr>save_index := save_index (rs_ctx st) + 1\<rparr>\<rparr>"

definition op_save_addr :: "kenv \<Rightarrow> rstate \<Rightarrow> rstate" where
  "op_save_addr K st = save_u64 K (read_addr (rs_ctx st)) st"

definition op_save_reg :: "kenv \<Rightarrow> rstate \<Rightarrow> rstate" where
  "op_save_reg K st = save_u64 K (reg_value (rs_ctx st)) st"

definition op_save_pointer :: "kenv \<Rightarrow> rstate \<Rightarrow> rstate" where
  "op_save_pointer K st = save_u64 K (pointer_value (rs_ctx st)) st"

text \<open>The context \<open>OP_SAVE_STRUCT\<close> saves with: address untagged, length scaled and clamped.\<close>

definition save_struct_ctx :: "op_config_t \<Rightarrow> op_ctx_t \<Rightarrow> op_ctx_t" where
  "save_struct_ctx op c =
     (let c1 = c\<lparr>read_addr := read_addr c AND ADDR_MASK\<rparr>;
          c2 = (if cfg_pre_code op = op_num OP_SET_READ_COUNT then op_set_read_count op c1 else c1)
      in if of_nat MAX_BYTES_ARR_SIZE < read_len c2
         then c2\<lparr>read_len := of_nat MAX_BYTES_ARR_SIZE\<rparr> else c2)"

definition op_save_struct :: "kenv \<Rightarrow> op_config_t \<Rightarrow> rstate \<Rightarrow> rstate" where
  "op_save_struct K op st =
     (let c = save_struct_ctx op (rs_ctx st);
          (e1, status) = save_bytes_to_buf K (rs_event st) (Addr (read_addr c)) (read_len c) (save_index c);
          e2 = (if status = 0 then fst (save_bytes_to_buf K e1 (Addr 0) 0 (save_index c)) else e1)
      in st\<lparr>rs_event := e2, rs_ctx := c\<lparr>save_index := save_index c + 1\<rparr>\<rparr>)"

definition op_save_string :: "kenv \<Rightarrow> rstate \<Rightarrow> rstate" where
  "op_save_string K st =
     (let c0 = rs_ctx st;
          c = c0\<lparr>read_addr := read_addr c0 AND ADDR_MASK\<rparr>;
          old_off = buf_off (rs_event st);
          (e1, status) = save_str_to_buf K (rs_event st) (Addr (read_addr c)) (save_index c);
          (e2, c2) =
            (if status = 0 then (fst (save_bytes_to_buf K e1 (Addr 0) 0 (save_index c)), c)
             else (e1, c\<lparr>str_len := buf_off e1 - (old_off + 4 + 1)\<rparr>))
      in st\<lparr>rs_event := e2, rs_ctx := c2\<lparr>save_index := save_index c2 + 1\<rparr>\<rparr>)"

definition op_save_ptr_string :: "kenv \<Rightarrow> rstate \<Rightarrow> rstate" where
  "op_save_ptr_string K st =
     (let a = read_addr (rs_ctx st) AND ADDR_MASK;
          ptr = read_user_u64 K a (PTR_SIZE (build_arch K)) a;
          st1 = save_u64 K ptr st;
          c = rs_ctx st1;
          ptr1 = ptr AND ADDR_MASK;
          (e1, status) = save_str_to_buf K (rs_event st1) (Addr ptr1) (save_index c);
          (e2, c2) =
            (if status = 0
             then (fst (save_bytes_to_buf K e1 (Addr 0) STRARR_MAGIC_LEN (save_index c)),
                   c\<lparr>loop_count := break_count c\<rparr>)
             else (e1, c))
      in st1\<lparr>rs_event := e2, rs_ctx := c2\<lparr>save_index := save_index c2 + 1\<rparr>\<rparr>)"

subsection \<open>Filters\<close>

definition value_mismatch :: "arg_filter_t \<Rightarrow> u64 \<Rightarrow> bool" where
  "value_mismatch f v =
     (if filter_type f = arg_filter_num EQUAL_FILTER then num_val f \<noteq> v
      else if filter_type f = arg_filter_num GREATER_FILTER then num_val f \<le> v
      else if filter_type f = arg_filter_num LESS_FILTER then v \<le> num_val f
      else False)"

definition op_filter_value :: "op_config_t \<Rightarrow> rstate \<Rightarrow> rstate \<times> flow" where
  "op_filter_value op st =
     (case bpf_map_lookup_elem (arg_filter (rs_maps st)) (cfg_value op) of
        None \<Rightarrow> (st, Return0)
      | Some f \<Rightarrow>
          (if value_mismatch f (reg_value (rs_ctx st))
           then map_ctx (\<lambda>c. c\<lparr>match_blacklist := 1\<rparr>) st else st, Next))"

text \<open>The shift amount is below 64 for every rule user space stores; the instruction masks it.\<close>

definition op_filter_buffer :: "kenv \<Rightarrow> op_config_t \<Rightarrow> rstate \<Rightarrow> rstate \<times> flow" where
  "op_filter_buffer K op st =
     (case bpf_map_lookup_elem (arg_filter (rs_maps st)) (cfg_value op) of
        None \<Rightarrow> (st, Return0)
      | Some f \<Rightarrow>
          if filter_type f = arg_filter_num WHITELIST_FILTER then
            let a = read_addr (rs_ctx st) AND ADDR_MASK;
                ptr = read_user_u64 K a 8 a;
                c1 = (rs_ctx st)\<lparr>apply_filter := 1\<rparr>;
                c2 = (if num_val f = ptr AND drop_bit (unat (filter_str_len f) mod 64) 0xffffffffffffffff
                      then c1\<lparr>match_whitelist := 1\<rparr> else c1)
            in (st\<lparr>rs_ctx := c2\<rparr>, Next)
          else (st, Next))"

definition op_filter_string :: "kenv \<Rightarrow> op_config_t \<Rightarrow> rstate \<Rightarrow> rstate \<times> flow" where
  "op_filter_string K op st =
     (case bpf_map_lookup_elem (arg_filter (rs_maps st)) (cfg_value op) of
        None \<Rightarrow> (st, Return0)
      | Some f \<Rightarrow>
          let (S1, res) = strcmp_by_map K (rs_maps st) (rs_ctx st) f;
              is_match = (res \<noteq> 0);
              c = rs_ctx st;
              c1 = (if filter_type f = arg_filter_num WHITELIST_FILTER
                    then (if is_match then c\<lparr>apply_filter := 1, match_whitelist := 1\<rparr>
                          else c\<lparr>apply_filter := 1\<rparr>)
                    else if filter_type f = arg_filter_num BLACKLIST_FILTER \<and> is_match
                    then c\<lparr>match_blacklist := 1\<rparr> else c)
          in (st\<lparr>rs_maps := S1, rs_ctx := c1\<rparr>, Next))"

subsection \<open>The switch\<close>

fun exec_op :: "kenv \<Rightarrow> ctx_regs_t \<Rightarrow> op_config_t \<Rightarrow> op_code_e \<Rightarrow> rstate \<Rightarrow> rstate \<times> flow" where
  "exec_op K r op OP_SKIP st = (st, Next)"
| "exec_op K r op OP_RESET_CTX st = (map_ctx op_reset_ctx st, Next)"
| "exec_op K r op OP_SET_REG_INDEX st = (map_ctx (op_set_reg_index op) st, Next)"
| "exec_op K r op OP_SET_READ_LEN st = (map_ctx (op_set_read_len op) st, Next)"
| "exec_op K r op OP_SET_READ_LEN_REG_VALUE st = (map_ctx op_set_read_len_reg_value st, Next)"
| "exec_op K r op OP_SET_READ_LEN_POINTER_VALUE st = (map_ctx op_set_read_len_pointer_value st, Next)"
| "exec_op K r op OP_SET_READ_COUNT st = (map_ctx (op_set_read_count op) st, Next)"
| "exec_op K r op OP_ADD_OFFSET st = (map_ctx (op_add_offset op) st, Next)"
| "exec_op K r op OP_SUB_OFFSET st = (map_ctx (op_sub_offset op) st, Next)"
| "exec_op K r op OP_MOVE_REG_VALUE st = (map_ctx op_move_reg_value st, Next)"
| "exec_op K r op OP_MOVE_POINTER_VALUE st = (map_ctx op_move_pointer_value st, Next)"
| "exec_op K r op OP_MOVE_TMP_VALUE st = (map_ctx op_move_tmp_value st, Next)"
| "exec_op K r op OP_SET_TMP_VALUE st = (map_ctx op_set_tmp_value st, Next)"
| "exec_op K r op OP_FOR_BREAK st = (map_ctx op_for_break st, Next)"
| "exec_op K r op OP_SET_BREAK_COUNT st = (map_ctx (op_set_break_count op) st, Next)"
| "exec_op K r op OP_SET_BREAK_COUNT_REG_VALUE st = (map_ctx op_set_break_count_reg_value st, Next)"
| "exec_op K r op OP_SET_BREAK_COUNT_POINTER_VALUE st =
     (map_ctx op_set_break_count_pointer_value st, Next)"
| "exec_op K r op OP_SAVE_ADDR st = (op_save_addr K st, Next)"
| "exec_op K r op OP_ADD_REG st = (map_ctx op_add_reg st, Next)"
| "exec_op K r op OP_SUB_REG st = (map_ctx op_sub_reg st, Next)"
| "exec_op K r op OP_READ_REG st =
     (let (c, fl) = op_read_reg op r (rs_ctx st) in (st\<lparr>rs_ctx := c\<rparr>, fl))"
| "exec_op K r op OP_READ_RET st = (map_ctx op_read_ret st, Next)"
| "exec_op K r op OP_SAVE_REG st = (op_save_reg K st, Next)"
| "exec_op K r op OP_READ_POINTER st = (map_ctx (op_read_pointer K op) st, Next)"
| "exec_op K r op OP_SAVE_POINTER st = (op_save_pointer K st, Next)"
| "exec_op K r op OP_SAVE_STRUCT st = (op_save_struct K op st, Next)"
| "exec_op K r op OP_FILTER_VALUE st = op_filter_value op st"
| "exec_op K r op OP_FILTER_BUFFER st = op_filter_buffer K op st"
| "exec_op K r op OP_FILTER_STRING st = op_filter_string K op st"
| "exec_op K r op OP_SAVE_STRING st = (op_save_string K st, Next)"
| "exec_op K r op OP_SAVE_PTR_STRING st = (op_save_ptr_string K st, Next)"
| "exec_op K r op OP_READ_STD_STRING st = (map_ctx (op_read_std_string K) st, Next)"

text \<open>A code that is no enumerator takes the \<open>default\<close> branch.\<close>

definition exec_code :: "kenv \<Rightarrow> ctx_regs_t \<Rightarrow> op_config_t \<Rightarrow> rstate \<Rightarrow> rstate \<times> flow" where
  "exec_code K r op st =
     (case op_code_of (op_code (rs_ctx st)) of None \<Rightarrow> (st, Next) | Some c \<Rightarrow> exec_op K r op c st)"

subsection \<open>The loop\<close>

datatype fetched = Fetched op_config_t op_ctx_t | Fetch_return | Fetch_fault

text \<open>The choice at the head of a turn: the pending post-operation of the last one, or a new one.\<close>

definition fetch ::
    "module_kind \<Rightarrow> (u32, op_config_t) hmap \<Rightarrow> point_args_t \<Rightarrow> op_config_t option \<Rightarrow> op_ctx_t \<Rightarrow> fetched" where
  "fetch m ops pa op c =
     (case (if post_code c \<noteq> op_num OP_SKIP then op else None) of
        Some o1 \<Rightarrow> Fetched o1 (c\<lparr>op_code := post_code c, post_code := op_num OP_SKIP\<rparr>)
      | None \<Rightarrow>
          if MAX_OP_COUNT m \<le> unat (op_key_index c) then Fetch_return
          else case nth_opt (op_key_list pa) (unat (op_key_index c)) of
                 None \<Rightarrow> Fetch_fault
               | Some op_key \<Rightarrow>
                   (case bpf_map_lookup_elem ops op_key of
                      None \<Rightarrow> Fetch_return
                    | Some o1 \<Rightarrow>
                        Fetched o1 (c\<lparr>op_code := cfg_code o1, post_code := cfg_post_code o1,
                                      op_key_index := op_key_index c + 1\<rparr>)))"

text \<open>
  How the loop ends: by \<open>break\<close> or after its last turn (then the code below it runs), by
  \<open>return 0\<close>, or by a read out of bounds.
\<close>

datatype loop_end = Loop_done | Loop_return | Loop_fault

fun read_loop ::
    "kenv \<Rightarrow> point_args_t \<Rightarrow> ctx_regs_t \<Rightarrow> nat \<Rightarrow> op_config_t option \<Rightarrow> rstate \<Rightarrow> rstate \<times> loop_end" where
  "read_loop K pa r 0 op st = (st, Loop_done)"
| "read_loop K pa r (Suc n) op st =
     (case fetch (build_module K) (op_list (rs_maps st)) pa op (rs_ctx st) of
        Fetch_return \<Rightarrow> (st, Loop_return)
      | Fetch_fault \<Rightarrow> (st, Loop_fault)
      | Fetched o1 c \<Rightarrow>
          let st1 = st\<lparr>rs_ctx := c\<rparr> in
          if op_code c = op_num OP_SKIP then (st1, Loop_done)
          else case exec_code K r o1 st1 of
                 (st2, Return0) \<Rightarrow> (st2, Loop_return)
               | (st2, Fault) \<Rightarrow> (st2, Loop_fault)
               | (st2, Next) \<Rightarrow>
                   if match_blacklist (rs_ctx st2) = 1 then (st2, Loop_done)
                   else read_loop K pa r n (Some o1) st2)"

text \<open>The skip decision after the loop.\<close>

definition skip_decision :: "op_ctx_t \<Rightarrow> op_ctx_t" where
  "skip_decision c =
     (if match_blacklist c = 1 then c\<lparr>skip_flag := 1\<rparr>
      else if apply_filter c = 1 \<and> match_whitelist c = 0 then c\<lparr>skip_flag := 1\<rparr>
      else c)"

text \<open>\<open>None\<close> is a read out of bounds. The return value is always 0 and no caller looks at it.\<close>

definition read_args :: "kenv \<Rightarrow> point_args_t \<Rightarrow> ctx_regs_t \<Rightarrow> rstate \<Rightarrow> rstate option" where
  "read_args K pa r st =
     (case read_loop K pa r (MAX_OP_COUNT (build_module K))
             (bpf_map_lookup_elem (op_list (rs_maps st)) 0) st of
        (st1, Loop_done) \<Rightarrow> Some (map_ctx skip_decision st1)
      | (st1, Loop_return) \<Rightarrow> Some st1
      | (st1, Loop_fault) \<Rightarrow> None)"

end
