(* ===== verification/Saved_Regs.thy ===== *)
theory Saved_Regs
  imports Kernel_Env
begin

unbundle bit_operations_syntax

text \<open>
  The register snapshots of \<open>src/src/common/arguments.h\<close>: \<open>ctx_regs_map\<close> carries the registers a
  thread had at one event to a later event of the same thread, keyed by the event's number and the
  thread's id.
\<close>

definition cur_tid :: "kenv \<Rightarrow> u32" where
  "cur_tid K = ucast (get_current_pid_tgid K)"

definition regs_key :: "u32 \<Rightarrow> u32 \<Rightarrow> u64" where
  "regs_key event_id t = push_bit 32 (ucast event_id) OR ucast t"

definition save_regs :: "kenv \<Rightarrow> maps \<Rightarrow> ctx_regs_t \<Rightarrow> u32 \<Rightarrow> maps \<times> int" where
  "save_regs K S r event_id =
     (let (ret, m) = bpf_map_update_elem (capacity ''ctx_regs_map'')
                       (regs_key event_id (cur_tid K)) r (ctx_regs_map S)
      in (S\<lparr>ctx_regs_map := m\<rparr>, 0))"

definition load_regs :: "kenv \<Rightarrow> maps \<Rightarrow> ctx_regs_t \<Rightarrow> u32 \<Rightarrow> ctx_regs_t \<times> int" where
  "load_regs K S r event_id =
     (case bpf_map_lookup_elem (ctx_regs_map S) (regs_key event_id (cur_tid K)) of
        None \<Rightarrow> (r, -1)
      | Some s \<Rightarrow>
          (r\<lparr>regs := map (\<lambda>i. regs s ! i) [0..<31], sp := sp s, pc := pc s, flag := flag s\<rparr>, 0))"

definition del_regs :: "kenv \<Rightarrow> maps \<Rightarrow> u32 \<Rightarrow> maps \<times> int" where
  "del_regs K S event_id =
     (S\<lparr>ctx_regs_map := snd (bpf_map_delete_elem (regs_key event_id (cur_tid K)) (ctx_regs_map S))\<rparr>, 0)"

subsection \<open>Keys\<close>

lemma regs_key_inj: "regs_key e t = regs_key e' t' \<longleftrightarrow> e = e' \<and> t = t'"
proof
  assume eq: "regs_key e t = regs_key e' t'"
  have t: "ucast (regs_key e t) = t" for e t :: u32
    by (rule bit_word_eqI) (auto simp: regs_key_def bit_ucast_iff bit_or_iff bit_push_bit_iff)
  have e: "ucast (drop_bit 32 (regs_key e t)) = e" for e t :: u32
    by (rule bit_word_eqI)
      (auto simp: regs_key_def bit_ucast_iff bit_or_iff bit_push_bit_iff bit_drop_bit_eq
        possible_bit_word dest: bit_imp_le_length)
  show "e = e' \<and> t = t'" using t e eq by metis
qed simp

subsection \<open>Snapshots\<close>

text \<open>The snapshot of a thread under an event number, if there is one.\<close>

definition snapshot :: "maps \<Rightarrow> u32 \<Rightarrow> u32 \<Rightarrow> ctx_regs_t option" where
  "snapshot S event_id t = bpf_map_lookup_elem (ctx_regs_map S) (regs_key event_id t)"

definition snapshot_room :: "maps \<Rightarrow> bool" where
  "snapshot_room S \<longleftrightarrow> length (ctx_regs_map S) < capacity ''ctx_regs_map''"

lemma copy_regs: "wf_ctx_regs s \<Longrightarrow> map (\<lambda>i. regs s ! i) [0..<31] = regs s"
  unfolding wf_ctx_regs_def by (metis map_nth)

lemma load_regs_Some:
  assumes "snapshot S e (cur_tid K) = Some s" and "wf_ctx_regs s"
  shows "load_regs K S r e = (s, 0)"
  using assms by (simp add: load_regs_def snapshot_def copy_regs)

lemma load_regs_None:
  "snapshot S e (cur_tid K) = None \<Longrightarrow> load_regs K S r e = (r, -1)"
  by (simp add: load_regs_def snapshot_def)

lemma load_regs_status: "snd (load_regs K S r e) = 0 \<longleftrightarrow> snapshot S e (cur_tid K) \<noteq> None"
  by (auto simp: load_regs_def snapshot_def split: option.splits)

lemma snapshot_save_same:
  assumes "snapshot_room S \<or> snapshot S e (cur_tid K) \<noteq> None"
  shows "snapshot (fst (save_regs K S r e)) e (cur_tid K) = Some r"
proof -
  have "fst (bpf_map_update_elem 1024 (regs_key e (cur_tid K)) r (ctx_regs_map S)) = 0"
    using assms
    by (auto simp: snapshot_room_def snapshot_def bpf_map_lookup_elem_def bpf_map_update_elem_def)
  then show ?thesis
    by (simp add: save_regs_def snapshot_def case_prod_unfold Let_def hm.update_same)
qed

lemma snapshot_save_other:
  "(e', t') \<noteq> (e, cur_tid K) \<Longrightarrow> snapshot (fst (save_regs K S r e)) e' t' = snapshot S e' t'"
  by (auto simp: save_regs_def snapshot_def case_prod_unfold Let_def hm.update_other regs_key_inj)

lemma snapshot_save_full:
  assumes "\<not> snapshot_room S" and "snapshot S e (cur_tid K) = None"
  shows "ctx_regs_map (fst (save_regs K S r e)) = ctx_regs_map S"
  using assms
  by (auto simp: save_regs_def snapshot_room_def snapshot_def case_prod_unfold Let_def
    bpf_map_update_elem_def bpf_map_lookup_elem_def)

lemma snapshot_del:
  "snapshot (fst (del_regs K S e)) e' t' =
    (if e' = e \<and> t' = cur_tid K then None else snapshot S e' t')"
  by (auto simp: del_regs_def snapshot_def hm.delete_lookup regs_key_inj)

lemma save_regs_frame:
  "fst (save_regs K S r e) = S\<lparr>ctx_regs_map := ctx_regs_map (fst (save_regs K S r e))\<rparr>"
  by (simp add: save_regs_def case_prod_unfold Let_def)

lemma del_regs_frame:
  "fst (del_regs K S e) = S\<lparr>ctx_regs_map := ctx_regs_map (fst (del_regs K S e))\<rparr>"
  by (simp add: del_regs_def)

end
