(* ===== verification/Filtering.thy ===== *)
theory Filtering
  imports Kernel_Env
begin

unbundle bit_operations_syntax

text \<open>
  The trace decision, \<open>should_trace\<close> of \<open>src/src/common/filtering.h\<close>, and the fork table of
  \<open>tracepoint__sched__sched_process_fork\<close> (the same function in \<open>stack.c\<close> and \<open>syscall.c\<close>). The
  decision is compared with a policy over sets of ids: they agree as long as the ids fit the ranges
  of \<open>common_list\<close>, and a concrete collision shows what happens when they do not.
\<close>

subsection \<open>The decision\<close>

definition in_common_list :: "maps \<Rightarrow> u32 \<Rightarrow> bool" where
  "in_common_list S k \<longleftrightarrow> bpf_map_lookup_elem (common_list S) k \<noteq> None"

definition in_group :: "common_filter_t \<Rightarrow> u32 \<Rightarrow> bool" where
  "in_group f g \<longleftrightarrow> trace_uid_group f AND g = g"

text \<open>The part of \<open>should_trace\<close> that looks at the user groups.\<close>

definition trace_by_group :: "common_filter_t \<Rightarrow> u32 \<Rightarrow> bool" where
  "trace_by_group f u =
     (if in_group f GROUP_ROOT \<and> u = 0 then True
      else if in_group f GROUP_SYSTEM \<and> u = 1000 then True
      else if in_group f GROUP_SHELL \<and> u = 2000 then True
      else if in_group f GROUP_APP \<and> 10000 \<le> u \<and> u \<le> 19999 then True
      else if in_group f GROUP_ISO \<and> 99000 \<le> u \<and> u \<le> 99999 then True
      else False)"

text \<open>The part that looks at the id lists, once the thread's name has not decided.\<close>

definition trace_by_id :: "maps \<Rightarrow> event_context_t \<Rightarrow> bool" where
  "trace_by_id S c =
     (if in_common_list S (TID_BLACKLIST_START + tid c) then False
      else if in_common_list S (TID_WHITELIST_START + tid c) then True
      else if in_common_list S (PID_BLACKLIST_START + pid c) then False
      else if in_common_list S (PID_WHITELIST_START + pid c) then True
      else if bpf_map_lookup_elem (child_parent_map S) (pid c) \<noteq> None then True
      else if in_common_list S (UID_BLACKLIST_START + uid c) then False
      else if in_common_list S (UID_WHITELIST_START + uid c) then True
      else case bpf_map_lookup_elem (common_filter S) 0 of
             None \<Rightarrow> False
           | Some f \<Rightarrow> trace_by_group f (uid c))"

definition should_trace :: "maps \<Rightarrow> program_data_t \<Rightarrow> bool" where
  "should_trace S p =
     (let config = pd_config p; c = ev_context (pd_event p) in
      if stackplz_pid config = pid c then False
      else
        let thread_name_flag = bpf_map_lookup_elem (thread_filter S) \<lparr>thread_name = comm c\<rparr> in
        if thread_whitelist config = 1 \<and> thread_name_flag = None then False
        else case thread_name_flag of
               Some v \<Rightarrow>
                 (if v = THREAD_NAME_BLACKLIST then False
                  else if v = THREAD_NAME_WHITELIST then True
                  else trace_by_id S c)
             | None \<Rightarrow> trace_by_id S c)"

lemma should_trace_own_process:
  "stackplz_pid (pd_config p) = pid (ev_context (pd_event p)) \<Longrightarrow> \<not> should_trace S p"
  by (simp add: should_trace_def Let_def)

lemma should_trace_name:
  assumes "bpf_map_lookup_elem (thread_filter S) \<lparr>thread_name = comm (ev_context (pd_event p))\<rparr> = Some v"
    and "stackplz_pid (pd_config p) \<noteq> pid (ev_context (pd_event p))"
  shows "v = THREAD_NAME_BLACKLIST \<Longrightarrow> \<not> should_trace S p"
    and "v = THREAD_NAME_WHITELIST \<Longrightarrow> should_trace S p"
  using assms by (auto simp: should_trace_def Let_def const_simps)

subsection \<open>The lists user space builds\<close>

text \<open>
  \<open>update_common_list\<close> of \<open>user/module/stack.go\<close>: each item is shifted by the list's offset and
  stored; an update that fails panics.
\<close>

fun update_common_list :: "u32 list \<Rightarrow> u32 \<Rightarrow> (u32, u32) hmap \<Rightarrow> (u32, u32) hmap option" where
  "update_common_list [] off m = Some m"
| "update_common_list (v # vs) off m =
     (let (err, m') = bpf_map_update_elem 1024 (v + off) (v + off) m
      in if err \<noteq> 0 then None else update_common_list vs off m')"

record filter_conf =
  UidWhitelist :: "u32 list"
  UidBlacklist :: "u32 list"
  PidWhitelist :: "u32 list"
  PidBlacklist :: "u32 list"
  TidWhitelist :: "u32 list"
  TidBlacklist :: "u32 list"

definition update_common_filter :: "filter_conf \<Rightarrow> (u32, u32) hmap \<Rightarrow> (u32, u32) hmap option" where
  "update_common_filter cf m0 =
     Option.bind (update_common_list (UidWhitelist cf) UID_WHITELIST_START m0) (\<lambda>m1.
     Option.bind (update_common_list (UidBlacklist cf) UID_BLACKLIST_START m1) (\<lambda>m2.
     Option.bind (update_common_list (PidWhitelist cf) PID_WHITELIST_START m2) (\<lambda>m3.
     Option.bind (update_common_list (PidBlacklist cf) PID_BLACKLIST_START m3) (\<lambda>m4.
     Option.bind (update_common_list (TidWhitelist cf) TID_WHITELIST_START m4) (\<lambda>m5.
     update_common_list (TidBlacklist cf) TID_BLACKLIST_START m5)))))"

lemma update_common_list_dom:
  "update_common_list vs off m = Some m' \<Longrightarrow>
    (bpf_map_lookup_elem m' k \<noteq> None \<longleftrightarrow> bpf_map_lookup_elem m k \<noteq> None \<or> k \<in> (\<lambda>v. v + off) ` set vs)"
proof (induction vs arbitrary: m)
  case (Cons v vs)
  let ?u = "bpf_map_update_elem 1024 (v + off) (v + off) m"
  from Cons.prems have ok: "fst ?u = 0" and rest: "update_common_list vs off (snd ?u) = Some m'"
    by (auto simp: case_prod_unfold Let_def split: if_splits)
  show ?case
    using Cons.IH [OF rest] hm.update_lookup [OF ok, of k] by auto
qed simp

definition common_keys :: "filter_conf \<Rightarrow> u32 set" where
  "common_keys cf =
     (\<lambda>v. v + UID_WHITELIST_START) ` set (UidWhitelist cf) \<union>
     (\<lambda>v. v + UID_BLACKLIST_START) ` set (UidBlacklist cf) \<union>
     (\<lambda>v. v + PID_WHITELIST_START) ` set (PidWhitelist cf) \<union>
     (\<lambda>v. v + PID_BLACKLIST_START) ` set (PidBlacklist cf) \<union>
     (\<lambda>v. v + TID_WHITELIST_START) ` set (TidWhitelist cf) \<union>
     (\<lambda>v. v + TID_BLACKLIST_START) ` set (TidBlacklist cf)"

lemma update_common_filter_keys:
  assumes "update_common_filter cf [] = Some m"
  shows "bpf_map_lookup_elem m k \<noteq> None \<longleftrightarrow> k \<in> common_keys cf"
proof -
  from assms obtain m1 m2 m3 m4 m5 where
    "update_common_list (UidWhitelist cf) UID_WHITELIST_START [] = Some m1"
    "update_common_list (UidBlacklist cf) UID_BLACKLIST_START m1 = Some m2"
    "update_common_list (PidWhitelist cf) PID_WHITELIST_START m2 = Some m3"
    "update_common_list (PidBlacklist cf) PID_BLACKLIST_START m3 = Some m4"
    "update_common_list (TidWhitelist cf) TID_WHITELIST_START m4 = Some m5"
    "update_common_list (TidBlacklist cf) TID_BLACKLIST_START m5 = Some m"
    unfolding update_common_filter_def by (auto simp: bind_eq_Some_conv)
  then show ?thesis
    by (simp only: update_common_list_dom common_keys_def Un_iff)
      (simp add: bpf_map_lookup_elem_def disj_ac)
qed

subsection \<open>The ranges\<close>

definition list_start :: "nat \<Rightarrow> u32" where
  "list_start j = of_nat (1024 * j)"

lemma start_offsets:
  "UID_WHITELIST_START = list_start 3" "UID_BLACKLIST_START = list_start 4"
  "PID_WHITELIST_START = list_start 5" "PID_BLACKLIST_START = list_start 6"
  "TID_WHITELIST_START = list_start 7" "TID_BLACKLIST_START = list_start 8"
  by (simp_all add: const_simps list_start_def)

lemma key_of_small:
  assumes "unat v < 1024" and "j < 10"
  shows "unat (v + list_start j) = 1024 * j + unat v"
proof -
  have "unat (list_start j) = 1024 * j"
    using assms(2) by (simp add: list_start_def unat_of_nat del: of_nat_mult)
  then show ?thesis using assms unat_add_small [of v "list_start j"] by simp
qed

lemma small_keys_disjoint:
  assumes "unat v < 1024" "unat w < 1024" "i < 10" "j < 10"
  shows "v + list_start i = w + list_start j \<longleftrightarrow> i = j \<and> v = w"
proof
  assume "v + list_start i = w + list_start j"
  then have eq: "1024 * i + unat v = 1024 * j + unat w"
    using key_of_small [OF assms(1,3)] key_of_small [OF assms(2,4)] by simp
  have "i = (1024 * i + unat v) div 1024" using assms(1) by simp
  also have "\<dots> = j" using assms(2) by (simp add: eq)
  finally have "i = j" .
  with eq show "i = j \<and> v = w" by (simp add: word_unat_eq_iff)
qed simp

text \<open>The assumption stated where the ranges are defined: 1024 ids are enough.\<close>

definition small_conf :: "filter_conf \<Rightarrow> bool" where
  "small_conf cf \<longleftrightarrow> (\<forall>vs \<in> {UidWhitelist cf, UidBlacklist cf, PidWhitelist cf, PidBlacklist cf,
     TidWhitelist cf, TidBlacklist cf}. \<forall>v \<in> set vs. unat v < 1024)"

lemma in_small_image:
  assumes "unat w < 1024" "i < 10" "j < 10" "\<forall>v \<in> set vs. unat v < 1024"
  shows "w + list_start i \<in> (\<lambda>v. v + list_start j) ` set vs \<longleftrightarrow> i = j \<and> w \<in> set vs"
  using assms small_keys_disjoint [OF assms(1) _ assms(2,3)] by (auto simp: image_iff)

lemma small_key_lookup:
  assumes "small_conf cf" and "unat w < 1024"
  shows "UID_WHITELIST_START + w \<in> common_keys cf \<longleftrightarrow> w \<in> set (UidWhitelist cf)"
    and "UID_BLACKLIST_START + w \<in> common_keys cf \<longleftrightarrow> w \<in> set (UidBlacklist cf)"
    and "PID_WHITELIST_START + w \<in> common_keys cf \<longleftrightarrow> w \<in> set (PidWhitelist cf)"
    and "PID_BLACKLIST_START + w \<in> common_keys cf \<longleftrightarrow> w \<in> set (PidBlacklist cf)"
    and "TID_WHITELIST_START + w \<in> common_keys cf \<longleftrightarrow> w \<in> set (TidWhitelist cf)"
    and "TID_BLACKLIST_START + w \<in> common_keys cf \<longleftrightarrow> w \<in> set (TidBlacklist cf)"
  using assms unfolding small_conf_def
  by (simp_all add: common_keys_def start_offsets add.commute [of "list_start _" w] in_small_image)

subsection \<open>The policy over sets\<close>

text \<open>What the options promise: the first list that names the process decides, then the user group.\<close>

definition policy_by_id :: "filter_conf \<Rightarrow> u32 set \<Rightarrow> common_filter_t \<Rightarrow> event_context_t \<Rightarrow> bool" where
  "policy_by_id cf forked f c \<longleftrightarrow>
     tid c \<notin> set (TidBlacklist cf) \<and>
     (tid c \<in> set (TidWhitelist cf) \<or>
      pid c \<notin> set (PidBlacklist cf) \<and>
      (pid c \<in> set (PidWhitelist cf) \<or> pid c \<in> forked \<or>
       uid c \<notin> set (UidBlacklist cf) \<and>
       (uid c \<in> set (UidWhitelist cf) \<or> trace_by_group f (uid c))))"

definition forked_pids :: "maps \<Rightarrow> u32 set" where
  "forked_pids S = {q. bpf_map_lookup_elem (child_parent_map S) q \<noteq> None}"

lemma trace_by_id_policy:
  assumes "update_common_filter cf [] = Some (common_list S)" and "small_conf cf"
    and "bpf_map_lookup_elem (common_filter S) 0 = Some f"
    and "unat (tid c) < 1024" "unat (pid c) < 1024" "unat (uid c) < 1024"
  shows "trace_by_id S c = policy_by_id cf (forked_pids S) f c"
proof -
  have "in_common_list S k \<longleftrightarrow> k \<in> common_keys cf" for k
    using update_common_filter_keys [OF assms(1)] by (simp add: in_common_list_def)
  then show ?thesis
    using assms(3-6)
    by (simp add: trace_by_id_def policy_by_id_def forked_pids_def small_key_lookup [OF assms(2)])
qed

text \<open>Outside the ranges the lists run into each other: whitelisting a thread blacklists another.\<close>

lemma tid_whitelist_collides: "TID_WHITELIST_START + (t + 0x400) = TID_BLACKLIST_START + t"
  by (simp add: const_simps)

lemma uid_whitelist_collides: "UID_WHITELIST_START + (q + 0x800) = PID_WHITELIST_START + q"
  by (simp add: const_simps)

subsection \<open>Forked processes\<close>

definition sched_process_fork :: "kenv \<Rightarrow> maps \<Rightarrow> u64 \<Rightarrow> maps" where
  "sched_process_fork K S ctx =
     (case init_program_data K S ctx of
        (S1, None) \<Rightarrow> S1
      | (S1, Some p) \<Rightarrow>
          let parent = raw_arg K ctx 0;
              child = raw_arg K ctx 1;
              parent_ns_pid = get_task_ns_pid K parent;
              child_ns_pid = get_task_ns_pid K child
          in case bpf_map_lookup_elem (child_parent_map S1) parent_ns_pid of
               None \<Rightarrow> S1
             | Some q \<Rightarrow>
                 if q = parent_ns_pid
                 then S1\<lparr>child_parent_map := snd (bpf_map_update_elem (capacity ''child_parent_map'')
                        child_ns_pid parent_ns_pid (child_parent_map S1))\<rparr>
                 else S1\<lparr>trace_pipe := trace_pipe S1 @ [q]\<rparr>)"

text \<open>The effect on the table, with the two pids as they were read.\<close>

definition fork_entry :: "u32 \<Rightarrow> u32 \<Rightarrow> (u32, u32) hmap \<Rightarrow> (u32, u32) hmap" where
  "fork_entry parent child m =
     (if bpf_map_lookup_elem m parent = Some parent
      then snd (bpf_map_update_elem (capacity ''child_parent_map'') child parent m) else m)"

definition fork_pids :: "kenv \<Rightarrow> u64 \<Rightarrow> u32 \<times> u32" where
  "fork_pids K ctx =
     (get_task_ns_pid K (raw_arg K ctx 0), get_task_ns_pid K (raw_arg K ctx 1))"

lemma init_program_data_child_parent:
  "child_parent_map (fst (init_program_data K S ctx)) = child_parent_map S"
  by (auto simp: init_program_data_def Let_def split: option.splits prod.splits)

lemma sched_process_fork_table:
  "child_parent_map (sched_process_fork K S ctx) =
    (if snd (init_program_data K S ctx) = None then child_parent_map S
     else fork_entry (fst (fork_pids K ctx)) (snd (fork_pids K ctx)) (child_parent_map S))"
  using init_program_data_child_parent [of K S ctx]
  by (auto simp: sched_process_fork_def fork_entry_def fork_pids_def Let_def
    split: prod.splits option.splits)

text \<open>
  Only the pids that user space entered (which map to themselves) are parents: a table all of whose
  other entries point at such a root keeps that shape.
\<close>

definition fork_inv :: "(u32, u32) hmap \<Rightarrow> bool" where
  "fork_inv m \<longleftrightarrow> (\<forall>q r. bpf_map_lookup_elem m q = Some r \<longrightarrow> bpf_map_lookup_elem m r = Some r)"

text \<open>
  The one case that breaks it: the child of a root is a root that another entry points at. Nothing
  takes an entry out of the table when its process ends, so a number that is used again is such a child.
\<close>

definition fork_breaks :: "u32 \<Rightarrow> u32 \<Rightarrow> (u32, u32) hmap \<Rightarrow> bool" where
  "fork_breaks parent child m \<longleftrightarrow>
     bpf_map_lookup_elem m parent = Some parent \<and> child \<noteq> parent \<and>
     (\<exists>q. q \<noteq> child \<and> bpf_map_lookup_elem m q = Some child)"

lemma fork_entry_inv:
  assumes "fork_inv m"
  shows "fork_inv (fork_entry parent child m) \<longleftrightarrow> \<not> fork_breaks parent child m"
proof (cases "bpf_map_lookup_elem m parent = Some parent")
  case True
  let ?u = "bpf_map_update_elem 512 child parent m"
  show ?thesis
  proof (cases "fst ?u = 0")
    case ok: True
    then show ?thesis
      using assms True hm.update_lookup [OF ok]
      by (auto simp: fork_inv_def fork_entry_def fork_breaks_def split: if_splits)
  next
    case False
    then have "bpf_map_lookup_elem m child = None"
      by (auto simp: bpf_map_update_elem_def bpf_map_lookup_elem_def split: if_splits)
    then have "\<not> fork_breaks parent child m" using assms by (auto simp: fork_breaks_def fork_inv_def)
    then show ?thesis using assms True hm.update_fail [OF False] by (simp add: fork_entry_def)
  qed
qed (use assms in \<open>simp add: fork_entry_def fork_breaks_def\<close>)

lemma fork_entry_grandchild:
  assumes "bpf_map_lookup_elem m child = Some parent" and "child \<noteq> parent"
  shows "fork_entry child grandchild m = m"
  using assms by (simp add: fork_entry_def)

text \<open>The whole decision of \<open>should_trace\<close> over the configuration of user space.\<close>

definition trace_policy ::
    "filter_conf \<Rightarrow> u32 set \<Rightarrow> common_filter_t \<Rightarrow> (thread_name_t \<Rightarrow> u32 option) \<Rightarrow> config_entry_t \<Rightarrow> event_context_t \<Rightarrow> bool" where
  "trace_policy cf forked f names cfg c \<longleftrightarrow>
     stackplz_pid cfg \<noteq> pid c \<and>
     (case names \<lparr>thread_name = comm c\<rparr> of
        None \<Rightarrow> thread_whitelist cfg \<noteq> 1 \<and> policy_by_id cf forked f c
      | Some v \<Rightarrow> v = THREAD_NAME_WHITELIST \<or> v \<noteq> THREAD_NAME_BLACKLIST \<and> policy_by_id cf forked f c)"

lemma should_trace_policy:
  assumes "update_common_filter cf [] = Some (common_list S)" and "small_conf cf"
    and "bpf_map_lookup_elem (common_filter S) 0 = Some f"
    and "unat (tid (ev_context (pd_event p))) < 1024" "unat (pid (ev_context (pd_event p))) < 1024"
      "unat (uid (ev_context (pd_event p))) < 1024"
  shows "should_trace S p = trace_policy cf (forked_pids S) f (bpf_map_lookup_elem (thread_filter S))
    (pd_config p) (ev_context (pd_event p))"
  using trace_by_id_policy [OF assms]
  by (auto simp: should_trace_def trace_policy_def Let_def const_simps split: option.split)

end
