(* ===== verification/Probe.thy ===== *)
theory Probe
  imports Read_Args Saved_Regs Filtering
begin

unbundle bit_operations_syntax

text \<open>
  The blocks that the four probe programs of \<open>src/src/stack.c\<close> and \<open>src/src/syscall.c\<close> have in
  common: copying the registers out of \<open>pt_regs\<close>, saving the call site, preparing the reader's
  context, running the reader, submitting the event and sending the signals.
\<close>

subsection \<open>Registers\<close>

text \<open>The zero-initialised snapshot, filled from a \<open>pt_regs\<close> at an address.\<close>

definition copy_pt_regs :: "kenv \<Rightarrow> u64 \<Rightarrow> ctx_regs_t" where
  "copy_pt_regs K a =
     \<lparr>regs = map (\<lambda>i. READ_KERN K 8 (a + core_off K Regs_regs + 8 * of_nat i)) [0..<31],
      sp = READ_KERN K 8 (a + core_off K Regs_sp), pc = READ_KERN K 8 (a + core_off K Regs_pc),
      flag = 0\<rparr>"

definition zero_ctx_regs :: ctx_regs_t where
  "zero_ctx_regs = \<lparr>regs = replicate 31 0, sp = 0, pc = 0, flag = 0\<rparr>"

lemma wf_copy_pt_regs [simp]: "wf_ctx_regs (copy_pt_regs K a)"
  by (simp add: wf_ctx_regs_def copy_pt_regs_def)

text \<open>\<open>u64 v = 0; bpf_probe_read_kernel(&v, sizeof(v), addr)\<close>.\<close>

definition read_kernel_u64 :: "kenv \<Rightarrow> u64 \<Rightarrow> u64" where
  "read_kernel_u64 K a = le_word (overlay (replicate 8 0) (snd (mem_probe_read_kernel K a 8)))"

subsection \<open>The call site\<close>

definition save_value_u64 :: "kenv \<Rightarrow> u64 \<Rightarrow> u8 \<Rightarrow> event_data_t \<Rightarrow> event_data_t" where
  "save_value_u64 K v idx e = fst (save_to_submit_buf K e (Obj (le_bytes 8 v)) 8 idx)"

definition save_value_u32 :: "kenv \<Rightarrow> u32 \<Rightarrow> u8 \<Rightarrow> event_data_t \<Rightarrow> event_data_t" where
  "save_value_u32 K v idx e = fst (save_to_submit_buf K e (Obj (le_bytes 4 v)) 4 idx)"

text \<open>Link register, stack pointer and program counter: arguments 1, 2 and 3.\<close>

definition call_site_lr :: "kenv \<Rightarrow> common_filter_t \<Rightarrow> u64 \<Rightarrow> u64" where
  "call_site_lr K f a =
     (if is_32bit f \<noteq> 0 then read_kernel_u64 K (a + core_off K Regs_regs + 8 * 14)
      else read_kernel_u64 K (a + core_off K Regs_regs + 8 * 30))"

definition call_site_sp :: "kenv \<Rightarrow> common_filter_t \<Rightarrow> u64 \<Rightarrow> u64" where
  "call_site_sp K f a =
     (if is_32bit f \<noteq> 0 then read_kernel_u64 K (a + core_off K Regs_regs + 8 * 13)
      else read_kernel_u64 K (a + core_off K Regs_sp))"

definition call_site_pc :: "kenv \<Rightarrow> u64 \<Rightarrow> u64" where
  "call_site_pc K a = read_kernel_u64 K (a + core_off K Regs_pc)"

definition save_call_site :: "kenv \<Rightarrow> common_filter_t \<Rightarrow> u64 \<Rightarrow> event_data_t \<Rightarrow> event_data_t" where
  "save_call_site K f a e =
     save_value_u64 K (call_site_pc K a) 3
       (save_value_u64 K (call_site_sp K f a) 2
         (save_value_u64 K (call_site_lr K f a) 1 e))"

subsection \<open>The reader's context\<close>

text \<open>
  \<open>__builtin_memset((void *)op_ctx, 0, sizeof(op_ctx))\<close>: \<open>op_ctx\<close> is a pointer, so the size is 8
  and only the eight leading \<open>u8\<close> fields are cleared.
\<close>

definition sizeof_op_ctx_pointer :: nat where [const_simps]: "sizeof_op_ctx_pointer = 8"

definition memset_op_ctx :: "op_ctx_t \<Rightarrow> op_ctx_t" where
  "memset_op_ctx c = c\<lparr>save_index := 0, reg_index := 0, loop_count := 0, break_count := 0,
     apply_filter := 0, skip_flag := 0, match_whitelist := 0, match_blacklist := 0\<rparr>"

definition start_op_ctx :: "u64 \<Rightarrow> u8 \<Rightarrow> op_ctx_t \<Rightarrow> op_ctx_t" where
  "start_op_ctx v idx c = (memset_op_ctx c)\<lparr>reg_0 := v, save_index := idx, op_key_index := 0\<rparr>"

definition put_op_ctx :: "maps \<Rightarrow> u32 \<Rightarrow> op_ctx_t \<Rightarrow> maps" where
  "put_op_ctx S i c = S\<lparr>op_ctx_map := (op_ctx_map S)[unat i := c]\<rparr>"

text \<open>
  Running the reader (when \<open>run\<close>) and testing \<open>skip_flag\<close>: the new maps, event and context, and
  whether the event is to be skipped.
\<close>

definition run_reader ::
    "kenv \<Rightarrow> bool \<Rightarrow> point_args_t \<Rightarrow> ctx_regs_t \<Rightarrow> rstate \<Rightarrow> (rstate \<times> bool) option" where
  "run_reader K run pa r st =
     (case (if run then read_args K pa r st else Some st) of
        None \<Rightarrow> None
      | Some st1 \<Rightarrow>
          if skip_flag (rs_ctx st1) \<noteq> 0
          then Some (map_ctx (\<lambda>c. c\<lparr>skip_flag := 0\<rparr>) st1, True) else Some (st1, False))"

text \<open>The state once the pointers are dropped: event and context are back in their maps.\<close>

definition close_reader :: "u32 \<Rightarrow> rstate \<Rightarrow> maps" where
  "close_reader i st = put_op_ctx (put_event (rs_maps st) (rs_event st)) i (rs_ctx st)"

subsection \<open>Submitting and signalling\<close>

definition submit_event :: "kenv \<Rightarrow> u32 \<Rightarrow> rstate \<Rightarrow> rstate" where
  "submit_event K i st =
     (let (e, bs, ret) = events_perf_submit K (rs_event st) i
      in st\<lparr>rs_event := e,
            rs_maps := (if ret = 0
                        then (rs_maps st)\<lparr>perf_events := perf_events (rs_maps st) @ [bs]\<rparr>
                        else rs_maps st)\<rparr>)"

definition send_signals :: "common_filter_t \<Rightarrow> point_args_t \<Rightarrow> maps \<Rightarrow> maps" where
  "send_signals f pa S =
     S\<lparr>signals := signals S
        @ (if 0 < signal f then [Send_signal (signal f)] else [])
        @ (if 0 < tsignal f then [Send_signal_thread (tsignal f)] else [])
        @ (if 0 < point_signal pa then [Send_signal_thread (point_signal pa)] else [])\<rparr>"

end
