(* ===== verification/Stack_Probe.thy ===== *)
theory Stack_Probe
  imports Probe
begin

unbundle bit_operations_syntax

text \<open>
  The uprobe and uretprobe programs of \<open>src/src/stack.c\<close>. A program takes the environment, the maps
  and the address of its \<open>pt_regs\<close>, and returns the maps it leaves; \<open>None\<close> is a read out of bounds.
\<close>

subsection \<open>Entry\<close>

text \<open>
  The registers an entry point reads with: the current ones (kept for a later point when this is
  the point's own entry), or those kept by the entry point it names, which are used up. \<open>None\<close> is
  the early return.
\<close>

definition probe_stack_regs ::
    "kenv \<Rightarrow> maps \<Rightarrow> point_args_t \<Rightarrow> u32 \<Rightarrow> ctx_regs_t \<Rightarrow> (maps \<times> ctx_regs_t) option" where
  "probe_stack_regs K S pa point_key saved =
     (if enter_key pa = 0 then Some (S, saved)
      else if enter_key pa = point_key + 1
      then Some (fst (save_regs K S saved (UPROBE_ENTER + point_key + 1)), saved)
      else
        let (r, status) = load_regs K S saved (UPROBE_ENTER + enter_key pa)
        in if status \<noteq> 0 then None
           else Some (fst (del_regs K S (UPROBE_ENTER + enter_key pa)), r))"

definition probe_stack_warp :: "kenv \<Rightarrow> maps \<Rightarrow> u64 \<Rightarrow> u32 \<Rightarrow> maps option" where
  "probe_stack_warp K S0 ctx point_key =
     (case init_program_data K S0 ctx of
        (S, None) \<Rightarrow> Some S
      | (S, Some p) \<Rightarrow>
          if \<not> should_trace S p then Some S
          else case bpf_map_lookup_elem (uprobe_point_args S) point_key of
            None \<Rightarrow> Some S
          | Some pa \<Rightarrow>
            (case bpf_map_lookup_elem (common_filter S) 0 of
               None \<Rightarrow> Some S
             | Some f \<Rightarrow>
               (case probe_stack_regs K S pa point_key (copy_pt_regs K ctx) of
                  None \<Rightarrow> Some S
                | Some (S1, saved) \<Rightarrow>
                  let e = save_call_site K f ctx (save_value_u32 K point_key 0 (pd_event p))
                  in case array_lookup_elem (op_ctx_map S1) 0 of
                       None \<Rightarrow> Some (put_event S1 e)
                     | Some c \<Rightarrow>
                       (case run_reader K True pa saved
                               \<lparr>rs_maps = S1, rs_event = e, rs_ctx = start_op_ctx (regs saved ! 0) 4 c\<rparr> of
                          None \<Rightarrow> None
                        | Some (st, True) \<Rightarrow> Some (close_reader 0 st)
                        | Some (st, False) \<Rightarrow>
                            Some (send_signals f pa (close_reader 0 (submit_event K UPROBE_ENTER st)))))))"

subsection \<open>Return\<close>

definition uretprobe_stack_regs ::
    "kenv \<Rightarrow> maps \<Rightarrow> point_args_t \<Rightarrow> u64 \<Rightarrow> (maps \<times> ctx_regs_t) option" where
  "uretprobe_stack_regs K S pa ctx =
     (if enter_key pa \<noteq> 0
      then let (r, status) = load_regs K S zero_ctx_regs (UPROBE_ENTER + enter_key pa)
           in if status \<noteq> 0 then None
              else Some (fst (del_regs K S (UPROBE_ENTER + enter_key pa)), r)
      else Some (S, copy_pt_regs K ctx))"

definition uretprobe_stack_warp :: "kenv \<Rightarrow> maps \<Rightarrow> u64 \<Rightarrow> u32 \<Rightarrow> maps option" where
  "uretprobe_stack_warp K S0 ctx point_key =
     (case init_program_data K S0 ctx of
        (S, None) \<Rightarrow> Some S
      | (S, Some p) \<Rightarrow>
          if \<not> should_trace S p then Some S
          else case bpf_map_lookup_elem (uretprobe_point_args S) point_key of
            None \<Rightarrow> Some S
          | Some pa \<Rightarrow>
            (case bpf_map_lookup_elem (common_filter S) 0 of
               None \<Rightarrow> Some S
             | Some f \<Rightarrow>
               (case uretprobe_stack_regs K S pa ctx of
                  None \<Rightarrow> Some S
                | Some (S1, saved) \<Rightarrow>
                  let ret_value = READ_KERN K 8 (ctx + core_off K Regs_regs);
                      e = save_call_site K f ctx (save_value_u32 K point_key 0 (pd_event p))
                  in case array_lookup_elem (op_ctx_map S1) 0 of
                       None \<Rightarrow> Some (put_event S1 e)
                     | Some c \<Rightarrow>
                       (case run_reader K (0 < op_count pa) pa saved
                               \<lparr>rs_maps = S1, rs_event = e, rs_ctx = start_op_ctx ret_value 4 c\<rparr> of
                          None \<Rightarrow> None
                        | Some (st, True) \<Rightarrow> Some (close_reader 0 st)
                        | Some (st, False) \<Rightarrow>
                            Some (send_signals f pa (close_reader 0 (submit_event K UPROBE_EXIT st)))))))"

subsection \<open>The programs\<close>

text \<open>\<open>probe_stack_0\<close> and the instances of \<open>PROBE_STACK\<close> and \<open>URETPROBE_STACK\<close>.\<close>

definition stack_point_keys :: "u32 list" where
  "stack_point_keys = [0, 1, 2, 3, 4, 5]"

definition probe_stack :: "nat \<Rightarrow> kenv \<Rightarrow> maps \<Rightarrow> u64 \<Rightarrow> maps option" where
  "probe_stack i K S ctx =
     (case nth_opt stack_point_keys i of None \<Rightarrow> Some S | Some k \<Rightarrow> probe_stack_warp K S ctx k)"

definition uretprobe_stack :: "nat \<Rightarrow> kenv \<Rightarrow> maps \<Rightarrow> u64 \<Rightarrow> maps option" where
  "uretprobe_stack i K S ctx =
     (case nth_opt stack_point_keys i of None \<Rightarrow> Some S | Some k \<Rightarrow> uretprobe_stack_warp K S ctx k)"

end
