(* ===== verification/Reader_Facts.thy ===== *)
theory Reader_Facts
  imports Read_Args "HOL-Library.Sublist"
begin

unbundle bit_operations_syntax

text \<open>
  What the argument reader guarantees for every list of operations: it reads no array out of
  bounds, it only appends whole frames to the submit buffer, numbered in order, and of the maps it
  touches the two scratch maps of the string comparison only.
\<close>

subsection \<open>No read out of bounds\<close>

lemma op_read_reg_no_fault: "wf_ctx_regs r \<Longrightarrow> snd (op_read_reg op r c) \<noteq> Fault"
  by (auto simp: op_read_reg_def Let_def const_simps not_le word_less_nat_alt ctx_regs_at_in_struct
    split: option.splits)

lemma op_filter_no_fault:
  "snd (op_filter_value op st) \<noteq> Fault" "snd (op_filter_buffer K op st) \<noteq> Fault"
  "snd (op_filter_string K op st) \<noteq> Fault"
  by (auto simp: op_filter_value_def op_filter_buffer_def op_filter_string_def Let_def
    split: option.splits prod.splits)

lemma exec_op_no_fault: "wf_ctx_regs r \<Longrightarrow> snd (exec_op K r op oc st) \<noteq> Fault"
  using op_read_reg_no_fault [of r op "rs_ctx st"]
  by (cases oc) (simp_all add: case_prod_unfold Let_def op_filter_no_fault)

lemma exec_code_no_fault: "wf_ctx_regs r \<Longrightarrow> snd (exec_code K r op st) \<noteq> Fault"
  by (simp add: exec_code_def exec_op_no_fault split: option.split)

lemma fetch_no_fault: "wf_point_args m pa \<Longrightarrow> fetch m ops pa op c \<noteq> Fetch_fault"
  by (auto simp: fetch_def wf_point_args_def not_le split: option.splits)

lemma read_loop_no_fault:
  assumes "wf_ctx_regs r" and "wf_point_args (build_module K) pa"
  shows "snd (read_loop K pa r n op st) \<noteq> Loop_fault"
proof (induction n arbitrary: op st)
  case (Suc n)
  have fetched: "fetch (build_module K) ops pa op (rs_ctx st) \<noteq> Fetch_fault" for ops
    by (rule fetch_no_fault [OF assms(2)])
  have exec: "exec_code K r o1 s \<noteq> (s', Fault)" for o1 s s'
    using exec_code_no_fault [OF assms(1), of K o1 s] by auto
  show ?case
    using fetched exec Suc.IH by (auto simp: Let_def split: fetched.splits prod.splits flow.splits)
qed simp

lemma read_args_Some:
  assumes "wf_ctx_regs r" and "wf_point_args (build_module K) pa"
  shows "\<exists>st'. read_args K pa r st = Some st'"
  using read_loop_no_fault [OF assms]
  by (auto simp: read_args_def split: prod.splits loop_end.splits)
    (metis snd_conv)

subsection \<open>What one run may change\<close>

text \<open>The indices of \<open>n\<close> consecutive saves.\<close>

definition index_seq :: "u8 \<Rightarrow> nat \<Rightarrow> u8 list" where
  "index_seq i n = map (\<lambda>k. i + of_nat k) [0..<n]"

lemma index_seq_append: "index_seq i (n + m) = index_seq i n @ index_seq (i + of_nat n) m"
  by (rule nth_equalityI) (auto simp: index_seq_def nth_append algebra_simps)

lemma index_seq_simps [simp]: "index_seq i 0 = []" "index_seq i (Suc 0) = [i]"
  by (simp_all add: index_seq_def)

text \<open>
  \<open>frames_from i fs j\<close>: the frames \<open>fs\<close> were saved while the save index went from \<open>i\<close> to \<open>j\<close>; each
  starts with the index of its own save, in order (a save that finds no room leaves a gap).
\<close>

definition frames_from :: "u8 \<Rightarrow> u8 list list \<Rightarrow> u8 \<Rightarrow> bool" where
  "frames_from i fs j \<longleftrightarrow>
     (\<exists>n. j = i + of_nat n \<and> [] \<notin> set fs \<and> subseq (map hd fs) (index_seq i n))"

lemma frames_from_refl [simp]: "frames_from i [] i"
  by (auto simp: frames_from_def intro: exI [of _ 0])

lemma frames_from_skip [simp]: "frames_from i [] (i + 1)"
  by (auto simp: frames_from_def intro: exI [of _ "Suc 0"])

lemma frames_from_one: "f \<noteq> [] \<Longrightarrow> hd f = i \<Longrightarrow> frames_from i [f] (i + 1)"
  by (auto simp: frames_from_def intro: exI [of _ "Suc 0"])

lemma frames_from_trans:
  assumes "frames_from i fs j" and "frames_from j gs k"
  shows "frames_from i (fs @ gs) k"
proof -
  from assms obtain n m where "j = i + of_nat n" "[] \<notin> set fs" "subseq (map hd fs) (index_seq i n)"
    "k = j + of_nat m" "[] \<notin> set gs" "subseq (map hd gs) (index_seq j m)"
    by (auto simp: frames_from_def)
  then show ?thesis
    by (auto simp: frames_from_def index_seq_append intro!: exI [of _ "n + m"] list_emb_append_mono)
qed

text \<open>Only the scratch maps of the string comparison differ.\<close>

definition scratch_only :: "maps \<Rightarrow> maps \<Rightarrow> bool" where
  "scratch_only S S' \<longleftrightarrow> (\<exists>b m. S' = S\<lparr>str_buf := b, str_buf_map := m\<rparr>) \<and>
     (str_buf S = [] \<longrightarrow> str_buf S' = [])"

lemma scratch_only_refl [simp]: "scratch_only S S"
  unfolding scratch_only_def
  by (intro conjI exI [of _ "str_buf S"] exI [of _ "str_buf_map S"]) simp_all

lemma scratch_only_trans: "scratch_only S S1 \<Longrightarrow> scratch_only S1 S2 \<Longrightarrow> scratch_only S S2"
  unfolding scratch_only_def by (elim conjE exE) (intro conjI impI, fastforce, simp)

lemma scratch_only_op_list: "scratch_only S S' \<Longrightarrow> op_list S' = op_list S"
  by (auto simp: scratch_only_def)

lemma scratch_only_strcmp: "scratch_only S (fst (strcmp_by_map K S oc f))"
  using strcmp_by_map_frame [of K S oc f] strcmp_by_map_restores [of S K oc f]
  unfolding scratch_only_def by blast

definition reads_to :: "rstate \<Rightarrow> rstate \<Rightarrow> bool" where
  "reads_to st st' \<longleftrightarrow>
     (\<exists>fs. appended (rs_event st) (rs_event st') fs \<and>
       frames_from (save_index (rs_ctx st)) fs (save_index (rs_ctx st'))) \<and>
     scratch_only (rs_maps st) (rs_maps st') \<and>
     reg_0 (rs_ctx st') = reg_0 (rs_ctx st)"

lemma reads_toI:
  assumes "appended (rs_event st) (rs_event st') fs"
    and "frames_from (save_index (rs_ctx st)) fs (save_index (rs_ctx st'))"
    and "scratch_only (rs_maps st) (rs_maps st')" and "reg_0 (rs_ctx st') = reg_0 (rs_ctx st)"
  shows "reads_to st st'"
  using assms by (auto simp: reads_to_def)

lemma reads_to_refl [simp]: "reads_to st st"
  by (rule reads_toI [where fs = "[]"]) simp_all

lemma reads_to_trans:
  assumes "reads_to st st1" and "reads_to st1 st2"
  shows "reads_to st st2"
proof -
  from assms obtain fs gs where
    "appended (rs_event st) (rs_event st1) fs"
    "frames_from (save_index (rs_ctx st)) fs (save_index (rs_ctx st1))"
    "appended (rs_event st1) (rs_event st2) gs"
    "frames_from (save_index (rs_ctx st1)) gs (save_index (rs_ctx st2))"
    by (auto simp: reads_to_def)
  moreover have "scratch_only (rs_maps st) (rs_maps st2)"
    using assms scratch_only_trans unfolding reads_to_def by blast
  ultimately show ?thesis
    using assms appended_trans frames_from_trans unfolding reads_to_def by metis
qed

lemma reads_to_map_ctx:
  assumes "save_index (f (rs_ctx st)) = save_index (rs_ctx st)" and "reg_0 (f (rs_ctx st)) = reg_0 (rs_ctx st)"
  shows "reads_to st (map_ctx f st)"
  using assms by (intro reads_toI [where fs = "[]"]) (simp_all add: map_ctx_def)

subsection \<open>Every operation\<close>

lemma frames_from_at_most_one:
  assumes "length fs \<le> 1" and "list_all (\<lambda>f. f \<noteq> [] \<and> hd f = i) fs"
  shows "frames_from i fs (i + 1)"
proof (cases fs)
  case (Cons f gs)
  then show ?thesis using assms by (auto intro: frames_from_one)
qed simp

lemma sized_frame_hd: "sized_frame i n k f \<Longrightarrow> f \<noteq> [] \<and> hd f = i"
  by (auto simp: sized_frame_def)

lemma string_frame_hd: "string_frame i f \<Longrightarrow> f \<noteq> [] \<and> hd f = i"
  by (auto simp: string_frame_def dest: sized_frame_hd)

lemma save_struct_ctx_simps:
  "save_index (save_struct_ctx op c) = save_index c" "reg_0 (save_struct_ctx op c) = reg_0 c"
  by (simp_all add: save_struct_ctx_def op_set_read_count_def Let_def)

context kernel_env
begin

lemma save_u64_reads_to: "reads_to st (save_u64 K v st)"
proof -
  let ?i = "save_index (rs_ctx st)"
  obtain fs where fs: "length fs \<le> 1" "list_all (\<lambda>f. f = ?i # le_bytes 8 v) fs"
    "appended (rs_event st) (fst (save_to_submit_buf K (rs_event st) (Obj (le_bytes 8 v)) 8 ?i)) fs"
    using u64_writer.save_appends by blast
  then have "list_all (\<lambda>f. f \<noteq> [] \<and> hd f = ?i) fs" by (auto simp: list_all_iff)
  then have "frames_from ?i fs (?i + 1)" by (rule frames_from_at_most_one [OF fs(1)])
  then show ?thesis
    using fs(3) by (intro reads_toI [where fs = fs]) (simp_all add: save_u64_def)
qed

lemma bytes_appends:
  "\<exists>fs. length fs \<le> 1 \<and> list_all (\<lambda>f. f \<noteq> [] \<and> hd f = idx) fs \<and>
    appended e (fst (save_bytes_to_buf K e (Addr a) n idx)) fs"
proof -
  obtain fs where "length fs \<le> 1" "list_all (sized_frame idx n (unat (masked_size n))) fs"
    "appended e (fst (save_bytes_to_buf K e (Addr a) n idx)) fs"
    using bytes_writer.save_appends by blast
  then show ?thesis by (auto simp: list_all_iff dest: sized_frame_hd)
qed

text \<open>A save with a fallback frame: at most one of the two frames is committed.\<close>

lemma bytes_or_empty_appends:
  assumes "save_bytes_to_buf K e (Addr a) n idx = (e1, status)"
  shows "\<exists>fs. length fs \<le> 1 \<and> list_all (\<lambda>f. f \<noteq> [] \<and> hd f = idx) fs \<and>
    appended e (if status = 0 then fst (save_bytes_to_buf K e1 (Addr b) m idx) else e1) fs"
proof (cases "status = 0")
  case True
  then have "appended e e1 []" using bytes_writer.save_fail [of e a n idx] assms by simp
  moreover obtain fs where "length fs \<le> 1" "list_all (\<lambda>f. f \<noteq> [] \<and> hd f = idx) fs"
    "appended e1 (fst (save_bytes_to_buf K e1 (Addr b) m idx)) fs"
    using bytes_appends by blast
  ultimately show ?thesis using True appended_trans by fastforce
next
  case False
  then show ?thesis using bytes_appends [of idx e a n] assms by simp
qed

lemma string_or_empty_appends:
  assumes "save_str_to_buf K e (Addr a) idx = (e1, status)"
  shows "\<exists>fs. length fs \<le> 1 \<and> list_all (\<lambda>f. f \<noteq> [] \<and> hd f = idx) fs \<and>
    appended e (if status = 0 then fst (save_bytes_to_buf K e1 (Addr b) m idx) else e1) fs"
proof (cases "status = 0")
  case True
  then have "appended e e1 []" using str_writer.save_fail [of e a idx] assms by simp
  moreover obtain fs where "length fs \<le> 1" "list_all (\<lambda>f. f \<noteq> [] \<and> hd f = idx) fs"
    "appended e1 (fst (save_bytes_to_buf K e1 (Addr b) m idx)) fs"
    using bytes_appends by blast
  ultimately show ?thesis using True appended_trans by fastforce
next
  case False
  obtain fs where "length fs \<le> 1" "list_all (string_frame idx) fs"
    "appended e (fst (save_str_to_buf K e (Addr a) idx)) fs"
    using str_writer.save_appends by blast
  then show ?thesis using False assms by (auto simp: list_all_iff dest: string_frame_hd)
qed

lemma op_save_struct_reads_to: "reads_to st (op_save_struct K op st)"
proof -
  let ?c = "save_struct_ctx op (rs_ctx st)"
  obtain e1 status where sv: "save_bytes_to_buf K (rs_event st) (Addr (read_addr ?c)) (read_len ?c)
      (save_index ?c) = (e1, status)" by fastforce
  obtain fs where fs: "length fs \<le> 1" "list_all (\<lambda>f. f \<noteq> [] \<and> hd f = save_index ?c) fs"
    "appended (rs_event st)
      (if status = 0 then fst (save_bytes_to_buf K e1 (Addr 0) 0 (save_index ?c)) else e1) fs"
    using bytes_or_empty_appends [OF sv] by blast
  show ?thesis
    using fs(3) frames_from_at_most_one [OF fs(1,2)]
    by (intro reads_toI [where fs = fs])
      (simp_all add: op_save_struct_def Let_def sv [unfolded save_struct_ctx_simps] save_struct_ctx_simps)
qed

lemma op_save_string_reads_to: "reads_to st (op_save_string K st)"
proof -
  let ?i = "save_index (rs_ctx st)"
  let ?a = "read_addr (rs_ctx st) AND ADDR_MASK"
  obtain e1 status where sv: "save_str_to_buf K (rs_event st) (Addr ?a) ?i = (e1, status)" by fastforce
  obtain fs where fs: "length fs \<le> 1" "list_all (\<lambda>f. f \<noteq> [] \<and> hd f = ?i) fs"
    "appended (rs_event st) (if status = 0 then fst (save_bytes_to_buf K e1 (Addr 0) 0 ?i) else e1) fs"
    using string_or_empty_appends [OF sv] by blast
  show ?thesis
    using fs(3) frames_from_at_most_one [OF fs(1,2)]
    by (intro reads_toI [where fs = fs]; cases "status = 0")
      (simp_all add: op_save_string_def Let_def sv)
qed

lemma op_save_ptr_string_reads_to: "reads_to st (op_save_ptr_string K st)"
proof -
  define ptr where "ptr = read_user_u64 K (read_addr (rs_ctx st) AND ADDR_MASK) (PTR_SIZE (build_arch K))
    (read_addr (rs_ctx st) AND ADDR_MASK)"
  define st1 where "st1 = save_u64 K ptr st"
  let ?i = "save_index (rs_ctx st1)"
  obtain e1 status where sv: "save_str_to_buf K (rs_event st1) (Addr (ptr AND ADDR_MASK)) ?i = (e1, status)"
    by fastforce
  obtain fs where fs: "length fs \<le> 1" "list_all (\<lambda>f. f \<noteq> [] \<and> hd f = ?i) fs"
    "appended (rs_event st1)
      (if status = 0 then fst (save_bytes_to_buf K e1 (Addr 0) STRARR_MAGIC_LEN ?i) else e1) fs"
    using string_or_empty_appends [OF sv] by blast
  have "reads_to st1 (op_save_ptr_string K st)"
    using fs(3) frames_from_at_most_one [OF fs(1,2)]
    by (intro reads_toI [where fs = fs]; cases "status = 0")
      (simp_all add: op_save_ptr_string_def Let_def sv flip: ptr_def st1_def)
  then show ?thesis using save_u64_reads_to reads_to_trans unfolding st1_def by blast
qed

lemma op_filter_reads_to:
  "reads_to st (fst (op_filter_value op st))" "reads_to st (fst (op_filter_buffer K op st))"
  "reads_to st (fst (op_filter_string K op st))"
proof -
  show "reads_to st (fst (op_filter_value op st))" "reads_to st (fst (op_filter_buffer K op st))"
    by (auto simp: op_filter_value_def op_filter_buffer_def Let_def map_ctx_def
      intro!: reads_toI [where fs = "[]"] split: option.splits)
  show "reads_to st (fst (op_filter_string K op st))"
    by (auto simp: op_filter_string_def Let_def case_prod_unfold scratch_only_strcmp
      intro!: reads_toI [where fs = "[]"] split: option.splits)
qed

lemma op_read_reg_keeps:
  "save_index (fst (op_read_reg op r c)) = save_index c" "reg_0 (fst (op_read_reg op r c)) = reg_0 c"
  by (auto simp: op_read_reg_def Let_def split: option.splits)

lemma exec_op_reads_to: "reads_to st (fst (exec_op K r op oc st))"
proof (cases oc)
  case OP_READ_REG
  then show ?thesis
    using op_read_reg_keeps [of op r "rs_ctx st"]
    by (intro reads_toI [where fs = "[]"]) (simp_all add: case_prod_unfold Let_def)
qed (auto simp: op_defs Let_def op_read_pointer_def op_read_std_string_def op_save_addr_def
    op_save_reg_def op_save_pointer_def save_u64_reads_to op_save_struct_reads_to
    op_save_string_reads_to op_save_ptr_string_reads_to op_filter_reads_to
    intro!: reads_to_map_ctx)

lemma exec_code_reads_to: "reads_to st (fst (exec_code K r op st))"
  by (auto simp: exec_code_def exec_op_reads_to split: option.split)

lemma fetch_keeps:
  "fetch m ops pa op c = Fetched o1 c' \<Longrightarrow> save_index c' = save_index c \<and> reg_0 c' = reg_0 c"
  by (auto simp: fetch_def split: option.splits if_splits)

lemma read_loop_reads_to: "reads_to st (fst (read_loop K pa r n op st))"
proof (induction n arbitrary: op st)
  case (Suc n)
  show ?case
  proof (cases "fetch (build_module K) (op_list (rs_maps st)) pa op (rs_ctx st)")
    case (Fetched o1 c)
    let ?st1 = "st\<lparr>rs_ctx := c\<rparr>"
    have st1: "reads_to st ?st1"
      using fetch_keeps [OF Fetched] by (intro reads_toI [where fs = "[]"]) simp_all
    obtain st2 fl where ex: "exec_code K r o1 ?st1 = (st2, fl)" by fastforce
    have st2: "reads_to st st2"
      using reads_to_trans [OF st1 exec_code_reads_to [of ?st1 r o1]] ex by simp
    show ?thesis
      using Fetched ex st1 st2 reads_to_trans [OF st2 Suc.IH]
      by (cases fl) (simp_all add: Let_def)
  qed simp_all
qed simp

lemma read_args_reads_to:
  assumes "read_args K pa r st = Some st'"
  shows "reads_to st st'"
proof -
  let ?res = "read_loop K pa r (MAX_OP_COUNT (build_module K)) (bpf_map_lookup_elem (op_list (rs_maps st)) 0) st"
  have loop: "reads_to st (fst ?res)" by (rule read_loop_reads_to)
  have skip: "reads_to (fst ?res) (map_ctx skip_decision (fst ?res))"
    by (rule reads_to_map_ctx) (simp_all add: skip_decision_def)
  show ?thesis
    using assms loop reads_to_trans [OF loop skip]
    by (cases ?res; cases "snd ?res") (auto simp: read_args_def)
qed

end

end
