(* ===== verification/Frames.thy ===== *)
theory Frames
  imports Submit_Buffer "HOL-Library.Monad_Syntax"
begin

unbundle bit_operations_syntax

text \<open>
  The reading side of the wire format: how user space takes a record apart
  (\<open>user/event/event_context.go\<close>, \<open>user/event/ievent.go\<close>, \<open>user/argtype\<close>). Encoders and readers form
  pairs, the locale \<open>codec\<close>; \<open>None\<close> is an end of the buffer, at which user space panics.
\<close>

subsection \<open>Pairs of an encoder and a reader\<close>

fun read_list :: "(u8 list \<Rightarrow> ('a \<times> u8 list) option) \<Rightarrow> nat \<Rightarrow> u8 list \<Rightarrow> ('a list \<times> u8 list) option" where
  "read_list rd 0 bs = Some ([], bs)"
| "read_list rd (Suc n) bs =
     (case rd bs of None \<Rightarrow> None
      | Some (x, bs1) \<Rightarrow> (case read_list rd n bs1 of None \<Rightarrow> None | Some (xs, bs2) \<Rightarrow> Some (x # xs, bs2)))"

locale codec =
  fixes enc :: "'a \<Rightarrow> u8 list"
    and rd :: "u8 list \<Rightarrow> ('a \<times> u8 list) option"
    and ok :: "'a \<Rightarrow> bool"
  assumes rd_enc: "ok x \<Longrightarrow> rd (enc x @ rest) = Some (x, rest)"
begin

lemma enc_inj: "ok x \<Longrightarrow> ok y \<Longrightarrow> enc x = enc y \<Longrightarrow> x = y"
  by (metis rd_enc option.inject prod.inject)

lemma enc_prefix_free:
  assumes "ok x" "ok y" "enc x @ xs = enc y @ ys"
  shows "x = y \<and> xs = ys"
  using assms by (metis rd_enc option.inject prod.inject)

lemma read_list_enc:
  "list_all ok xs \<Longrightarrow> read_list rd (length xs) (concat (map enc xs) @ rest) = Some (xs, rest)"
  by (induction xs) (simp_all add: rd_enc)

end

subsection \<open>Little-endian numbers and byte strings\<close>

definition read_le :: "nat \<Rightarrow> u8 list \<Rightarrow> ('a::len word \<times> u8 list) option" where
  "read_le n bs = (if length bs < n then None else Some (le_word (take n bs), drop n bs))"

definition read_raw :: "nat \<Rightarrow> u8 list \<Rightarrow> (u8 list \<times> u8 list) option" where
  "read_raw n bs = (if length bs < n then None else Some (take n bs, drop n bs))"

lemma read_raw_append [simp]: "n = length xs \<Longrightarrow> read_raw n (xs @ rest) = Some (xs, rest)"
  by (simp add: read_raw_def)

interpretation u64_codec: codec "le_bytes 8" "read_le 8 :: u8 list \<Rightarrow> (u64 \<times> u8 list) option" "\<lambda>_. True"
  by unfold_locales (simp add: read_le_def)

interpretation u32_codec: codec "le_bytes 4" "read_le 4 :: u8 list \<Rightarrow> (u32 \<times> u8 list) option" "\<lambda>_. True"
  by unfold_locales (simp add: read_le_def)

subsection \<open>Arguments\<close>

text \<open>\<open>ReadArg\<close> into a number, and \<open>binary.Read\<close> of an \<open>Arg_reg\<close>: an index and the value.\<close>

definition read_arg :: "nat \<Rightarrow> u8 list \<Rightarrow> ((u8 \<times> 'a::len word) \<times> u8 list) option" where
  "read_arg n bs =
     (case bs of [] \<Rightarrow> None
      | i # bs1 \<Rightarrow> (case read_le n bs1 of None \<Rightarrow> None | Some (w, bs2) \<Rightarrow> Some ((i, w), bs2)))"

text \<open>\<open>Arg_struct\<close> or \<open>Arg_str\<close>, then a payload of \<open>Len\<close> bytes.\<close>

definition read_payload :: "u8 list \<Rightarrow> ((u8 \<times> u8 list) \<times> u8 list) option" where
  "read_payload bs =
     (case read_arg 4 bs of None \<Rightarrow> None
      | Some ((i, n), bs1) \<Rightarrow>
          (case read_raw (unat (n :: u32)) bs1 of None \<Rightarrow> None | Some (p, bs2) \<Rightarrow> Some ((i, p), bs2)))"

interpretation reg_codec: codec "\<lambda>(i, w). i # le_bytes 8 w"
  "read_arg 8 :: u8 list \<Rightarrow> ((u8 \<times> u64) \<times> u8 list) option" "\<lambda>_. True"
  by unfold_locales (auto simp: read_arg_def u64_codec.rd_enc)

interpretation key_codec: codec "\<lambda>(i, w). i # le_bytes 4 w"
  "read_arg 4 :: u8 list \<Rightarrow> ((u8 \<times> u32) \<times> u8 list) option" "\<lambda>_. True"
  by unfold_locales (auto simp: read_arg_def u32_codec.rd_enc)

definition payload_frame :: "u8 \<Rightarrow> u8 list \<Rightarrow> u8 list" where
  "payload_frame i p = i # le_bytes 4 (of_nat (length p) :: u32) @ p"

interpretation payload_codec: codec "\<lambda>(i, p). payload_frame i p" read_payload "\<lambda>(i, p). length p \<le> 4096"
  by unfold_locales (auto simp: read_payload_def read_arg_def payload_frame_def u32_codec.rd_enc)

subsection \<open>The event header\<close>

text \<open>\<open>ContextEvent.ParseContext\<close>: the fields of \<open>ContextFields\<close> in order.\<close>

definition read_context :: "u8 list \<Rightarrow> (event_context_t \<times> u8 list) option" where
  "read_context bs =
     do { (v_ts, bs) \<leftarrow> read_le 8 bs;
          (v_eventid, bs) \<leftarrow> read_le 4 bs;
          (v_host_tid, bs) \<leftarrow> read_le 4 bs;
          (v_host_pid, bs) \<leftarrow> read_le 4 bs;
          (v_tid, bs) \<leftarrow> read_le 4 bs;
          (v_pid, bs) \<leftarrow> read_le 4 bs;
          (v_uid, bs) \<leftarrow> read_le 4 bs;
          (v_comm, bs) \<leftarrow> read_raw 16 bs;
          (v_argnum, bs) \<leftarrow> read_raw 1 bs;
          (v_padding, bs) \<leftarrow> read_raw 7 bs;
          Some (\<lparr>ts = v_ts, eventid = v_eventid, host_tid = v_host_tid, host_pid = v_host_pid,
                 tid = v_tid, pid = v_pid, uid = v_uid, comm = v_comm, argnum = hd v_argnum,
                 ctx_padding = v_padding\<rparr>, bs) }"

interpretation context_codec: codec context_bytes read_context wf_context
proof
  fix c rest assume wf: "wf_context c"
  have "read_raw 1 ([argnum c] @ ctx_padding c @ rest) = Some ([argnum c], ctx_padding c @ rest)"
    by (rule read_raw_append) simp
  then show "read_context (context_bytes c @ rest) = Some (c, rest)"
    using wf
    by (simp add: read_context_def context_bytes_def u64_codec.rd_enc u32_codec.rd_enc wf_context_def
      const_simps del: append_Cons)
qed

lemma length_context_bytes: "wf_context c \<Longrightarrow> length (context_bytes c) = 56"
  by (simp add: context_bytes_def wf_context_def const_simps)

subsection \<open>A submitted record\<close>

text \<open>
  What \<open>events_perf_submit\<close> hands over is the header followed by exactly the committed arguments.
\<close>

lemma events_perf_submit_record:
  assumes "wf_context (ev_context e)" and "buf_ok e"
  shows "fst (snd (events_perf_submit K e i)) =
    context_bytes ((ev_context e)\<lparr>eventid := i\<rparr>) @ buf_bytes e"
proof -
  let ?c = "(ev_context e)\<lparr>eventid := i\<rparr>"
  have wf: "wf_context ?c" using assms(1) by (simp add: wf_context_def)
  have off: "unat (buf_off e) \<le> 32000" using assms(2) by (simp add: buf_ok_def const_simps)
  then have "unat (56 + buf_off e) = 56 + unat (buf_off e)"
    using unat_add_small [of 56 "buf_off e"] by simp
  then have "(if unat (56 + buf_off e) < 32056 then unat (56 + buf_off e) else 32056) = 56 + unat (buf_off e)"
    using off by simp
  then have "fst (snd (events_perf_submit K e i)) = event_prefix (e\<lparr>ev_context := ?c\<rparr>) (56 + unat (buf_off e))"
    by (cases "unat (56 + buf_off e) < 32056") (simp_all add: events_perf_submit_def Let_def)
  then show ?thesis
    using length_context_bytes [OF wf]
    by (simp add: event_prefix_def buf_bytes_def)
qed

end
