(* ===== verification/Probe_Facts.thy ===== *)
theory Probe_Facts
  imports Probe Reader_Facts Frames
begin

unbundle bit_operations_syntax

text \<open>
  What the shared blocks of the probe programs guarantee: the header frames, a total reader, and a
  submission of exactly the header, the committed frames and the count of both.
\<close>

subsection \<open>Well-formed maps\<close>

text \<open>
  The arrays inside map elements have their declared lengths, and the two interpreter contexts are
  there (the elements of an array map always are).
\<close>

definition wf_maps :: "module_kind \<Rightarrow> maps \<Rightarrow> bool" where
  "wf_maps m S \<longleftrightarrow>
     length (op_ctx_map S) = 2 \<and>
     (\<forall>e \<in> set (event_data_map S). wf_context (ev_context e)) \<and>
     (\<forall>r \<in> snd ` set (ctx_regs_map S). wf_ctx_regs r) \<and>
     (\<forall>pa \<in> snd ` set (uprobe_point_args S @ uretprobe_point_args S @ sysenter_point_args S
                      @ sysexit_point_args S). wf_point_args m pa)"

lemma lookup_in_snd: "bpf_map_lookup_elem m k = Some v \<Longrightarrow> v \<in> snd ` set m"
  by (force simp: bpf_map_lookup_elem_def dest: map_of_SomeD)

lemma wf_maps_point_args:
  assumes "wf_maps m S"
  shows "bpf_map_lookup_elem (uprobe_point_args S) k = Some pa \<Longrightarrow> wf_point_args m pa"
    and "bpf_map_lookup_elem (uretprobe_point_args S) k = Some pa \<Longrightarrow> wf_point_args m pa"
    and "bpf_map_lookup_elem (sysenter_point_args S) k = Some pa \<Longrightarrow> wf_point_args m pa"
    and "bpf_map_lookup_elem (sysexit_point_args S) k = Some pa \<Longrightarrow> wf_point_args m pa"
  using assms by (auto simp: wf_maps_def dest!: lookup_in_snd)

lemma wf_maps_op_ctx:
  assumes "wf_maps m S"
  obtains c d where "array_lookup_elem (op_ctx_map S) 0 = Some c" "array_lookup_elem (op_ctx_map S) 1 = Some d"
proof -
  have "length (op_ctx_map S) = 2" using assms by (simp add: wf_maps_def)
  then obtain c d where "op_ctx_map S = [c, d]" by (auto simp: numeral_2_eq_2 length_Suc_conv)
  then show ?thesis by (intro that) (simp_all add: array_lookup_elem_def nth_opt_def)
qed

lemma wf_maps_snapshot: "wf_maps m S \<Longrightarrow> snapshot S e t = Some r \<Longrightarrow> wf_ctx_regs r"
  by (auto simp: wf_maps_def snapshot_def dest!: lookup_in_snd)

lemma snd_set_AList_update: "snd ` set (AList.update k v m) \<subseteq> insert v (snd ` set m)"
  by (induction m) auto

lemma snd_set_AList_delete: "snd ` set (AList.delete k m) \<subseteq> snd ` set m"
  by (auto simp: AList.delete_eq)

lemma wf_maps_ctx_regs:
  "wf_maps m S \<Longrightarrow> \<forall>r \<in> snd ` set M. wf_ctx_regs r \<Longrightarrow> wf_maps m (S\<lparr>ctx_regs_map := M\<rparr>)"
  by (simp add: wf_maps_def)

lemma wf_maps_save_regs:
  assumes "wf_maps m S" and "wf_ctx_regs r"
  shows "wf_maps m (fst (save_regs K S r e))"
proof -
  have old: "\<forall>r \<in> snd ` set (ctx_regs_map S). wf_ctx_regs r" using assms(1) by (simp add: wf_maps_def)
  have "snd ` set (snd (bpf_map_update_elem n k r M)) \<subseteq> insert r (snd ` set M)"
    for n k and M :: "(u64, ctx_regs_t) hmap"
    using snd_set_AList_update [of k r M] by (simp add: bpf_map_update_elem_def subset_insertI)
  moreover have "ctx_regs_map (fst (save_regs K S r e)) =
      snd (bpf_map_update_elem 1024 (regs_key e (cur_tid K)) r (ctx_regs_map S))"
    by (simp add: save_regs_def case_prod_unfold Let_def)
  ultimately have eq: "snd ` set (ctx_regs_map (fst (save_regs K S r e))) \<subseteq> insert r (snd ` set (ctx_regs_map S))"
    by simp
  have "\<forall>r' \<in> snd ` set (ctx_regs_map (fst (save_regs K S r e))). wf_ctx_regs r'"
    using old assms(2) eq by blast
  then show ?thesis by (subst save_regs_frame) (rule wf_maps_ctx_regs [OF assms(1)])
qed

lemma wf_maps_del_regs:
  assumes "wf_maps m S"
  shows "wf_maps m (fst (del_regs K S e))"
proof -
  have old: "\<forall>r \<in> snd ` set (ctx_regs_map S). wf_ctx_regs r" using assms by (simp add: wf_maps_def)
  have "snd ` set (snd (bpf_map_delete_elem k M)) \<subseteq> snd ` set M"
    for k and M :: "(u64, ctx_regs_t) hmap"
    using snd_set_AList_delete [of k M] by (simp add: bpf_map_delete_elem_def)
  then have eq: "snd ` set (ctx_regs_map (fst (del_regs K S e))) \<subseteq> snd ` set (ctx_regs_map S)"
    by (simp add: del_regs_def)
  have "\<forall>r' \<in> snd ` set (ctx_regs_map (fst (del_regs K S e))). wf_ctx_regs r'"
    using old eq by blast
  then show ?thesis by (subst del_regs_frame) (rule wf_maps_ctx_regs [OF assms])
qed

lemma load_regs_wf:
  assumes "wf_maps m S" and "load_regs K S r e = (s, 0)"
  shows "wf_ctx_regs s"
  using assms by (auto simp: load_regs_def wf_ctx_regs_def split: option.splits)

lemma wf_maps_put_event: "wf_maps m S \<Longrightarrow> wf_context (ev_context e) \<Longrightarrow> wf_maps m (put_event S e)"
  by (auto simp: wf_maps_def dest: set_update_subset_insert [THEN subsetD])

lemma wf_maps_scratch: "wf_maps m S \<Longrightarrow> scratch_only S S' \<Longrightarrow> wf_maps m S'"
  by (auto simp: wf_maps_def scratch_only_def)

lemma wf_maps_put_op_ctx [simp]: "wf_maps m (put_op_ctx S i c) = wf_maps m S"
  by (simp add: wf_maps_def put_op_ctx_def)

lemma wf_maps_outputs [simp]:
  "wf_maps m (S\<lparr>perf_events := es\<rparr>) = wf_maps m S" "wf_maps m (S\<lparr>signals := ss\<rparr>) = wf_maps m S"
  "wf_maps m (S\<lparr>child_parent_map := cs\<rparr>) = wf_maps m S" "wf_maps m (S\<lparr>trace_pipe := tp\<rparr>) = wf_maps m S"
  by (simp_all add: wf_maps_def)

subsection \<open>Set-up\<close>

lemma init_program_data_wf:
  assumes K: "helper_laws K" and S: "wf_maps m S"
  shows "wf_maps m (fst (init_program_data K S ctx))"
    and "init_program_data K S ctx = (S', Some p) \<Longrightarrow> wf_context (ev_context (pd_event p))"
proof -
  have elem: "array_lookup_elem (event_data_map S) 0 = Some e \<Longrightarrow> wf_context (ev_context e)" for e
    using S by (auto simp: wf_maps_def array_lookup_elem_def nth_opt_def split: if_splits)
  have ctx: "wf_context (snd (init_context K (ev_context e) t))" if "wf_context (ev_context e)" for e t
    by (rule init_context_wf [OF K that])
  have upd: "wf_context c" if "array_lookup_elem (event_data_map S) 0 = Some e"
    "init_context K (ev_context e) (get_current_task K) = (r, c)" for e c r
    using ctx [OF elem [OF that(1)], of "get_current_task K"] that(2) by simp
  show "wf_maps m (fst (init_program_data K S ctx))"
    using S upd
    by (auto simp: init_program_data_def Let_def intro!: wf_maps_put_event split: option.splits prod.splits)
  show "init_program_data K S ctx = (S', Some p) \<Longrightarrow> wf_context (ev_context (pd_event p))"
    using upd by (auto simp: init_program_data_def Let_def split: option.splits prod.splits if_splits)
qed

lemma init_program_data_frame:
  "fst (init_program_data K S ctx) = S\<lparr>event_data_map := event_data_map (fst (init_program_data K S ctx))\<rparr>"
  by (auto simp: init_program_data_def put_event_def Let_def split: option.splits prod.splits)

lemma init_program_data_other:
  "common_filter (fst (init_program_data K S ctx)) = common_filter S"
  "ctx_regs_map (fst (init_program_data K S ctx)) = ctx_regs_map S"
  "op_ctx_map (fst (init_program_data K S ctx)) = op_ctx_map S"
  "uprobe_point_args (fst (init_program_data K S ctx)) = uprobe_point_args S"
  "uretprobe_point_args (fst (init_program_data K S ctx)) = uretprobe_point_args S"
  "sysenter_point_args (fst (init_program_data K S ctx)) = sysenter_point_args S"
  "sysexit_point_args (fst (init_program_data K S ctx)) = sysexit_point_args S"
  "common_list (fst (init_program_data K S ctx)) = common_list S"
  "op_list (fst (init_program_data K S ctx)) = op_list S"
  "arg_filter (fst (init_program_data K S ctx)) = arg_filter S"
  by (subst init_program_data_frame, simp)+

subsection \<open>The header\<close>

definition call_site_frames :: "kenv \<Rightarrow> common_filter_t \<Rightarrow> u64 \<Rightarrow> u8 list list" where
  "call_site_frames K f a =
     [1 # le_bytes 8 (call_site_lr K f a), 2 # le_bytes 8 (call_site_sp K f a),
      3 # le_bytes 8 (call_site_pc K a)]"

lemma save_value_u64_commits:
  "unat (buf_off e) \<le> 31889 \<Longrightarrow> appended e (save_value_u64 K v idx e) [idx # le_bytes 8 v]"
  using save_obj_result [of "le_bytes 8 v" 8 e K idx] by (simp add: save_value_u64_def MAX_ELEMENT_SIZE_def)

lemma save_value_u32_commits:
  "unat (buf_off e) \<le> 31889 \<Longrightarrow> appended e (save_value_u32 K v idx e) [idx # le_bytes 4 v]"
  using save_obj_result [of "le_bytes 4 v" 4 e K idx] by (simp add: save_value_u32_def MAX_ELEMENT_SIZE_def)

lemma save_key_commits:
  "buf_off e = 0 \<Longrightarrow> appended e (save_value_u32 K key 0 e) [0 # le_bytes 4 key]"
  by (rule save_value_u32_commits) simp

lemma header_commits:
  assumes "buf_off e = 0"
  shows "appended e (save_call_site K f a (save_value_u32 K key 0 e)) ((0 # le_bytes 4 key) # call_site_frames K f a)"
proof -
  let ?e0 = "save_value_u32 K key 0 e"
  let ?e1 = "save_value_u64 K (call_site_lr K f a) 1 ?e0"
  let ?e2 = "save_value_u64 K (call_site_sp K f a) 2 ?e1"
  have a0: "appended e ?e0 [0 # le_bytes 4 key]" by (rule save_key_commits [OF assms])
  have o0: "unat (buf_off ?e0) = 5" using appended_buf_off [OF a0] assms by simp
  have a1: "appended ?e0 ?e1 [1 # le_bytes 8 (call_site_lr K f a)]" by (rule save_value_u64_commits) (simp add: o0)
  have o1: "unat (buf_off ?e1) = 14" using appended_buf_off [OF a1] o0 by simp
  have a2: "appended ?e1 ?e2 [2 # le_bytes 8 (call_site_sp K f a)]" by (rule save_value_u64_commits) (simp add: o1)
  have o2: "unat (buf_off ?e2) = 23" using appended_buf_off [OF a2] o1 by simp
  have a3: "appended ?e2 (save_call_site K f a ?e0) [3 # le_bytes 8 (call_site_pc K a)]"
    unfolding save_call_site_def by (rule save_value_u64_commits) (simp add: o2)
  show ?thesis
    using appended_trans [OF a0 appended_trans [OF a1 appended_trans [OF a2 a3]]]
    by (simp add: call_site_frames_def)
qed

subsection \<open>Running the reader\<close>

lemma run_reader_result:
  assumes K: "helper_laws K" and r: "wf_ctx_regs r" and pa: "wf_point_args (build_module K) pa"
  obtains st skip where "run_reader K run pa r st0 = Some (st, skip)" and "reads_to st0 st"
    and "skip_flag (rs_ctx st) = 0"
proof -
  obtain st1 where st1: "(if run then read_args K pa r st0 else Some st0) = Some st1"
    using read_args_Some [OF r pa, of st0] by (cases run) auto
  have to: "reads_to st0 st1"
    using st1 kernel_env.read_args_reads_to [OF kernel_env.intro [OF K]]
    by (cases run) simp_all
  let ?st = "map_ctx (\<lambda>c. c\<lparr>skip_flag := 0\<rparr>) st1"
  have clear: "reads_to st1 ?st" by (rule reads_to_map_ctx) simp_all
  show ?thesis
  proof (cases "skip_flag (rs_ctx st1) = 0")
    case True
    then show ?thesis using st1 to by (intro that [of st1 False]) (simp_all add: run_reader_def)
  next
    case False
    then show ?thesis
      using st1 reads_to_trans [OF to clear]
      by (intro that [of ?st True]) (simp_all add: run_reader_def map_ctx_def)
  qed
qed

lemma reads_to_wf:
  assumes "reads_to st0 st" and "wf_context (ev_context (rs_event st0))" and "wf_maps m (rs_maps st0)"
  shows "wf_context (ev_context (rs_event st))" and "wf_maps m (rs_maps st)"
proof -
  obtain fs where "appended (rs_event st0) (rs_event st) fs" and s: "scratch_only (rs_maps st0) (rs_maps st)"
    using assms(1) by (auto simp: reads_to_def)
  then show "wf_context (ev_context (rs_event st))"
    using assms(2) by (simp add: appended_def wf_context_def)
  show "wf_maps m (rs_maps st)" by (rule wf_maps_scratch [OF assms(3) s])
qed

lemma reads_to_outputs:
  assumes "reads_to st0 st"
  shows "perf_events (rs_maps st) = perf_events (rs_maps st0)" "signals (rs_maps st) = signals (rs_maps st0)"
    "ctx_regs_map (rs_maps st) = ctx_regs_map (rs_maps st0)"
    "op_ctx_map (rs_maps st) = op_ctx_map (rs_maps st0)"
  using assms by (auto simp: reads_to_def scratch_only_def)

lemma appended_context:
  assumes "appended e e' fs"
  shows "ev_context e' = (ev_context e)\<lparr>argnum := argnum (ev_context e) + of_nat (length fs)\<rparr>"
  using assms by (simp add: appended_def)

subsection \<open>Submission\<close>

text \<open>
  The record of an event with number \<open>i\<close>: the process' context, then the frames \<open>hdr\<close>, then argument
  frames numbered from \<open>idx\<close> on; the count in the context is that of all frames.
\<close>

definition event_record :: "event_context_t \<Rightarrow> u32 \<Rightarrow> u8 list list \<Rightarrow> u8 \<Rightarrow> u8 list \<Rightarrow> bool" where
  "event_record c i hdr idx bs \<longleftrightarrow>
     (\<exists>fs j. bs = context_bytes (c\<lparr>argnum := of_nat (length (hdr @ fs)), eventid := i\<rparr>) @ concat (hdr @ fs) \<and>
       frames_from idx fs j \<and> length (concat (hdr @ fs)) \<le> ARGS_BUF_SIZE)"

lemma submit_event_maps:
  "rs_maps (submit_event K i st) = (rs_maps st)\<lparr>perf_events := perf_events (rs_maps (submit_event K i st))\<rparr>"
  by (simp add: submit_event_def case_prod_unfold Let_def)

lemma submit_event_other:
  "rs_ctx (submit_event K i st) = rs_ctx st"
  "ev_context (rs_event (submit_event K i st)) = (ev_context (rs_event st))\<lparr>eventid := i\<rparr>"
  by (simp_all add: submit_event_def events_perf_submit_def case_prod_unfold Let_def)

lemma submit_event_record:
  assumes "wf_context (ev_context (rs_event st))" and "buf_ok (rs_event st)"
  shows "perf_events (rs_maps (submit_event K i st)) =
    (let bs = context_bytes ((ev_context (rs_event st))\<lparr>eventid := i\<rparr>) @ buf_bytes (rs_event st)
     in if perf_output_ret K bs = 0 then perf_events (rs_maps st) @ [bs] else perf_events (rs_maps st))"
proof -
  obtain e bs ret where sub: "events_perf_submit K (rs_event st) i = (e, bs, ret)" by (cases "events_perf_submit K (rs_event st) i")
  have "bs = context_bytes ((ev_context (rs_event st))\<lparr>eventid := i\<rparr>) @ buf_bytes (rs_event st)"
    using events_perf_submit_record [OF assms, of K i] sub by simp
  moreover have "ret = perf_output_ret K bs"
    using sub by (auto simp: events_perf_submit_def Let_def)
  ultimately show ?thesis using sub by (simp add: submit_event_def)
qed

text \<open>From an empty buffer, over the header and the arguments, to the record.\<close>

lemma submitted_record:
  assumes wf: "wf_context (ev_context e0)" and e0: "buf_off e0 = 0" "argnum (ev_context e0) = 0"
    and ap: "appended e0 (rs_event st) (hdr @ fs)" and fs: "frames_from idx fs j"
  shows "\<exists>bs. event_record (ev_context e0) i hdr idx bs \<and>
    perf_events (rs_maps (submit_event K i st)) = (if perf_output_ret K bs = 0
      then perf_events (rs_maps st) @ [bs] else perf_events (rs_maps st))"
proof -
  have b0: "buf_bytes e0 = []" using e0(1) by (simp add: buf_bytes_def range_of_def)
  have ok: "buf_ok (rs_event st)"
    using appended_buf_ok [OF ap] e0(1) by (simp add: buf_ok_def)
  have c: "ev_context (rs_event st) = (ev_context e0)\<lparr>argnum := of_nat (length (hdr @ fs))\<rparr>"
    using appended_context [OF ap] e0(2) by simp
  have bytes: "buf_bytes (rs_event st) = concat (hdr @ fs)"
    using appended_buf_bytes [OF ap] b0 by simp
  have "length (concat (hdr @ fs)) \<le> ARGS_BUF_SIZE"
    using ok length_buf_bytes [of "rs_event st"] bytes by (simp add: buf_ok_def del: length_buf_bytes)
  then have rec: "event_record (ev_context e0) i hdr idx
      (context_bytes ((ev_context (rs_event st))\<lparr>eventid := i\<rparr>) @ buf_bytes (rs_event st))"
    using fs c bytes unfolding event_record_def by (intro exI [of _ fs] exI [of _ j]) simp
  have wf': "wf_context (ev_context (rs_event st))" using wf c by (simp add: wf_context_def)
  show ?thesis
    using rec submit_event_record [OF wf' ok, of K i] by (auto simp: Let_def)
qed

text \<open>What a program leaves after its reader: nothing sent, or one record tried.\<close>

definition silent :: "maps \<Rightarrow> maps \<Rightarrow> bool" where
  "silent S S' \<longleftrightarrow> perf_events S' = perf_events S \<and> signals S' = signals S"

definition submitted :: "kenv \<Rightarrow> event_context_t \<Rightarrow> u32 \<Rightarrow> u8 list list \<Rightarrow> u8 \<Rightarrow> maps \<Rightarrow> maps \<Rightarrow> bool" where
  "submitted K c i hdr idx S S' \<longleftrightarrow>
     (\<exists>bs. event_record c i hdr idx bs \<and>
       perf_events S' = (if perf_output_ret K bs = 0 then perf_events S @ [bs] else perf_events S))"

lemma silent_refl [simp]: "silent S S"
  by (simp add: silent_def)

lemma close_reader_outputs:
  "perf_events (close_reader j st) = perf_events (rs_maps st)"
  "signals (close_reader j st) = signals (rs_maps st)"
  "ctx_regs_map (close_reader j st) = ctx_regs_map (rs_maps st)"
  "child_parent_map (close_reader j st) = child_parent_map (rs_maps st)"
  by (simp_all add: close_reader_def put_op_ctx_def)

lemma wf_close_reader:
  "wf_maps m (rs_maps st) \<Longrightarrow> wf_context (ev_context (rs_event st)) \<Longrightarrow> wf_maps m (close_reader j st)"
  by (simp add: close_reader_def wf_maps_put_event)

lemma wf_submit_event:
  assumes "wf_maps m (rs_maps st)" and "wf_context (ev_context (rs_event st))"
  shows "wf_maps m (close_reader j (submit_event K i st))"
proof (rule wf_close_reader)
  show "wf_maps m (rs_maps (submit_event K i st))"
    using assms(1) by (subst submit_event_maps) simp
  show "wf_context (ev_context (rs_event (submit_event K i st)))"
    using assms(2) by (simp add: submit_event_other wf_context_def)
qed

lemma send_signals_simps:
  "wf_maps m (send_signals f pa S) = wf_maps m S" "perf_events (send_signals f pa S) = perf_events S"
  "ctx_regs_map (send_signals f pa S) = ctx_regs_map S"
  by (simp_all add: send_signals_def)

lemma submit_event_ctx_regs: "ctx_regs_map (rs_maps (submit_event K i st)) = ctx_regs_map (rs_maps st)"
  by (subst submit_event_maps) simp

text \<open>The end of a program, for a reader that started on the header.\<close>

lemma reader_tail:
  assumes K: "helper_laws K" and r: "wf_ctx_regs saved" and pa: "wf_point_args (build_module K) pa"
    and S: "wf_maps m S" and wf: "wf_context (ev_context e0)" and e0: "buf_off e0 = 0" "argnum (ev_context e0) = 0"
    and hdr: "appended e0 e hdr"
  obtains st skip where
    "run_reader K run pa saved \<lparr>rs_maps = S, rs_event = e, rs_ctx = start_op_ctx v idx c\<rparr> = Some (st, skip)"
    and "wf_maps m (close_reader j st)" "silent S (close_reader j st)" "ctx_regs_map (close_reader j st) = ctx_regs_map S"
    and "\<And>f. wf_maps m (send_signals f pa (close_reader j (submit_event K i st)))"
    and "\<And>f. submitted K (ev_context e0) i hdr idx S (send_signals f pa (close_reader j (submit_event K i st)))"
    and "\<And>f. ctx_regs_map (send_signals f pa (close_reader j (submit_event K i st))) = ctx_regs_map S"
    and "reads_to \<lparr>rs_maps = S, rs_event = e, rs_ctx = start_op_ctx v idx c\<rparr> st"
proof -
  let ?st0 = "\<lparr>rs_maps = S, rs_event = e, rs_ctx = start_op_ctx v idx c\<rparr>"
  obtain st skip where st: "run_reader K run pa saved ?st0 = Some (st, skip)" and rd: "reads_to ?st0 st"
    using run_reader_result [OF K r pa] by blast
  have wfe: "wf_context (ev_context e)" using appended_context [OF hdr] wf by (simp add: wf_context_def)
  have wfs: "wf_context (ev_context (rs_event st))" "wf_maps m (rs_maps st)"
    using reads_to_wf [OF rd] wfe S by simp_all
  note same = reads_to_outputs [OF rd]
  obtain fs where fs: "appended e (rs_event st) fs" "frames_from idx fs (save_index (rs_ctx st))"
    using rd by (auto simp: reads_to_def start_op_ctx_def)
  note rec = submitted_record [OF wf e0 appended_trans [OF hdr fs(1)] fs(2), of i K]
  show ?thesis
  proof (rule that [OF st])
    show "wf_maps m (close_reader j st)" by (rule wf_close_reader [OF wfs(2,1)])
    show "silent S (close_reader j st)" "ctx_regs_map (close_reader j st) = ctx_regs_map S"
      using same by (simp_all add: silent_def close_reader_outputs)
    show "wf_maps m (send_signals f pa (close_reader j (submit_event K i st)))" for f
      by (simp add: send_signals_simps wf_submit_event [OF wfs(2,1)])
    show "submitted K (ev_context e0) i hdr idx S (send_signals f pa (close_reader j (submit_event K i st)))" for f
      using rec same(1) by (simp only: submitted_def send_signals_simps close_reader_outputs rstate.simps)
    show "ctx_regs_map (send_signals f pa (close_reader j (submit_event K i st))) = ctx_regs_map S" for f
      using same(3) by (simp add: send_signals_simps close_reader_outputs submit_event_ctx_regs)
    show "reads_to ?st0 st" by (rule rd)
  qed
qed

end
