(* ===== verification/Stack_Facts.thy ===== *)
theory Stack_Facts
  imports Stack_Probe Probe_Facts
begin

unbundle bit_operations_syntax

text \<open>
  The uprobe and uretprobe programs end without a fault on every well-formed state, keep it well
  formed, and either send nothing or try one record: key, call site, then numbered arguments.
\<close>

subsection \<open>The registers to read with\<close>

lemma probe_stack_regs_wf:
  assumes "wf_maps m S" and "wf_ctx_regs saved" and "probe_stack_regs K S pa key saved = Some (S1, r)"
  shows "wf_maps m S1" and "wf_ctx_regs r" and "silent S S1"
proof -
  have "wf_maps m S1 \<and> wf_ctx_regs r \<and> silent S S1"
    using assms wf_maps_save_regs [OF assms(1,2)] wf_maps_del_regs [OF assms(1)] load_regs_wf [OF assms(1)]
    by (auto simp: probe_stack_regs_def case_prod_unfold Let_def silent_def save_regs_def del_regs_def
      prod_eq_iff split: if_splits)
  then show "wf_maps m S1" and "wf_ctx_regs r" and "silent S S1" by simp_all
qed

lemma uretprobe_stack_regs_wf:
  assumes "wf_maps m S" and "uretprobe_stack_regs K S pa ctx = Some (S1, r)"
  shows "wf_maps m S1" and "wf_ctx_regs r" and "silent S S1"
proof -
  have "wf_maps m S1 \<and> wf_ctx_regs r \<and> silent S S1"
    using assms wf_maps_del_regs [OF assms(1)] load_regs_wf [OF assms(1)]
    by (auto simp: uretprobe_stack_regs_def case_prod_unfold Let_def silent_def del_regs_def
      prod_eq_iff split: if_splits)
  then show "wf_maps m S1" and "wf_ctx_regs r" and "silent S S1" by simp_all
qed

lemma silent_submitted: "silent S S1 \<Longrightarrow> submitted K c i hdr idx S1 S2 \<Longrightarrow> submitted K c i hdr idx S S2"
  by (simp only: silent_def submitted_def)

lemma silent_trans: "silent S S1 \<Longrightarrow> silent S1 S2 \<Longrightarrow> silent S S2"
  by (simp add: silent_def)

lemma silent_init: "silent S (fst (init_program_data K S ctx))"
  by (subst init_program_data_frame) (simp add: silent_def)

subsection \<open>Outcomes\<close>

text \<open>The event that a traced thread submits at point \<open>key\<close>.\<close>

definition traced_record ::
    "kenv \<Rightarrow> maps \<Rightarrow> u64 \<Rightarrow> u32 \<Rightarrow> u8 list list \<Rightarrow> u8 \<Rightarrow> maps \<Rightarrow> bool" where
  "traced_record K S ctx i hdr idx S' \<longleftrightarrow>
     (\<exists>S1 p. init_program_data K S ctx = (S1, Some p) \<and> should_trace S1 p \<and>
       submitted K (ev_context (pd_event p)) i hdr idx S S')"

definition stack_outcome :: "kenv \<Rightarrow> maps \<Rightarrow> u64 \<Rightarrow> u32 \<Rightarrow> u32 \<Rightarrow> maps \<Rightarrow> bool" where
  "stack_outcome K S ctx key i S' \<longleftrightarrow>
     silent S S' \<or>
     (\<exists>f. bpf_map_lookup_elem (common_filter S) 0 = Some f \<and>
       traced_record K S ctx i ((0 # le_bytes 4 key) # call_site_frames K f ctx) 4 S')"

lemma probe_stack_warp_outcome:
  assumes K: "helper_laws K" and S0: "wf_maps (build_module K) S0"
  shows "\<exists>S'. probe_stack_warp K S0 ctx key = Some S' \<and> wf_maps (build_module K) S' \<and>
    stack_outcome K S0 ctx key UPROBE_ENTER S'"
proof -
  let ?m = "build_module K"
  obtain S q where ini: "init_program_data K S0 ctx = (S, q)" by fastforce
  have S: "wf_maps ?m S" using init_program_data_wf(1) [OF K S0, of ctx] ini by simp
  have quiet: "silent S0 S" using silent_init [of S0 K ctx] ini by simp
  have cf: "common_filter S = common_filter S0"
    using init_program_data_other(1) [of K S0 ctx] ini by simp
  have stop: ?thesis if "probe_stack_warp K S0 ctx key = Some S"
    using that S quiet by (auto simp: stack_outcome_def)
  show ?thesis
  proof (cases "\<exists>p pa f S1 saved. q = Some p \<and> should_trace S p \<and>
      bpf_map_lookup_elem (uprobe_point_args S) key = Some pa \<and>
      bpf_map_lookup_elem (common_filter S) 0 = Some f \<and>
      probe_stack_regs K S pa key (copy_pt_regs K ctx) = Some (S1, saved)")
    case False
    then have "probe_stack_warp K S0 ctx key = Some S"
      by (auto simp: probe_stack_warp_def ini split: option.split)
    then show ?thesis by (rule stop)
  next
    case True
    then obtain p pa f S1 saved where q: "q = Some p" and tr: "should_trace S p"
      and pa: "bpf_map_lookup_elem (uprobe_point_args S) key = Some pa"
      and f: "bpf_map_lookup_elem (common_filter S) 0 = Some f"
      and regs: "probe_stack_regs K S pa key (copy_pt_regs K ctx) = Some (S1, saved)" by blast
    let ?e = "save_call_site K f ctx (save_value_u32 K key 0 (pd_event p))"
    let ?hdr = "(0 # le_bytes 4 key) # call_site_frames K f ctx"
    have pa_wf: "wf_point_args ?m pa" by (rule wf_maps_point_args(1) [OF S pa])
    note r = probe_stack_regs_wf [OF S wf_copy_pt_regs regs]
    have ini': "init_program_data K S0 ctx = (S, Some p)" using ini q by simp
    note e0 = init_program_data_Some [OF ini']
    have wf0: "wf_context (ev_context (pd_event p))" by (rule init_program_data_wf(2) [OF K S0 ini'])
    have hdr: "appended (pd_event p) ?e ?hdr" by (rule header_commits [OF e0(1)])
    have quiet1: "silent S0 S1" using silent_trans [OF quiet r(3)] .
    show ?thesis
    proof (cases "array_lookup_elem (op_ctx_map S1) 0")
      case None
      then have "probe_stack_warp K S0 ctx key = Some (put_event S1 ?e)"
        by (simp add: probe_stack_warp_def ini q tr pa f regs Let_def)
      moreover have "wf_context (ev_context ?e)"
        using appended_context [OF hdr] wf0 by (simp add: wf_context_def)
      ultimately show ?thesis
        using wf_maps_put_event [OF r(1)] quiet1 by (simp add: stack_outcome_def silent_def)
    next
      case (Some c)
      obtain st skip where run: "run_reader K True pa saved
            \<lparr>rs_maps = S1, rs_event = ?e, rs_ctx = start_op_ctx (regs saved ! 0) 4 c\<rparr> = Some (st, skip)"
        and wfc: "wf_maps ?m (close_reader 0 st)" and sil: "silent S1 (close_reader 0 st)"
        and sub: "\<And>f. wf_maps ?m (send_signals f pa (close_reader 0 (submit_event K UPROBE_ENTER st)))"
          "\<And>f. submitted K (ev_context (pd_event p)) UPROBE_ENTER ?hdr 4 S1
             (send_signals f pa (close_reader 0 (submit_event K UPROBE_ENTER st)))"
        using reader_tail [OF K r(2) pa_wf r(1) wf0 e0(1,2) hdr] by metis
      have res: "probe_stack_warp K S0 ctx key =
          Some (if skip then close_reader 0 st
                else send_signals f pa (close_reader 0 (submit_event K UPROBE_ENTER st)))"
        using run Some by (simp add: probe_stack_warp_def ini q tr pa f regs Let_def split: bool.split)
      show ?thesis
        using res wfc sub silent_trans [OF quiet1 sil] silent_submitted [OF quiet1 sub(2)] ini' tr f cf
        by (cases skip) (auto simp: stack_outcome_def traced_record_def)
    qed
  qed
qed

lemma uretprobe_stack_warp_outcome:
  assumes K: "helper_laws K" and S0: "wf_maps (build_module K) S0"
  shows "\<exists>S'. uretprobe_stack_warp K S0 ctx key = Some S' \<and> wf_maps (build_module K) S' \<and>
    stack_outcome K S0 ctx key UPROBE_EXIT S'"
proof -
  let ?m = "build_module K"
  obtain S q where ini: "init_program_data K S0 ctx = (S, q)" by fastforce
  have S: "wf_maps ?m S" using init_program_data_wf(1) [OF K S0, of ctx] ini by simp
  have quiet: "silent S0 S" using silent_init [of S0 K ctx] ini by simp
  have cf: "common_filter S = common_filter S0"
    using init_program_data_other(1) [of K S0 ctx] ini by simp
  show ?thesis
  proof (cases "\<exists>p pa f S1 saved. q = Some p \<and> should_trace S p \<and>
      bpf_map_lookup_elem (uretprobe_point_args S) key = Some pa \<and>
      bpf_map_lookup_elem (common_filter S) 0 = Some f \<and>
      uretprobe_stack_regs K S pa ctx = Some (S1, saved)")
    case False
    then have "uretprobe_stack_warp K S0 ctx key = Some S"
      by (auto simp: uretprobe_stack_warp_def ini split: option.split)
    then show ?thesis using S quiet by (auto simp: stack_outcome_def)
  next
    case True
    then obtain p pa f S1 saved where q: "q = Some p" and tr: "should_trace S p"
      and pa: "bpf_map_lookup_elem (uretprobe_point_args S) key = Some pa"
      and f: "bpf_map_lookup_elem (common_filter S) 0 = Some f"
      and regs: "uretprobe_stack_regs K S pa ctx = Some (S1, saved)" by blast
    let ?e = "save_call_site K f ctx (save_value_u32 K key 0 (pd_event p))"
    let ?hdr = "(0 # le_bytes 4 key) # call_site_frames K f ctx"
    let ?v = "READ_KERN K 8 (ctx + core_off K Regs_regs)"
    have pa_wf: "wf_point_args ?m pa" by (rule wf_maps_point_args(2) [OF S pa])
    note r = uretprobe_stack_regs_wf [OF S regs]
    have ini': "init_program_data K S0 ctx = (S, Some p)" using ini q by simp
    note e0 = init_program_data_Some [OF ini']
    have wf0: "wf_context (ev_context (pd_event p))" by (rule init_program_data_wf(2) [OF K S0 ini'])
    have hdr: "appended (pd_event p) ?e ?hdr" by (rule header_commits [OF e0(1)])
    have quiet1: "silent S0 S1" using silent_trans [OF quiet r(3)] .
    show ?thesis
    proof (cases "array_lookup_elem (op_ctx_map S1) 0")
      case None
      then have "uretprobe_stack_warp K S0 ctx key = Some (put_event S1 ?e)"
        by (simp add: uretprobe_stack_warp_def ini q tr pa f regs Let_def)
      moreover have "wf_context (ev_context ?e)"
        using appended_context [OF hdr] wf0 by (simp add: wf_context_def)
      ultimately show ?thesis
        using wf_maps_put_event [OF r(1)] quiet1 by (simp add: stack_outcome_def silent_def)
    next
      case (Some c)
      obtain st skip where run: "run_reader K (0 < op_count pa) pa saved
            \<lparr>rs_maps = S1, rs_event = ?e, rs_ctx = start_op_ctx ?v 4 c\<rparr> = Some (st, skip)"
        and wfc: "wf_maps ?m (close_reader 0 st)" and sil: "silent S1 (close_reader 0 st)"
        and sub: "\<And>f. wf_maps ?m (send_signals f pa (close_reader 0 (submit_event K UPROBE_EXIT st)))"
          "\<And>f. submitted K (ev_context (pd_event p)) UPROBE_EXIT ?hdr 4 S1
             (send_signals f pa (close_reader 0 (submit_event K UPROBE_EXIT st)))"
        using reader_tail [OF K r(2) pa_wf r(1) wf0 e0(1,2) hdr] by metis
      have res: "uretprobe_stack_warp K S0 ctx key =
          Some (if skip then close_reader 0 st
                else send_signals f pa (close_reader 0 (submit_event K UPROBE_EXIT st)))"
        using run Some by (simp add: uretprobe_stack_warp_def ini q tr pa f regs Let_def split: bool.split)
      show ?thesis
        using res wfc sub silent_trans [OF quiet1 sil] silent_submitted [OF quiet1 sub(2)] ini' tr f cf
        by (cases skip) (auto simp: stack_outcome_def traced_record_def)
    qed
  qed
qed

subsection \<open>From an entry to its return\<close>

text \<open>After its registers are chosen a program leaves the snapshots alone.\<close>

lemma probe_stack_warp_snapshots:
  assumes K: "helper_laws K" and S0: "wf_maps (build_module K) S0"
    and ini: "init_program_data K S0 ctx = (S, Some p)" and tr: "should_trace S p"
    and pa: "bpf_map_lookup_elem (uprobe_point_args S0) key = Some pa"
    and f: "bpf_map_lookup_elem (common_filter S0) 0 = Some f"
    and regs: "probe_stack_regs K S pa key (copy_pt_regs K ctx) = Some (S1, saved)"
    and run: "probe_stack_warp K S0 ctx key = Some S'"
  shows "ctx_regs_map S' = ctx_regs_map S1"
proof -
  let ?m = "build_module K" and ?e = "save_call_site K f ctx (save_value_u32 K key 0 (pd_event p))"
  have other: "uprobe_point_args S = uprobe_point_args S0" "common_filter S = common_filter S0"
    using init_program_data_other [of K S0 ctx] ini by simp_all
  have S: "wf_maps ?m S" using init_program_data_wf(1) [OF K S0, of ctx] ini by simp
  have pa_wf: "wf_point_args ?m pa" by (rule wf_maps_point_args(1) [OF S0 pa])
  note r = probe_stack_regs_wf [OF S wf_copy_pt_regs regs]
  note e0 = init_program_data_Some [OF ini]
  have wf0: "wf_context (ev_context (pd_event p))" by (rule init_program_data_wf(2) [OF K S0 ini])
  have hdr: "appended (pd_event p) ?e ((0 # le_bytes 4 key) # call_site_frames K f ctx)"
    by (rule header_commits [OF e0(1)])
  show ?thesis
  proof (cases "array_lookup_elem (op_ctx_map S1) 0")
    case None
    then show ?thesis using run by (auto simp: probe_stack_warp_def ini tr pa f other regs Let_def)
  next
    case (Some c)
    obtain st skip where "run_reader K True pa saved
          \<lparr>rs_maps = S1, rs_event = ?e, rs_ctx = start_op_ctx (regs saved ! 0) 4 c\<rparr> = Some (st, skip)"
      and "ctx_regs_map (close_reader 0 st) = ctx_regs_map S1"
      and "\<And>f. ctx_regs_map (send_signals f pa (close_reader 0 (submit_event K UPROBE_ENTER st))) = ctx_regs_map S1"
      using reader_tail [OF K r(2) pa_wf r(1) wf0 e0(1,2) hdr] by metis
    then show ?thesis
      using run Some by (cases skip) (auto simp: probe_stack_warp_def ini tr pa f other regs Let_def)
  qed
qed

lemma uretprobe_stack_warp_snapshots:
  assumes K: "helper_laws K" and S0: "wf_maps (build_module K) S0"
    and ini: "init_program_data K S0 ctx = (S, Some p)" and tr: "should_trace S p"
    and pa: "bpf_map_lookup_elem (uretprobe_point_args S0) key = Some pa"
    and f: "bpf_map_lookup_elem (common_filter S0) 0 = Some f"
    and regs: "uretprobe_stack_regs K S pa ctx = Some (S1, saved)"
    and run: "uretprobe_stack_warp K S0 ctx key = Some S'"
  shows "ctx_regs_map S' = ctx_regs_map S1"
proof -
  let ?m = "build_module K" and ?e = "save_call_site K f ctx (save_value_u32 K key 0 (pd_event p))"
  have other: "uretprobe_point_args S = uretprobe_point_args S0" "common_filter S = common_filter S0"
    using init_program_data_other [of K S0 ctx] ini by simp_all
  have S: "wf_maps ?m S" using init_program_data_wf(1) [OF K S0, of ctx] ini by simp
  have pa_wf: "wf_point_args ?m pa" by (rule wf_maps_point_args(2) [OF S0 pa])
  note r = uretprobe_stack_regs_wf [OF S regs]
  note e0 = init_program_data_Some [OF ini]
  have wf0: "wf_context (ev_context (pd_event p))" by (rule init_program_data_wf(2) [OF K S0 ini])
  have hdr: "appended (pd_event p) ?e ((0 # le_bytes 4 key) # call_site_frames K f ctx)"
    by (rule header_commits [OF e0(1)])
  show ?thesis
  proof (cases "array_lookup_elem (op_ctx_map S1) 0")
    case None
    then show ?thesis using run by (auto simp: uretprobe_stack_warp_def ini tr pa f other regs Let_def)
  next
    case (Some c)
    obtain st skip where "run_reader K (0 < op_count pa) pa saved
          \<lparr>rs_maps = S1, rs_event = ?e,
            rs_ctx = start_op_ctx (READ_KERN K 8 (ctx + core_off K Regs_regs)) 4 c\<rparr> = Some (st, skip)"
      and "ctx_regs_map (close_reader 0 st) = ctx_regs_map S1"
      and "\<And>f. ctx_regs_map (send_signals f pa (close_reader 0 (submit_event K UPROBE_EXIT st))) = ctx_regs_map S1"
      using reader_tail [OF K r(2) pa_wf r(1) wf0 e0(1,2) hdr] by metis
    then show ?thesis
      using run Some by (cases skip) (auto simp: uretprobe_stack_warp_def ini tr pa f other regs Let_def)
  qed
qed

text \<open>An entry point that keeps its registers leaves the snapshot to the later point of the thread.\<close>

lemma probe_stack_warp_keeps:
  assumes K: "helper_laws K" and S0: "wf_maps (build_module K) S0"
    and ini: "init_program_data K S0 ctx = (S, Some p)" and tr: "should_trace S p"
    and pa: "bpf_map_lookup_elem (uprobe_point_args S0) key = Some pa" "enter_key pa = key + 1" "enter_key pa \<noteq> 0"
    and f: "bpf_map_lookup_elem (common_filter S0) 0 = Some f"
    and room: "snapshot_room S0" and run: "probe_stack_warp K S0 ctx key = Some S'"
  shows "snapshot S' (UPROBE_ENTER + enter_key pa) (cur_tid K) = Some (copy_pt_regs K ctx)"
proof -
  let ?saved = "copy_pt_regs K ctx"
  have other: "ctx_regs_map S = ctx_regs_map S0" using init_program_data_other [of K S0 ctx] ini by simp
  define S1 where "S1 = fst (save_regs K S ?saved (UPROBE_ENTER + enter_key pa))"
  have regs: "probe_stack_regs K S pa key ?saved = Some (S1, ?saved)"
    using pa(2,3) by (simp add: probe_stack_regs_def S1_def add.assoc)
  have snap: "snapshot S1 (UPROBE_ENTER + enter_key pa) (cur_tid K) = Some ?saved"
    unfolding S1_def using room other by (intro snapshot_save_same) (simp add: snapshot_room_def)
  show ?thesis
    using snap probe_stack_warp_snapshots [OF K S0 ini tr pa(1) f regs run] by (simp add: snapshot_def)
qed

text \<open>The return point reads with exactly these registers, and uses the snapshot up.\<close>

lemma uretprobe_stack_regs_snapshot:
  assumes "snapshot S (UPROBE_ENTER + enter_key pa) (cur_tid K) = Some r" and "wf_ctx_regs r" and "enter_key pa \<noteq> 0"
  obtains S1 where "uretprobe_stack_regs K S pa ctx = Some (S1, r)"
    and "snapshot S1 (UPROBE_ENTER + enter_key pa) (cur_tid K) = None"
proof (rule that)
  show "uretprobe_stack_regs K S pa ctx = Some (fst (del_regs K S (UPROBE_ENTER + enter_key pa)), r)"
    using load_regs_Some [OF assms(1,2), of zero_ctx_regs] assms(3) by (simp add: uretprobe_stack_regs_def)
  show "snapshot (fst (del_regs K S (UPROBE_ENTER + enter_key pa))) (UPROBE_ENTER + enter_key pa) (cur_tid K) = None"
    by (simp add: snapshot_del)
qed

end
