(* ===== verification/Reader_Programs.thy ===== *)
theory Reader_Programs
  imports Reader_Facts
begin

unbundle bit_operations_syntax

text \<open>
  Running stored programs: how the turns of \<open>read_loop\<close> execute a list of configured operations
  (an operation with a post-operation takes two turns), straight-line programs, and the counted
  loop that two \<open>OP_FOR_BREAK\<close> around a body make.
\<close>

subsection \<open>One configured operation\<close>

text \<open>
  A turn that continues: \<open>None\<close> when the turn leaves the loop (\<open>return 0\<close> or a blacklist match).
\<close>

definition run_code ::
    "kenv \<Rightarrow> ctx_regs_t \<Rightarrow> op_config_t \<Rightarrow> u32 \<Rightarrow> u32 \<Rightarrow> u32 \<Rightarrow> rstate \<Rightarrow> rstate option" where
  "run_code K r cfg code post inc st =
     (case exec_code K r cfg (map_ctx (\<lambda>c. c\<lparr>op_code := code, post_code := post,
             op_key_index := op_key_index c + inc\<rparr>) st) of
        (st', Next) \<Rightarrow> if match_blacklist (rs_ctx st') = 1 then None else Some st'
      | (st', _) \<Rightarrow> None)"

definition run_cfg :: "kenv \<Rightarrow> ctx_regs_t \<Rightarrow> op_config_t \<Rightarrow> rstate \<Rightarrow> rstate option" where
  "run_cfg K r cfg st =
     Option.bind (run_code K r cfg (cfg_code cfg) (cfg_post_code cfg) 1 st)
       (\<lambda>st1. if cfg_post_code cfg = op_num OP_SKIP then Some st1
              else run_code K r cfg (cfg_post_code cfg) (op_num OP_SKIP) 0 st1)"

definition turns_of :: "op_config_t \<Rightarrow> nat" where
  "turns_of cfg = (if cfg_post_code cfg = op_num OP_SKIP then 1 else 2)"

fun run_block :: "kenv \<Rightarrow> ctx_regs_t \<Rightarrow> op_config_t list \<Rightarrow> rstate \<Rightarrow> rstate option" where
  "run_block K r [] st = Some st"
| "run_block K r (cfg # cfgs) st = Option.bind (run_cfg K r cfg st) (run_block K r cfgs)"

definition block_turns :: "op_config_t list \<Rightarrow> nat" where
  "block_turns cfgs = sum_list (map turns_of cfgs)"

lemma block_turns_simps [simp]:
  "block_turns [] = 0" "block_turns (cfg # cfgs) = turns_of cfg + block_turns cfgs"
  by (simp_all add: block_turns_def)

text \<open>The program of a point: the configurations its keys name, from position \<open>i\<close> on.\<close>

fun program_at ::
    "module_kind \<Rightarrow> point_args_t \<Rightarrow> (u32, op_config_t) hmap \<Rightarrow> nat \<Rightarrow> op_config_t list \<Rightarrow> bool" where
  "program_at m pa ops i [] = True"
| "program_at m pa ops i (cfg # cfgs) \<longleftrightarrow>
     i < MAX_OP_COUNT m \<and> bpf_map_lookup_elem ops (op_key_list pa ! i) = Some cfg \<and>
     program_at m pa ops (Suc i) cfgs"

lemma program_at_append:
  "program_at m pa ops i (cfgs @ cfgs') \<longleftrightarrow>
    program_at m pa ops i cfgs \<and> program_at m pa ops (i + length cfgs) cfgs'"
  by (induction cfgs arbitrary: i) auto

subsection \<open>What execution leaves alone\<close>

lemma op_read_reg_control:
  "post_code (fst (op_read_reg op r c)) = post_code c"
  "op_key_index (fst (op_read_reg op r c)) = op_key_index c"
  by (auto simp: op_read_reg_def Let_def split: option.splits)

lemma save_u64_control:
  "post_code (rs_ctx (save_u64 K v st)) = post_code (rs_ctx st)"
  "op_key_index (rs_ctx (save_u64 K v st)) = op_key_index (rs_ctx st)"
  by (simp_all add: save_u64_def)

lemma op_save_control:
  "post_code (rs_ctx (op_save_struct K op st)) = post_code (rs_ctx st)"
  "op_key_index (rs_ctx (op_save_struct K op st)) = op_key_index (rs_ctx st)"
  "post_code (rs_ctx (op_save_string K st)) = post_code (rs_ctx st)"
  "op_key_index (rs_ctx (op_save_string K st)) = op_key_index (rs_ctx st)"
  "post_code (rs_ctx (op_save_ptr_string K st)) = post_code (rs_ctx st)"
  "op_key_index (rs_ctx (op_save_ptr_string K st)) = op_key_index (rs_ctx st)"
  by (simp_all add: op_save_struct_def op_save_string_def op_save_ptr_string_def Let_def
    save_struct_ctx_def op_set_read_count_def save_u64_def case_prod_unfold)

lemma op_filter_control:
  "post_code (rs_ctx (fst (op_filter_value op st))) = post_code (rs_ctx st)"
  "op_key_index (rs_ctx (fst (op_filter_value op st))) = op_key_index (rs_ctx st)"
  "post_code (rs_ctx (fst (op_filter_buffer K op st))) = post_code (rs_ctx st)"
  "op_key_index (rs_ctx (fst (op_filter_buffer K op st))) = op_key_index (rs_ctx st)"
  "post_code (rs_ctx (fst (op_filter_string K op st))) = post_code (rs_ctx st)"
  "op_key_index (rs_ctx (fst (op_filter_string K op st))) = op_key_index (rs_ctx st)"
  by (simp_all add: op_filter_value_def op_filter_buffer_def op_filter_string_def Let_def map_ctx_def
    case_prod_unfold split: option.split)

lemmas control_simps = op_read_reg_control save_u64_control op_save_control op_filter_control

lemma exec_op_post_code: "post_code (rs_ctx (fst (exec_op K r op oc st))) = post_code (rs_ctx st)"
  by (cases oc) (simp_all add: op_defs Let_def map_ctx_def control_simps op_read_pointer_def
    op_read_std_string_def op_save_addr_def op_save_reg_def op_save_pointer_def case_prod_unfold)

lemma exec_op_key_index:
  "oc \<noteq> OP_FOR_BREAK \<Longrightarrow> op_key_index (rs_ctx (fst (exec_op K r op oc st))) = op_key_index (rs_ctx st)"
  by (cases oc) (simp_all add: op_defs Let_def map_ctx_def control_simps op_read_pointer_def
    op_read_std_string_def op_save_addr_def op_save_reg_def op_save_pointer_def case_prod_unfold)

lemma exec_code_post_code: "post_code (rs_ctx (fst (exec_code K r op st))) = post_code (rs_ctx st)"
  by (simp add: exec_code_def exec_op_post_code split: option.split)

lemma exec_code_key_index:
  "op_code (rs_ctx st) \<noteq> op_num OP_FOR_BREAK \<Longrightarrow>
    op_key_index (rs_ctx (fst (exec_code K r op st))) = op_key_index (rs_ctx st)"
  by (auto simp: exec_code_def exec_op_key_index op_num_inj simp del: op_num.simps
    dest!: op_code_of_Some split: option.split)

lemma op_filter_op_list:
  "op_list (rs_maps (fst (op_filter_value op st))) = op_list (rs_maps st)"
  "op_list (rs_maps (fst (op_filter_buffer K op st))) = op_list (rs_maps st)"
  "op_list (rs_maps (fst (op_filter_string K op st))) = op_list (rs_maps st)"
  using scratch_only_op_list [OF scratch_only_strcmp, of K "rs_maps st" "rs_ctx st"]
  by (simp_all add: op_filter_value_def op_filter_buffer_def op_filter_string_def Let_def map_ctx_def
    case_prod_unfold split: option.split)

lemma op_save_op_list:
  "rs_maps (save_u64 K v st) = rs_maps st" "rs_maps (op_save_struct K op st) = rs_maps st"
  "rs_maps (op_save_string K st) = rs_maps st" "rs_maps (op_save_ptr_string K st) = rs_maps st"
  by (simp_all add: op_save_struct_def op_save_string_def op_save_ptr_string_def Let_def
    save_u64_def case_prod_unfold)

lemma exec_op_op_list: "op_list (rs_maps (fst (exec_op K r op oc st))) = op_list (rs_maps st)"
  by (cases oc) (simp_all add: map_ctx_def op_filter_op_list op_save_op_list op_save_addr_def
    op_save_reg_def op_save_pointer_def case_prod_unfold Let_def)

lemma exec_code_op_list: "op_list (rs_maps (fst (exec_code K r op st))) = op_list (rs_maps st)"
  by (simp add: exec_code_def exec_op_op_list split: option.split)

lemma run_code_Some:
  assumes "run_code K r cfg code post inc st = Some st'"
  shows "exec_code K r cfg (map_ctx (\<lambda>c. c\<lparr>op_code := code, post_code := post,
      op_key_index := op_key_index c + inc\<rparr>) st) = (st', Next)"
    and "match_blacklist (rs_ctx st') \<noteq> 1"
    and "post_code (rs_ctx st') = post" and "op_list (rs_maps st') = op_list (rs_maps st)"
    and "code \<noteq> op_num OP_FOR_BREAK \<Longrightarrow> op_key_index (rs_ctx st') = op_key_index (rs_ctx st) + inc"
proof -
  let ?st = "map_ctx (\<lambda>c. c\<lparr>op_code := code, post_code := post, op_key_index := op_key_index c + inc\<rparr>) st"
  show ex: "exec_code K r cfg ?st = (st', Next)" and "match_blacklist (rs_ctx st') \<noteq> 1"
    using assms by (auto simp: run_code_def split: prod.splits flow.splits if_splits)
  show "post_code (rs_ctx st') = post"
    using exec_code_post_code [of K r cfg ?st] ex by (simp add: map_ctx_def)
  show "op_list (rs_maps st') = op_list (rs_maps st)"
    using exec_code_op_list [of K r cfg ?st] ex by (simp add: map_ctx_def)
  show "code \<noteq> op_num OP_FOR_BREAK \<Longrightarrow> op_key_index (rs_ctx st') = op_key_index (rs_ctx st) + inc"
    using exec_code_key_index [of ?st K r cfg] ex by (simp add: map_ctx_def)
qed

subsection \<open>Turns of the loop\<close>

lemma read_loop_turn:
  assumes "fetch (build_module K) (op_list (rs_maps st)) pa op (rs_ctx st) = Fetched o1 c"
    and "op_code c \<noteq> op_num OP_SKIP"
    and "exec_code K r o1 (st\<lparr>rs_ctx := c\<rparr>) = (st2, Next)" and "match_blacklist (rs_ctx st2) \<noteq> 1"
  shows "read_loop K pa r (Suc n) op st = read_loop K pa r n (Some o1) st2"
  using assms by (simp add: Let_def)

text \<open>No post-operation is pending, and the next key names \<open>cfg\<close>.\<close>

definition at_cfg :: "kenv \<Rightarrow> point_args_t \<Rightarrow> rstate \<Rightarrow> nat \<Rightarrow> bool" where
  "at_cfg K pa st i \<longleftrightarrow> wf_point_args (build_module K) pa \<and> post_code (rs_ctx st) = op_num OP_SKIP \<and>
     unat (op_key_index (rs_ctx st)) = i"

lemma fetch_cfg:
  assumes "at_cfg K pa st i" and "program_at (build_module K) pa ops i (cfg # cfgs)"
  shows "fetch (build_module K) ops pa op (rs_ctx st) =
    Fetched cfg ((rs_ctx st)\<lparr>op_code := cfg_code cfg, post_code := cfg_post_code cfg,
      op_key_index := op_key_index (rs_ctx st) + 1\<rparr>)"
  using assms by (auto simp: fetch_def at_cfg_def wf_point_args_def nth_opt_def)

lemma read_loop_cfg:
  assumes at: "at_cfg K pa st i"
    and prog: "program_at (build_module K) pa (op_list (rs_maps st)) i (cfg # cfgs)"
    and code: "cfg_code cfg \<noteq> op_num OP_SKIP" and run: "run_cfg K r cfg st = Some st'"
  shows "read_loop K pa r (turns_of cfg + n) op st = read_loop K pa r n (Some cfg) st'"
proof -
  from run obtain st1 where
    r1: "run_code K r cfg (cfg_code cfg) (cfg_post_code cfg) 1 st = Some st1"
    and r2: "(if cfg_post_code cfg = op_num OP_SKIP then Some st1
      else run_code K r cfg (cfg_post_code cfg) (op_num OP_SKIP) 0 st1) = Some st'"
    by (auto simp: run_cfg_def bind_eq_Some_conv)
  have turn1: "read_loop K pa r (Suc n') op st = read_loop K pa r n' (Some cfg) st1" for n'
    by (rule read_loop_turn [OF fetch_cfg [OF at prog]])
      (use code run_code_Some(1,2) [OF r1] in \<open>simp_all add: map_ctx_def\<close>)
  show ?thesis
  proof (cases "cfg_post_code cfg = op_num OP_SKIP")
    case True
    then show ?thesis using turn1 r2 by (simp add: turns_of_def)
  next
    case False
    then have r2: "run_code K r cfg (cfg_post_code cfg) (op_num OP_SKIP) 0 st1 = Some st'"
      using r2 by simp
    have "fetch (build_module K) (op_list (rs_maps st1)) pa (Some cfg) (rs_ctx st1) =
        Fetched cfg ((rs_ctx st1)\<lparr>op_code := cfg_post_code cfg, post_code := op_num OP_SKIP\<rparr>)"
      using run_code_Some(3) [OF r1] False by (simp add: fetch_def)
    then have "read_loop K pa r (Suc n) (Some cfg) st1 = read_loop K pa r n (Some cfg) st'"
      by (rule read_loop_turn) (use False run_code_Some(1,2) [OF r2] in \<open>simp_all add: map_ctx_def\<close>)
    then show ?thesis using turn1 [of "Suc n"] False by (simp add: turns_of_def)
  qed
qed

lemma run_cfg_post_code: "run_cfg K r cfg st = Some st' \<Longrightarrow> post_code (rs_ctx st') = op_num OP_SKIP"
  by (auto simp: run_cfg_def bind_eq_Some_conv dest: run_code_Some(3) split: if_splits)

lemma run_cfg_op_list: "run_cfg K r cfg st = Some st' \<Longrightarrow> op_list (rs_maps st') = op_list (rs_maps st)"
  by (auto simp: run_cfg_def bind_eq_Some_conv dest!: run_code_Some(4) split: if_splits)

text \<open>Operations that neither end the program nor jump.\<close>

definition plain_cfg :: "op_config_t \<Rightarrow> bool" where
  "plain_cfg cfg \<longleftrightarrow> cfg_code cfg \<noteq> op_num OP_SKIP \<and> cfg_code cfg \<noteq> op_num OP_FOR_BREAK \<and>
     cfg_post_code cfg \<noteq> op_num OP_FOR_BREAK"

lemma run_cfg_key_index:
  assumes "run_cfg K r cfg st = Some st'" and "plain_cfg cfg"
  shows "op_key_index (rs_ctx st') = op_key_index (rs_ctx st) + 1"
  using assms
  by (auto simp: run_cfg_def plain_cfg_def bind_eq_Some_conv dest!: run_code_Some(5) split: if_splits)

lemma unat_succ_u32: "unat w < 512 \<Longrightarrow> unat (w + 1) = Suc (unat (w :: u32))"
  by (simp add: unat_add_small)

lemma run_cfg_at:
  assumes "at_cfg K pa st i" "run_cfg K r cfg st = Some st'" "plain_cfg cfg" "i < MAX_OP_COUNT (build_module K)"
  shows "at_cfg K pa st' (Suc i)"
  using assms run_cfg_post_code [OF assms(2)] run_cfg_key_index [OF assms(2,3)]
    unat_succ_u32 [of "op_key_index (rs_ctx st)"] MAX_OP_COUNT_le [of "build_module K"]
  by (simp add: at_cfg_def)

text \<open>A block of plain operations takes its turns and moves the position past itself.\<close>

lemma read_loop_block:
  assumes "at_cfg K pa st i"
    and "program_at (build_module K) pa (op_list (rs_maps st)) i cfgs"
    and "list_all plain_cfg cfgs" and "run_block K r cfgs st = Some st'"
  shows "(\<exists>op'. \<forall>n. read_loop K pa r (block_turns cfgs + n) op st = read_loop K pa r n op' st') \<and>
    at_cfg K pa st' (i + length cfgs) \<and> op_list (rs_maps st') = op_list (rs_maps st)"
  using assms
proof (induction cfgs arbitrary: i op st)
  case (Cons cfg cfgs)
  from Cons.prems(4) obtain st1 where st1: "run_cfg K r cfg st = Some st1"
    and rest: "run_block K r cfgs st1 = Some st'" by (auto simp: bind_eq_Some_conv)
  have pl: "plain_cfg cfg" "cfg_code cfg \<noteq> op_num OP_SKIP" and pls: "list_all plain_cfg cfgs"
    using Cons.prems(3) by (simp_all add: plain_cfg_def [of cfg])
  have at1: "at_cfg K pa st1 (Suc i)"
    using run_cfg_at [OF Cons.prems(1) st1 pl(1)] Cons.prems(2) by simp
  have ol: "op_list (rs_maps st1) = op_list (rs_maps st)" by (rule run_cfg_op_list [OF st1])
  have prog: "program_at (build_module K) pa (op_list (rs_maps st1)) (Suc i) cfgs"
    using Cons.prems(2) ol by simp
  obtain op' where op': "\<forall>n. read_loop K pa r (block_turns cfgs + n) (Some cfg) st1 = read_loop K pa r n op' st'"
    and more: "at_cfg K pa st' (Suc i + length cfgs)" "op_list (rs_maps st') = op_list (rs_maps st1)"
    using Cons.IH [OF at1 prog pls rest, of "Some cfg"] by blast
  have "read_loop K pa r (block_turns (cfg # cfgs) + n) op st = read_loop K pa r n op' st'" for n
    using read_loop_cfg [OF Cons.prems(1,2) pl(2) st1, of "block_turns cfgs + n" op] op'
    by (simp add: add.assoc)
  then show ?case using more ol by auto
qed auto

text \<open>\<open>OP_SKIP\<close> ends the program.\<close>

lemma read_loop_skip:
  assumes "at_cfg K pa st i"
    and "program_at (build_module K) pa (op_list (rs_maps st)) i (cfg # cfgs)"
    and "cfg_code cfg = op_num OP_SKIP"
  shows "read_loop K pa r (Suc n) op st =
    (map_ctx (\<lambda>c. c\<lparr>op_code := op_num OP_SKIP, post_code := cfg_post_code cfg,
       op_key_index := op_key_index c + 1\<rparr>) st, Loop_done)"
  using fetch_cfg [OF assms(1,2), of op] assms(3) by (simp add: map_ctx_def)

text \<open>So a straight-line program that fits the budget of turns runs to its end.\<close>

lemma read_args_straight:
  assumes at: "at_cfg K pa st 0" and prog: "program_at (build_module K) pa (op_list (rs_maps st)) 0 (cfgs @ [stop])"
    and plain: "list_all plain_cfg cfgs" and stop: "cfg_code stop = op_num OP_SKIP"
    and budget: "block_turns cfgs < MAX_OP_COUNT (build_module K)"
    and run: "run_block K r cfgs st = Some st'"
  shows "read_args K pa r st = Some (map_ctx (\<lambda>c. skip_decision (c\<lparr>op_code := op_num OP_SKIP,
      post_code := cfg_post_code stop, op_key_index := op_key_index c + 1\<rparr>)) st')"
proof -
  obtain n where n: "MAX_OP_COUNT (build_module K) = block_turns cfgs + Suc n"
    using budget less_iff_Suc_add by auto
  have progs: "program_at (build_module K) pa (op_list (rs_maps st)) 0 cfgs"
    "program_at (build_module K) pa (op_list (rs_maps st)) (length cfgs) [stop]"
    using prog by (simp_all add: program_at_append)
  let ?op0 = "bpf_map_lookup_elem (op_list (rs_maps st)) 0"
  obtain op' where loop: "\<forall>n. read_loop K pa r (block_turns cfgs + n) ?op0 st = read_loop K pa r n op' st'"
    and at': "at_cfg K pa st' (length cfgs)" and ol: "op_list (rs_maps st') = op_list (rs_maps st)"
    using read_loop_block [OF at progs(1) plain run, of ?op0] by auto
  have "read_loop K pa r (Suc n) op' st' = (map_ctx (\<lambda>c. c\<lparr>op_code := op_num OP_SKIP,
      post_code := cfg_post_code stop, op_key_index := op_key_index c + 1\<rparr>) st', Loop_done)"
    by (rule read_loop_skip [where cfgs = "[]", OF at' _ stop]) (use progs(2) ol in simp)
  then show ?thesis
    using loop by (simp only: read_args_def n) (simp add: map_ctx_def)
qed

subsection \<open>Reading registers\<close>

text \<open>\<open>Add_READ_SAVE_REG\<close> of \<open>user/argtype/op_helper.go\<close>, the operation of an integer argument.\<close>

definition READ_SAVE_REG :: "nat \<Rightarrow> op_config_t" where
  "READ_SAVE_REG v = \<lparr>cfg_code = op_num OP_READ_REG, cfg_pre_code = op_num OP_SET_REG_INDEX,
     cfg_post_code = op_num OP_SAVE_REG, cfg_value = of_nat v\<rparr>"

definition OPC_MOVE_REG_VALUE :: op_config_t where
  "OPC_MOVE_REG_VALUE = \<lparr>cfg_code = op_num OP_MOVE_REG_VALUE, cfg_pre_code = op_num OP_SKIP,
     cfg_post_code = op_num OP_SKIP, cfg_value = 0\<rparr>"

definition OPC_SKIP :: op_config_t where
  "OPC_SKIP = \<lparr>cfg_code = op_num OP_SKIP, cfg_pre_code = op_num OP_SKIP,
     cfg_post_code = op_num OP_SKIP, cfg_value = 0\<rparr>"

lemma exec_code_num:
  "op_code (rs_ctx st) = op_num oc \<Longrightarrow> exec_code K r op st = exec_op K r op oc st"
  by (simp add: exec_code_def)

lemma reg_index_bound: "v < 33 \<Longrightarrow> unat (ucast (of_nat v :: u64) :: u8) = v"
  by (simp add: unsigned_ucast_eq unat_of_nat take_bit_nat_eq_self)

lemma op_read_reg_value:
  assumes "wf_ctx_regs r" and "v < 33"
  shows "op_read_reg (READ_SAVE_REG v) r c =
    (c\<lparr>reg_index := of_nat v, reg_value := ctx_regs_words r ! v\<rparr>, Next)"
proof -
  have u: "unat (of_nat v :: u8) = v"
    using assms(2) by (simp add: unat_of_nat take_bit_nat_eq_self)
  have lt: "\<not> REG_ARM64_MAX \<le> (of_nat v :: u8)"
    using assms(2) u by (simp add: word_le_nat_alt const_simps)
  have c: "ucast (of_nat v :: u64) = (of_nat v :: u8)"
    using reg_index_bound [OF assms(2)] u by (simp add: word_unat_eq_iff)
  show ?thesis
    using assms lt u c by (simp add: op_read_reg_def READ_SAVE_REG_def ctx_regs_at_in_struct Let_def)
qed

text \<open>What one such operation does.\<close>

lemma run_read_save_reg:
  assumes "wf_ctx_regs r" and "v < 33" and "match_blacklist (rs_ctx st) \<noteq> 1"
  obtains st' where "run_cfg K r (READ_SAVE_REG v) st = Some st'"
    and "rs_event st' = fst (save_to_submit_buf K (rs_event st) (Obj (le_bytes 8 (ctx_regs_words r ! v))) 8
      (save_index (rs_ctx st)))"
    and "save_index (rs_ctx st') = save_index (rs_ctx st) + 1"
    and "match_blacklist (rs_ctx st') = match_blacklist (rs_ctx st)"
    and "apply_filter (rs_ctx st') = apply_filter (rs_ctx st)" "skip_flag (rs_ctx st') = skip_flag (rs_ctx st)"
      "reg_value (rs_ctx st') = ctx_regs_words r ! v"
    and "rs_maps st' = rs_maps st"
proof -
  let ?w = "ctx_regs_words r ! v"
  let ?st1 = "map_ctx (\<lambda>c. c\<lparr>op_code := op_num OP_READ_REG, post_code := op_num OP_SAVE_REG,
    op_key_index := op_key_index c + 1, reg_index := of_nat v, reg_value := ?w\<rparr>) st"
  have r1: "run_code K r (READ_SAVE_REG v) (op_num OP_READ_REG) (op_num OP_SAVE_REG) 1 st = Some ?st1"
    using assms(3) op_read_reg_value [OF assms(1,2)]
    by (simp add: run_code_def exec_code_num [where oc = OP_READ_REG] map_ctx_def)
  let ?st2 = "save_u64 K ?w (map_ctx (\<lambda>c. c\<lparr>op_code := op_num OP_SAVE_REG, post_code := op_num OP_SKIP,
    op_key_index := op_key_index c + 0\<rparr>) ?st1)"
  have r2: "run_code K r (READ_SAVE_REG v) (op_num OP_SAVE_REG) (op_num OP_SKIP) 0 ?st1 = Some ?st2"
    using assms(3)
    by (simp add: run_code_def exec_code_num [where oc = OP_SAVE_REG] map_ctx_def op_save_reg_def save_u64_def)
  have "run_cfg K r (READ_SAVE_REG v) st = Some ?st2"
    using r1 r2 by (simp add: run_cfg_def READ_SAVE_REG_def)
  then show ?thesis by (rule that) (simp_all add: save_u64_def map_ctx_def)
qed

lemma run_move_reg_value:
  "match_blacklist (rs_ctx st) \<noteq> 1 \<Longrightarrow> run_cfg K r OPC_MOVE_REG_VALUE st =
    Some (map_ctx (\<lambda>c. op_move_reg_value (c\<lparr>op_code := op_num OP_MOVE_REG_VALUE,
      post_code := op_num OP_SKIP, op_key_index := op_key_index c + 1\<rparr>)) st)"
  by (simp add: run_cfg_def run_code_def OPC_MOVE_REG_VALUE_def
    exec_code_num [where oc = OP_MOVE_REG_VALUE] map_ctx_def op_move_reg_value_def)

text \<open>The frames of a list of 64-bit values saved from index \<open>i\<close> on.\<close>

fun value_frames :: "u8 \<Rightarrow> u64 list \<Rightarrow> u8 list list" where
  "value_frames i [] = []"
| "value_frames i (w # ws) = (i # le_bytes 8 w) # value_frames (i + 1) ws"

lemma length_concat_value_frames [simp]: "length (concat (value_frames i ws)) = 9 * length ws"
  by (induction ws arbitrary: i) auto

lemma length_value_frames [simp]: "length (value_frames i ws) = length ws"
  by (induction ws arbitrary: i) auto

lemma value_frames_append:
  "value_frames i (xs @ ys) = value_frames i xs @ value_frames (i + of_nat (length xs)) ys"
  by (induction xs arbitrary: i) (simp_all add: algebra_simps)

lemma save_u64_commits:
  assumes "unat (buf_off e) \<le> 31889"
  shows "appended e (fst (save_to_submit_buf K e (Obj (le_bytes 8 (w :: u64))) 8 idx)) [idx # le_bytes 8 w]"
  using save_obj_result [of "le_bytes 8 w" 8 e K idx] assms by (simp add: MAX_ELEMENT_SIZE_def)

lemma run_int_arg:
  assumes "wf_ctx_regs r" and "v < 33" and "match_blacklist (rs_ctx st) \<noteq> 1"
    and "unat (buf_off (rs_event st)) \<le> 31889"
  obtains st' where "\<And>cfgs. run_block K r (READ_SAVE_REG v # OPC_MOVE_REG_VALUE # cfgs) st = run_block K r cfgs st'"
    and "appended (rs_event st) (rs_event st') [save_index (rs_ctx st) # le_bytes 8 (ctx_regs_words r ! v)]"
    and "save_index (rs_ctx st') = save_index (rs_ctx st) + 1"
    and "match_blacklist (rs_ctx st') = match_blacklist (rs_ctx st)"
    and "apply_filter (rs_ctx st') = apply_filter (rs_ctx st)" "skip_flag (rs_ctx st') = skip_flag (rs_ctx st)"
      "reg_value (rs_ctx st') = ctx_regs_words r ! v" and "rs_maps st' = rs_maps st"
proof -
  obtain st1 where st1: "run_cfg K r (READ_SAVE_REG v) st = Some st1"
    "rs_event st1 = fst (save_to_submit_buf K (rs_event st) (Obj (le_bytes 8 (ctx_regs_words r ! v))) 8
      (save_index (rs_ctx st)))"
    "save_index (rs_ctx st1) = save_index (rs_ctx st) + 1"
    "match_blacklist (rs_ctx st1) = match_blacklist (rs_ctx st)"
    "apply_filter (rs_ctx st1) = apply_filter (rs_ctx st)" "skip_flag (rs_ctx st1) = skip_flag (rs_ctx st)"
    "reg_value (rs_ctx st1) = ctx_regs_words r ! v" "rs_maps st1 = rs_maps st"
    using run_read_save_reg [OF assms(1-3)] by blast
  let ?st2 = "map_ctx (\<lambda>c. op_move_reg_value (c\<lparr>op_code := op_num OP_MOVE_REG_VALUE,
      post_code := op_num OP_SKIP, op_key_index := op_key_index c + 1\<rparr>)) st1"
  show ?thesis
    using st1 assms(3) save_u64_commits [OF assms(4)]
    by (intro that [of ?st2]) (simp_all add: run_move_reg_value map_ctx_def op_move_reg_value_def)
qed

end
