(* ===== verification/Reader_Loop.thy ===== *)
theory Reader_Loop
  imports Reader_Programs
begin

unbundle bit_operations_syntax

text \<open>
  The counted loop of the argument reader: \<open>OP_FOR_BREAK\<close>, a body, and \<open>OP_FOR_BREAK\<close> again. The
  body runs as often as \<open>break_count\<close> says, and once when it says 0.
\<close>

subsection \<open>The loop's own operation\<close>

definition FOR_BREAK :: op_config_t where
  "FOR_BREAK = \<lparr>cfg_code = op_num OP_FOR_BREAK, cfg_pre_code = op_num OP_SKIP,
     cfg_post_code = op_num OP_SKIP, cfg_value = 0\<rparr>"

lemma turns_of_FOR_BREAK [simp]: "turns_of FOR_BREAK = 1"
  by (simp add: turns_of_def FOR_BREAK_def)

definition for_break_state :: "rstate \<Rightarrow> rstate" where
  "for_break_state = map_ctx (\<lambda>c. op_for_break (c\<lparr>op_code := op_num OP_FOR_BREAK,
     post_code := op_num OP_SKIP, op_key_index := op_key_index c + 1\<rparr>))"

lemma run_for_break:
  "match_blacklist (rs_ctx st) \<noteq> 1 \<Longrightarrow> run_cfg K r FOR_BREAK st = Some (for_break_state st)"
  by (simp add: run_cfg_def run_code_def FOR_BREAK_def exec_code_num [where oc = OP_FOR_BREAK]
    map_ctx_def for_break_state_def op_for_break_def Let_def)

lemma for_break_state_other:
  "rs_event (for_break_state st) = rs_event st" "rs_maps (for_break_state st) = rs_maps st"
  "save_index (rs_ctx (for_break_state st)) = save_index (rs_ctx st)"
  "match_blacklist (rs_ctx (for_break_state st)) = match_blacklist (rs_ctx st)"
  "post_code (rs_ctx (for_break_state st)) = op_num OP_SKIP"
  "read_addr (rs_ctx (for_break_state st)) = read_addr (rs_ctx st)"
  by (simp_all add: for_break_state_def map_ctx_def op_for_break_def Let_def)

lemma for_break_done:
  assumes "break_count (rs_ctx st) \<le> loop_count (rs_ctx st)"
  shows "loop_count (rs_ctx (for_break_state st)) = 0" "break_count (rs_ctx (for_break_state st)) = 0"
    "op_key_index (rs_ctx (for_break_state st)) = op_key_index (rs_ctx st) + 1"
  using assms by (cases "loop_count (rs_ctx st) = 0"; simp add: for_break_state_def map_ctx_def
    op_for_break_def Let_def word_le_0_iff)+

lemma for_break_again:
  assumes "loop_count (rs_ctx st) < break_count (rs_ctx st)"
  shows "loop_count (rs_ctx (for_break_state st)) = loop_count (rs_ctx st) + 1"
    "break_count (rs_ctx (for_break_state st)) = break_count (rs_ctx st)"
    "loop_index (rs_ctx (for_break_state st)) =
      (if loop_count (rs_ctx st) = 0 then op_key_index (rs_ctx st) + 1 else loop_index (rs_ctx st))"
    "op_key_index (rs_ctx (for_break_state st)) =
      (if loop_count (rs_ctx st) = 0 then op_key_index (rs_ctx st) + 1 else loop_index (rs_ctx st))"
  using assms by (auto simp: for_break_state_def map_ctx_def op_for_break_def Let_def)

subsection \<open>Bodies that leave the loop variables alone\<close>

definition loop_codes :: "op_code_e list" where
  "loop_codes = [OP_RESET_CTX, OP_FOR_BREAK, OP_SET_BREAK_COUNT, OP_SET_BREAK_COUNT_REG_VALUE,
     OP_SET_BREAK_COUNT_POINTER_VALUE, OP_SAVE_PTR_STRING]"

definition loop_vars :: "rstate \<Rightarrow> u8 \<times> u8 \<times> u32" where
  "loop_vars st = (loop_count (rs_ctx st), break_count (rs_ctx st), loop_index (rs_ctx st))"

lemma op_read_reg_loop:
  "loop_count (fst (op_read_reg op r c)) = loop_count c"
  "break_count (fst (op_read_reg op r c)) = break_count c"
  "loop_index (fst (op_read_reg op r c)) = loop_index c"
  by (auto simp: op_read_reg_def Let_def split: option.splits)

lemma op_filter_loop:
  "loop_vars (fst (op_filter_value op st)) = loop_vars st"
  "loop_vars (fst (op_filter_buffer K op st)) = loop_vars st"
  "loop_vars (fst (op_filter_string K op st)) = loop_vars st"
  by (simp_all add: op_filter_value_def op_filter_buffer_def op_filter_string_def Let_def map_ctx_def
    loop_vars_def case_prod_unfold split: option.split)

lemma op_save_loop:
  "loop_vars (save_u64 K v st) = loop_vars st" "loop_vars (op_save_struct K op st) = loop_vars st"
  "loop_vars (op_save_string K st) = loop_vars st"
  by (simp_all add: op_save_struct_def op_save_string_def Let_def loop_vars_def save_struct_ctx_def
    op_set_read_count_def save_u64_def case_prod_unfold)

lemma exec_op_loop_vars:
  "oc \<notin> set loop_codes \<Longrightarrow> loop_vars (fst (exec_op K r op oc st)) = loop_vars st"
  by (cases oc) (simp_all add: loop_codes_def op_filter_loop op_save_loop op_save_addr_def
    op_save_reg_def op_save_pointer_def,
    simp_all add: op_defs Let_def map_ctx_def loop_vars_def op_read_pointer_def
    op_read_std_string_def op_read_reg_loop case_prod_unfold)

definition body_cfg :: "op_config_t \<Rightarrow> bool" where
  "body_cfg cfg \<longleftrightarrow> plain_cfg cfg \<and>
     cfg_code cfg \<notin> op_num ` set loop_codes \<and> cfg_post_code cfg \<notin> op_num ` set loop_codes"

lemma run_code_loop_vars:
  assumes run: "run_code K r cfg code post inc st = Some st'" and "code \<notin> op_num ` set loop_codes"
  shows "loop_vars st' = loop_vars st"
proof -
  let ?st = "map_ctx (\<lambda>c. c\<lparr>op_code := code, post_code := post, op_key_index := op_key_index c + inc\<rparr>) st"
  have st: "loop_vars ?st = loop_vars st" "op_code (rs_ctx ?st) = code"
    by (simp_all add: loop_vars_def map_ctx_def)
  have "loop_vars (fst (exec_code K r cfg ?st)) = loop_vars ?st"
    using assms(2) st(2) exec_op_loop_vars [of _ K r cfg ?st]
    by (auto simp: exec_code_def simp del: op_num.simps split: option.split dest!: op_code_of_Some)
  then show ?thesis using run_code_Some(1) [OF run] st(1) by simp
qed

lemma run_cfg_loop_vars: "run_cfg K r cfg st = Some st' \<Longrightarrow> body_cfg cfg \<Longrightarrow> loop_vars st' = loop_vars st"
  unfolding run_cfg_def body_cfg_def bind_eq_Some_conv
  by (elim exE conjE) (metis option.inject run_code_loop_vars)

lemma run_block_loop_vars:
  "run_block K r cfgs st = Some st' \<Longrightarrow> list_all body_cfg cfgs \<Longrightarrow> loop_vars st' = loop_vars st"
  by (induction cfgs arbitrary: st) (auto simp: bind_eq_Some_conv dest: run_cfg_loop_vars)

subsection \<open>Passes\<close>

text \<open>\<open>n\<close> times the body, each followed by the closing \<open>OP_FOR_BREAK\<close>.\<close>

fun loop_passes :: "kenv \<Rightarrow> ctx_regs_t \<Rightarrow> op_config_t list \<Rightarrow> nat \<Rightarrow> rstate \<Rightarrow> rstate option" where
  "loop_passes K r body 0 st = Some st"
| "loop_passes K r body (Suc n) st =
     Option.bind (run_block K r body st) (\<lambda>st1.
     Option.bind (run_cfg K r FOR_BREAK st1) (loop_passes K r body n))"

lemma for_break_at:
  assumes "wf_point_args (build_module K) pa" and "unat (op_key_index (rs_ctx (for_break_state st))) = j"
  shows "at_cfg K pa (for_break_state st) j"
  using assms by (simp add: at_cfg_def for_break_state_other)

text \<open>The state at the head of pass \<open>k\<close> of \<open>b\<close>: the body starts at position \<open>i\<close>.\<close>

definition pass_head :: "kenv \<Rightarrow> point_args_t \<Rightarrow> nat \<Rightarrow> u8 \<Rightarrow> u8 \<Rightarrow> rstate \<Rightarrow> bool" where
  "pass_head K pa i k b st \<longleftrightarrow> at_cfg K pa st i \<and> loop_count (rs_ctx st) = k \<and>
     break_count (rs_ctx st) = b \<and> (k = 0 \<longrightarrow> b = 0) \<and>
     (k \<noteq> 0 \<longrightarrow> unat (loop_index (rs_ctx st)) = i)"

definition loop_exit :: "kenv \<Rightarrow> point_args_t \<Rightarrow> nat \<Rightarrow> rstate \<Rightarrow> bool" where
  "loop_exit K pa j st \<longleftrightarrow> at_cfg K pa st j \<and> loop_count (rs_ctx st) = 0 \<and> break_count (rs_ctx st) = 0"

lemma succ_u8: "k < b \<Longrightarrow> unat (k + 1) = Suc (unat (k :: u8))"
  using unsigned_less [where w = b and ?'a = nat] unat_add_small [of k 1] by (simp add: word_less_nat_alt)

lemma one_pass:
  assumes head: "pass_head K pa i k b st" and body: "list_all body_cfg body"
    and prog: "program_at (build_module K) pa (op_list (rs_maps st)) i (body @ [FOR_BREAK])"
    and run: "run_block K r body st = Some st1" and fb: "run_cfg K r FOR_BREAK st1 = Some st2"
  shows "\<exists>op'. \<forall>n. read_loop K pa r (Suc (block_turns body) + n) op st = read_loop K pa r n op' st2"
    and "op_list (rs_maps st2) = op_list (rs_maps st)"
    and "b \<le> k \<Longrightarrow> loop_exit K pa (Suc (i + length body)) st2"
    and "k < b \<Longrightarrow> pass_head K pa i (k + 1) b st2"
proof -
  have plain: "list_all plain_cfg body" using body by (auto simp: body_cfg_def list_all_iff)
  have at0: "at_cfg K pa st i" using head by (simp add: pass_head_def)
  have progs: "program_at (build_module K) pa (op_list (rs_maps st)) i body"
    "program_at (build_module K) pa (op_list (rs_maps st)) (i + length body) [FOR_BREAK]"
    using prog by (simp_all add: program_at_append)
  obtain op1 where turns: "\<forall>n. read_loop K pa r (block_turns body + n) op st = read_loop K pa r n op1 st1"
    and at1: "at_cfg K pa st1 (i + length body)" and ol1: "op_list (rs_maps st1) = op_list (rs_maps st)"
    using read_loop_block [OF at0 progs(1) plain run, of op] by blast
  have fb_code: "cfg_code FOR_BREAK \<noteq> op_num OP_SKIP" by (simp add: FOR_BREAK_def)
  have step: "read_loop K pa r (Suc n) op1 st1 = read_loop K pa r n (Some FOR_BREAK) st2" for n
    using read_loop_cfg [OF at1 _ fb_code fb, of "[]" n op1] progs(2) ol1 by simp
  have "read_loop K pa r (Suc (block_turns body) + n) op st = read_loop K pa r n (Some FOR_BREAK) st2" for n
    using spec [OF turns, of "Suc n"] step [of n] by simp
  then show "\<exists>op'. \<forall>n. read_loop K pa r (Suc (block_turns body) + n) op st = read_loop K pa r n op' st2"
    by blast
  show "op_list (rs_maps st2) = op_list (rs_maps st)" using run_cfg_op_list [OF fb] ol1 by simp
  have vars: "loop_count (rs_ctx st1) = k" "break_count (rs_ctx st1) = b"
    "loop_index (rs_ctx st1) = loop_index (rs_ctx st)"
    using run_block_loop_vars [OF run body] head by (simp_all add: loop_vars_def pass_head_def)
  have "match_blacklist (rs_ctx st1) \<noteq> 1"
  proof
    assume "match_blacklist (rs_ctx st1) = 1"
    then have "run_cfg K r FOR_BREAK st1 = None"
      by (simp add: run_cfg_def run_code_def FOR_BREAK_def exec_code_num [where oc = OP_FOR_BREAK]
        map_ctx_def op_for_break_def Let_def)
    with fb show False by simp
  qed
  then have st2: "st2 = for_break_state st1" using fb run_for_break by simp
  have wf: "wf_point_args (build_module K) pa" using at0 by (simp add: at_cfg_def)
  show "loop_exit K pa (Suc (i + length body)) st2" if "b \<le> k"
  proof -
    have "i + length body < MAX_OP_COUNT (build_module K)" using progs(2) by simp
    then have "unat (op_key_index (rs_ctx st1) + 1) = Suc (i + length body)"
      using at1 unat_succ_u32 [of "op_key_index (rs_ctx st1)"] MAX_OP_COUNT_le [of "build_module K"]
      by (simp add: at_cfg_def)
    then show ?thesis
      using for_break_done [of st1] vars that for_break_at [OF wf, of st1]
      by (simp add: loop_exit_def st2)
  qed
  show "pass_head K pa i (k + 1) b st2" if "k < b"
  proof -
    have k: "k \<noteq> 0" using that head by (auto simp: pass_head_def)
    have "k + 1 \<noteq> 0" using succ_u8 [OF that] by (metis nat.distinct(1) unat_0)
    then show ?thesis
      using for_break_again [of st1] vars that k head for_break_at [OF wf, of st1 i]
      by (simp add: pass_head_def st2)
  qed
qed

lemma many_passes:
  assumes "pass_head K pa i k b st" and "list_all body_cfg body"
    and "program_at (build_module K) pa (op_list (rs_maps st)) i (body @ [FOR_BREAK])"
    and "loop_passes K r body (Suc d) st = Some st'" and "unat b - unat k = d" and "k \<le> b"
  shows "(\<exists>op'. \<forall>n. read_loop K pa r (Suc d * Suc (block_turns body) + n) op st = read_loop K pa r n op' st') \<and>
    loop_exit K pa (Suc (i + length body)) st' \<and> op_list (rs_maps st') = op_list (rs_maps st)"
  using assms
proof (induction d arbitrary: st k op)
  case 0
  then obtain st1 where "run_block K r body st = Some st1" "run_cfg K r FOR_BREAK st1 = Some st'"
    by (auto simp: bind_eq_Some_conv)
  note pass = one_pass [OF 0(1-3) this]
  have "b \<le> k" using 0(5) by (simp add: word_le_nat_alt)
  then show ?case using pass by simp
next
  case (Suc d)
  then obtain st1 st2 where run: "run_block K r body st = Some st1" "run_cfg K r FOR_BREAK st1 = Some st2"
    and rest: "loop_passes K r body (Suc d) st2 = Some st'" by (auto simp: bind_eq_Some_conv)
  note pass = one_pass [OF Suc.prems(1-3) run]
  have lt: "k < b" using Suc.prems(5) by (simp add: word_less_nat_alt)
  have k1: "unat (k + 1) = Suc (unat k)" by (rule succ_u8 [OF lt])
  obtain op1 where op1: "\<forall>n. read_loop K pa r (Suc (block_turns body) + n) op st = read_loop K pa r n op1 st2"
    using pass(1) by blast
  have prog2: "program_at (build_module K) pa (op_list (rs_maps st2)) i (body @ [FOR_BREAK])"
    using Suc.prems(3) pass(2) by simp
  have d: "unat b - unat (k + 1) = d" "k + 1 \<le> b"
    using Suc.prems(5) k1 lt by (simp_all add: inc_le)
  obtain op2 where op2: "\<forall>n. read_loop K pa r (Suc d * Suc (block_turns body) + n) op1 st2 = read_loop K pa r n op2 st'"
    and more: "loop_exit K pa (Suc (i + length body)) st'" "op_list (rs_maps st') = op_list (rs_maps st2)"
    using Suc.IH [OF pass(4) [OF lt] Suc.prems(2) prog2 rest d, of op1] by blast
  have "read_loop K pa r (Suc (Suc d) * Suc (block_turns body) + n) op st = read_loop K pa r n op2 st'" for n
  proof -
    have "Suc (Suc d) * Suc (block_turns body) + n =
        Suc (block_turns body) + (Suc d * Suc (block_turns body) + n)"
      by (simp only: mult_Suc add.assoc)
    then show ?thesis
      using spec [OF op1, of "Suc d * Suc (block_turns body) + n"] spec [OF op2, of n] by (simp only:)
  qed
  then show ?case using more pass(2) by auto
qed

subsection \<open>The whole loop\<close>

lemma read_loop_for:
  assumes at: "at_cfg K pa st i" and body: "list_all body_cfg body"
    and prog: "program_at (build_module K) pa (op_list (rs_maps st)) i (FOR_BREAK # body @ [FOR_BREAK])"
    and lc: "loop_count (rs_ctx st) = 0" and mb: "match_blacklist (rs_ctx st) \<noteq> 1"
    and run: "loop_passes K r body (max 1 (unat (break_count (rs_ctx st)))) (for_break_state st) = Some st'"
  shows "(\<exists>op'. \<forall>n. read_loop K pa r
        (Suc (max 1 (unat (break_count (rs_ctx st))) * Suc (block_turns body)) + n) op st =
      read_loop K pa r n op' st') \<and>
    loop_exit K pa (i + length body + 2) st' \<and> op_list (rs_maps st') = op_list (rs_maps st)"
proof -
  let ?b = "break_count (rs_ctx st)" and ?st0 = "for_break_state st"
  have fb: "run_cfg K r FOR_BREAK st = Some ?st0" by (rule run_for_break [OF mb])
  have fb_code: "cfg_code FOR_BREAK \<noteq> op_num OP_SKIP" by (simp add: FOR_BREAK_def)
  have first: "read_loop K pa r (Suc n) op st = read_loop K pa r n (Some FOR_BREAK) ?st0" for n
    using read_loop_cfg [OF at prog fb_code fb, of n op] by simp
  have wf: "wf_point_args (build_module K) pa" using at by (simp add: at_cfg_def)
  have next_i: "unat (op_key_index (rs_ctx st) + 1) = Suc i"
    using at prog unat_succ_u32 [of "op_key_index (rs_ctx st)"] MAX_OP_COUNT_le [of "build_module K"]
    by (simp add: at_cfg_def)
  have prog0: "program_at (build_module K) pa (op_list (rs_maps ?st0)) (Suc i) (body @ [FOR_BREAK])"
    using prog by (simp add: for_break_state_other)
  obtain d where d: "max 1 (unat ?b) = Suc d" by (metis Suc_pred max.strict_coboundedI1 zero_less_one)
  have "\<exists>k \<le> ?b. pass_head K pa (Suc i) k ?b ?st0 \<and> unat ?b - unat k = d"
  proof (cases "?b = 0")
    case True
    then have "pass_head K pa (Suc i) 0 ?b ?st0"
      using for_break_done [of st] for_break_at [OF wf, of st "Suc i"] lc next_i by (simp add: pass_head_def)
    then show ?thesis using True d by auto
  next
    case False
    then have lt: "loop_count (rs_ctx st) < ?b" using lc by (simp add: word_greater_zero_iff)
    then have "pass_head K pa (Suc i) 1 ?b ?st0"
      using for_break_again [OF lt] for_break_at [OF wf, of st "Suc i"] lc next_i by (simp add: pass_head_def)
    moreover have "1 \<le> ?b" using lt lc inc_le by fastforce
    moreover have "unat ?b - unat (1 :: u8) = d" using d calculation(2) by (simp add: word_le_nat_alt)
    ultimately show ?thesis by blast
  qed
  then obtain k where k: "pass_head K pa (Suc i) k ?b ?st0" "unat ?b - unat k = d" "k \<le> ?b" by blast
  obtain op' where op': "\<forall>n. read_loop K pa r (Suc d * Suc (block_turns body) + n) (Some FOR_BREAK) ?st0 =
      read_loop K pa r n op' st'"
    and more: "loop_exit K pa (Suc (Suc i + length body)) st'" "op_list (rs_maps st') = op_list (rs_maps ?st0)"
    using many_passes [OF k(1) body prog0 run [unfolded d] k(2,3), of "Some FOR_BREAK"] by blast
  have "read_loop K pa r (Suc (Suc d * Suc (block_turns body)) + n) op st = read_loop K pa r n op' st'" for n
    using first [of "Suc d * Suc (block_turns body) + n"] spec [OF op', of n]
    by (simp only: add_Suc)
  moreover have "op_list (rs_maps st') = op_list (rs_maps st)"
    using more(2) by (simp add: for_break_state_other)
  moreover have "loop_exit K pa (i + length body + 2) st'" using more(1) by simp
  ultimately show ?thesis unfolding d by blast
qed

subsection \<open>The loop bound\<close>

lemma limit_break_count_le: "limit_break_count v \<le> 32"
proof (cases "v < 32")
  case True
  then have "unat v < 32" by (simp add: word_less_nat_alt)
  then have "unat (ucast v :: u8) \<le> 32"
    by (simp add: unsigned_ucast_eq take_bit_nat_eq_self)
  then show ?thesis using True by (simp add: limit_break_count_def const_simps word_le_nat_alt)
qed (simp add: limit_break_count_def const_simps)

lemma op_save_break_count:
  "break_count (rs_ctx (save_u64 K v st)) = break_count (rs_ctx st)"
  "break_count (rs_ctx (op_save_struct K op st)) = break_count (rs_ctx st)"
  "break_count (rs_ctx (op_save_string K st)) = break_count (rs_ctx st)"
  "break_count (rs_ctx (op_save_ptr_string K st)) = break_count (rs_ctx st)"
  "break_count (rs_ctx (fst (op_filter_value op st))) = break_count (rs_ctx st)"
  "break_count (rs_ctx (fst (op_filter_buffer K op st))) = break_count (rs_ctx st)"
  "break_count (rs_ctx (fst (op_filter_string K op st))) = break_count (rs_ctx st)"
  using op_save_loop(1) [of K v st] op_save_loop(2) [of K op st] op_save_loop(3) [of K st]
    op_filter_loop(1) [of op st] op_filter_loop(2,3) [of K op st]
  by (simp_all add: loop_vars_def op_save_struct_def op_save_ptr_string_def save_struct_ctx_def
    op_set_read_count_def save_u64_def Let_def case_prod_unfold)

lemma exec_op_break_count:
  "break_count (rs_ctx st) \<le> 32 \<Longrightarrow> break_count (rs_ctx (fst (exec_op K r op oc st))) \<le> 32"
  by (cases oc) (simp_all add: op_defs Let_def map_ctx_def limit_break_count_le op_save_break_count
    op_read_pointer_def op_read_std_string_def op_save_addr_def op_save_reg_def op_save_pointer_def
    op_read_reg_loop case_prod_unfold)

lemma exec_code_break_count:
  "break_count (rs_ctx st) \<le> 32 \<Longrightarrow> break_count (rs_ctx (fst (exec_code K r op st))) \<le> 32"
  by (simp add: exec_code_def exec_op_break_count split: option.split)

lemma fetch_break_count: "fetch m ops pa op c = Fetched o1 c' \<Longrightarrow> break_count c' = break_count c"
  by (auto simp: fetch_def split: option.splits if_splits)

lemma read_loop_break_count:
  "break_count (rs_ctx st) \<le> 32 \<Longrightarrow> break_count (rs_ctx (fst (read_loop K pa r n op st))) \<le> 32"
proof (induction n arbitrary: op st)
  case (Suc n)
  show ?case
  proof (cases "fetch (build_module K) (op_list (rs_maps st)) pa op (rs_ctx st)")
    case (Fetched o1 c)
    let ?st1 = "st\<lparr>rs_ctx := c\<rparr>"
    have c: "break_count (rs_ctx ?st1) \<le> 32" using fetch_break_count [OF Fetched] Suc.prems by simp
    obtain st2 fl where ex: "exec_code K r o1 ?st1 = (st2, fl)" by fastforce
    have "break_count (rs_ctx st2) \<le> 32" using exec_code_break_count [OF c, of K r o1] ex by simp
    then show ?thesis
      using Fetched ex c Suc.IH by (cases fl) (simp_all add: Let_def)
  qed (use Suc.prems in simp_all)
qed simp

lemma read_args_break_count:
  assumes "read_args K pa r st = Some st'" and "break_count (rs_ctx st) \<le> 32"
  shows "break_count (rs_ctx st') \<le> 32"
  using assms(1) read_loop_break_count [OF assms(2), of K pa r "MAX_OP_COUNT (build_module K)"
      "bpf_map_lookup_elem (op_list (rs_maps st)) 0"]
  by (auto simp: read_args_def map_ctx_def skip_decision_def split: prod.splits loop_end.splits)

end
