(* ===== verification/Reader_Saves.thy ===== *)
theory Reader_Saves
  imports Reader_Facts Frames
begin

unbundle bit_operations_syntax

text \<open>
  What the saving operations of the argument reader put on the wire: exactly one frame per saved
  item as long as there is room for the largest frame, with a size field that counts the payload;
  a failed read becomes an empty payload, or the end mark of a string array.
\<close>

text \<open>The payload of \<open>OP_SAVE_STRUCT\<close>: the bytes read, or nothing when the read fails.\<close>

definition struct_payload :: "kenv \<Rightarrow> u64 \<Rightarrow> u32 \<Rightarrow> u8 list" where
  "struct_payload K a n =
     (if n \<noteq> 0 \<and> fst (mem_probe_read K a (unat n)) = 0 then snd (mem_probe_read K a (unat n)) else [])"

definition string_payload :: "kenv \<Rightarrow> u64 \<Rightarrow> u8 list" where
  "string_payload K a =
     (if 0 \<le> fst (mem_probe_read_str K a MAX_STRING_SIZE)
      then snd (mem_probe_read_str K a MAX_STRING_SIZE) else [])"

lemma appended_nil_off: "appended e e1 [] \<Longrightarrow> unat (buf_off e1) = unat (buf_off e)"
  using appended_buf_off [of e e1 "[]"] by simp

lemma save_bytes_empty:
  assumes "helper_laws K" and "unat (buf_off e) \<le> 27899"
  shows "appended e (fst (save_bytes_to_buf K e (Addr a) 0 idx)) [payload_frame idx []]"
  using save_bytes_to_buf_result [OF assms(1), of "Addr a" 0 "[]" e idx] assms(2)
  by (simp add: payload_frame_def)

lemma save_bytes_payload:
  assumes K: "helper_laws K" and off: "unat (buf_off e) \<le> 27899" and n: "unat n \<le> 4096"
    and sv: "save_bytes_to_buf K e (Addr a) n idx = (e1, status)"
  shows "appended e (if status = 0 then fst (save_bytes_to_buf K e1 (Addr b) 0 idx) else e1)
    [payload_frame idx (struct_payload K a n)]"
proof -
  have m: "masked_size n = n" by (rule masked_size_small [OF n])
  let ?ws = "if n = 0 then [] else snd (bpf_probe_read K (Addr a) (unat (masked_size n)))"
  note res = save_bytes_to_buf_result [OF K, of "Addr a" n ?ws e idx, OF _ refl, unfolded sv m]
  show ?thesis
  proof (cases "n = 0 \<or> fst (mem_probe_read K a (unat n)) = 0")
    case True
    then have "status = 1" "length ?ws = unat n" "appended e e1 [idx # le_bytes 4 n @ ?ws]"
      using res off m by (simp_all split: if_split_asm)
    moreover have "n = of_nat (length ?ws)" using calculation(2) by simp
    ultimately show ?thesis
      using True by (simp add: payload_frame_def struct_payload_def m split: if_split_asm)
  next
    case False
    then have "status = 0" "appended e e1 []" using res off by simp_all
    then show ?thesis
      using appended_trans [OF _ save_bytes_empty [OF K, of e1 b idx]] appended_nil_off off False
      by (fastforce simp: struct_payload_def)
  qed
qed

lemma save_struct_ctx_len: "unat (read_len (save_struct_ctx op c)) \<le> 4096"
  by (auto simp: save_struct_ctx_def Let_def const_simps word_less_nat_alt not_less)

lemma op_save_struct_frame:
  assumes K: "helper_laws K" and off: "unat (buf_off (rs_event st)) \<le> 27899"
  shows "appended (rs_event st) (rs_event (op_save_struct K op st))
    [payload_frame (save_index (rs_ctx st))
      (struct_payload K (read_addr (save_struct_ctx op (rs_ctx st))) (read_len (save_struct_ctx op (rs_ctx st))))]"
proof -
  let ?c = "save_struct_ctx op (rs_ctx st)"
  obtain e1 status where sv:
    "save_bytes_to_buf K (rs_event st) (Addr (read_addr ?c)) (read_len ?c) (save_index (rs_ctx st)) = (e1, status)"
    by fastforce
  show ?thesis
    using save_bytes_payload [OF K off save_struct_ctx_len sv, where b = 0]
    by (cases "status = 0") (simp_all add: op_save_struct_def Let_def sv save_struct_ctx_simps)
qed

lemma length_struct_payload:
  assumes "helper_laws K" and "unat n \<le> 4096"
  shows "length (struct_payload K a n) \<le> 4096"
  using read_lawD(1) [OF helper_lawsD(1) [OF assms(1)], of a "unat n"] assms(2)
  by (simp add: struct_payload_def)

lemma length_string_payload: "helper_laws K \<Longrightarrow> length (string_payload K a) \<le> 4096"
  using read_str_lawD(1) [OF helper_lawsD(4), of K a MAX_STRING_SIZE]
  by (simp add: string_payload_def const_simps)

lemma save_str_payload:
  assumes K: "helper_laws K" and off: "unat (buf_off e) \<le> 27899"
    and sv: "save_str_to_buf K e (Addr a) idx = (e1, status)"
  shows "if 0 \<le> fst (mem_probe_read_str K a MAX_STRING_SIZE)
    then status = 1 \<and> appended e e1 [payload_frame idx (string_payload K a)]
    else status = 0 \<and> appended e e1 []"
proof -
  obtain sz ws where rd: "mem_probe_read_str K a MAX_STRING_SIZE = (sz, ws)" by fastforce
  then show ?thesis
    using save_str_to_buf_result [OF K, of "Addr a" sz ws e idx] off sv
    by (cases "0 \<le> sz") (simp_all add: payload_frame_def string_payload_def)
qed

lemma op_save_string_frame:
  assumes K: "helper_laws K" and off: "unat (buf_off (rs_event st)) \<le> 27899"
  defines "a \<equiv> read_addr (rs_ctx st) AND ADDR_MASK"
  shows "appended (rs_event st) (rs_event (op_save_string K st))
      [payload_frame (save_index (rs_ctx st)) (string_payload K a)]"
    and "0 \<le> fst (mem_probe_read_str K a MAX_STRING_SIZE) \<Longrightarrow>
      str_len (rs_ctx (op_save_string K st)) = of_nat (length (string_payload K a))"
proof -
  let ?i = "save_index (rs_ctx st)"
  obtain e1 status where sv: "save_str_to_buf K (rs_event st) (Addr a) ?i = (e1, status)" by fastforce
  note res = save_str_payload [OF K off sv]
  show "appended (rs_event st) (rs_event (op_save_string K st)) [payload_frame ?i (string_payload K a)]"
  proof (cases "0 \<le> fst (mem_probe_read_str K a MAX_STRING_SIZE)")
    case True
    then show ?thesis using res sv by (simp add: op_save_string_def Let_def a_def)
  next
    case False
    then have "status = 0" "appended (rs_event st) e1 []" "string_payload K a = []"
      using res by (simp_all add: string_payload_def)
    then show ?thesis
      using appended_trans [OF _ save_bytes_empty [OF K, of e1 0 ?i]] appended_nil_off off sv
      by (fastforce simp: op_save_string_def Let_def a_def)
  qed
  assume ok: "0 \<le> fst (mem_probe_read_str K a MAX_STRING_SIZE)"
  let ?p = "string_payload K a"
  have ap: "status = 1" "appended (rs_event st) e1 [payload_frame ?i ?p]" using res ok by simp_all
  have "unat (buf_off e1) = unat (buf_off (rs_event st)) + (length ?p + 5)"
    using appended_buf_off [OF ap(2)] by (simp add: payload_frame_def)
  then have "of_nat (unat (buf_off e1)) = (of_nat (unat (buf_off (rs_event st)) + (length ?p + 5)) :: u32)"
    by (rule arg_cong)
  then have "buf_off e1 = buf_off (rs_event st) + (of_nat (length ?p) + 5)" by simp
  then show "str_len (rs_ctx (op_save_string K st)) = of_nat (length ?p)"
    using sv ap(1) by (simp add: op_save_string_def Let_def a_def)
qed

subsection \<open>String arrays\<close>

text \<open>The pointer \<open>OP_SAVE_PTR_STRING\<close> reads: the untagged address itself when the read fails.\<close>

definition array_elem :: "kenv \<Rightarrow> u64 \<Rightarrow> u64" where
  "array_elem K addr =
     (let a = addr AND ADDR_MASK in read_user_u64 K a (PTR_SIZE (build_arch K)) a)"

text \<open>
  A terminator: the size field \<open>STRARR_MAGIC_LEN\<close> with no payload. It takes the size 0 that the
  mask leaves of the marker, and a read of no bytes must succeed.
\<close>

lemma save_bytes_marker:
  assumes K: "helper_laws K" and off: "unat (buf_off e) \<le> 27899" and zero: "fst (mem_probe_read K 0 0) = 0"
  shows "appended e (fst (save_bytes_to_buf K e (Addr 0) STRARR_MAGIC_LEN idx))
    [idx # le_bytes 4 STRARR_MAGIC_LEN]"
proof -
  have m: "masked_size STRARR_MAGIC_LEN = 0" by (simp add: masked_size_def const_simps)
  have ws: "snd (mem_probe_read K 0 0) = []"
    using read_lawD(1) [OF helper_lawsD(1) [OF K], of 0 0] by simp
  show ?thesis
    using save_bytes_to_buf_result [OF K, of "Addr 0" STRARR_MAGIC_LEN "[]" e idx] off zero ws
    by (simp add: m)
qed

lemma op_save_ptr_string_frames:
  assumes K: "helper_laws K" and off: "unat (buf_off (rs_event st)) \<le> 27890"
    and zero: "fst (mem_probe_read K 0 0) = 0"
  defines "ptr \<equiv> array_elem K (read_addr (rs_ctx st))" and "i \<equiv> save_index (rs_ctx st)"
  shows "if 0 \<le> fst (mem_probe_read_str K (ptr AND ADDR_MASK) MAX_STRING_SIZE)
    then appended (rs_event st) (rs_event (op_save_ptr_string K st))
        [i # le_bytes 8 ptr, payload_frame (i + 1) (string_payload K (ptr AND ADDR_MASK))] \<and>
      loop_count (rs_ctx (op_save_ptr_string K st)) = loop_count (rs_ctx st)
    else appended (rs_event st) (rs_event (op_save_ptr_string K st))
        [i # le_bytes 8 ptr, (i + 1) # le_bytes 4 STRARR_MAGIC_LEN] \<and>
      loop_count (rs_ctx (op_save_ptr_string K st)) = break_count (rs_ctx st)"
proof -
  define st1 where "st1 = save_u64 K ptr st"
  have ap1: "appended (rs_event st) (rs_event st1) [i # le_bytes 8 ptr]"
    using save_obj_result [of "le_bytes 8 ptr" 8 "rs_event st" K i] off
    by (simp add: st1_def save_u64_def i_def MAX_ELEMENT_SIZE_def)
  have off1: "unat (buf_off (rs_event st1)) \<le> 27899"
    using appended_buf_off [OF ap1] off by simp
  have st1: "save_index (rs_ctx st1) = i + 1" "loop_count (rs_ctx st1) = loop_count (rs_ctx st)"
    "break_count (rs_ctx st1) = break_count (rs_ctx st)"
    by (simp_all add: st1_def save_u64_def i_def)
  obtain e1 status where sv: "save_str_to_buf K (rs_event st1) (Addr (ptr AND ADDR_MASK)) (i + 1) = (e1, status)"
    by fastforce
  note res = save_str_payload [OF K off1 sv]
  have eq: "op_save_ptr_string K st = (let (e2, c2) =
      (if status = 0 then (fst (save_bytes_to_buf K e1 (Addr 0) STRARR_MAGIC_LEN (i + 1)),
         (rs_ctx st1)\<lparr>loop_count := break_count (rs_ctx st1)\<rparr>) else (e1, rs_ctx st1))
      in st1\<lparr>rs_event := e2, rs_ctx := c2\<lparr>save_index := save_index c2 + 1\<rparr>\<rparr>)"
    using sv st1(1)
    by (simp add: op_save_ptr_string_def Let_def flip: array_elem_def [unfolded Let_def] ptr_def st1_def)
  show ?thesis
  proof (cases "0 \<le> fst (mem_probe_read_str K (ptr AND ADDR_MASK) MAX_STRING_SIZE)")
    case True
    then show ?thesis
      using res eq st1 appended_trans [OF ap1, of e1] by simp
  next
    case False
    then have e1: "status = 0" "appended (rs_event st1) e1 []" using res by simp_all
    have "appended (rs_event st1) (fst (save_bytes_to_buf K e1 (Addr 0) STRARR_MAGIC_LEN (i + 1)))
        [(i + 1) # le_bytes 4 STRARR_MAGIC_LEN]"
      using appended_trans [OF e1(2) save_bytes_marker [OF K _ zero]] appended_nil_off [OF e1(2)] off1
      by simp
    then show ?thesis using False eq e1(1) st1 appended_trans [OF ap1] by fastforce
  qed
qed

text \<open>The reader of user space on such a frame.\<close>

lemma read_struct_payload:
  assumes "helper_laws K"
  shows "read_payload (payload_frame i (struct_payload K a (read_len (save_struct_ctx op c))) @ rest) =
    Some ((i, struct_payload K a (read_len (save_struct_ctx op c))), rest)"
proof -
  have "unat (read_len (save_struct_ctx op c)) \<le> 4096"
    by (auto simp: save_struct_ctx_def Let_def const_simps word_less_nat_alt not_less)
  from length_struct_payload [OF assms this] show ?thesis
    using payload_codec.rd_enc [of "(i, struct_payload K a (read_len (save_struct_ctx op c)))" rest] by simp
qed

lemma read_string_payload:
  assumes "helper_laws K"
  shows "read_payload (payload_frame i (string_payload K a) @ rest) = Some ((i, string_payload K a), rest)"
  using payload_codec.rd_enc [of "(i, string_payload K a)" rest] length_string_payload [OF assms] by simp

end
