(* ===== verification/Reader_Segments.thy ===== *)
theory Reader_Segments
  imports Reader_Loop Reader_Saves
begin

unbundle bit_operations_syntax

text \<open>
  Stored programs put together from parts: what a part does is a triple of the reader's context
  before, the frames it saves and the context after, and the parts of a program compose. The
  counted loop is one more part, made from its body.
\<close>

subsection \<open>Turns that lead from one position to another\<close>

definition runs_to ::
    "kenv \<Rightarrow> point_args_t \<Rightarrow> ctx_regs_t \<Rightarrow> nat \<Rightarrow> nat \<Rightarrow> rstate \<Rightarrow> nat \<Rightarrow> rstate \<Rightarrow> bool" where
  "runs_to K pa r t i st j st' \<longleftrightarrow>
     at_cfg K pa st i \<and> at_cfg K pa st' j \<and>
     (\<forall>op. \<exists>op'. \<forall>n. read_loop K pa r (t + n) op st = read_loop K pa r n op' st')"

lemma runs_to_refl: "at_cfg K pa st i \<Longrightarrow> runs_to K pa r 0 i st i st"
  by (auto simp: runs_to_def)

lemma runs_to_trans:
  assumes "runs_to K pa r t i st j st1" and "runs_to K pa r u j st1 k st2"
  shows "runs_to K pa r (t + u) i st k st2"
proof -
  have "\<exists>op'. \<forall>n. read_loop K pa r (t + u + n) op st = read_loop K pa r n op' st2" for op
  proof -
    obtain op1 where op1: "\<forall>n. read_loop K pa r (t + n) op st = read_loop K pa r n op1 st1"
      using assms(1) unfolding runs_to_def by blast
    obtain op2 where op2: "\<forall>n. read_loop K pa r (u + n) op1 st1 = read_loop K pa r n op2 st2"
      using assms(2) unfolding runs_to_def by blast
    have "read_loop K pa r (t + u + n) op st = read_loop K pa r n op2 st2" for n
      using spec [OF op1, of "u + n"] op2 by (simp add: add.assoc)
    then show ?thesis by blast
  qed
  then show ?thesis using assms unfolding runs_to_def by blast
qed

lemma runs_to_cfg:
  assumes at: "at_cfg K pa st i" and prog: "program_at (build_module K) pa (op_list (rs_maps st)) i (cfg # cfgs)"
    and plain: "plain_cfg cfg" and run: "run_cfg K r cfg st = Some st'"
  shows "runs_to K pa r (turns_of cfg) i st (Suc i) st'"
proof -
  have code: "cfg_code cfg \<noteq> op_num OP_SKIP" using plain by (simp add: plain_cfg_def)
  show ?thesis
    unfolding runs_to_def
    using at run_cfg_at [OF at run plain] prog read_loop_cfg [OF at prog code run] by auto
qed

lemma runs_to_end:
  assumes run: "runs_to K pa r t 0 st j st'"
    and prog: "program_at (build_module K) pa (op_list (rs_maps st')) j [stop]"
    and stop: "cfg_code stop = op_num OP_SKIP" and budget: "t < MAX_OP_COUNT (build_module K)"
  shows "read_args K pa r st = Some (map_ctx (\<lambda>c. skip_decision (c\<lparr>op_code := op_num OP_SKIP,
      post_code := cfg_post_code stop, op_key_index := op_key_index c + 1\<rparr>)) st')"
proof -
  obtain n where n: "MAX_OP_COUNT (build_module K) = t + Suc n"
    using budget less_iff_Suc_add by auto
  obtain op' where op': "\<forall>n. read_loop K pa r (t + n) (bpf_map_lookup_elem (op_list (rs_maps st)) 0) st =
      read_loop K pa r n op' st'"
    using run unfolding runs_to_def by blast
  have at: "at_cfg K pa st' j" using run by (simp add: runs_to_def)
  have "read_loop K pa r (Suc n) op' st' = (map_ctx (\<lambda>c. c\<lparr>op_code := op_num OP_SKIP,
      post_code := cfg_post_code stop, op_key_index := op_key_index c + 1\<rparr>) st', Loop_done)"
    by (rule read_loop_skip [where cfgs = "[]", OF at _ stop]) (use prog in simp)
  then show ?thesis
    using spec [OF op', of "Suc n"] by (simp only: read_args_def n) (simp add: map_ctx_def)
qed

subsection \<open>What one operation does\<close>

text \<open>
  The part of the context that operations work on: all of it but the three fields that drive the
  loop and the length of the last string, which only string filters read.
\<close>

definition view :: "op_ctx_t \<Rightarrow> op_ctx_t" where
  "view c = c\<lparr>op_code := 0, post_code := 0, op_key_index := 0, str_len := 0\<rparr>"

lemma view_eq_iff:
  "view c = view d \<longleftrightarrow> save_index c = save_index d \<and> reg_index c = reg_index d \<and>
     loop_count c = loop_count d \<and> break_count c = break_count d \<and> apply_filter c = apply_filter d \<and>
     skip_flag c = skip_flag d \<and> match_whitelist c = match_whitelist d \<and>
     match_blacklist c = match_blacklist d \<and> loop_index c = loop_index d \<and> read_len c = read_len d \<and>
     read_addr c = read_addr d \<and> reg_value c = reg_value d \<and> pointer_value c = pointer_value d \<and>
     tmp_value c = tmp_value d \<and> reg_0 c = reg_0 d"
  by (cases c; cases d) (auto simp: view_def)

text \<open>The room that every saving operation accepts: one frame of any size still fits.\<close>

definition SAVE_ROOM :: nat where "SAVE_ROOM = 27890"

definition has_room :: "event_data_t \<Rightarrow> u8 list list \<Rightarrow> bool" where
  "has_room e fs \<longleftrightarrow> unat (buf_off e) + length (concat fs) \<le> SAVE_ROOM"

lemma has_room_append:
  assumes "has_room e (fs @ gs)"
  shows "has_room e fs" and "appended e e1 fs \<Longrightarrow> has_room e1 gs"
  using assms appended_buf_off [of e e1 fs] by (auto simp: has_room_def)

definition reaches :: "maps \<Rightarrow> rstate \<Rightarrow> u8 list list \<Rightarrow> op_ctx_t \<Rightarrow> rstate \<Rightarrow> bool" where
  "reaches S st fs c st' \<longleftrightarrow>
     rs_maps st' = S \<and> appended (rs_event st) (rs_event st') fs \<and> view (rs_ctx st') = view c"

lemma reaches_trans: "reaches S st fs c st1 \<Longrightarrow> reaches S st1 gs d st2 \<Longrightarrow> reaches S st (fs @ gs) d st2"
  by (auto simp: reaches_def intro: appended_trans)

definition op_does ::
    "kenv \<Rightarrow> maps \<Rightarrow> ctx_regs_t \<Rightarrow> op_config_t \<Rightarrow> op_code_e \<Rightarrow> op_ctx_t \<Rightarrow> u8 list list \<Rightarrow> op_ctx_t \<Rightarrow> bool" where
  "op_does K S r cfg oc c fs c' \<longleftrightarrow>
     (\<forall>st. rs_maps st = S \<and> view (rs_ctx st) = view c \<and> has_room (rs_event st) fs \<longrightarrow>
        (\<exists>st'. exec_op K r cfg oc st = (st', Next) \<and> reaches S st fs c' st'))"

lemma run_code_does:
  assumes does: "op_does K S r cfg oc c fs c'" and mb: "match_blacklist c' \<noteq> 1"
    and st: "rs_maps st = S" "view (rs_ctx st) = view c" "has_room (rs_event st) fs"
  shows "\<exists>st'. run_code K r cfg (op_num oc) post inc st = Some st' \<and> reaches S st fs c' st'"
proof -
  let ?st = "map_ctx (\<lambda>c. c\<lparr>op_code := op_num oc, post_code := post, op_key_index := op_key_index c + inc\<rparr>) st"
  have "rs_maps ?st = S" "view (rs_ctx ?st) = view c" "has_room (rs_event ?st) fs"
    using st by (simp_all add: map_ctx_def view_def)
  then obtain st' where ex: "exec_op K r cfg oc ?st = (st', Next)" and "reaches S ?st fs c' st'"
    using does unfolding op_does_def by blast
  then have re: "reaches S st fs c' st'" by (simp add: reaches_def map_ctx_def)
  then have "match_blacklist (rs_ctx st') \<noteq> 1" using mb by (simp add: reaches_def view_eq_iff)
  moreover have "exec_code K r cfg ?st = (st', Next)"
    using ex by (subst exec_code_num [where oc = oc]) (simp_all add: map_ctx_def)
  ultimately show ?thesis using re by (simp add: run_code_def)
qed

subsection \<open>Parts of programs\<close>

text \<open>
  From any state with context \<open>c\<close> and room for the frames, the part \<open>cfgs\<close> of a stored program
  runs to its end in \<open>t\<close> turns, saves the frames \<open>fs\<close> and leaves the context \<open>c'\<close>.
\<close>

definition performs ::
    "kenv \<Rightarrow> maps \<Rightarrow> ctx_regs_t \<Rightarrow> nat \<Rightarrow> op_config_t list \<Rightarrow> op_ctx_t \<Rightarrow> u8 list list \<Rightarrow> op_ctx_t \<Rightarrow> bool" where
  "performs K S r t cfgs c fs c' \<longleftrightarrow>
     (\<forall>pa st i. at_cfg K pa st i \<and> program_at (build_module K) pa (op_list S) i cfgs \<and>
        rs_maps st = S \<and> view (rs_ctx st) = view c \<and> has_room (rs_event st) fs \<longrightarrow>
        (\<exists>st'. runs_to K pa r t i st (i + length cfgs) st' \<and> reaches S st fs c' st'))"

lemma performsD:
  assumes "performs K S r t cfgs c fs c'" and "at_cfg K pa st i"
    and "program_at (build_module K) pa (op_list S) i cfgs" and "rs_maps st = S"
    and "view (rs_ctx st) = view c" and "has_room (rs_event st) fs"
  obtains st' where "runs_to K pa r t i st (i + length cfgs) st'" "reaches S st fs c' st'"
  using assms unfolding performs_def by blast

lemma performs_Nil: "performs K S r 0 [] c [] c"
  by (auto simp: performs_def reaches_def intro: runs_to_refl)

lemma performs_append:
  assumes a: "performs K S r t cfgs c fs d" and b: "performs K S r u cfgs' d gs e"
  shows "performs K S r (t + u) (cfgs @ cfgs') c (fs @ gs) e"
  unfolding performs_def
proof (intro allI impI, elim conjE)
  fix pa st i
  assume at: "at_cfg K pa st i" and prog: "program_at (build_module K) pa (op_list S) i (cfgs @ cfgs')"
    and st: "rs_maps st = S" "view (rs_ctx st) = view c" and room: "has_room (rs_event st) (fs @ gs)"
  have progs: "program_at (build_module K) pa (op_list S) i cfgs"
    "program_at (build_module K) pa (op_list S) (i + length cfgs) cfgs'"
    using prog by (simp_all add: program_at_append)
  obtain st1 where run: "runs_to K pa r t i st (i + length cfgs) st1" and re: "reaches S st fs d st1"
    by (rule performsD [OF a at progs(1) st has_room_append(1) [OF room]])
  have at1: "at_cfg K pa st1 (i + length cfgs)" using run by (simp add: runs_to_def)
  have st1: "rs_maps st1 = S" "view (rs_ctx st1) = view d" "has_room (rs_event st1) gs"
    using re has_room_append(2) [OF room] by (simp_all add: reaches_def)
  obtain st2 where run2: "runs_to K pa r u (i + length cfgs) st1 (i + length cfgs + length cfgs') st2"
    and re2: "reaches S st1 gs e st2"
    by (rule performsD [OF b at1 progs(2) st1])
  have "runs_to K pa r (t + u) i st (i + length (cfgs @ cfgs')) st2"
    using runs_to_trans [OF run run2] by (simp add: add.assoc)
  then show "\<exists>st'. runs_to K pa r (t + u) i st (i + length (cfgs @ cfgs')) st' \<and> reaches S st (fs @ gs) e st'"
    using reaches_trans [OF re re2] by blast
qed

lemma performs_Cons:
  assumes "performs K S r t [cfg] c fs d" and "performs K S r u cfgs d gs e"
  shows "performs K S r (t + u) (cfg # cfgs) c (fs @ gs) e"
  using performs_append [OF assms] by simp

text \<open>One configured operation, with or without a post-operation.\<close>

lemma performs_run_cfg:
  assumes plain: "plain_cfg cfg"
    and run: "\<And>st. rs_maps st = S \<Longrightarrow> view (rs_ctx st) = view c \<Longrightarrow> has_room (rs_event st) fs \<Longrightarrow>
      \<exists>st'. run_cfg K r cfg st = Some st' \<and> reaches S st fs d st'"
  shows "performs K S r (turns_of cfg) [cfg] c fs d"
  unfolding performs_def
proof (intro allI impI, elim conjE)
  fix pa st i
  assume at: "at_cfg K pa st i" and prog: "program_at (build_module K) pa (op_list S) i [cfg]"
    and st: "rs_maps st = S" "view (rs_ctx st) = view c" "has_room (rs_event st) fs"
  obtain st' where "run_cfg K r cfg st = Some st'" "reaches S st fs d st'" using run [OF st] by blast
  then show "\<exists>st'. runs_to K pa r (turns_of cfg) i st (i + length [cfg]) st' \<and> reaches S st fs d st'"
    using runs_to_cfg [OF at _ plain, of "[]"] prog st(1) by auto
qed

lemma performs_single:
  assumes "cfg_code cfg = op_num oc" "cfg_post_code cfg = op_num OP_SKIP" "plain_cfg cfg"
    and does: "op_does K S r cfg oc c fs d" and mb: "match_blacklist d \<noteq> 1"
  shows "performs K S r 1 [cfg] c fs d"
proof -
  have "\<exists>st'. run_cfg K r cfg st = Some st' \<and> reaches S st fs d st'"
    if "rs_maps st = S" "view (rs_ctx st) = view c" "has_room (rs_event st) fs" for st
    using run_code_does [OF does mb that, of "op_num OP_SKIP" 1] assms(1,2)
    by (auto simp: run_cfg_def simp del: op_num.simps)
  from performs_run_cfg [OF assms(3) this] show ?thesis using assms(2) by (simp add: turns_of_def)
qed

lemma run_cfg_double:
  assumes "cfg_code cfg = op_num oc" "cfg_post_code cfg = op_num oc'" "oc' \<noteq> OP_SKIP"
    and does: "op_does K S r cfg oc c fs d" and mb: "match_blacklist d \<noteq> 1"
    and does': "op_does K S r cfg oc' d gs e" and mb': "match_blacklist e \<noteq> 1"
    and st: "rs_maps st = S" "view (rs_ctx st) = view c" "has_room (rs_event st) (fs @ gs)"
  shows "\<exists>st'. run_cfg K r cfg st = Some st' \<and> reaches S st (fs @ gs) e st'"
proof -
  have ne: "cfg_post_code cfg \<noteq> op_num OP_SKIP"
    using assms(2,3) op_num_inj [of oc' OP_SKIP] by (simp del: op_num.simps)
  obtain st1 where r1: "run_code K r cfg (op_num oc) (cfg_post_code cfg) 1 st = Some st1" "reaches S st fs d st1"
    using run_code_does [OF does mb st(1,2) has_room_append(1) [OF st(3)]] by blast
  then have "rs_maps st1 = S" "view (rs_ctx st1) = view d" "has_room (rs_event st1) gs"
    using has_room_append(2) [OF st(3)] by (simp_all add: reaches_def)
  then obtain st2 where "run_code K r cfg (op_num oc') (op_num OP_SKIP) 0 st1 = Some st2" "reaches S st1 gs e st2"
    using run_code_does [OF does' mb'] by blast
  then show "\<exists>st'. run_cfg K r cfg st = Some st' \<and> reaches S st (fs @ gs) e st'"
    using r1 ne assms(1,2) reaches_trans [OF r1(2)] by (auto simp: run_cfg_def simp del: op_num.simps)
qed

lemma performs_double:
  assumes "cfg_code cfg = op_num oc" "cfg_post_code cfg = op_num oc'" "oc' \<noteq> OP_SKIP" "plain_cfg cfg"
    and "op_does K S r cfg oc c fs d" and "match_blacklist d \<noteq> 1"
    and "op_does K S r cfg oc' d gs e" and "match_blacklist e \<noteq> 1"
  shows "performs K S r 2 [cfg] c (fs @ gs) e"
proof -
  have "turns_of cfg = 2"
    using assms(2,3) op_num_inj [of oc' OP_SKIP] by (simp add: turns_of_def del: op_num.simps)
  with performs_run_cfg [OF assms(4) run_cfg_double [OF assms(1-3,5-8)]] show ?thesis by simp
qed

text \<open>A part of one operation ends at the next position.\<close>

lemma performs_one_turn:
  assumes "performs K S r 1 [cfg] c fs d" and "at_cfg K pa st i"
    and "program_at (build_module K) pa (op_list S) i [cfg]" and "rs_maps st = S"
    and "view (rs_ctx st) = view c" and "has_room (rs_event st) fs"
  obtains st' where "runs_to K pa r 1 i st (Suc i) st'" "reaches S st fs d st'"
  by (rule performsD [OF assms]) (rule that, simp_all)

text \<open>A program that needs more turns than there are is cut off.\<close>

lemma runs_to_limit:
  assumes "runs_to K pa r (MAX_OP_COUNT (build_module K)) i st j st'"
  shows "read_args K pa r st = Some (map_ctx skip_decision st')"
proof -
  obtain op' where "\<forall>n. read_loop K pa r (MAX_OP_COUNT (build_module K) + n) (bpf_map_lookup_elem (op_list (rs_maps st)) 0) st =
      read_loop K pa r n op' st'"
    using assms unfolding runs_to_def by blast
  from spec [OF this, of 0] show ?thesis by (simp add: read_args_def)
qed

subsection \<open>Operations one by one\<close>

text \<open>An operation that only works on the context is a function of the visible part.\<close>

lemma op_does_ctx:
  assumes "\<And>st. exec_op K r cfg oc st = (map_ctx f st, Next)"
    and "\<And>a. view a = view c \<Longrightarrow> view (f a) = view (f c)"
  shows "op_does K S r cfg oc c [] (f c)"
proof -
  have "reaches S st [] (f c) (map_ctx f st)" if "rs_maps st = S" "view (rs_ctx st) = view c" for st
    using that(1) assms(2) [OF that(2)] by (simp add: reaches_def map_ctx_def)
  then show ?thesis unfolding op_does_def assms(1) by blast
qed

lemma op_does_ctx_ops:
  "op_does K S r cfg OP_SET_READ_LEN c [] (op_set_read_len cfg c)"
  "op_does K S r cfg OP_SET_READ_LEN_REG_VALUE c [] (op_set_read_len_reg_value c)"
  "op_does K S r cfg OP_SET_READ_LEN_POINTER_VALUE c [] (op_set_read_len_pointer_value c)"
  "op_does K S r cfg OP_ADD_OFFSET c [] (op_add_offset cfg c)"
  "op_does K S r cfg OP_SUB_OFFSET c [] (op_sub_offset cfg c)"
  "op_does K S r cfg OP_MOVE_REG_VALUE c [] (op_move_reg_value c)"
  "op_does K S r cfg OP_MOVE_POINTER_VALUE c [] (op_move_pointer_value c)"
  "op_does K S r cfg OP_MOVE_TMP_VALUE c [] (op_move_tmp_value c)"
  "op_does K S r cfg OP_SET_TMP_VALUE c [] (op_set_tmp_value c)"
  "op_does K S r cfg OP_SET_BREAK_COUNT c [] (op_set_break_count cfg c)"
  "op_does K S r cfg OP_SET_BREAK_COUNT_REG_VALUE c [] (op_set_break_count_reg_value c)"
  "op_does K S r cfg OP_ADD_REG c [] (op_add_reg c)"
  "op_does K S r cfg OP_SUB_REG c [] (op_sub_reg c)"
  "op_does K S r cfg OP_READ_RET c [] (op_read_ret c)"
  "op_does K S r cfg OP_READ_POINTER c [] (op_read_pointer K cfg c)"
  "op_does K S r cfg OP_READ_STD_STRING c [] (op_read_std_string K c)"
  "op_does K S r cfg OP_SET_BREAK_COUNT_POINTER_VALUE c [] (op_set_break_count_pointer_value c)"
proof -
  note ctx = view_eq_iff op_defs op_read_pointer_def op_read_std_string_def Let_def
  show "op_does K S r cfg OP_SET_READ_LEN c [] (op_set_read_len cfg c)"
    by (rule op_does_ctx [where f = "op_set_read_len cfg"]) (simp, auto simp: ctx)
  show "op_does K S r cfg OP_SET_READ_LEN_REG_VALUE c [] (op_set_read_len_reg_value c)"
    by (rule op_does_ctx [where f = "op_set_read_len_reg_value"]) (simp, auto simp: ctx)
  show "op_does K S r cfg OP_SET_READ_LEN_POINTER_VALUE c [] (op_set_read_len_pointer_value c)"
    by (rule op_does_ctx [where f = "op_set_read_len_pointer_value"]) (simp, auto simp: ctx)
  show "op_does K S r cfg OP_ADD_OFFSET c [] (op_add_offset cfg c)"
    by (rule op_does_ctx [where f = "op_add_offset cfg"]) (simp, auto simp: ctx)
  show "op_does K S r cfg OP_SUB_OFFSET c [] (op_sub_offset cfg c)"
    by (rule op_does_ctx [where f = "op_sub_offset cfg"]) (simp, auto simp: ctx)
  show "op_does K S r cfg OP_MOVE_REG_VALUE c [] (op_move_reg_value c)"
    by (rule op_does_ctx [where f = "op_move_reg_value"]) (simp, auto simp: ctx)
  show "op_does K S r cfg OP_MOVE_POINTER_VALUE c [] (op_move_pointer_value c)"
    by (rule op_does_ctx [where f = "op_move_pointer_value"]) (simp, auto simp: ctx)
  show "op_does K S r cfg OP_MOVE_TMP_VALUE c [] (op_move_tmp_value c)"
    by (rule op_does_ctx [where f = "op_move_tmp_value"]) (simp, auto simp: ctx)
  show "op_does K S r cfg OP_SET_TMP_VALUE c [] (op_set_tmp_value c)"
    by (rule op_does_ctx [where f = "op_set_tmp_value"]) (simp, auto simp: ctx)
  show "op_does K S r cfg OP_SET_BREAK_COUNT c [] (op_set_break_count cfg c)"
    by (rule op_does_ctx [where f = "op_set_break_count cfg"]) (simp, auto simp: ctx)
  show "op_does K S r cfg OP_SET_BREAK_COUNT_REG_VALUE c [] (op_set_break_count_reg_value c)"
    by (rule op_does_ctx [where f = "op_set_break_count_reg_value"]) (simp, auto simp: ctx)
  show "op_does K S r cfg OP_ADD_REG c [] (op_add_reg c)"
    by (rule op_does_ctx [where f = "op_add_reg"]) (simp, auto simp: ctx)
  show "op_does K S r cfg OP_SUB_REG c [] (op_sub_reg c)"
    by (rule op_does_ctx [where f = "op_sub_reg"]) (simp, auto simp: ctx)
  show "op_does K S r cfg OP_READ_RET c [] (op_read_ret c)"
    by (rule op_does_ctx [where f = "op_read_ret"]) (simp, auto simp: ctx)
  show "op_does K S r cfg OP_READ_POINTER c [] (op_read_pointer K cfg c)"
    by (rule op_does_ctx [where f = "op_read_pointer K cfg"]) (simp, auto simp: ctx)
  show "op_does K S r cfg OP_READ_STD_STRING c [] (op_read_std_string K c)"
    by (rule op_does_ctx [where f = "op_read_std_string K"]) (simp, auto simp: ctx)
  show "op_does K S r cfg OP_SET_BREAK_COUNT_POINTER_VALUE c [] (op_set_break_count_pointer_value c)"
    by (rule op_does_ctx [where f = "op_set_break_count_pointer_value"]) (simp, auto simp: ctx)
qed

text \<open>A register is read when the operation names one of the 33.\<close>

definition read_reg_ctx :: "ctx_regs_t \<Rightarrow> nat \<Rightarrow> op_ctx_t \<Rightarrow> op_ctx_t" where
  "read_reg_ctx r v c = c\<lparr>reg_index := of_nat v, reg_value := ctx_regs_words r ! v\<rparr>"

lemma op_does_read_reg:
  assumes "wf_ctx_regs r" and "v < 33"
    and "cfg_pre_code cfg = op_num OP_SET_REG_INDEX" "cfg_value cfg = of_nat v"
  shows "op_does K S r cfg OP_READ_REG c [] (read_reg_ctx r v c)"
proof -
  have same: "op_read_reg cfg r a = op_read_reg (READ_SAVE_REG v) r a" for a
    using assms(3,4) by (simp add: op_read_reg_def READ_SAVE_REG_def)
  show ?thesis
    by (rule op_does_ctx)
      (simp_all add: same op_read_reg_value [OF assms(1,2)] map_ctx_def view_eq_iff read_reg_ctx_def)
qed

text \<open>Operations that save.\<close>

lemma op_does_save_u64:
  assumes "\<And>st. exec_op K r cfg oc st = (save_u64 K (g (rs_ctx st)) st, Next)"
    and "\<And>a. view a = view c \<Longrightarrow> g a = g c"
  shows "op_does K S r cfg oc c [save_index c # le_bytes 8 (g c)] (c\<lparr>save_index := save_index c + 1\<rparr>)"
  unfolding op_does_def
proof (intro allI impI, elim conjE)
  fix st :: rstate assume st: "rs_maps st = S" "view (rs_ctx st) = view c"
    and room: "has_room (rs_event st) [save_index c # le_bytes 8 (g c)]"
  have off: "unat (buf_off (rs_event st)) \<le> 31889" using room by (simp add: has_room_def SAVE_ROOM_def)
  have idx: "save_index (rs_ctx st) = save_index c" using st(2) by (simp add: view_eq_iff)
  have "reaches S st [save_index c # le_bytes 8 (g c)] (c\<lparr>save_index := save_index c + 1\<rparr>) (save_u64 K (g c) st)"
    using save_u64_commits [OF off, of K "g c" "save_index c"] st
    by (simp add: reaches_def save_u64_def view_eq_iff)
  then show "\<exists>st'. exec_op K r cfg oc st = (st', Next) \<and>
      reaches S st [save_index c # le_bytes 8 (g c)] (c\<lparr>save_index := save_index c + 1\<rparr>) st'"
    using assms(1) [of st] assms(2) [OF st(2)] by simp
qed

lemma op_does_saves:
  "op_does K S r cfg OP_SAVE_REG c [save_index c # le_bytes 8 (reg_value c)] (c\<lparr>save_index := save_index c + 1\<rparr>)"
  "op_does K S r cfg OP_SAVE_ADDR c [save_index c # le_bytes 8 (read_addr c)] (c\<lparr>save_index := save_index c + 1\<rparr>)"
  "op_does K S r cfg OP_SAVE_POINTER c [save_index c # le_bytes 8 (pointer_value c)] (c\<lparr>save_index := save_index c + 1\<rparr>)"
  by (rule op_does_save_u64; simp add: op_save_reg_def op_save_addr_def op_save_pointer_def view_eq_iff)+

definition saved_struct :: "kenv \<Rightarrow> op_config_t \<Rightarrow> op_ctx_t \<Rightarrow> u8 list" where
  "saved_struct K cfg c =
     struct_payload K (read_addr (save_struct_ctx cfg c)) (read_len (save_struct_ctx cfg c))"

lemma op_does_save_struct:
  assumes K: "helper_laws K"
  shows "op_does K S r cfg OP_SAVE_STRUCT c [payload_frame (save_index c) (saved_struct K cfg c)]
    ((save_struct_ctx cfg c)\<lparr>save_index := save_index c + 1\<rparr>)"
  unfolding op_does_def
proof (intro allI impI, elim conjE)
  fix st :: rstate assume st: "rs_maps st = S" "view (rs_ctx st) = view c"
    and room: "has_room (rs_event st) [payload_frame (save_index c) (saved_struct K cfg c)]"
  have off: "unat (buf_off (rs_event st)) \<le> 27899" using room by (simp add: has_room_def SAVE_ROOM_def)
  have v: "view (save_struct_ctx cfg (rs_ctx st)) = view (save_struct_ctx cfg c)"
    and idx: "save_index (rs_ctx st) = save_index c"
    using st(2) by (auto simp: save_struct_ctx_def op_set_read_count_def Let_def view_eq_iff)
  have "rs_ctx (op_save_struct K cfg st) =
      (save_struct_ctx cfg (rs_ctx st))\<lparr>save_index := save_index (save_struct_ctx cfg (rs_ctx st)) + 1\<rparr>"
    by (simp add: op_save_struct_def Let_def case_prod_unfold)
  then have "view (rs_ctx (op_save_struct K cfg st)) = view ((save_struct_ctx cfg c)\<lparr>save_index := save_index c + 1\<rparr>)"
    using v idx by (simp add: view_eq_iff save_struct_ctx_simps)
  moreover have "appended (rs_event st) (rs_event (op_save_struct K cfg st))
      [payload_frame (save_index c) (saved_struct K cfg c)]"
    using op_save_struct_frame [OF K off, of cfg] v idx by (simp add: saved_struct_def view_eq_iff)
  ultimately have "reaches S st [payload_frame (save_index c) (saved_struct K cfg c)]
      ((save_struct_ctx cfg c)\<lparr>save_index := save_index c + 1\<rparr>) (op_save_struct K cfg st)"
    using st(1) by (simp add: reaches_def op_save_op_list)
  then show "\<exists>st'. exec_op K r cfg OP_SAVE_STRUCT st = (st', Next) \<and> reaches S st
      [payload_frame (save_index c) (saved_struct K cfg c)] ((save_struct_ctx cfg c)\<lparr>save_index := save_index c + 1\<rparr>) st'"
    by simp
qed

lemma op_does_save_string:
  fixes c :: op_ctx_t
  assumes K: "helper_laws K"
  defines "a \<equiv> read_addr c AND ADDR_MASK"
  shows "op_does K S r cfg OP_SAVE_STRING c [payload_frame (save_index c) (string_payload K a)]
    (c\<lparr>read_addr := a, save_index := save_index c + 1\<rparr>)"
  unfolding op_does_def
proof (intro allI impI, elim conjE)
  fix st :: rstate assume st: "rs_maps st = S" "view (rs_ctx st) = view c"
    and room: "has_room (rs_event st) [payload_frame (save_index c) (string_payload K a)]"
  have off: "unat (buf_off (rs_event st)) \<le> 27899" using room by (simp add: has_room_def SAVE_ROOM_def)
  have "view (rs_ctx (op_save_string K st)) = view (c\<lparr>read_addr := a, save_index := save_index c + 1\<rparr>)"
    using st(2) by (simp add: op_save_string_def a_def Let_def case_prod_unfold view_eq_iff)
  moreover have "appended (rs_event st) (rs_event (op_save_string K st))
      [payload_frame (save_index c) (string_payload K a)]"
    using op_save_string_frame(1) [OF K off] st(2) by (simp add: a_def view_eq_iff)
  ultimately have "reaches S st [payload_frame (save_index c) (string_payload K a)]
      (c\<lparr>read_addr := a, save_index := save_index c + 1\<rparr>) (op_save_string K st)"
    using st(1) by (simp add: reaches_def op_save_op_list)
  then show "\<exists>st'. exec_op K r cfg OP_SAVE_STRING st = (st', Next) \<and> reaches S st
      [payload_frame (save_index c) (string_payload K a)] (c\<lparr>read_addr := a, save_index := save_index c + 1\<rparr>) st'"
    by simp
qed

end
