(* ===== verification/Reader_Parts.thy ===== *)
theory Reader_Parts
  imports Reader_Segments
begin

unbundle bit_operations_syntax

text \<open>
  Two composite parts of stored programs: the counted loop around a body, and the element of a
  string array, whose failure ends the loop. A value filter that accepts is a part without effect.
\<close>

subsection \<open>The operation that closes a pass\<close>

lemma for_break_turn:
  assumes at: "at_cfg K pa st j" and prog: "program_at (build_module K) pa (op_list (rs_maps st)) j [FOR_BREAK]"
    and mb: "match_blacklist (rs_ctx st) \<noteq> 1"
    and next_i: "unat (op_key_index (rs_ctx (for_break_state st))) = k"
  shows "runs_to K pa r 1 j st k (for_break_state st)"
proof -
  have fb_code: "cfg_code FOR_BREAK \<noteq> op_num OP_SKIP" by (simp add: FOR_BREAK_def)
  have wf: "wf_point_args (build_module K) pa" using at by (simp add: at_cfg_def)
  show ?thesis
    unfolding runs_to_def
    using at for_break_at [OF wf next_i] read_loop_cfg [OF at prog fb_code run_for_break [OF mb]] by auto
qed

lemma next_position:
  assumes "at_cfg K pa st j" and "program_at (build_module K) pa ops j [cfg]"
  shows "unat (op_key_index (rs_ctx st) + 1) = Suc j" "op_key_index (rs_ctx st) + 1 = of_nat (Suc j)"
proof -
  show "unat (op_key_index (rs_ctx st) + 1) = Suc j"
    using assms unat_succ_u32 [of "op_key_index (rs_ctx st)"] MAX_OP_COUNT_le [of "build_module K"]
    by (simp add: at_cfg_def)
  then have "of_nat (unat (op_key_index (rs_ctx st) + 1)) = (of_nat (Suc j) :: u32)" by (rule arg_cong)
  then show "op_key_index (rs_ctx st) + 1 = of_nat (Suc j)" by simp
qed

definition left_loop :: "op_ctx_t \<Rightarrow> op_ctx_t" where
  "left_loop c = c\<lparr>loop_count := 0, break_count := 0, loop_index := 0\<rparr>"

lemma for_break_leaves:
  assumes at: "at_cfg K pa st j" and prog: "program_at (build_module K) pa (op_list (rs_maps st)) j [FOR_BREAK]"
    and st: "view (rs_ctx st) = view d" and mb: "match_blacklist d \<noteq> 1"
    and le: "break_count d \<le> loop_count d"
  shows "runs_to K pa r 1 j st (Suc j) (for_break_state st)"
    and "reaches (rs_maps st) st [] (left_loop d) (for_break_state st)"
proof -
  have le': "break_count (rs_ctx st) \<le> loop_count (rs_ctx st)" and mb': "match_blacklist (rs_ctx st) \<noteq> 1"
    using st le mb by (simp_all add: view_eq_iff)
  have "unat (op_key_index (rs_ctx (for_break_state st))) = Suc j"
    using for_break_done(3) [OF le'] next_position(1) [OF at prog] by simp
  from for_break_turn [OF at prog mb' this] show "runs_to K pa r 1 j st (Suc j) (for_break_state st)" .
  show "reaches (rs_maps st) st [] (left_loop d) (for_break_state st)"
    using st le' by (simp add: reaches_def for_break_state_other view_eq_iff left_loop_def)
      (cases "loop_count (rs_ctx st) = 0";
        simp add: for_break_state_def map_ctx_def op_for_break_def Let_def word_le_0_iff)
qed

lemma for_break_goes_back:
  assumes at: "at_cfg K pa st j" and prog: "program_at (build_module K) pa (op_list (rs_maps st)) j [FOR_BREAK]"
    and st: "view (rs_ctx st) = view d" and mb: "match_blacklist d \<noteq> 1"
    and lt: "loop_count d < break_count d" and pos: "loop_count d \<noteq> 0"
  shows "runs_to K pa r 1 j st (unat (loop_index d)) (for_break_state st)"
    and "reaches (rs_maps st) st [] (d\<lparr>loop_count := loop_count d + 1\<rparr>) (for_break_state st)"
proof -
  have lt': "loop_count (rs_ctx st) < break_count (rs_ctx st)" "loop_count (rs_ctx st) \<noteq> 0"
    and mb': "match_blacklist (rs_ctx st) \<noteq> 1"
    using st lt pos mb by (simp_all add: view_eq_iff)
  have "unat (op_key_index (rs_ctx (for_break_state st))) = unat (loop_index d)"
    using for_break_again(4) [OF lt'(1)] lt'(2) st by (simp add: view_eq_iff)
  from for_break_turn [OF at prog mb' this] show "runs_to K pa r 1 j st (unat (loop_index d)) (for_break_state st)" .
  show "reaches (rs_maps st) st [] (d\<lparr>loop_count := loop_count d + 1\<rparr>) (for_break_state st)"
    using st lt' by (auto simp: reaches_def view_eq_iff for_break_state_def map_ctx_def op_for_break_def Let_def)
qed

lemma for_break_enters:
  assumes at: "at_cfg K pa st j" and prog: "program_at (build_module K) pa (op_list (rs_maps st)) j [FOR_BREAK]"
    and st: "view (rs_ctx st) = view d" and mb: "match_blacklist d \<noteq> 1"
    and lt: "0 < break_count d" and zero: "loop_count d = 0"
  shows "runs_to K pa r 1 j st (Suc j) (for_break_state st)"
    and "reaches (rs_maps st) st [] (d\<lparr>loop_count := 1, loop_index := of_nat (Suc j)\<rparr>) (for_break_state st)"
proof -
  have lt': "loop_count (rs_ctx st) < break_count (rs_ctx st)" "loop_count (rs_ctx st) = 0"
    and mb': "match_blacklist (rs_ctx st) \<noteq> 1"
    using st lt zero mb by (simp_all add: view_eq_iff)
  have "unat (op_key_index (rs_ctx (for_break_state st))) = Suc j"
    using for_break_again(4) [OF lt'(1)] lt'(2) next_position(1) [OF at prog] by simp
  from for_break_turn [OF at prog mb' this] show "runs_to K pa r 1 j st (Suc j) (for_break_state st)" .
  show "reaches (rs_maps st) st [] (d\<lparr>loop_count := 1, loop_index := of_nat (Suc j)\<rparr>) (for_break_state st)"
    using st lt' next_position(2) [OF at prog]
    by (auto simp: reaches_def view_eq_iff for_break_state_def map_ctx_def op_for_break_def Let_def)
qed

subsection \<open>Loops\<close>

text \<open>
  Passes of a loop: the body takes the context \<open>c\<close> to \<open>d\<close>, and its counters decide whether
  another pass follows. \<open>n\<close> counts the passes.
\<close>

inductive loops ::
    "kenv \<Rightarrow> maps \<Rightarrow> ctx_regs_t \<Rightarrow> nat \<Rightarrow> op_config_t list \<Rightarrow> op_ctx_t \<Rightarrow> u8 list list \<Rightarrow> op_ctx_t \<Rightarrow> nat \<Rightarrow> bool"
  for K S r t body where
  last_pass: "performs K S r t body c fs d \<Longrightarrow> match_blacklist d \<noteq> 1 \<Longrightarrow> break_count d \<le> loop_count d \<Longrightarrow>
     loops K S r t body c fs (left_loop d) 1"
| more_passes: "performs K S r t body c fs d \<Longrightarrow> match_blacklist d \<noteq> 1 \<Longrightarrow> loop_count d < break_count d \<Longrightarrow>
     loop_count d \<noteq> 0 \<Longrightarrow> loop_index d = loop_index c \<Longrightarrow>
     loops K S r t body (d\<lparr>loop_count := loop_count d + 1\<rparr>) gs e n \<Longrightarrow>
     loops K S r t body c (fs @ gs) e (Suc n)"

lemma loops_run:
  assumes "loops K S r t body c fs e n"
    and "at_cfg K pa st j" and "unat (loop_index c) = j"
    and "program_at (build_module K) pa (op_list S) j (body @ [FOR_BREAK])"
    and "rs_maps st = S" and "view (rs_ctx st) = view c" and "has_room (rs_event st) fs"
  shows "\<exists>st'. runs_to K pa r (n * Suc t) j st (j + Suc (length body)) st' \<and> reaches S st fs e st'"
  using assms
proof (induction arbitrary: st)
  case (last_pass c fs d)
  have progs: "program_at (build_module K) pa (op_list S) j body"
    "program_at (build_module K) pa (op_list S) (j + length body) [FOR_BREAK]"
    using last_pass.prems(3) by (simp_all add: program_at_append)
  obtain st1 where u: "runs_to K pa r t j st (j + length body) st1" and re: "reaches S st fs d st1"
    by (rule performsD [OF last_pass.hyps(1) last_pass.prems(1) progs(1) last_pass.prems(4-6)])
  have at1: "at_cfg K pa st1 (j + length body)" using u by (simp add: runs_to_def)
  have st1: "rs_maps st1 = S" "view (rs_ctx st1) = view d" using re by (simp_all add: reaches_def)
  have fb_prog: "program_at (build_module K) pa (op_list (rs_maps st1)) (j + length body) [FOR_BREAK]"
    using progs(2) st1(1) by simp
  note fb = for_break_leaves [OF at1 fb_prog st1(2) last_pass.hyps(2,3)]
  have "runs_to K pa r (t + 1) j st (j + Suc (length body)) (for_break_state st1)"
    using runs_to_trans [OF u fb(1)] by simp
  moreover have "reaches S st fs (left_loop d) (for_break_state st1)"
    using reaches_trans [OF re] fb(2) st1(1) by fastforce
  ultimately show ?case by (intro exI [of _ "for_break_state st1"]) simp
next
  case (more_passes c fs d gs e n)
  have progs: "program_at (build_module K) pa (op_list S) j body"
    "program_at (build_module K) pa (op_list S) (j + length body) [FOR_BREAK]"
    using more_passes.prems(3) by (simp_all add: program_at_append)
  note room = has_room_append [OF more_passes.prems(6)]
  obtain st1 where u: "runs_to K pa r t j st (j + length body) st1" and re: "reaches S st fs d st1"
    by (rule performsD [OF more_passes.hyps(1) more_passes.prems(1) progs(1) more_passes.prems(4,5) room(1)])
  have at1: "at_cfg K pa st1 (j + length body)" using u by (simp add: runs_to_def)
  have st1: "rs_maps st1 = S" "view (rs_ctx st1) = view d" using re by (simp_all add: reaches_def)
  have fb_prog: "program_at (build_module K) pa (op_list (rs_maps st1)) (j + length body) [FOR_BREAK]"
    using progs(2) st1(1) by simp
  note fb = for_break_goes_back [OF at1 fb_prog st1(2) more_passes.hyps(2-4)]
  have start: "unat (loop_index d) = j" using more_passes.hyps(5) more_passes.prems(2) by simp
  have re1: "reaches S st fs (d\<lparr>loop_count := loop_count d + 1\<rparr>) (for_break_state st1)"
    using reaches_trans [OF re] fb(2) st1(1) by fastforce
  then have st2: "rs_maps (for_break_state st1) = S"
    "view (rs_ctx (for_break_state st1)) = view (d\<lparr>loop_count := loop_count d + 1\<rparr>)"
    "has_room (rs_event (for_break_state st1)) gs"
    using room(2) by (simp_all add: reaches_def)
  have at2: "at_cfg K pa (for_break_state st1) j" using fb(1) start by (simp add: runs_to_def)
  obtain st' where v: "runs_to K pa r (n * Suc t) j (for_break_state st1) (j + Suc (length body)) st'"
    "reaches S (for_break_state st1) gs e st'"
    using more_passes.IH [OF at2 _ more_passes.prems(3) st2] start by auto
  have "runs_to K pa r (t + 1 + n * Suc t) j st (j + Suc (length body)) st'"
    using runs_to_trans [OF runs_to_trans [OF u fb(1)]] v(1) start by simp
  moreover have "t + 1 + n * Suc t = Suc n * Suc t" by simp
  ultimately show ?case using reaches_trans [OF re1 v(2)] by metis
qed

text \<open>The whole loop, with at least one turn to make.\<close>

lemma performs_loop:
  assumes loop: "\<And>i. loops K S r t body (c\<lparr>loop_count := 1, loop_index := i\<rparr>) fs e n"
    and c: "0 < break_count c" "loop_count c = 0" "match_blacklist c \<noteq> 1"
  shows "performs K S r (Suc (n * Suc t)) (FOR_BREAK # body @ [FOR_BREAK]) c fs e"
  unfolding performs_def
proof (intro allI impI, elim conjE)
  fix pa and st :: rstate and i
  assume at: "at_cfg K pa st i"
    and prog: "program_at (build_module K) pa (op_list S) i (FOR_BREAK # body @ [FOR_BREAK])"
    and st: "rs_maps st = S" "view (rs_ctx st) = view c" and room: "has_room (rs_event st) fs"
  have progs: "program_at (build_module K) pa (op_list (rs_maps st)) i [FOR_BREAK]"
    "program_at (build_module K) pa (op_list S) (Suc i) (body @ [FOR_BREAK])"
    using prog st(1) by simp_all
  note fb = for_break_enters [OF at progs(1) st(2) c(3,1,2)]
  let ?st = "for_break_state st" and ?c = "c\<lparr>loop_count := 1, loop_index := of_nat (Suc i)\<rparr>"
  have "Suc i < 2 ^ 32" using progs(1) MAX_OP_COUNT_le [of "build_module K"] by simp
  then have idx: "unat (loop_index ?c) = Suc i" by (simp add: unat_of_nat take_bit_nat_eq_self del: of_nat_Suc)
  have st1: "at_cfg K pa ?st (Suc i)" "rs_maps ?st = S" "view (rs_ctx ?st) = view ?c" "has_room (rs_event ?st) fs"
    using fb st(1) room has_room_append(2) [of "rs_event st" "[]" fs "rs_event ?st"]
    by (simp_all add: runs_to_def reaches_def)
  obtain st' where u: "runs_to K pa r (n * Suc t) (Suc i) ?st (Suc i + Suc (length body)) st'"
    "reaches S ?st fs e st'"
    using loops_run [OF loop st1(1) idx progs(2) st1(2-4)] by blast
  have "runs_to K pa r (1 + n * Suc t) i st (i + length (FOR_BREAK # body @ [FOR_BREAK])) st'"
    using runs_to_trans [OF fb(1) u(1)] by simp
  moreover have "reaches S st fs e st'" using reaches_trans [OF fb(2) [unfolded st(1)] u(2)] by simp
  ultimately show "\<exists>st'. runs_to K pa r (Suc (n * Suc t)) i st (i + length (FOR_BREAK # body @ [FOR_BREAK])) st' \<and>
      reaches S st fs e st'"
    by (intro exI [of _ st']) simp
qed

subsection \<open>An element of a string array\<close>

definition string_elem_ok :: "kenv \<Rightarrow> u64 \<Rightarrow> bool" where
  "string_elem_ok K a \<longleftrightarrow> 0 \<le> fst (mem_probe_read_str K (array_elem K a AND ADDR_MASK) MAX_STRING_SIZE)"

definition string_elem_frames :: "kenv \<Rightarrow> u64 \<Rightarrow> u8 \<Rightarrow> u8 list list" where
  "string_elem_frames K a i =
     [i # le_bytes 8 (array_elem K a),
      (if string_elem_ok K a then payload_frame (i + 1) (string_payload K (array_elem K a AND ADDR_MASK))
       else (i + 1) # le_bytes 4 STRARR_MAGIC_LEN)]"

definition string_elem_ctx :: "kenv \<Rightarrow> op_ctx_t \<Rightarrow> op_ctx_t" where
  "string_elem_ctx K c =
     c\<lparr>save_index := save_index c + 2,
       loop_count := (if string_elem_ok K (read_addr c) then loop_count c else break_count c)\<rparr>"

lemma op_save_ptr_string_view:
  "save_index (rs_ctx (op_save_ptr_string K st)) = save_index (rs_ctx st) + 2"
  "view ((rs_ctx (op_save_ptr_string K st))\<lparr>save_index := 0, loop_count := 0\<rparr>) = view ((rs_ctx st)\<lparr>save_index := 0, loop_count := 0\<rparr>)"
  by (simp_all add: op_save_ptr_string_def save_u64_def Let_def case_prod_unfold view_eq_iff)

lemma op_does_save_ptr_string:
  assumes K: "helper_laws K" and zero: "fst (mem_probe_read K 0 0) = 0"
  shows "op_does K S r cfg OP_SAVE_PTR_STRING c (string_elem_frames K (read_addr c) (save_index c)) (string_elem_ctx K c)"
  unfolding op_does_def
proof (intro allI impI, elim conjE)
  fix st :: rstate assume st: "rs_maps st = S" "view (rs_ctx st) = view c"
    and room: "has_room (rs_event st) (string_elem_frames K (read_addr c) (save_index c))"
  have off: "unat (buf_off (rs_event st)) \<le> 27890" using room by (simp add: has_room_def SAVE_ROOM_def)
  have v: "read_addr (rs_ctx st) = read_addr c" "save_index (rs_ctx st) = save_index c"
    "loop_count (rs_ctx st) = loop_count c" "break_count (rs_ctx st) = break_count c"
    using st(2) by (simp_all add: view_eq_iff)
  note res = op_save_ptr_string_frames [OF K off zero, unfolded v]
  have "appended (rs_event st) (rs_event (op_save_ptr_string K st)) (string_elem_frames K (read_addr c) (save_index c))"
    and lc: "loop_count (rs_ctx (op_save_ptr_string K st)) = loop_count (string_elem_ctx K c)"
    using res by (simp_all add: string_elem_frames_def string_elem_ctx_def string_elem_ok_def split: if_splits)
  moreover have "view (rs_ctx (op_save_ptr_string K st)) = view (string_elem_ctx K c)"
    using op_save_ptr_string_view [of K st] lc st(2) by (simp add: view_eq_iff string_elem_ctx_def)
  ultimately have "reaches S st (string_elem_frames K (read_addr c) (save_index c)) (string_elem_ctx K c) (op_save_ptr_string K st)"
    using st(1) by (simp add: reaches_def op_save_op_list)
  then show "\<exists>st'. exec_op K r cfg OP_SAVE_PTR_STRING st = (st', Next) \<and> reaches S st
      (string_elem_frames K (read_addr c) (save_index c)) (string_elem_ctx K c) st'"
    by simp
qed

subsection \<open>A value filter that accepts\<close>

lemma op_does_filter_value:
  assumes "bpf_map_lookup_elem (arg_filter S) (cfg_value cfg) = Some f" and "\<not> value_mismatch f (reg_value c)"
  shows "op_does K S r cfg OP_FILTER_VALUE c [] c"
  using assms by (auto simp: op_does_def op_filter_value_def reaches_def view_eq_iff)

end
