(* ===== verification/Go_Structs.thy ===== *)
theory Go_Structs
  imports Prelude
begin

text \<open>
  The structures that user space registers as argument types (\<open>PreRegister\<close> of
  \<open>user/argtype/iargtype.go\<close>). The program saves as many bytes as \<open>unsafe.Sizeof\<close> gives for the Go
  structure, with its padding; the parser reads as many as \<open>binary.Read\<close> takes for the Go structure it
  fills, without. The types of the package \<open>syscall\<close> are those of the Go library for arm64.
\<close>

subsection \<open>Go types\<close>

text \<open>\<open>Go_int n\<close> is an integer of \<open>n\<close> bytes, aligned to its size.\<close>

datatype go_type = Go_int nat | Go_array nat go_type | Go_struct "go_type list"

definition go_round :: "nat \<Rightarrow> nat \<Rightarrow> nat" where
  "go_round a n = (n + (a - 1)) div a * a"

fun go_align :: "go_type \<Rightarrow> nat" where
  "go_align (Go_int n) = n"
| "go_align (Go_array k t) = go_align t"
| "go_align (Go_struct ts) = foldr max (map go_align ts) 1"

text \<open>\<open>unsafe.Sizeof\<close>: each field at the next multiple of its alignment, the whole rounded up.\<close>

fun go_sizeof :: "go_type \<Rightarrow> nat" where
  "go_sizeof (Go_int n) = n"
| "go_sizeof (Go_array k t) = k * go_sizeof t"
| "go_sizeof (Go_struct ts) = go_round (foldr max (map go_align ts) 1)
     (foldl (\<lambda>off (a, n). go_round a off + n) 0 (map (\<lambda>t. (go_align t, go_sizeof t)) ts))"

text \<open>\<open>binary.Size\<close>: the sum of the fields.\<close>

fun go_binary_size :: "go_type \<Rightarrow> nat" where
  "go_binary_size (Go_int n) = n"
| "go_binary_size (Go_array k t) = k * go_binary_size t"
| "go_binary_size (Go_struct ts) = sum_list (map go_binary_size ts)"

subsection \<open>The registered structures\<close>

datatype struct_type = Timespec | Sigaction | Stack_t | Siginfo | Epoll_event | Pollfd | Dirent | Ittmerspec
  | Rusage | Utsname | Timeval | Timezone | Sysinfo | Stat | Statfs | Sockaddr

abbreviation go_pair :: go_type where "go_pair \<equiv> Go_struct [Go_int 8, Go_int 8]"

fun go_struct :: "struct_type \<Rightarrow> go_type" where
  "go_struct Timespec = go_pair"
| "go_struct Sigaction = Go_struct (replicate 5 (Go_int 8))"
| "go_struct Stack_t = Go_struct [Go_int 8, Go_int 4, Go_int 4]"
| "go_struct Siginfo = Go_struct [Go_int 4, Go_int 4, Go_int 4, Go_int 4, Go_int 8]"
| "go_struct Epoll_event = Go_struct (replicate 4 (Go_int 4))"
| "go_struct Pollfd = Go_struct [Go_int 4, Go_int 2, Go_int 2]"
| "go_struct Dirent = Go_struct [Go_int 8, Go_int 8, Go_int 2, Go_int 1, Go_array 256 (Go_int 1), Go_array 5 (Go_int 1)]"
| "go_struct Ittmerspec = Go_struct [go_pair, go_pair]"
| "go_struct Rusage = Go_struct ([go_pair, go_pair] @ replicate 14 (Go_int 8))"
| "go_struct Utsname = Go_struct (replicate 6 (Go_array 65 (Go_int 1)))"
| "go_struct Timeval = go_pair"
| "go_struct Timezone = Go_struct [Go_int 4, Go_int 4]"
| "go_struct Sysinfo = Go_struct ([Go_int 8, Go_array 3 (Go_int 8)] @ replicate 6 (Go_int 8) @
     [Go_int 2, Go_int 2, Go_array 4 (Go_int 1), Go_int 8, Go_int 8, Go_int 4, Go_array 0 (Go_int 1), Go_array 4 (Go_int 1)])"
| "go_struct Stat = Go_struct ([Go_int 8, Go_int 8] @ replicate 4 (Go_int 4) @ replicate 3 (Go_int 8) @
     [Go_int 4, Go_int 4, Go_int 8, go_pair, go_pair, go_pair, Go_array 2 (Go_int 4)])"
| "go_struct Statfs = Go_struct (replicate 7 (Go_int 8) @ [Go_struct [Go_array 2 (Go_int 4)]] @ replicate 3 (Go_int 8) @
     [Go_array 4 (Go_int 8)])"
| "go_struct Sockaddr = Go_struct [Go_int 2, Go_array 108 (Go_int 1)]"

text \<open>The structure that the parser fills: \<open>r_DIRENT\<close> registers \<open>parse_POLLFD\<close>.\<close>

fun parse_target :: "struct_type \<Rightarrow> struct_type" where
  "parse_target Dirent = Pollfd"
| "parse_target s = s"

definition saved_size :: "struct_type \<Rightarrow> u32" where
  "saved_size s = of_nat (go_sizeof (go_struct s))"

definition parsed_size :: "struct_type \<Rightarrow> nat" where
  "parsed_size s = go_binary_size (go_struct (parse_target s))"

text \<open>No registered structure has padding: every field that aligns the next is spelt out.\<close>

lemma go_struct_unpadded: "go_binary_size (go_struct s) = go_sizeof (go_struct s)"
  by (induction s; code_simp)

lemma go_struct_bound: "0 < go_sizeof (go_struct s) \<and> go_sizeof (go_struct s) \<le> 390"
  by (induction s; code_simp)

lemma unat_saved_size: "unat (saved_size s) = go_sizeof (go_struct s)"
  using go_struct_bound [of s] by (simp add: saved_size_def unat_of_nat take_bit_nat_eq_self)

lemma saved_size_bounds: "saved_size s \<le> 4096" "0 < saved_size s"
  using go_struct_bound [of s] unat_saved_size [of s] by (simp_all add: word_le_nat_alt word_less_nat_alt)

lemma parsed_size_whole: "s \<noteq> Dirent \<Longrightarrow> parsed_size s = unat (saved_size s)"
  using go_struct_unpadded [of s] by (cases s) (simp_all only: parsed_size_def unat_saved_size parse_target.simps simp_thms)

lemma dirent_sizes: "saved_size Dirent = 280" "parsed_size Dirent = 8"
  by (simp_all add: saved_size_def parsed_size_def go_round_def)

end
