(* ===== verification/Arg_Types.thy ===== *)
theory Arg_Types
  imports Reader_Parts Go_Structs
begin

unbundle bit_operations_syntax

text \<open>
  The argument types of user space (\<open>user/argtype\<close>): the operations each type is compiled to
  (\<open>argtype_complex.go\<close>, \<open>op_helper.go\<close>), the bytes those operations save, the value those bytes
  stand for, and the parser (\<open>Parse\<close> of each type) that reads the value back.
\<close>

subsection \<open>Configured operations\<close>

text \<open>A basic operation (\<open>ROP\<close>) with a value (\<open>NewValue\<close>).\<close>

definition ROP :: "op_code_e \<Rightarrow> u64 \<Rightarrow> op_config_t" where
  "ROP oc v = \<lparr>cfg_code = op_num oc, cfg_pre_code = op_num OP_SKIP, cfg_post_code = op_num OP_SKIP, cfg_value = v\<rparr>"

definition SaveStruct :: "u64 \<Rightarrow> op_config_t" where
  "SaveStruct v = \<lparr>cfg_code = op_num OP_SET_READ_LEN, cfg_pre_code = op_num OP_SKIP,
     cfg_post_code = op_num OP_SAVE_STRUCT, cfg_value = v\<rparr>"

definition READ_MOVE_REG :: "nat \<Rightarrow> op_config_t" where
  "READ_MOVE_REG v = \<lparr>cfg_code = op_num OP_READ_REG, cfg_pre_code = op_num OP_SET_REG_INDEX,
     cfg_post_code = op_num OP_MOVE_REG_VALUE, cfg_value = of_nat v\<rparr>"

definition BuildReadRegLen :: "nat \<Rightarrow> op_config_t" where
  "BuildReadRegLen v = \<lparr>cfg_code = op_num OP_READ_REG, cfg_pre_code = op_num OP_SET_REG_INDEX,
     cfg_post_code = op_num OP_SET_READ_LEN_REG_VALUE, cfg_value = of_nat v\<rparr>"

definition BuildReadRegBreakCount :: "nat \<Rightarrow> op_config_t" where
  "BuildReadRegBreakCount v = \<lparr>cfg_code = op_num OP_READ_REG, cfg_pre_code = op_num OP_SET_REG_INDEX,
     cfg_post_code = op_num OP_SET_BREAK_COUNT_REG_VALUE, cfg_value = of_nat v\<rparr>"

definition BuildReadPtrBreakCount :: "u64 \<Rightarrow> op_config_t" where
  "BuildReadPtrBreakCount v = \<lparr>cfg_code = op_num OP_READ_POINTER, cfg_pre_code = op_num OP_ADD_OFFSET,
     cfg_post_code = op_num OP_SET_BREAK_COUNT_POINTER_VALUE, cfg_value = v\<rparr>"

definition BuildReadPtrAddr :: "u64 \<Rightarrow> op_config_t" where
  "BuildReadPtrAddr v = \<lparr>cfg_code = op_num OP_READ_POINTER, cfg_pre_code = op_num OP_ADD_OFFSET,
     cfg_post_code = op_num OP_MOVE_POINTER_VALUE, cfg_value = v\<rparr>"

definition BuildReadPtrLen :: "u64 \<Rightarrow> op_config_t" where
  "BuildReadPtrLen v = \<lparr>cfg_code = op_num OP_READ_POINTER, cfg_pre_code = op_num OP_ADD_OFFSET,
     cfg_post_code = op_num OP_SET_READ_LEN_POINTER_VALUE, cfg_value = v\<rparr>"

lemma performs_ROP:
  assumes "op_does K S r (ROP oc v) oc c fs d" and "match_blacklist d \<noteq> 1" and "oc \<noteq> OP_SKIP" "oc \<noteq> OP_FOR_BREAK"
  shows "performs K S r 1 [ROP oc v] c fs d"
  using assms by (intro performs_single [where oc = oc]) (auto simp: ROP_def plain_cfg_def op_num_inj simp del: op_num.simps)

lemmas double_defs = SaveStruct_def READ_MOVE_REG_def BuildReadRegLen_def BuildReadRegBreakCount_def
  BuildReadPtrLen_def BuildReadPtrBreakCount_def BuildReadPtrAddr_def READ_SAVE_REG_def

text \<open>A register read followed by what is done with it.\<close>

lemma performs_read_reg:
  assumes r: "wf_ctx_regs r" "v < 33"
    and cfg: "cfg_code cfg = op_num OP_READ_REG" "cfg_pre_code cfg = op_num OP_SET_REG_INDEX"
      "cfg_value cfg = of_nat v" "cfg_post_code cfg = op_num oc" "oc \<noteq> OP_SKIP" "oc \<noteq> OP_FOR_BREAK"
    and does: "op_does K S r cfg oc (read_reg_ctx r v c) fs d"
    and mb: "match_blacklist c \<noteq> 1" "match_blacklist d \<noteq> 1"
  shows "performs K S r 2 [cfg] c fs d"
proof -
  have "plain_cfg cfg" using cfg op_num_inj [of oc OP_FOR_BREAK] by (simp add: plain_cfg_def)
  from performs_double [OF cfg(1,4,5) this op_does_read_reg [OF r cfg(2,3)] _ does mb(2)] mb(1)
  show ?thesis by (simp add: read_reg_ctx_def)
qed

subsection \<open>The types\<close>

text \<open>
  \<open>Number\<close> stands for all number types (the register is the value), \<open>Struct\<close> for the registered
  structures, \<open>Array\<close> for arrays of numbers of a given total size, \<open>Pointer_to\<close> for a pointer
  (written with a star) to another type, \<open>Iovecs\<close> for an array of \<open>struct iovec\<close> whose length is in a register, \<open>Msghdr\<close> for
  \<open>struct msghdr\<close> with its control data and its array of \<open>struct iovec\<close>.
\<close>

datatype arg_type = Number | String_arg | Std_string | Struct struct_type | Array u32 | Buffer
  | Buffer_len u32 | Buffer_reg nat | String_array | Iovecs nat | Msghdr | Pointer_to arg_type

definition MAX_BUF_READ_SIZE :: u64 where [const_simps]: "MAX_BUF_READ_SIZE = 4096"
definition MAX_IOV_COUNT :: nat where [const_simps]: "MAX_IOV_COUNT = 6"

definition STRING_ops :: "op_config_t list" where [simp]:
  "STRING_ops = [ROP OP_SAVE_STRING 0]"

definition STD_STRING_ops :: "op_config_t list" where [simp]:
  "STD_STRING_ops = [ROP OP_READ_STD_STRING 0, ROP OP_SAVE_STRING 0]"

definition STRUCT_ops :: "u32 \<Rightarrow> op_config_t list" where [simp]:
  "STRUCT_ops n = [ROP OP_SET_READ_LEN (ucast n), ROP OP_SAVE_STRUCT 0]"

definition ARRAY_ops :: "u32 \<Rightarrow> op_config_t list" where [simp]:
  "ARRAY_ops n = [SaveStruct (ucast n)]"

definition BUFFER_ops :: "op_config_t list" where [simp]:
  "BUFFER_ops = [SaveStruct MAX_BUF_READ_SIZE]"

definition BUFFER_LEN_ops :: "u32 \<Rightarrow> op_config_t list" where [simp]:
  "BUFFER_LEN_ops n = [ROP OP_SET_READ_LEN (ucast n), ROP OP_SAVE_STRUCT 0]"

definition BUFFER_REG_ops :: "nat \<Rightarrow> op_config_t list" where [simp]:
  "BUFFER_REG_ops v = [ROP OP_SET_READ_LEN MAX_BUF_READ_SIZE, BuildReadRegLen v, ROP OP_SAVE_STRUCT 0]"

text \<open>The word is saved, and then the operations of the other type follow, at the same read address.\<close>

definition POINTER_ops :: "op_config_t list \<Rightarrow> op_config_t list" where [simp]:
  "POINTER_ops ops = [SaveStruct 8] @ ops"

definition STRING_ARRAY_ops :: "op_config_t list" where [simp]:
  "STRING_ARRAY_ops =
     [ROP OP_SET_BREAK_COUNT (ucast MAX_LOOP_COUNT), FOR_BREAK, ROP OP_SAVE_PTR_STRING 0, ROP OP_ADD_OFFSET 8, FOR_BREAK]"

definition iovec_ops :: "op_config_t list" where
  "iovec_ops = [ROP OP_SET_READ_LEN 16, ROP OP_SAVE_STRUCT 0, ROP OP_SET_READ_LEN MAX_BUF_READ_SIZE,
     BuildReadPtrLen 8, ROP OP_READ_POINTER 0, ROP OP_MOVE_POINTER_VALUE 0, ROP OP_SAVE_STRUCT 0]"

definition IOVEC_REG_ops :: "nat \<Rightarrow> op_config_t list" where [simp]:
  "IOVEC_REG_ops v =
     [BuildReadRegBreakCount v, ROP OP_SAVE_REG 0, FOR_BREAK, ROP OP_SET_TMP_VALUE 0] @ iovec_ops @
     [ROP OP_MOVE_TMP_VALUE 0, ROP OP_ADD_OFFSET 16, FOR_BREAK]"

definition MSGHDR_ops :: "op_config_t list" where [simp]:
  "MSGHDR_ops =
     [ROP OP_SET_READ_LEN 56, ROP OP_SAVE_STRUCT 0, ROP OP_SET_TMP_VALUE 0, ROP OP_SET_READ_LEN MAX_BUF_READ_SIZE,
      BuildReadPtrLen 40, BuildReadPtrAddr 32, ROP OP_SAVE_STRUCT 0, ROP OP_MOVE_TMP_VALUE 0,
      BuildReadPtrBreakCount 24, BuildReadPtrAddr 16, FOR_BREAK, ROP OP_SET_TMP_VALUE 0] @ iovec_ops @
     [ROP OP_MOVE_TMP_VALUE 0, ROP OP_ADD_OFFSET 16, FOR_BREAK]"

fun type_ops :: "arg_type \<Rightarrow> op_config_t list" where
  "type_ops Number = []"
| "type_ops String_arg = STRING_ops"
| "type_ops Std_string = STD_STRING_ops"
| "type_ops (Struct s) = STRUCT_ops (saved_size s)"
| "type_ops (Array n) = ARRAY_ops n"
| "type_ops Buffer = BUFFER_ops"
| "type_ops (Buffer_len n) = BUFFER_LEN_ops n"
| "type_ops (Buffer_reg v) = BUFFER_REG_ops v"
| "type_ops String_array = STRING_ARRAY_ops"
| "type_ops (Iovecs v) = IOVEC_REG_ops v"
| "type_ops Msghdr = MSGHDR_ops"
| "type_ops (Pointer_to ty) = POINTER_ops (type_ops ty)"

subsection \<open>What the operations of a type save\<close>

text \<open>A length above \<open>MAX_BYTES_ARR_SIZE\<close> is cut there.\<close>

definition clamp_len :: "u32 \<Rightarrow> u32" where
  "clamp_len n = (if of_nat MAX_BYTES_ARR_SIZE < n then of_nat MAX_BYTES_ARR_SIZE else n)"

definition reg_len :: "u64 \<Rightarrow> u32" where
  "reg_len v = (if v < MAX_BUF_READ_SIZE then ucast v else ucast MAX_BUF_READ_SIZE)"

definition user_word :: "kenv \<Rightarrow> u64 \<Rightarrow> u64" where
  "user_word K a = le_word (snd (mem_probe_read_user K a 8))"

definition bytes_at :: "kenv \<Rightarrow> u64 \<Rightarrow> u32 \<Rightarrow> u8 list" where
  "bytes_at K a n = struct_payload K (a AND ADDR_MASK) (clamp_len n)"

definition text_at :: "kenv \<Rightarrow> u64 \<Rightarrow> u8 list" where
  "text_at K a = string_payload K (a AND ADDR_MASK)"

text \<open>\<open>std::string\<close>: the characters are in the object, or behind its first word.\<close>

definition std_string_at :: "kenv \<Rightarrow> u64 \<Rightarrow> u64" where
  "std_string_at K a =
     (let base = a AND ADDR_MASK;
          last = le_word (overlay [0] (snd (mem_probe_read_user K (base + (of_nat (PTR_SIZE (build_arch K) * 3) - 1)) 1))) :: u8
      in if last AND 0x80 \<noteq> 0 then read_user_u64 K 0 8 base else base)"

fun strings_frames :: "kenv \<Rightarrow> u64 \<Rightarrow> nat \<Rightarrow> u8 \<Rightarrow> u8 list list" where
  "strings_frames K a 0 i = []"
| "strings_frames K a (Suc n) i =
     string_elem_frames K a i @ (if string_elem_ok K a then strings_frames K (a + 8) n (i + 2) else [])"

fun iovec_frames :: "kenv \<Rightarrow> u64 \<Rightarrow> nat \<Rightarrow> u8 \<Rightarrow> u8 list list" where
  "iovec_frames K a 0 i = []"
| "iovec_frames K a (Suc n) i =
     [payload_frame i (bytes_at K a 16),
      payload_frame (i + 1) (bytes_at K (user_word K (a AND ADDR_MASK)) (reg_len (user_word K ((a AND ADDR_MASK) + 8))))]
     @ iovec_frames K (a + 16) n (i + 2)"

definition iovec_count :: "u64 \<Rightarrow> nat" where
  "iovec_count v = max 1 (unat (limit_break_count v))"

text \<open>\<open>struct msghdr\<close>: the structure, the control data it points to, and the elements of its array.\<close>

definition msghdr_frames :: "kenv \<Rightarrow> u64 \<Rightarrow> u8 \<Rightarrow> u8 list list" where
  "msghdr_frames K a i =
     [payload_frame i (bytes_at K a 56),
      payload_frame (i + 1) (bytes_at K (user_word K (a + 32)) (reg_len (user_word K (a + 40))))]
     @ iovec_frames K (user_word K (a + 16)) (iovec_count (user_word K (a + 24))) (i + 2)"

fun type_frames :: "kenv \<Rightarrow> ctx_regs_t \<Rightarrow> arg_type \<Rightarrow> u64 \<Rightarrow> u8 \<Rightarrow> u8 list list" where
  "type_frames K r Number a i = []"
| "type_frames K r String_arg a i = [payload_frame i (text_at K a)]"
| "type_frames K r Std_string a i = [payload_frame i (text_at K (std_string_at K a))]"
| "type_frames K r (Struct s) a i = [payload_frame i (bytes_at K a (saved_size s))]"
| "type_frames K r (Array n) a i = [payload_frame i (bytes_at K a n)]"
| "type_frames K r Buffer a i = [payload_frame i (bytes_at K a (ucast MAX_BUF_READ_SIZE))]"
| "type_frames K r (Buffer_len n) a i = [payload_frame i (bytes_at K a n)]"
| "type_frames K r (Buffer_reg v) a i = [payload_frame i (bytes_at K a (reg_len (ctx_regs_words r ! v)))]"
| "type_frames K r String_array a i = strings_frames K a (unat MAX_LOOP_COUNT) i"
| "type_frames K r (Iovecs v) a i =
     (i # le_bytes 8 (ctx_regs_words r ! v)) # iovec_frames K a (iovec_count (ctx_regs_words r ! v)) (i + 1)"
| "type_frames K r Msghdr a i = msghdr_frames K (a AND ADDR_MASK) i"
| "type_frames K r (Pointer_to ty) a i =
     payload_frame i (bytes_at K a 8) # type_frames K r ty (a AND ADDR_MASK) (i + 1)"

subsection \<open>Running the operations of a type\<close>

text \<open>What the next argument relies on: the flags, the loop counter and the return value stay.\<close>

definition keeps :: "op_ctx_t \<Rightarrow> op_ctx_t \<Rightarrow> bool" where
  "keeps c d \<longleftrightarrow> match_blacklist d = match_blacklist c \<and> match_whitelist d = match_whitelist c \<and>
     apply_filter d = apply_filter c \<and> skip_flag d = skip_flag c \<and> loop_count d = loop_count c \<and> reg_0 d = reg_0 c"

lemma keeps_refl [simp]: "keeps c c"
  by (simp add: keeps_def)

lemma keeps_trans: "keeps c d \<Longrightarrow> keeps d e \<Longrightarrow> keeps c e"
  by (simp add: keeps_def)

definition struct_saved :: "op_ctx_t \<Rightarrow> u32 \<Rightarrow> op_ctx_t" where
  "struct_saved c n =
     c\<lparr>read_len := clamp_len n, read_addr := read_addr c AND ADDR_MASK, save_index := save_index c + 1\<rparr>"

lemma keeps_struct_saved [simp]: "keeps c (struct_saved c n)"
  by (simp add: keeps_def struct_saved_def)

lemma save_struct_ctx_plain:
  "cfg_pre_code cfg = op_num OP_SKIP \<Longrightarrow>
    (save_struct_ctx cfg c)\<lparr>save_index := save_index c + 1\<rparr> = struct_saved c (read_len c)"
  by (simp add: save_struct_ctx_def struct_saved_def clamp_len_def Let_def)

lemma saved_struct_plain:
  "cfg_pre_code cfg = op_num OP_SKIP \<Longrightarrow> saved_struct K cfg c = bytes_at K (read_addr c) (read_len c)"
  by (simp add: saved_struct_def save_struct_ctx_def bytes_at_def clamp_len_def Let_def)

lemma op_does_save_struct_plain:
  assumes "helper_laws K" and "cfg_pre_code cfg = op_num OP_SKIP"
  shows "op_does K S r cfg OP_SAVE_STRUCT c [payload_frame (save_index c) (bytes_at K (read_addr c) (read_len c))]
    (struct_saved c (read_len c))"
  using op_does_save_struct [OF assms(1), of S r cfg c] by (simp add: save_struct_ctx_plain saved_struct_plain assms(2))

lemma performs_save_struct:
  assumes "helper_laws K" and "match_blacklist c \<noteq> 1"
  shows "performs K S r 1 [ROP OP_SAVE_STRUCT v] c
    [payload_frame (save_index c) (bytes_at K (read_addr c) (read_len c))] (struct_saved c (read_len c))"
  by (rule performs_ROP [OF op_does_save_struct_plain])
    (use assms in \<open>simp_all add: struct_saved_def, simp add: ROP_def\<close>)

lemma performs_set_read_len:
  assumes "match_blacklist c \<noteq> 1"
  shows "performs K S r 1 [ROP OP_SET_READ_LEN v] c [] (c\<lparr>read_len := ucast v\<rparr>)"
proof -
  have eq: "c\<lparr>read_len := ucast v\<rparr> = op_set_read_len (ROP OP_SET_READ_LEN v) c"
    by (simp add: op_set_read_len_def ROP_def)
  show ?thesis unfolding eq
    by (rule performs_ROP [OF op_does_ctx_ops(1)]) (use assms in \<open>simp_all add: op_set_read_len_def\<close>)
qed

lemma performs_struct:
  assumes "helper_laws K" and "match_blacklist c \<noteq> 1"
  shows "performs K S r 2 [ROP OP_SET_READ_LEN v, ROP OP_SAVE_STRUCT 0] c
    [payload_frame (save_index c) (bytes_at K (read_addr c) (ucast v))] (struct_saved c (ucast v))"
proof -
  let ?c = "c\<lparr>read_len := ucast v\<rparr>"
  have "performs K S r 1 [ROP OP_SAVE_STRUCT 0] ?c [payload_frame (save_index ?c) (bytes_at K (read_addr ?c) (read_len ?c))]
      (struct_saved ?c (read_len ?c))"
    by (rule performs_save_struct) (use assms in simp_all)
  from performs_Cons [OF performs_set_read_len [OF assms(2)] this] show ?thesis by (simp add: struct_saved_def numeral_2_eq_2)
qed

lemma performs_SaveStruct:
  assumes "helper_laws K" and "match_blacklist c \<noteq> 1"
  shows "performs K S r 2 [SaveStruct v] c
    [payload_frame (save_index c) (bytes_at K (read_addr c) (ucast v))] (struct_saved c (ucast v))"
proof -
  let ?c = "op_set_read_len (SaveStruct v) c"
  have does: "op_does K S r (SaveStruct v) OP_SAVE_STRUCT ?c
      [payload_frame (save_index ?c) (bytes_at K (read_addr ?c) (read_len ?c))] (struct_saved ?c (read_len ?c))"
    by (rule op_does_save_struct_plain [OF assms(1)]) (simp add: SaveStruct_def)
  have "performs K S r 2 [SaveStruct v] c
      ([] @ [payload_frame (save_index ?c) (bytes_at K (read_addr ?c) (read_len ?c))]) (struct_saved ?c (read_len ?c))"
    by (rule performs_double [OF _ _ _ _ op_does_ctx_ops(1) _ does])
      (use assms(2) in \<open>simp_all add: SaveStruct_def plain_cfg_def op_set_read_len_def struct_saved_def\<close>)
  then show ?thesis by (simp add: op_set_read_len_def SaveStruct_def struct_saved_def)
qed

lemma performs_save_string:
  assumes "helper_laws K" and "match_blacklist c \<noteq> 1"
  shows "performs K S r 1 [ROP OP_SAVE_STRING 0] c [payload_frame (save_index c) (text_at K (read_addr c))]
    (c\<lparr>read_addr := read_addr c AND ADDR_MASK, save_index := save_index c + 1\<rparr>)"
  unfolding text_at_def by (rule performs_ROP [OF op_does_save_string]) (use assms in simp_all)

lemma performs_read_std_string:
  assumes "match_blacklist c \<noteq> 1"
  shows "performs K S r 1 [ROP OP_READ_STD_STRING 0] c [] (c\<lparr>read_addr := std_string_at K (read_addr c)\<rparr>)"
proof -
  have "op_read_std_string K c = c\<lparr>read_addr := std_string_at K (read_addr c)\<rparr>"
    by (simp add: op_read_std_string_def std_string_at_def Let_def)
  then have "c\<lparr>read_addr := std_string_at K (read_addr c)\<rparr> = op_read_std_string K c" by simp
  then show ?thesis
    by (simp only:) (rule performs_ROP [OF op_does_ctx_ops(16)]; use assms in \<open>simp add: op_read_std_string_def Let_def\<close>)
qed

lemma performs_buffer_reg:
  assumes K: "helper_laws K" and r: "wf_ctx_regs r" "v < 33" and mb: "match_blacklist c \<noteq> 1"
  shows "performs K S r 4 (type_ops (Buffer_reg v)) c (type_frames K r (Buffer_reg v) (read_addr c) (save_index c))
    (struct_saved (read_reg_ctx r v c) (reg_len (ctx_regs_words r ! v)))"
proof -
  let ?c1 = "c\<lparr>read_len := ucast MAX_BUF_READ_SIZE\<rparr>"
  let ?c2 = "(read_reg_ctx r v c)\<lparr>read_len := reg_len (ctx_regs_words r ! v)\<rparr>"
  have d: "op_set_read_len_reg_value (read_reg_ctx r v ?c1) = ?c2"
    by (simp add: op_set_read_len_reg_value_def read_reg_ctx_def reg_len_def const_simps)
  have "performs K S r 2 [BuildReadRegLen v] ?c1 [] ?c2"
    by (rule performs_read_reg [OF r, where oc = OP_SET_READ_LEN_REG_VALUE])
      (use mb op_does_ctx_ops(2) [of K S r "BuildReadRegLen v" "read_reg_ctx r v ?c1"] in
        \<open>simp_all add: d, simp_all add: BuildReadRegLen_def read_reg_ctx_def\<close>)
  moreover have "performs K S r 1 [ROP OP_SAVE_STRUCT 0] ?c2
      [payload_frame (save_index ?c2) (bytes_at K (read_addr ?c2) (read_len ?c2))] (struct_saved ?c2 (read_len ?c2))"
    by (rule performs_save_struct [OF K]) (use mb in \<open>simp add: read_reg_ctx_def\<close>)
  ultimately show ?thesis
    using performs_Cons [OF performs_set_read_len [OF mb] performs_Cons]
    by (fastforce simp: struct_saved_def read_reg_ctx_def)
qed

subsection \<open>Offsets and pointers\<close>

lemma performs_add_offset:
  assumes "match_blacklist c \<noteq> 1"
  shows "performs K S r 1 [ROP OP_ADD_OFFSET v] c [] (c\<lparr>read_addr := read_addr c + v\<rparr>)"
proof -
  have eq: "c\<lparr>read_addr := read_addr c + v\<rparr> = op_add_offset (ROP OP_ADD_OFFSET v) c"
    by (simp add: op_add_offset_def ROP_def)
  show ?thesis unfolding eq
    by (rule performs_ROP [OF op_does_ctx_ops(4)]) (use assms in \<open>simp_all add: op_add_offset_def\<close>)
qed

lemma performs_ctx_ops:
  assumes "match_blacklist c \<noteq> 1"
  shows "performs K S r 1 [ROP OP_SET_TMP_VALUE 0] c [] (c\<lparr>tmp_value := read_addr c\<rparr>)"
    and "performs K S r 1 [ROP OP_MOVE_TMP_VALUE 0] c [] (c\<lparr>read_addr := tmp_value c\<rparr>)"
    and "performs K S r 1 [ROP OP_MOVE_POINTER_VALUE 0] c [] (c\<lparr>read_addr := pointer_value c\<rparr>)"
    and "performs K S r 1 [ROP OP_READ_RET 0] c [] (c\<lparr>reg_value := reg_0 c\<rparr>)"
    and "performs K S r 1 [ROP OP_SUB_OFFSET v] c [] (c\<lparr>read_addr := read_addr c - v\<rparr>)"
    and "performs K S r 1 [ROP OP_ADD_REG 0] c [] (c\<lparr>read_addr := read_addr c + reg_value c\<rparr>)"
    and "performs K S r 1 [ROP OP_SUB_REG 0] c [] (c\<lparr>read_addr := read_addr c - reg_value c\<rparr>)"
    and "performs K S r 1 [OPC_MOVE_REG_VALUE] c [] (c\<lparr>read_addr := reg_value c\<rparr>)"
proof -
  note does = op_does_ctx_ops [where c = c and K = K and S = S and r = r]
  note defs = op_set_tmp_value_def op_move_tmp_value_def op_move_pointer_value_def op_read_ret_def
    op_sub_offset_def op_add_reg_def op_sub_reg_def op_move_reg_value_def ROP_def
  show "performs K S r 1 [ROP OP_SET_TMP_VALUE 0] c [] (c\<lparr>tmp_value := read_addr c\<rparr>)"
    by (rule performs_ROP) (use does(9) assms in \<open>simp_all add: defs\<close>)
  show "performs K S r 1 [ROP OP_MOVE_TMP_VALUE 0] c [] (c\<lparr>read_addr := tmp_value c\<rparr>)"
    by (rule performs_ROP) (use does(8) assms in \<open>simp_all add: defs\<close>)
  show "performs K S r 1 [ROP OP_MOVE_POINTER_VALUE 0] c [] (c\<lparr>read_addr := pointer_value c\<rparr>)"
    by (rule performs_ROP) (use does(7) assms in \<open>simp_all add: defs\<close>)
  show "performs K S r 1 [ROP OP_READ_RET 0] c [] (c\<lparr>reg_value := reg_0 c\<rparr>)"
    by (rule performs_ROP) (use does(14) assms in \<open>simp_all add: defs\<close>)
  show "performs K S r 1 [ROP OP_SUB_OFFSET v] c [] (c\<lparr>read_addr := read_addr c - v\<rparr>)"
    by (rule performs_ROP) (use does(5) [where cfg = "ROP OP_SUB_OFFSET v"] assms in \<open>simp_all add: defs\<close>)
  show "performs K S r 1 [ROP OP_ADD_REG 0] c [] (c\<lparr>read_addr := read_addr c + reg_value c\<rparr>)"
    by (rule performs_ROP) (use does(12) assms in \<open>simp_all add: defs\<close>)
  show "performs K S r 1 [ROP OP_SUB_REG 0] c [] (c\<lparr>read_addr := read_addr c - reg_value c\<rparr>)"
    by (rule performs_ROP) (use does(13) assms in \<open>simp_all add: defs\<close>)
  show "performs K S r 1 [OPC_MOVE_REG_VALUE] c [] (c\<lparr>read_addr := reg_value c\<rparr>)"
    by (rule performs_ROP [of K S r OP_MOVE_REG_VALUE 0, folded OPC_MOVE_REG_VALUE_def [folded ROP_def]])
      (use does(6) assms in \<open>simp_all add: defs\<close>)
qed

lemma read_user_u64_word:
  assumes "helper_laws K" and "fst (mem_probe_read_user K a 8) = 0"
  shows "read_user_u64 K old 8 a = user_word K a"
proof -
  have "length (snd (mem_probe_read_user K a 8)) = 8"
    by (rule read_lawD(2) [OF helper_lawsD(2) [OF assms(1)] assms(2)])
  then show ?thesis by (simp add: read_user_u64_def user_word_def overlay_def)
qed

lemma performs_read_pointer:
  assumes K: "helper_laws K" "PTR_SIZE (build_arch K) = 8" and mb: "match_blacklist c \<noteq> 1"
    and rd: "fst (mem_probe_read_user K (read_addr c) 8) = 0"
  shows "performs K S r 1 [ROP OP_READ_POINTER 0] c [] (c\<lparr>pointer_value := user_word K (read_addr c)\<rparr>)"
proof -
  have eq: "c\<lparr>pointer_value := user_word K (read_addr c)\<rparr> = op_read_pointer K (ROP OP_READ_POINTER 0) c"
    using read_user_u64_word [OF K(1) rd] K(2) by (simp add: op_read_pointer_def ROP_def)
  show ?thesis unfolding eq
    by (rule performs_ROP [OF op_does_ctx_ops(15)]) (use mb in \<open>simp_all add: op_read_pointer_def\<close>)
qed

text \<open>A word behind the read address followed by what is done with it.\<close>

lemma performs_read_ptr:
  assumes K: "helper_laws K" "PTR_SIZE (build_arch K) = 8"
    and cfg: "cfg_code cfg = op_num OP_READ_POINTER" "cfg_pre_code cfg = op_num OP_ADD_OFFSET"
      "cfg_value cfg = v" "cfg_post_code cfg = op_num oc" "oc \<noteq> OP_SKIP" "oc \<noteq> OP_FOR_BREAK"
    and rd: "fst (mem_probe_read_user K (read_addr c + v) 8) = 0"
    and does: "op_does K S r cfg oc (c\<lparr>pointer_value := user_word K (read_addr c + v)\<rparr>) fs d"
    and mb: "match_blacklist c \<noteq> 1" "match_blacklist d \<noteq> 1"
  shows "performs K S r 2 [cfg] c fs d"
proof -
  have eq: "op_read_pointer K cfg c = c\<lparr>pointer_value := user_word K (read_addr c + v)\<rparr>"
    using read_user_u64_word [OF K(1) rd] K(2) cfg(2,3) by (simp add: op_read_pointer_def)
  have plain: "plain_cfg cfg" using cfg op_num_inj [of oc OP_FOR_BREAK] by (simp add: plain_cfg_def)
  have "performs K S r 2 [cfg] c ([] @ fs) d"
    by (rule performs_double [OF cfg(1,4,5) plain op_does_ctx_ops(15) _ _ mb(2)])
      (use does mb(1) in \<open>simp_all add: eq\<close>)
  then show ?thesis by simp
qed

lemma performs_read_ptr_len:
  assumes K: "helper_laws K" "PTR_SIZE (build_arch K) = 8" and mb: "match_blacklist c \<noteq> 1"
    and rd: "fst (mem_probe_read_user K (read_addr c + v) 8) = 0" and len: "read_len c = ucast MAX_BUF_READ_SIZE"
  shows "performs K S r 2 [BuildReadPtrLen v] c []
    (c\<lparr>pointer_value := user_word K (read_addr c + v), read_len := reg_len (user_word K (read_addr c + v))\<rparr>)"
proof (rule performs_read_ptr [OF K _ _ _ _ _ _ rd, where oc = OP_SET_READ_LEN_POINTER_VALUE])
  let ?c = "c\<lparr>pointer_value := user_word K (read_addr c + v)\<rparr>"
  have "op_set_read_len_pointer_value ?c = ?c\<lparr>read_len := reg_len (user_word K (read_addr c + v))\<rparr>"
    using len by (simp add: op_set_read_len_pointer_value_def reg_len_def const_simps)
  with op_does_ctx_ops(3) [of K S r "BuildReadPtrLen v" ?c]
  show "op_does K S r (BuildReadPtrLen v) OP_SET_READ_LEN_POINTER_VALUE ?c []
      (c\<lparr>pointer_value := user_word K (read_addr c + v), read_len := reg_len (user_word K (read_addr c + v))\<rparr>)"
    by simp
qed (use mb in \<open>simp_all add: BuildReadPtrLen_def\<close>)

lemma performs_read_ptr_addr:
  assumes K: "helper_laws K" "PTR_SIZE (build_arch K) = 8" and mb: "match_blacklist c \<noteq> 1"
    and rd: "fst (mem_probe_read_user K (read_addr c + v) 8) = 0"
  shows "performs K S r 2 [BuildReadPtrAddr v] c []
    (c\<lparr>pointer_value := user_word K (read_addr c + v), read_addr := user_word K (read_addr c + v)\<rparr>)"
proof (rule performs_read_ptr [OF K _ _ _ _ _ _ rd, where oc = OP_MOVE_POINTER_VALUE])
  show "op_does K S r (BuildReadPtrAddr v) OP_MOVE_POINTER_VALUE (c\<lparr>pointer_value := user_word K (read_addr c + v)\<rparr>) []
      (c\<lparr>pointer_value := user_word K (read_addr c + v), read_addr := user_word K (read_addr c + v)\<rparr>)"
    using op_does_ctx_ops(7) [of K S r "BuildReadPtrAddr v" "c\<lparr>pointer_value := user_word K (read_addr c + v)\<rparr>"]
    by (simp add: op_move_pointer_value_def)
qed (use mb in \<open>simp_all add: BuildReadPtrAddr_def\<close>)

lemma performs_read_ptr_break_count:
  assumes K: "helper_laws K" "PTR_SIZE (build_arch K) = 8" and mb: "match_blacklist c \<noteq> 1"
    and rd: "fst (mem_probe_read_user K (read_addr c + v) 8) = 0"
  shows "performs K S r 2 [BuildReadPtrBreakCount v] c []
    (c\<lparr>pointer_value := user_word K (read_addr c + v),
       break_count := limit_break_count (user_word K (read_addr c + v))\<rparr>)"
proof (rule performs_read_ptr [OF K _ _ _ _ _ _ rd, where oc = OP_SET_BREAK_COUNT_POINTER_VALUE])
  show "op_does K S r (BuildReadPtrBreakCount v) OP_SET_BREAK_COUNT_POINTER_VALUE
      (c\<lparr>pointer_value := user_word K (read_addr c + v)\<rparr>) []
      (c\<lparr>pointer_value := user_word K (read_addr c + v),
         break_count := limit_break_count (user_word K (read_addr c + v))\<rparr>)"
    using op_does_ctx_ops(17) [of K S r "BuildReadPtrBreakCount v" "c\<lparr>pointer_value := user_word K (read_addr c + v)\<rparr>"]
    by (simp add: op_set_break_count_pointer_value_def)
qed (use mb in \<open>simp_all add: BuildReadPtrBreakCount_def\<close>)

end
