(* ===== verification/Arg_Runs.thy ===== *)
theory Arg_Runs
  imports Arg_Types
begin

unbundle bit_operations_syntax

text \<open>
  The argument types whose operations are loops: string arrays, arrays of \<open>struct iovec\<close> and
  \<open>struct msghdr\<close>, which has both. \<open>performs_type\<close> puts all types together: the operations of a type
  save its frames and leave the context as the next argument needs it.
\<close>

subsection \<open>String arrays\<close>

text \<open>Up to \<open>MAX_LOOP_COUNT\<close> elements, ended early by one that cannot be read.\<close>

fun strings_passes :: "kenv \<Rightarrow> u64 \<Rightarrow> nat \<Rightarrow> nat" where
  "strings_passes K a 0 = 0"
| "strings_passes K a (Suc n) = Suc (if string_elem_ok K a then strings_passes K (a + 8) n else 0)"

lemma strings_passes_le: "strings_passes K a n \<le> n"
  by (induction n arbitrary: a) simp_all

lemma length_strings_frames: "length (strings_frames K a n i) = 2 * strings_passes K a n"
  by (induction n arbitrary: a i) (simp_all add: string_elem_frames_def)

definition strings_saved :: "kenv \<Rightarrow> nat \<Rightarrow> op_ctx_t \<Rightarrow> op_ctx_t" where
  "strings_saved K n c = left_loop (c\<lparr>save_index := save_index c + 2 * of_nat (strings_passes K (read_addr c) n),
     read_addr := read_addr c + 8 * of_nat (strings_passes K (read_addr c) n)\<rparr>)"

abbreviation string_body :: "op_config_t list" where
  "string_body \<equiv> [ROP OP_SAVE_PTR_STRING 0, ROP OP_ADD_OFFSET 8]"

definition string_body_ctx :: "kenv \<Rightarrow> op_ctx_t \<Rightarrow> op_ctx_t" where
  "string_body_ctx K c = (string_elem_ctx K c)\<lparr>read_addr := read_addr c + 8\<rparr>"

lemma performs_string_body:
  assumes "helper_laws K" and "fst (mem_probe_read K 0 0) = 0" and "match_blacklist c \<noteq> 1"
  shows "performs K S r 2 string_body c (string_elem_frames K (read_addr c) (save_index c)) (string_body_ctx K c)"
proof -
  have "performs K S r 1 [ROP OP_SAVE_PTR_STRING 0] c (string_elem_frames K (read_addr c) (save_index c)) (string_elem_ctx K c)"
    by (rule performs_ROP [OF op_does_save_ptr_string]) (use assms in \<open>simp_all add: string_elem_ctx_def\<close>)
  from performs_Cons [OF this performs_add_offset] show ?thesis
    using assms(3) by (simp add: string_body_ctx_def string_elem_ctx_def numeral_2_eq_2)
qed

lemma loops_strings:
  assumes "helper_laws K" and "fst (mem_probe_read K 0 0) = 0"
  shows "break_count c = MAX_LOOP_COUNT \<Longrightarrow> unat (loop_count c) + m = unat MAX_LOOP_COUNT \<Longrightarrow> loop_count c \<noteq> 0 \<Longrightarrow>
    match_blacklist c \<noteq> 1 \<Longrightarrow>
    loops K S r 2 string_body c (strings_frames K (read_addr c) (Suc m) (save_index c)) (strings_saved K (Suc m) c)
      (strings_passes K (read_addr c) (Suc m))"
proof (induction m arbitrary: c)
  case 0
  let ?d = "string_body_ctx K c"
  have "loop_count c = MAX_LOOP_COUNT" using "0.prems"(2) by (simp add: word_unat_eq_iff)
  then have "break_count ?d \<le> loop_count ?d" "match_blacklist ?d \<noteq> 1"
    using "0.prems" by (simp_all add: string_body_ctx_def string_elem_ctx_def)
  from last_pass [OF performs_string_body [OF assms "0.prems"(4)] this(2,1)]
  show ?case by (simp add: strings_saved_def left_loop_def string_body_ctx_def string_elem_ctx_def)
next
  case (Suc m)
  let ?d = "string_body_ctx K c"
  have mb: "match_blacklist ?d \<noteq> 1" using Suc.prems by (simp add: string_body_ctx_def string_elem_ctx_def)
  note body = performs_string_body [OF assms Suc.prems(4)]
  show ?case
  proof (cases "string_elem_ok K (read_addr c)")
    case True
    have lt: "loop_count c < MAX_LOOP_COUNT" using Suc.prems(2) by (simp add: word_less_nat_alt)
    let ?c = "?d\<lparr>loop_count := loop_count ?d + 1\<rparr>"
    have d: "loop_count ?d = loop_count c" "break_count ?d = MAX_LOOP_COUNT" "loop_index ?d = loop_index c"
      "read_addr ?d = read_addr c + 8" "save_index ?d = save_index c + 2"
      using True Suc.prems(1) by (simp_all add: string_body_ctx_def string_elem_ctx_def)
    have u: "unat (loop_count ?c) = Suc (unat (loop_count c))" using succ_u8 [OF lt] d(1) by simp
    then have "loop_count ?c \<noteq> 0" by (metis nat.distinct(1) unat_0)
    then have "break_count ?c = MAX_LOOP_COUNT" "unat (loop_count ?c) + m = unat MAX_LOOP_COUNT" "loop_count ?c \<noteq> 0"
      "match_blacklist ?c \<noteq> 1"
      using d(2) Suc.prems(2) mb u by simp_all
    note more = Suc.IH [OF this]
    have "loops K S r 2 string_body c (string_elem_frames K (read_addr c) (save_index c)
        @ strings_frames K (read_addr ?c) (Suc m) (save_index ?c)) (strings_saved K (Suc m) ?c)
        (Suc (strings_passes K (read_addr ?c) (Suc m)))"
      by (rule more_passes [OF body mb _ _ d(3) more]) (use d lt Suc.prems(3) in simp_all)
    moreover have "strings_saved K (Suc m) ?c = strings_saved K (Suc (Suc m)) c"
      using True d by (simp add: strings_saved_def left_loop_def string_body_ctx_def string_elem_ctx_def algebra_simps)
    ultimately show ?thesis using True d by simp
  next
    case False
    then have "break_count ?d \<le> loop_count ?d" using Suc.prems by (simp add: string_body_ctx_def string_elem_ctx_def)
    from last_pass [OF body mb this] False show ?thesis
      by (simp add: strings_saved_def left_loop_def string_body_ctx_def string_elem_ctx_def)
  qed
qed

lemma performs_string_array:
  assumes K: "helper_laws K" "fst (mem_probe_read K 0 0) = 0" and mb: "match_blacklist c \<noteq> 1" and lc: "loop_count c = 0"
  shows "performs K S r (2 + 3 * strings_passes K (read_addr c) (unat MAX_LOOP_COUNT)) (type_ops String_array) c (type_frames K r String_array (read_addr c) (save_index c))
    (strings_saved K (unat MAX_LOOP_COUNT) c)"
proof -
  let ?cfg = "ROP OP_SET_BREAK_COUNT (ucast MAX_LOOP_COUNT)" and ?c = "c\<lparr>break_count := MAX_LOOP_COUNT\<rparr>"
  have eq: "?c = op_set_break_count ?cfg c"
    by (simp add: op_set_break_count_def ROP_def limit_break_count_def)
  have first: "performs K S r 1 [?cfg] c [] ?c"
    unfolding eq by (rule performs_ROP [OF op_does_ctx_ops(10)]) (use mb in \<open>simp_all add: op_set_break_count_def\<close>)
  have n: "unat MAX_LOOP_COUNT = Suc 31" by (simp add: const_simps)
  have "loops K S r 2 string_body (?c\<lparr>loop_count := 1, loop_index := i\<rparr>)
      (strings_frames K (read_addr c) (Suc 31) (save_index c)) (strings_saved K (Suc 31) c)
      (strings_passes K (read_addr c) (Suc 31))" for i
    using loops_strings [OF K, of "?c\<lparr>loop_count := 1, loop_index := i\<rparr>" 31 S r] mb
    by (simp add: n strings_saved_def left_loop_def)
  from performs_loop [OF this] mb lc
  have "performs K S r (Suc (strings_passes K (read_addr c) (Suc 31) * 3)) (FOR_BREAK # string_body @ [FOR_BREAK]) ?c
      (strings_frames K (read_addr c) (Suc 31) (save_index c)) (strings_saved K (Suc 31) c)"
    by (simp add: const_simps numeral_3_eq_3)
  from performs_Cons [OF first this] show ?thesis by (simp add: n mult.commute)
qed

subsection \<open>Arrays of \<open>struct iovec\<close>, when their elements can be read\<close>

definition iov_readable :: "kenv \<Rightarrow> u64 \<Rightarrow> bool" where
  "iov_readable K a \<longleftrightarrow> PTR_SIZE (build_arch K) = 8 \<and> fst (mem_probe_read K (a AND ADDR_MASK) 16) = 0 \<and>
     fst (mem_probe_read_user K (a AND ADDR_MASK) 8) = 0 \<and> fst (mem_probe_read_user K ((a AND ADDR_MASK) + 8) 8) = 0"

fun iovs_readable :: "kenv \<Rightarrow> u64 \<Rightarrow> nat \<Rightarrow> bool" where
  "iovs_readable K a 0 \<longleftrightarrow> True"
| "iovs_readable K a (Suc n) \<longleftrightarrow> iov_readable K a \<and> iovs_readable K (a + 16) n"

abbreviation iovec_body :: "op_config_t list" where
  "iovec_body \<equiv> ROP OP_SET_TMP_VALUE 0 # iovec_ops @ [ROP OP_MOVE_TMP_VALUE 0, ROP OP_ADD_OFFSET 16]"

text \<open>The element and its data are saved, and then the address goes on to the next element.\<close>

definition iovec_elem_ctx :: "kenv \<Rightarrow> op_ctx_t \<Rightarrow> op_ctx_t" where
  "iovec_elem_ctx K c =
     (let a = read_addr c AND ADDR_MASK
      in c\<lparr>tmp_value := read_addr c, pointer_value := user_word K a,
           read_len := clamp_len (reg_len (user_word K (a + 8))), read_addr := user_word K a AND ADDR_MASK,
           save_index := save_index c + 2\<rparr>)"

definition iovec_body_ctx :: "kenv \<Rightarrow> op_ctx_t \<Rightarrow> op_ctx_t" where
  "iovec_body_ctx K c = (iovec_elem_ctx K c)\<lparr>read_addr := read_addr c + 16\<rparr>"

lemma performs_iovec_elem:
  assumes K: "helper_laws K" and mb: "match_blacklist c \<noteq> 1" and rd: "iov_readable K (read_addr c)"
  shows "performs K S r 9 (ROP OP_SET_TMP_VALUE 0 # iovec_ops) c (iovec_frames K (read_addr c) (Suc 0) (save_index c))
    (iovec_elem_ctx K c)"
proof -
  let ?a = "read_addr c AND ADDR_MASK" and ?base = "user_word K (read_addr c AND ADDR_MASK)"
    and ?len = "user_word K ((read_addr c AND ADDR_MASK) + 8)"
  let ?c1 = "c\<lparr>tmp_value := read_addr c\<rparr>"
  let ?c2 = "struct_saved ?c1 (ucast (16 :: u64))"
  let ?c3 = "?c2\<lparr>read_len := ucast MAX_BUF_READ_SIZE\<rparr>"
  let ?c4 = "?c3\<lparr>pointer_value := ?len, read_len := reg_len ?len\<rparr>"
  let ?c5 = "?c4\<lparr>pointer_value := ?base\<rparr>"
  let ?c6 = "?c5\<lparr>read_addr := ?base\<rparr>"
  let ?c7 = "struct_saved ?c6 (reg_len ?len)"
  note simps = struct_saved_def mb
  have ptr: "PTR_SIZE (build_arch K) = 8" and rd1: "fst (mem_probe_read_user K ?a 8) = 0"
    and rd2: "fst (mem_probe_read_user K (?a + 8) 8) = 0"
    using rd by (simp_all add: iov_readable_def)
  have p1: "performs K S r 1 [ROP OP_SET_TMP_VALUE 0] c [] ?c1" by (rule performs_ctx_ops(1) [OF mb])
  have p2: "performs K S r 2 [ROP OP_SET_READ_LEN 16, ROP OP_SAVE_STRUCT 0] ?c1 [payload_frame (save_index c) (bytes_at K (read_addr c) 16)] ?c2"
    using performs_struct [OF K, of ?c1 S r 16] mb by simp
  have p3: "performs K S r 1 [ROP OP_SET_READ_LEN MAX_BUF_READ_SIZE] ?c2 [] ?c3"
    by (rule performs_set_read_len) (simp add: simps)
  have p4: "performs K S r 2 [BuildReadPtrLen 8] ?c3 [] ?c4"
    using performs_read_ptr_len [OF K ptr, of ?c3 8 S r] rd2 by (simp add: simps)
  have p5: "performs K S r 1 [ROP OP_READ_POINTER 0] ?c4 [] ?c5"
    using performs_read_pointer [OF K ptr, of ?c4 S r] rd1 by (simp add: simps)
  have p6: "performs K S r 1 [ROP OP_MOVE_POINTER_VALUE 0] ?c5 [] ?c6"
    using performs_ctx_ops(3) [of ?c5 K S r] by (simp add: simps)
  have p7: "performs K S r 1 [ROP OP_SAVE_STRUCT 0] ?c6 [payload_frame (save_index c + 1) (bytes_at K ?base (reg_len ?len))] ?c7"
    using performs_save_struct [OF K, of ?c6 S r 0] by (simp add: simps)
  have "?c7 = iovec_elem_ctx K c"
    by (simp add: iovec_elem_ctx_def struct_saved_def Let_def)
  with performs_append [OF p1 performs_append [OF p2 performs_append [OF p3 performs_append [OF p4
      performs_append [OF p5 performs_append [OF p6 p7]]]]]]
  show ?thesis by (simp add: iovec_ops_def)
qed

lemma performs_iovec_body:
  assumes K: "helper_laws K" and mb: "match_blacklist c \<noteq> 1" and rd: "iov_readable K (read_addr c)"
  shows "performs K S r 11 iovec_body c (iovec_frames K (read_addr c) (Suc 0) (save_index c)) (iovec_body_ctx K c)"
proof -
  let ?d = "iovec_elem_ctx K c" and ?e = "(iovec_elem_ctx K c)\<lparr>read_addr := read_addr c\<rparr>"
  have d: "match_blacklist ?d \<noteq> 1" "tmp_value ?d = read_addr c" using mb by (simp_all add: iovec_elem_ctx_def Let_def)
  have "performs K S r 1 [ROP OP_MOVE_TMP_VALUE 0] ?d [] ?e" using performs_ctx_ops(2) [OF d(1), of K S r] d(2) by simp
  moreover have "performs K S r 1 [ROP OP_ADD_OFFSET 16] ?e [] (iovec_body_ctx K c)"
    using performs_add_offset [of ?e K S r 16] d(1) by (simp add: iovec_body_ctx_def)
  ultimately show ?thesis using performs_append [OF performs_iovec_elem [OF assms] performs_append] by fastforce
qed

fun iovecs_saved :: "kenv \<Rightarrow> nat \<Rightarrow> op_ctx_t \<Rightarrow> op_ctx_t" where
  "iovecs_saved K 0 c = left_loop c"
| "iovecs_saved K (Suc n) c = iovecs_saved K n (iovec_body_ctx K c)"

lemma iovec_body_ctx_counters:
  "iovec_body_ctx K (c\<lparr>loop_count := k\<rparr>) = (iovec_body_ctx K c)\<lparr>loop_count := k\<rparr>"
  "iovec_body_ctx K (c\<lparr>loop_index := i\<rparr>) = (iovec_body_ctx K c)\<lparr>loop_index := i\<rparr>"
  by (simp_all add: iovec_body_ctx_def iovec_elem_ctx_def Let_def)

lemma iovecs_saved_count: "iovecs_saved K n (c\<lparr>loop_count := k\<rparr>) = iovecs_saved K n c"
  by (induction n arbitrary: c) (simp_all add: left_loop_def iovec_body_ctx_counters)

lemma iovecs_saved_index: "iovecs_saved K n (c\<lparr>loop_index := i\<rparr>) = iovecs_saved K n c"
  by (induction n arbitrary: c) (simp_all add: left_loop_def iovec_body_ctx_counters)

lemma length_iovec_frames [simp]: "length (iovec_frames K a n i) = 2 * n"
  by (induction n arbitrary: a i) simp_all

lemma keeps_iovecs_saved: "keeps (left_loop c) (iovecs_saved K n c)"
proof (induction n arbitrary: c)
  case (Suc n)
  from Suc.IH [of "iovec_body_ctx K c"] show ?case
    by (simp add: keeps_def left_loop_def iovec_body_ctx_def iovec_elem_ctx_def Let_def)
qed simp

lemma save_index_iovecs_saved: "save_index (iovecs_saved K n c) = save_index c + 2 * of_nat n"
proof (induction n arbitrary: c)
  case (Suc n)
  from Suc.IH [of "iovec_body_ctx K c"] show ?case
    by (simp add: iovec_body_ctx_def iovec_elem_ctx_def Let_def algebra_simps)
qed (simp add: left_loop_def)

lemma loops_iovecs:
  assumes "helper_laws K"
  shows "unat (loop_count c) + m = unat (break_count c) \<Longrightarrow> loop_count c \<noteq> 0 \<Longrightarrow> match_blacklist c \<noteq> 1 \<Longrightarrow>
    iovs_readable K (read_addr c) (Suc m) \<Longrightarrow>
    loops K S r 11 iovec_body c (iovec_frames K (read_addr c) (Suc m) (save_index c)) (iovecs_saved K (Suc m) c) (Suc m)"
proof (induction m arbitrary: c)
  case 0
  let ?d = "iovec_body_ctx K c"
  have "break_count ?d \<le> loop_count ?d" "match_blacklist ?d \<noteq> 1"
    using 0 by (simp_all add: iovec_body_ctx_def iovec_elem_ctx_def Let_def word_le_nat_alt)
  from last_pass [OF performs_iovec_body [OF assms "0.prems"(3)] this(2,1)] "0.prems"(4)
  show ?case by simp
next
  case (Suc m)
  let ?d = "iovec_body_ctx K c"
  let ?c = "?d\<lparr>loop_count := loop_count ?d + 1\<rparr>"
  have d: "loop_count ?d = loop_count c" "break_count ?d = break_count c" "loop_index ?d = loop_index c"
    "read_addr ?d = read_addr c + 16" "save_index ?d = save_index c + 2" "match_blacklist ?d \<noteq> 1"
    using Suc.prems(3) by (simp_all add: iovec_body_ctx_def iovec_elem_ctx_def Let_def)
  have lt: "loop_count c < break_count c" using Suc.prems(1) by (simp add: word_less_nat_alt)
  have u: "unat (loop_count ?c) = Suc (unat (loop_count c))" using succ_u8 [OF lt] d(1) by simp
  then have "loop_count ?c \<noteq> 0" by (metis nat.distinct(1) unat_0)
  then have "unat (loop_count ?c) + m = unat (break_count ?c)" "loop_count ?c \<noteq> 0" "match_blacklist ?c \<noteq> 1"
    "iovs_readable K (read_addr ?c) (Suc m)"
    using u d Suc.prems by simp_all
  note more = Suc.IH [OF this]
  have body: "performs K S r 11 iovec_body c (iovec_frames K (read_addr c) (Suc 0) (save_index c)) ?d"
    by (rule performs_iovec_body [OF assms Suc.prems(3)]) (use Suc.prems(4) in simp)
  have "loops K S r 11 iovec_body c (iovec_frames K (read_addr c) (Suc 0) (save_index c)
      @ iovec_frames K (read_addr ?c) (Suc m) (save_index ?c)) (iovecs_saved K (Suc m) ?c) (Suc (Suc m))"
    by (rule more_passes [OF body d(6) _ _ d(3) more]) (use d lt Suc.prems(2) in simp_all)
  then show ?case using d by (simp add: iovecs_saved_count)
qed

lemma limit_break_count_pos: "w \<noteq> 0 \<Longrightarrow> 0 < limit_break_count w"
proof -
  assume w: "w \<noteq> 0"
  show ?thesis
  proof (cases "w < 32")
    case True
    then have "unat w < 32" by (simp add: word_less_nat_alt)
    then have "unat (ucast w :: u8) = unat w" by (simp add: unsigned_ucast_eq take_bit_nat_eq_self)
    then show ?thesis using True w by (simp add: limit_break_count_def const_simps word_less_nat_alt unat_gt_0)
  qed (simp add: limit_break_count_def const_simps)
qed

lemma performs_iovec_loop:
  assumes K: "helper_laws K" and mb: "match_blacklist c \<noteq> 1" and lc: "loop_count c = 0" and w: "w \<noteq> 0"
    and bc: "break_count c = limit_break_count w" and rd: "iovs_readable K (read_addr c) (iovec_count w)"
  shows "performs K S r (Suc (12 * iovec_count w)) (FOR_BREAK # iovec_body @ [FOR_BREAK]) c
      (iovec_frames K (read_addr c) (iovec_count w) (save_index c)) (iovecs_saved K (iovec_count w) c)"
    and "keeps c (iovecs_saved K (iovec_count w) c)"
    and "save_index (iovecs_saved K (iovec_count w) c) = save_index c + 2 * of_nat (iovec_count w)"
proof -
  obtain m where m: "iovec_count w = Suc m" "unat (limit_break_count w) = Suc m"
    using limit_break_count_pos [OF w] by (metis Suc_pred iovec_count_def max_Suc_Suc max_0L One_nat_def unat_gt_0 word_greater_zero_iff)
  have "loops K S r 11 iovec_body (c\<lparr>loop_count := 1, loop_index := i\<rparr>)
      (iovec_frames K (read_addr c) (Suc m) (save_index c)) (iovecs_saved K (Suc m) c) (Suc m)" for i
    using loops_iovecs [OF K, of "c\<lparr>loop_count := 1, loop_index := i\<rparr>" m S r] mb bc rd m
    by (simp add: iovecs_saved_count iovecs_saved_index iovec_body_ctx_counters)
  from performs_loop [OF this] mb lc bc limit_break_count_pos [OF w]
  show "performs K S r (Suc (12 * iovec_count w)) (FOR_BREAK # iovec_body @ [FOR_BREAK]) c
      (iovec_frames K (read_addr c) (iovec_count w) (save_index c)) (iovecs_saved K (iovec_count w) c)"
    by (simp add: m(1) mult.commute del: iovecs_saved.simps iovec_frames.simps)
  show "keeps c (iovecs_saved K (iovec_count w) c)"
    using keeps_iovecs_saved [of c K "iovec_count w"] lc by (simp add: keeps_def left_loop_def)
  show "save_index (iovecs_saved K (iovec_count w) c) = save_index c + 2 * of_nat (iovec_count w)"
    by (rule save_index_iovecs_saved)
qed

text \<open>The number of elements is read from its register and saved.\<close>

lemma performs_count_register:
  assumes r: "wf_ctx_regs r" "v < 33" and mb: "match_blacklist c \<noteq> 1"
  shows "performs K S r 3 ([BuildReadRegBreakCount v] @ [ROP OP_SAVE_REG 0]) c [save_index c # le_bytes 8 (ctx_regs_words r ! v)]
    ((read_reg_ctx r v c)\<lparr>break_count := limit_break_count (ctx_regs_words r ! v), save_index := save_index c + 1\<rparr>)"
proof -
  let ?w = "ctx_regs_words r ! v" and ?cfg = "BuildReadRegBreakCount v"
  let ?c1 = "(read_reg_ctx r v c)\<lparr>break_count := limit_break_count ?w\<rparr>"
  let ?c2 = "?c1\<lparr>save_index := save_index c + 1\<rparr>"
  have d: "op_set_break_count_reg_value (read_reg_ctx r v c) = ?c1"
    by (simp add: op_set_break_count_reg_value_def read_reg_ctx_def)
  have p1: "performs K S r 2 [?cfg] c [] ?c1"
    by (rule performs_read_reg [OF r, where oc = OP_SET_BREAK_COUNT_REG_VALUE])
      (use mb op_does_ctx_ops(11) [of K S r ?cfg "read_reg_ctx r v c"] in
        \<open>simp_all add: d, simp_all add: BuildReadRegBreakCount_def read_reg_ctx_def\<close>)
  have "performs K S r 1 [ROP OP_SAVE_REG 0] ?c1 [save_index c # le_bytes 8 ?w] ?c2"
    using performs_ROP [OF op_does_saves(1) [of K S r _ ?c1]] mb by (simp add: read_reg_ctx_def)
  from performs_append [OF p1 this] show ?thesis by (simp add: numeral_3_eq_3)
qed

lemma performs_iovecs:
  assumes K: "helper_laws K" and r: "wf_ctx_regs r" "v < 33" and mb: "match_blacklist c \<noteq> 1"
    and lc: "loop_count c = 0" and w: "ctx_regs_words r ! v \<noteq> 0"
    and rd: "iovs_readable K (read_addr c) (iovec_count (ctx_regs_words r ! v))"
  obtains d where "performs K S r (4 + 12 * iovec_count (ctx_regs_words r ! v)) (type_ops (Iovecs v)) c
      (type_frames K r (Iovecs v) (read_addr c) (save_index c)) d" "keeps c d"
    "save_index d = save_index c + of_nat (length (type_frames K r (Iovecs v) (read_addr c) (save_index c)))"
proof -
  let ?w = "ctx_regs_words r ! v"
  let ?c2 = "(read_reg_ctx r v c)\<lparr>break_count := limit_break_count ?w, save_index := save_index c + 1\<rparr>"
  have c2: "match_blacklist ?c2 \<noteq> 1" "loop_count ?c2 = 0" "break_count ?c2 = limit_break_count ?w"
    "iovs_readable K (read_addr ?c2) (iovec_count ?w)" "read_addr ?c2 = read_addr c" "save_index ?c2 = save_index c + 1"
    using mb lc rd by (simp_all add: read_reg_ctx_def)
  note loop = performs_iovec_loop [OF K c2(1,2) w c2(3,4), unfolded c2(5,6)]
  have "performs K S r (3 + Suc (12 * iovec_count ?w)) (type_ops (Iovecs v)) c
      (type_frames K r (Iovecs v) (read_addr c) (save_index c)) (iovecs_saved K (iovec_count ?w) ?c2)"
    using performs_append [OF performs_count_register [OF r mb] loop(1)] by simp
  moreover have "3 + Suc (12 * iovec_count ?w) = 4 + 12 * iovec_count ?w" by simp
  ultimately have run: "performs K S r (4 + 12 * iovec_count ?w) (type_ops (Iovecs v)) c
      (type_frames K r (Iovecs v) (read_addr c) (save_index c)) (iovecs_saved K (iovec_count ?w) ?c2)"
    by (simp only:)
  have "keeps c ?c2" by (simp add: keeps_def read_reg_ctx_def)
  from that [OF run keeps_trans [OF this loop(2)]] loop(3) show ?thesis by simp
qed

subsection \<open>\<open>struct msghdr\<close>\<close>

definition msghdr_readable :: "kenv \<Rightarrow> u64 \<Rightarrow> bool" where
  "msghdr_readable K a \<longleftrightarrow> PTR_SIZE (build_arch K) = 8 \<and> fst (mem_probe_read K a 56) = 0 \<and>
     (\<forall>o1 \<in> {16, 24, 32, 40}. fst (mem_probe_read_user K (a + o1) 8) = 0) \<and> user_word K (a + 24) \<noteq> 0 \<and>
     iovs_readable K (user_word K (a + 16)) (iovec_count (user_word K (a + 24)))"

text \<open>The structure and its control data, up to the address of the array.\<close>

abbreviation msghdr_head :: "op_config_t list" where
  "msghdr_head \<equiv>
     [ROP OP_SET_READ_LEN 56, ROP OP_SAVE_STRUCT 0, ROP OP_SET_TMP_VALUE 0, ROP OP_SET_READ_LEN MAX_BUF_READ_SIZE,
      BuildReadPtrLen 40, BuildReadPtrAddr 32, ROP OP_SAVE_STRUCT 0, ROP OP_MOVE_TMP_VALUE 0,
      BuildReadPtrBreakCount 24, BuildReadPtrAddr 16]"

lemma performs_msghdr_head:
  fixes c :: op_ctx_t
  assumes K: "helper_laws K" and mb: "match_blacklist c \<noteq> 1"
  defines "a \<equiv> read_addr c AND ADDR_MASK"
  assumes rd: "msghdr_readable K a"
  obtains d where "performs K S r 14 msghdr_head c
      [payload_frame (save_index c) (bytes_at K a 56),
       payload_frame (save_index c + 1) (bytes_at K (user_word K (a + 32)) (reg_len (user_word K (a + 40))))] d"
    and "keeps c d" and "save_index d = save_index c + 2" and "read_addr d = user_word K (a + 16)"
    and "break_count d = limit_break_count (user_word K (a + 24))"
proof -
  let ?w = "\<lambda>o1. user_word K (a + o1)"
  have ptr: "PTR_SIZE (build_arch K) = 8" and rds: "fst (mem_probe_read_user K (a + 16) 8) = 0"
    "fst (mem_probe_read_user K (a + 24) 8) = 0" "fst (mem_probe_read_user K (a + 32) 8) = 0"
    "fst (mem_probe_read_user K (a + 40) 8) = 0"
    using rd by (simp_all add: msghdr_readable_def)
  have same: "bytes_at K (read_addr c) n = bytes_at K a n" for n by (simp add: a_def bytes_at_def and.assoc)
  let ?c1 = "struct_saved c (ucast (56 :: u64))"
  let ?c2 = "?c1\<lparr>tmp_value := a\<rparr>"
  let ?c3 = "?c2\<lparr>read_len := ucast MAX_BUF_READ_SIZE\<rparr>"
  let ?c4 = "?c3\<lparr>pointer_value := ?w 40, read_len := reg_len (?w 40)\<rparr>"
  let ?c5 = "?c4\<lparr>pointer_value := ?w 32, read_addr := ?w 32\<rparr>"
  let ?c6 = "struct_saved ?c5 (reg_len (?w 40))"
  let ?c7 = "?c6\<lparr>read_addr := a\<rparr>"
  let ?c8 = "?c7\<lparr>pointer_value := ?w 24, break_count := limit_break_count (?w 24)\<rparr>"
  let ?c9 = "?c8\<lparr>pointer_value := ?w 16, read_addr := ?w 16\<rparr>"
  note simps = struct_saved_def mb a_def
  have p1: "performs K S r 2 [ROP OP_SET_READ_LEN 56, ROP OP_SAVE_STRUCT 0] c [payload_frame (save_index c) (bytes_at K a 56)] ?c1"
    using performs_struct [OF K mb, of S r 56] same by simp
  have p2: "performs K S r 1 [ROP OP_SET_TMP_VALUE 0] ?c1 [] ?c2"
    using performs_ctx_ops(1) [of ?c1 K S r] by (simp add: simps)
  have p3: "performs K S r 1 [ROP OP_SET_READ_LEN MAX_BUF_READ_SIZE] ?c2 [] ?c3"
    by (rule performs_set_read_len) (simp add: simps)
  have p4: "performs K S r 2 [BuildReadPtrLen 40] ?c3 [] ?c4"
    using performs_read_ptr_len [OF K ptr, of ?c3 40 S r] rds(4) by (simp add: simps)
  have p5: "performs K S r 2 [BuildReadPtrAddr 32] ?c4 [] ?c5"
    using performs_read_ptr_addr [OF K ptr, of ?c4 32 S r] rds(3) by (simp add: simps)
  have p6: "performs K S r 1 [ROP OP_SAVE_STRUCT 0] ?c5 [payload_frame (save_index c + 1) (bytes_at K (?w 32) (reg_len (?w 40)))] ?c6"
    using performs_save_struct [OF K, of ?c5 S r 0] by (simp add: simps)
  have p7: "performs K S r 1 [ROP OP_MOVE_TMP_VALUE 0] ?c6 [] ?c7"
    using performs_ctx_ops(2) [of ?c6 K S r] by (simp add: simps)
  have p8: "performs K S r 2 [BuildReadPtrBreakCount 24] ?c7 [] ?c8"
    using performs_read_ptr_break_count [OF K ptr, of ?c7 24 S r] rds(2) by (simp add: simps)
  have p9: "performs K S r 2 [BuildReadPtrAddr 16] ?c8 [] ?c9"
    using performs_read_ptr_addr [OF K ptr, of ?c8 16 S r] rds(1) by (simp add: simps)
  have "performs K S r 14 msghdr_head c
      [payload_frame (save_index c) (bytes_at K a 56),
       payload_frame (save_index c + 1) (bytes_at K (?w 32) (reg_len (?w 40)))] ?c9"
    using performs_append [OF p1 performs_append [OF p2 performs_append [OF p3 performs_append [OF p4
      performs_append [OF p5 performs_append [OF p6 performs_append [OF p7 performs_append [OF p8 p9]]]]]]]]
    by simp
  then show ?thesis by (rule that) (simp_all add: keeps_def struct_saved_def)
qed

lemma performs_msghdr:
  assumes K: "helper_laws K" and mb: "match_blacklist c \<noteq> 1" and lc: "loop_count c = 0"
    and rd: "msghdr_readable K (read_addr c AND ADDR_MASK)"
  obtains d where "performs K S r (15 + 12 * iovec_count (user_word K ((read_addr c AND ADDR_MASK) + 24))) (type_ops Msghdr) c
      (type_frames K r Msghdr (read_addr c) (save_index c)) d" "keeps c d"
    "save_index d = save_index c + of_nat (length (type_frames K r Msghdr (read_addr c) (save_index c)))"
proof -
  let ?a = "read_addr c AND ADDR_MASK" and ?w = "user_word K ((read_addr c AND ADDR_MASK) + 24)"
  obtain d where d: "performs K S r 14 msghdr_head c
      [payload_frame (save_index c) (bytes_at K ?a 56),
       payload_frame (save_index c + 1) (bytes_at K (user_word K (?a + 32)) (reg_len (user_word K (?a + 40))))] d"
    "keeps c d" "save_index d = save_index c + 2" "read_addr d = user_word K (?a + 16)"
    "break_count d = limit_break_count ?w"
    by (rule performs_msghdr_head [OF K mb rd])
  have d': "match_blacklist d \<noteq> 1" "loop_count d = 0" and w: "?w \<noteq> 0"
    "iovs_readable K (read_addr d) (iovec_count ?w)"
    using d(2,4) mb lc rd by (simp_all add: keeps_def msghdr_readable_def)
  note loop = performs_iovec_loop [OF K d' w(1) d(5) w(2), unfolded d(3,4)]
  have "performs K S r (14 + Suc (12 * iovec_count ?w)) (type_ops Msghdr) c
      (type_frames K r Msghdr (read_addr c) (save_index c)) (iovecs_saved K (iovec_count ?w) d)"
    using performs_append [OF d(1) loop(1)] by (simp add: msghdr_frames_def)
  moreover have "14 + Suc (12 * iovec_count ?w) = 15 + 12 * iovec_count ?w" by simp
  ultimately have run: "performs K S r (15 + 12 * iovec_count ?w) (type_ops Msghdr) c
      (type_frames K r Msghdr (read_addr c) (save_index c)) (iovecs_saved K (iovec_count ?w) d)"
    by (simp only:)
  from that [OF run keeps_trans [OF d(2) loop(2)]] loop(3) show ?thesis by (simp add: msghdr_frames_def)
qed

subsection \<open>Any type\<close>

text \<open>What a type asks of the registers and the memory to run to its end, and its turns.\<close>

fun type_runs :: "kenv \<Rightarrow> ctx_regs_t \<Rightarrow> arg_type \<Rightarrow> u64 \<Rightarrow> bool" where
  "type_runs K r (Buffer_reg v) a \<longleftrightarrow> v < 33"
| "type_runs K r String_array a \<longleftrightarrow> fst (mem_probe_read K 0 0) = 0"
| "type_runs K r (Iovecs v) a \<longleftrightarrow> v < 33 \<and> ctx_regs_words r ! v \<noteq> 0 \<and> iovs_readable K a (iovec_count (ctx_regs_words r ! v))"
| "type_runs K r Msghdr a \<longleftrightarrow> msghdr_readable K (a AND ADDR_MASK)"
| "type_runs K r (Pointer_to ty) a \<longleftrightarrow> type_runs K r ty (a AND ADDR_MASK)"
| "type_runs K r ty a \<longleftrightarrow> True"

fun type_turns :: "kenv \<Rightarrow> ctx_regs_t \<Rightarrow> arg_type \<Rightarrow> u64 \<Rightarrow> nat" where
  "type_turns K r Number a = 0"
| "type_turns K r String_arg a = 1"
| "type_turns K r (Buffer_reg v) a = 4"
| "type_turns K r String_array a = 2 + 3 * strings_passes K a (unat MAX_LOOP_COUNT)"
| "type_turns K r (Iovecs v) a = 4 + 12 * iovec_count (ctx_regs_words r ! v)"
| "type_turns K r Msghdr a = 15 + 12 * iovec_count (user_word K ((a AND ADDR_MASK) + 24))"
| "type_turns K r (Pointer_to ty) a = 2 + type_turns K r ty (a AND ADDR_MASK)"
| "type_turns K r ty a = 2"

lemma ucast_u32_u64 [simp]: "(ucast (ucast (n :: u32) :: u64) :: u32) = n"
  by transfer simp

lemma performs_plain_type:
  assumes K: "helper_laws K" and r: "wf_ctx_regs r" and mb: "match_blacklist c \<noteq> 1" and lc: "loop_count c = 0"
    and ty: "type_runs K r ty (read_addr c)" and plain: "\<And>t. ty \<noteq> Pointer_to t"
  shows "\<exists>d. performs K S r (type_turns K r ty (read_addr c)) (type_ops ty) c (type_frames K r ty (read_addr c) (save_index c)) d \<and>
    keeps c d \<and> save_index d = save_index c + of_nat (length (type_frames K r ty (read_addr c) (save_index c)))"
proof (cases ty)
  case Number
  then show ?thesis using performs_Nil by (intro exI [of _ c]) simp
next
  case String_arg
  then show ?thesis using performs_save_string [OF K mb, of S r]
    by (intro exI [of _ "c\<lparr>read_addr := read_addr c AND ADDR_MASK, save_index := save_index c + 1\<rparr>"])
      (simp add: keeps_def)
next
  case Std_string
  let ?c = "c\<lparr>read_addr := std_string_at K (read_addr c)\<rparr>"
  have "match_blacklist ?c \<noteq> 1" using mb by simp
  from performs_Cons [OF performs_read_std_string [OF mb] performs_save_string [OF K this]] Std_string
  show ?thesis
    by (intro exI [of _ "?c\<lparr>read_addr := read_addr ?c AND ADDR_MASK, save_index := save_index c + 1\<rparr>"])
      (simp add: numeral_2_eq_2 keeps_def)
next
  case (Struct s)
  then show ?thesis using performs_struct [OF K mb, of S r "ucast (saved_size s)"]
    by (intro exI [of _ "struct_saved c (saved_size s)"]) (simp add: struct_saved_def keeps_def)
next
  case (Array n)
  then show ?thesis using performs_SaveStruct [OF K mb, of S r "ucast n"]
    by (intro exI [of _ "struct_saved c n"]) (simp add: struct_saved_def keeps_def)
next
  case Buffer
  then show ?thesis using performs_SaveStruct [OF K mb, of S r MAX_BUF_READ_SIZE]
    by (intro exI [of _ "struct_saved c (ucast MAX_BUF_READ_SIZE)"]) (simp add: struct_saved_def keeps_def)
next
  case (Buffer_len n)
  then show ?thesis using performs_struct [OF K mb, of S r "ucast n"]
    by (intro exI [of _ "struct_saved c n"]) (simp add: struct_saved_def keeps_def)
next
  case (Buffer_reg v)
  then have "v < 33" using ty by simp
  from performs_buffer_reg [OF K r this mb] Buffer_reg show ?thesis
    by (intro exI [of _ "struct_saved (read_reg_ctx r v c) (reg_len (ctx_regs_words r ! v))"])
      (simp add: struct_saved_def read_reg_ctx_def keeps_def)
next
  case String_array
  then have "fst (mem_probe_read K 0 0) = 0" using ty by simp
  from performs_string_array [OF K this mb lc] String_array lc show ?thesis
    by (intro exI [of _ "strings_saved K (unat MAX_LOOP_COUNT) c"])
      (simp add: length_strings_frames strings_saved_def left_loop_def keeps_def)
next
  case (Iovecs v)
  then show ?thesis using performs_iovecs [OF K r _ mb lc, of v S] ty by (metis type_runs.simps(3) type_turns.simps(5))
next
  case Msghdr
  then show ?thesis using performs_msghdr [OF K mb lc, of S r] ty by (metis type_runs.simps(4) type_turns.simps(6))
next
  case (Pointer_to t)
  then show ?thesis using plain by blast
qed

lemma performs_type:
  assumes K: "helper_laws K" and r: "wf_ctx_regs r" and mb: "match_blacklist c \<noteq> 1" and lc: "loop_count c = 0"
    and ty: "type_runs K r ty (read_addr c)"
  shows "\<exists>d. performs K S r (type_turns K r ty (read_addr c)) (type_ops ty) c (type_frames K r ty (read_addr c) (save_index c)) d \<and>
    keeps c d \<and> save_index d = save_index c + of_nat (length (type_frames K r ty (read_addr c) (save_index c)))"
  using mb lc ty
proof (induction ty arbitrary: c)
  case (Pointer_to ty)
  let ?c = "struct_saved c 8"
  have c: "match_blacklist ?c \<noteq> 1" "loop_count ?c = 0" "read_addr ?c = read_addr c AND ADDR_MASK" "save_index ?c = save_index c + 1"
    using Pointer_to.prems by (simp_all add: struct_saved_def)
  then obtain d where d: "performs K S r (type_turns K r ty (read_addr ?c)) (type_ops ty) ?c
      (type_frames K r ty (read_addr ?c) (save_index ?c)) d" "keeps ?c d"
    "save_index d = save_index ?c + of_nat (length (type_frames K r ty (read_addr ?c) (save_index ?c)))"
    using Pointer_to.IH [of ?c] Pointer_to.prems(3) by auto
  have "performs K S r 2 [SaveStruct 8] c [payload_frame (save_index c) (bytes_at K (read_addr c) 8)] ?c"
    using performs_SaveStruct [OF K Pointer_to.prems(1), of S r 8] by simp
  from performs_append [OF this d(1)] have "performs K S r (type_turns K r (Pointer_to ty) (read_addr c)) (type_ops (Pointer_to ty)) c
      (type_frames K r (Pointer_to ty) (read_addr c) (save_index c)) d"
    using c by simp
  then show ?case using d(2,3) c keeps_trans [OF keeps_struct_saved] by (intro exI [of _ d]) simp
qed (use performs_plain_type [OF K r] in blast)+

end
