(* ===== verification/Arg_Values.thy ===== *)
theory Arg_Values
  imports Arg_Runs
begin

unbundle bit_operations_syntax

text \<open>
  The values of typed arguments: what the saved bytes stand for, and the parsers of user space
  (\<open>Parse\<close> of the types in \<open>user/argtype/argtype_base.go\<close> and \<open>argtype_complex.go\<close>) that read
  them back from a record. \<open>None\<close> is a panic.
\<close>

subsection \<open>Values\<close>

text \<open>Every value begins with the word of the argument itself; the rest is what it points to.\<close>

record msghdr =
  m_name :: u64
  m_namelen :: u32
  m_iov :: u64
  m_iovlen :: u64
  m_control :: u64
  m_controllen :: u64
  m_flags :: u32

datatype arg_value = Number_value u64 | Bytes_value u64 "u8 list" | Pointer_value u64 arg_value
  | Strings_value u64 "(u64 \<times> u8 list) list" | Iovecs_value u64 "(u64 \<times> u64 \<times> u8 list) list"
  | Msghdr_value u64 msghdr "u8 list" "(u64 \<times> u64 \<times> u8 list) list"

fun strings_at :: "kenv \<Rightarrow> u64 \<Rightarrow> nat \<Rightarrow> (u64 \<times> u8 list) list" where
  "strings_at K a 0 = []"
| "strings_at K a (Suc n) =
     (if string_elem_ok K a
      then (array_elem K a, string_payload K (array_elem K a AND ADDR_MASK)) # strings_at K (a + 8) n else [])"

definition iovec_at :: "kenv \<Rightarrow> u64 \<Rightarrow> u64 \<times> u64 \<times> u8 list" where
  "iovec_at K a =
     (let b = bytes_at K a 16
      in (le_word (take 8 b), le_word (drop 8 b),
          bytes_at K (user_word K (a AND ADDR_MASK)) (reg_len (user_word K ((a AND ADDR_MASK) + 8)))))"

fun iovecs_at :: "kenv \<Rightarrow> u64 \<Rightarrow> nat \<Rightarrow> (u64 \<times> u64 \<times> u8 list) list" where
  "iovecs_at K a 0 = []"
| "iovecs_at K a (Suc n) = iovec_at K a # iovecs_at K (a + 16) n"

definition msghdr_of :: "u8 list \<Rightarrow> msghdr" where
  "msghdr_of b = \<lparr>m_name = le_word (take 8 b), m_namelen = le_word (take 4 (drop 8 b)), m_iov = le_word (take 8 (drop 16 b)),
     m_iovlen = le_word (take 8 (drop 24 b)), m_control = le_word (take 8 (drop 32 b)),
     m_controllen = le_word (take 8 (drop 40 b)), m_flags = le_word (take 4 (drop 48 b))\<rparr>"

fun type_value :: "kenv \<Rightarrow> ctx_regs_t \<Rightarrow> arg_type \<Rightarrow> u64 \<Rightarrow> u64 \<Rightarrow> arg_value" where
  "type_value K r Number a p = Number_value p"
| "type_value K r String_arg a p = Bytes_value p (text_at K a)"
| "type_value K r Std_string a p = Bytes_value p (text_at K (std_string_at K a))"
| "type_value K r (Struct s) a p = Bytes_value p (bytes_at K a (saved_size s))"
| "type_value K r (Array n) a p = Bytes_value p (bytes_at K a n)"
| "type_value K r Buffer a p = Bytes_value p (bytes_at K a (ucast MAX_BUF_READ_SIZE))"
| "type_value K r (Buffer_len n) a p = Bytes_value p (bytes_at K a n)"
| "type_value K r (Buffer_reg v) a p = Bytes_value p (bytes_at K a (reg_len (ctx_regs_words r ! v)))"
| "type_value K r String_array a p = Strings_value p (strings_at K a (unat MAX_LOOP_COUNT))"
| "type_value K r (Iovecs v) a p = Iovecs_value p (iovecs_at K a (iovec_count (ctx_regs_words r ! v)))"
| "type_value K r Msghdr a p =
     (let b = a AND ADDR_MASK
      in Msghdr_value p (msghdr_of (bytes_at K b 56)) (bytes_at K (user_word K (b + 32)) (reg_len (user_word K (b + 40))))
           (iovecs_at K (user_word K (b + 16)) (iovec_count (user_word K (b + 24)))))"
| "type_value K r (Pointer_to ty) a p = Pointer_value p (type_value K r ty (a AND ADDR_MASK) (le_word (bytes_at K a 8)))"

subsection \<open>Parsers\<close>

text \<open>A length that is neither 0 nor the size of the type panics.\<close>

definition GetStructLen :: "u32 \<Rightarrow> u8 list \<Rightarrow> (u32 \<times> u8 list) option" where
  "GetStructLen n bs =
     do { (h, bs) \<leftarrow> read_arg 4 bs; if 0 < snd h \<and> snd h \<noteq> n then None else Some (snd h, bs) }"

text \<open>
  The parser that a structure is registered with (\<open>parse_ITTMERSPEC\<close> to \<open>parse_POLLFD\<close>, and
  \<open>ARG_STRUCT.ParseArg\<close> for \<open>timespec\<close> and \<open>sigaction\<close>) fills the Go structure it was written for,
  whatever was saved.
\<close>

definition parse_struct :: "struct_type \<Rightarrow> u8 list \<Rightarrow> (u8 list \<times> u8 list) option" where
  "parse_struct s bs =
     do { (len, bs) \<leftarrow> GetStructLen (saved_size s) bs;
          if len = 0 then Some ([], bs) else read_raw (parsed_size s) bs }"

text \<open>The elements of an array together are its size.\<close>

definition parse_ARRAY :: "u32 \<Rightarrow> u8 list \<Rightarrow> (u8 list \<times> u8 list) option" where
  "parse_ARRAY n bs =
     do { (len, bs) \<leftarrow> GetStructLen n bs; if len = 0 then Some ([], bs) else read_raw (unat n) bs }"

text \<open>\<open>ARG_PTR.Parse\<close>: the word pointed to, which is 0 unless eight bytes were read.\<close>

definition read_pointed :: "u8 list \<Rightarrow> (u64 \<times> u8 list) option" where
  "read_pointed bs =
     do { (h, bs) \<leftarrow> read_arg 4 bs; if (snd h :: u32) = 8 then read_le 8 bs else Some (0, bs) }"

fun parse_STRING_ARRAY :: "nat \<Rightarrow> u8 list \<Rightarrow> ((u64 \<times> u8 list) list \<times> u8 list) option" where
  "parse_STRING_ARRAY 0 bs = Some ([], bs)"
| "parse_STRING_ARRAY (Suc n) bs =
     do { (str_addr, bs) \<leftarrow> read_arg 8 bs;
          (arg_str, bs) \<leftarrow> read_arg 4 bs;
          if snd arg_str = STRARR_MAGIC_LEN then Some ([], bs)
          else do { (payload, bs) \<leftarrow> read_raw (unat (snd arg_str)) bs;
                    if snd str_addr = 0 then Some ([], bs)
                    else do { (xs, bs) \<leftarrow> parse_STRING_ARRAY n bs; Some ((snd str_addr, payload) # xs, bs) } } }"

fun parse_iovecs :: "nat \<Rightarrow> u8 list \<Rightarrow> ((u64 \<times> u64 \<times> u8 list) list \<times> u8 list) option" where
  "parse_iovecs 0 bs = Some ([], bs)"
| "parse_iovecs (Suc n) bs =
     do { (h, bs) \<leftarrow> (read_arg 4 bs :: ((u8 \<times> u32) \<times> u8 list) option);
          (base, bs) \<leftarrow> read_le 8 bs;
          (len, bs) \<leftarrow> read_le 8 bs;
          (p, bs) \<leftarrow> read_payload bs;
          (xs, bs) \<leftarrow> parse_iovecs n bs;
          Some ((base, len, snd p) # xs, bs) }"

text \<open>The conversion \<open>int(iovcnt.Address)\<close> is signed.\<close>

definition iov_read_count :: "u64 \<Rightarrow> nat" where
  "iov_read_count v = (if sint v < int MAX_IOV_COUNT then nat (sint v) else MAX_IOV_COUNT)"

definition parse_IOVEC :: "u8 list \<Rightarrow> ((u64 \<times> u64 \<times> u8 list) list \<times> u8 list) option" where
  "parse_IOVEC bs = do { (iovcnt, bs) \<leftarrow> read_arg 8 bs; parse_iovecs (iov_read_count (snd iovcnt)) bs }"

text \<open>\<open>Arg_Msghdr\<close>: the structure behind its index and length, read whether or not it was saved.\<close>

definition read_msghdr :: "u8 list \<Rightarrow> (msghdr \<times> u8 list) option" where
  "read_msghdr bs =
     do { (h, bs) \<leftarrow> (read_arg 4 bs :: ((u8 \<times> u32) \<times> u8 list) option);
          (name, bs) \<leftarrow> read_le 8 bs; (namelen, bs) \<leftarrow> read_le 4 bs; (pad0, bs) \<leftarrow> read_raw 4 bs;
          (iov, bs) \<leftarrow> read_le 8 bs; (iovlen, bs) \<leftarrow> read_le 8 bs;
          (control, bs) \<leftarrow> read_le 8 bs; (controllen, bs) \<leftarrow> read_le 8 bs;
          (flags, bs) \<leftarrow> read_le 4 bs; (pad1, bs) \<leftarrow> read_raw 4 bs;
          Some (\<lparr>m_name = name, m_namelen = namelen, m_iov = iov, m_iovlen = iovlen, m_control = control,
                 m_controllen = controllen, m_flags = flags\<rparr>, bs) }"

definition parse_MSGHDR :: "u8 list \<Rightarrow> ((msghdr \<times> u8 list \<times> (u64 \<times> u64 \<times> u8 list) list) \<times> u8 list) option" where
  "parse_MSGHDR bs =
     do { (m, bs) \<leftarrow> read_msghdr bs;
          (control, bs) \<leftarrow> read_payload bs;
          (iovs, bs) \<leftarrow> parse_iovecs (iov_read_count (m_iovlen m)) bs;
          Some ((m, snd control, iovs), bs) }"

fun type_parse :: "arg_type \<Rightarrow> u64 \<Rightarrow> u8 list \<Rightarrow> (arg_value \<times> u8 list) option" where
  "type_parse Number p bs = Some (Number_value p, bs)"
| "type_parse (Struct s) p bs = do { (x, bs) \<leftarrow> parse_struct s bs; Some (Bytes_value p x, bs) }"
| "type_parse (Array n) p bs = do { (x, bs) \<leftarrow> parse_ARRAY n bs; Some (Bytes_value p x, bs) }"
| "type_parse String_array p bs =
     do { (xs, bs) \<leftarrow> parse_STRING_ARRAY (unat MAX_LOOP_COUNT) bs; Some (Strings_value p xs, bs) }"
| "type_parse (Iovecs v) p bs = do { (xs, bs) \<leftarrow> parse_IOVEC bs; Some (Iovecs_value p xs, bs) }"
| "type_parse Msghdr p bs =
     do { ((m, control, iovs), bs) \<leftarrow> parse_MSGHDR bs; Some (Msghdr_value p m control iovs, bs) }"
| "type_parse (Pointer_to ty) p bs =
     do { (x, bs) \<leftarrow> read_pointed bs; (v, bs) \<leftarrow> type_parse ty x bs; Some (Pointer_value p v, bs) }"
| "type_parse ty p bs = do { (x, bs) \<leftarrow> read_payload bs; Some (Bytes_value p (snd x), bs) }"

subsection \<open>Reading back what was saved\<close>

lemma length_bytes_at:
  assumes "helper_laws K"
  shows "length (bytes_at K a n) \<le> 4096" and "bytes_at K a n = [] \<or> length (bytes_at K a n) = unat (clamp_len n)"
proof -
  have "unat (clamp_len n) \<le> 4096" by (simp add: clamp_len_def const_simps word_less_nat_alt not_less)
  then show "length (bytes_at K a n) \<le> 4096"
    using length_struct_payload [OF assms] by (simp add: bytes_at_def)
  show "bytes_at K a n = [] \<or> length (bytes_at K a n) = unat (clamp_len n)"
    using read_lawD(2) [OF helper_lawsD(1) [OF assms], of "a AND ADDR_MASK" "unat (clamp_len n)"]
    by (simp add: bytes_at_def struct_payload_def)
qed

lemma clamp_len_small [simp]: "n \<le> 4096 \<Longrightarrow> clamp_len n = n"
  by (auto simp: clamp_len_def const_simps dest: leD)

lemma read_payload_bytes:
  "helper_laws K \<Longrightarrow> read_payload (payload_frame i (bytes_at K a n) @ rest) = Some ((i, bytes_at K a n), rest)"
  using payload_codec.rd_enc [of "(i, bytes_at K a n)" rest] length_bytes_at(1) by simp

lemma read_payload_text:
  "helper_laws K \<Longrightarrow> read_payload (payload_frame i (text_at K a) @ rest) = Some ((i, text_at K a), rest)"
  by (simp add: text_at_def read_string_payload)

lemma read_arg_header:
  "read_arg 4 (payload_frame i p @ rest) = Some ((i, of_nat (length p) :: u32), p @ rest)"
  using key_codec.rd_enc [of "(i, of_nat (length p) :: u32)" "p @ rest"] by (simp add: payload_frame_def)

lemma length_as_u32: "length p \<le> 4096 \<Longrightarrow> unat (of_nat (length p) :: u32) = length p"
  by (simp add: unat_of_nat take_bit_nat_eq_self)

lemma GetStructLen_bytes:
  assumes K: "helper_laws K" and n: "n \<le> 4096"
  shows "bytes_at K a n = [] \<Longrightarrow> GetStructLen n (payload_frame i (bytes_at K a n) @ rest) = Some (0, rest)"
    and "bytes_at K a n \<noteq> [] \<Longrightarrow> GetStructLen n (payload_frame i (bytes_at K a n) @ rest) = Some (n, bytes_at K a n @ rest) \<and>
      length (bytes_at K a n) = unat n \<and> n \<noteq> 0"
proof -
  let ?p = "bytes_at K a n"
  show "?p = [] \<Longrightarrow> GetStructLen n (payload_frame i ?p @ rest) = Some (0, rest)"
    by (simp add: GetStructLen_def read_arg_header)
  assume ne: "?p \<noteq> []"
  then have "length ?p = unat n" using length_bytes_at(2) [OF K, of a n] n by simp
  moreover from this have "n \<noteq> 0" using ne by auto
  ultimately show "GetStructLen n (payload_frame i ?p @ rest) = Some (n, ?p @ rest) \<and> length ?p = unat n \<and> n \<noteq> 0"
    by (simp add: GetStructLen_def read_arg_header)
qed

lemma parse_ARRAY_bytes:
  assumes K: "helper_laws K" and n: "n \<le> 4096"
  shows "parse_ARRAY n (payload_frame i (bytes_at K a n) @ rest) = Some (bytes_at K a n, rest)"
  using GetStructLen_bytes [OF K n, of a i rest]
  by (cases "bytes_at K a n = []") (simp_all add: parse_ARRAY_def read_raw_def)

text \<open>A directory entry apart, a structure is read whole; of a directory entry eight bytes are read.\<close>

lemma parse_struct_bytes:
  assumes K: "helper_laws K" and s: "s \<noteq> Dirent"
  shows "parse_struct s (payload_frame i (bytes_at K a (saved_size s)) @ rest) = Some (bytes_at K a (saved_size s), rest)"
  using GetStructLen_bytes [OF K saved_size_bounds(1) [of s], of a i rest]
  by (cases "bytes_at K a (saved_size s) = []") (simp_all add: parse_struct_def read_raw_def parsed_size_whole [OF s])

lemma parse_dirent_bytes:
  assumes K: "helper_laws K" and rd: "bytes_at K a 280 \<noteq> []"
  shows "parse_struct Dirent (payload_frame i (bytes_at K a 280) @ rest) =
    Some (take 8 (bytes_at K a 280), drop 8 (bytes_at K a 280) @ rest)"
  using GetStructLen_bytes(2) [OF K, of 280 a i rest] rd by (simp add: parse_struct_def read_raw_def dirent_sizes)

lemma read_pointed_bytes:
  assumes K: "helper_laws K"
  shows "read_pointed (payload_frame i (bytes_at K a 8) @ rest) = Some (le_word (bytes_at K a 8), rest)"
proof (cases "bytes_at K a 8 = []")
  case False
  then have "length (bytes_at K a 8) = 8" using length_bytes_at(2) [OF K, of a 8] by simp
  then show ?thesis by (simp add: read_pointed_def read_arg_header read_le_def)
qed (simp add: read_pointed_def read_arg_header)

lemma null_elem_not_ok:
  assumes "fst (mem_probe_read_str K 0 MAX_STRING_SIZE) < 0" and "string_elem_ok K a"
  shows "array_elem K a \<noteq> 0"
proof
  assume "array_elem K a = 0"
  with assms show False by (simp add: string_elem_ok_def)
qed

lemma parse_string_array_frames:
  assumes K: "helper_laws K" and null: "fst (mem_probe_read_str K 0 MAX_STRING_SIZE) < 0"
  shows "parse_STRING_ARRAY n (concat (strings_frames K a n i) @ rest) = Some (strings_at K a n, rest)"
proof (induction n arbitrary: a i)
  case (Suc n)
  let ?e = "array_elem K a" and ?p = "string_payload K (array_elem K a AND ADDR_MASK)"
  have addr: "read_arg 8 ((i # le_bytes 8 ?e) @ bs) = Some ((i, ?e), bs)" for bs
    using reg_codec.rd_enc [of "(i, ?e)" bs] by simp
  have mark: "read_arg 4 (((i + 1) # le_bytes 4 STRARR_MAGIC_LEN) @ bs) = Some ((i + 1, STRARR_MAGIC_LEN), bs)" for bs
    using key_codec.rd_enc [of "(i + 1, STRARR_MAGIC_LEN)" bs] by simp
  have len: "length ?p \<le> 4096" by (rule length_string_payload [OF K])
  then have "unat (of_nat (length ?p) :: u32) \<noteq> unat STRARR_MAGIC_LEN"
    using length_as_u32 [OF len] by (simp add: const_simps)
  then have ne: "(of_nat (length ?p) :: u32) \<noteq> STRARR_MAGIC_LEN" by metis
  show ?case
  proof (cases "string_elem_ok K a")
    case True
    then show ?thesis
      using Suc null_elem_not_ok [OF null True] ne addr read_arg_header [of "i + 1" ?p] length_as_u32 [OF len]
      by (simp add: string_elem_frames_def del: append_Cons)
  next
    case False
    then show ?thesis using addr mark by (simp add: string_elem_frames_def del: append_Cons)
  qed
qed simp

lemma parse_iovecs_frames:
  assumes K: "helper_laws K"
  shows "iovs_readable K a n \<Longrightarrow>
    parse_iovecs n (concat (iovec_frames K a n i) @ rest) = Some (iovecs_at K a n, rest)"
proof (induction n arbitrary: a i)
  case (Suc n)
  let ?b = "bytes_at K a 16"
    and ?p = "bytes_at K (user_word K (a AND ADDR_MASK)) (reg_len (user_word K ((a AND ADDR_MASK) + 8)))"
  have "fst (mem_probe_read K (a AND ADDR_MASK) 16) = 0" using Suc.prems by (simp add: iov_readable_def)
  then have len: "length ?b = 16"
    using read_lawD(2) [OF helper_lawsD(1) [OF K]] by (simp add: bytes_at_def struct_payload_def)
  have base: "read_le 8 (?b @ bs) = Some (le_word (take 8 ?b) :: u64, drop 8 ?b @ bs)" for bs
    using len by (simp add: read_le_def)
  have lens: "read_le 8 (drop 8 ?b @ bs) = Some (le_word (drop 8 ?b) :: u64, bs)" for bs
    using len by (simp add: read_le_def)
  have "parse_iovecs n (concat (iovec_frames K (a + 16) n (i + 2)) @ rest) = Some (iovecs_at K (a + 16) n, rest)"
    by (rule Suc.IH) (use Suc.prems in simp)
  then show ?case
    by (simp add: read_arg_header base lens read_payload_bytes [OF K] iovec_at_def Let_def)
qed simp

lemma iovec_counts_agree:
  assumes "w \<noteq> 0" and "w \<le> of_nat MAX_IOV_COUNT"
  shows "iov_read_count w = iovec_count w" and "iovec_count w = unat w"
proof -
  have u: "unat w \<le> 6" "unat w \<noteq> 0" using assms by (simp_all add: const_simps word_le_nat_alt unat_eq_0)
  then have lt: "w < 32" by (simp add: word_less_nat_alt)
  have "unat (ucast w :: u8) = unat w" using u by (simp add: unsigned_ucast_eq take_bit_nat_eq_self)
  then show c: "iovec_count w = unat w" using u lt by (simp add: iovec_count_def limit_break_count_def const_simps)
  have i: "uint w = int (unat w)" by simp
  have "- (2 ^ 63) \<le> uint w" by (rule order_trans [of _ 0]) simp_all
  moreover have "uint w \<le> 6" using u(1) i by linarith
  then have "uint w < 2 ^ 63" by simp
  ultimately have s: "sint w = int (unat w)" using signed_take_bit_int_eq_self [of 63 "uint w"] by (simp add: sint_uint)
  have "n \<le> MAX_IOV_COUNT \<Longrightarrow> (if int n < int MAX_IOV_COUNT then nat (int n) else MAX_IOV_COUNT) = n" for n
    by simp
  from this [of "unat w"] u(1) show "iov_read_count w = iovec_count w"
    unfolding iov_read_count_def s c by (simp only: MAX_IOV_COUNT_def)
qed

text \<open>\<open>struct msghdr\<close> is read back when it was saved and its two reads agree on the length of the array.\<close>

lemma read_le_take:
  assumes "n + k \<le> length b"
  shows "read_le k (drop n b @ bs) = Some (le_word (take k (drop n b)) :: 'a::len word, drop (n + k) b @ bs)"
  using assms by (simp add: read_le_def add.commute)

lemma read_msghdr_bytes:
  assumes "length b = 56"
  shows "read_msghdr (payload_frame i b @ bs) = Some (msghdr_of b, bs)"
proof -
  have raw: "read_raw 4 (drop n b @ bs) = Some (take 4 (drop n b), drop (n + 4) b @ bs)" if "n + 4 \<le> 56" for n bs
    using that assms by (simp add: read_raw_def add.commute)
  note rd = read_le_take [of _ _ b, unfolded assms]
  show ?thesis
    using assms by (simp add: read_msghdr_def read_arg_header rd [of 0 8, simplified] rd raw msghdr_of_def)
qed

lemma parse_msghdr_frames:
  assumes K: "helper_laws K" and rd: "msghdr_readable K a"
    and cnt: "m_iovlen (msghdr_of (bytes_at K a 56)) = user_word K (a + 24)" "user_word K (a + 24) \<le> of_nat MAX_IOV_COUNT"
    and mask: "a AND ADDR_MASK = a"
  shows "parse_MSGHDR (concat (msghdr_frames K a i) @ rest) =
    Some ((msghdr_of (bytes_at K a 56), bytes_at K (user_word K (a + 32)) (reg_len (user_word K (a + 40))),
      iovecs_at K (user_word K (a + 16)) (iovec_count (user_word K (a + 24)))), rest)"
proof -
  have "fst (mem_probe_read K a 56) = 0" using rd by (simp add: msghdr_readable_def)
  then have len: "length (bytes_at K a 56) = 56"
    using read_lawD(2) [OF helper_lawsD(1) [OF K]] by (simp add: bytes_at_def struct_payload_def mask)
  have iovs: "iovs_readable K (user_word K (a + 16)) (iovec_count (user_word K (a + 24)))" and w: "user_word K (a + 24) \<noteq> 0"
    using rd by (simp_all add: msghdr_readable_def)
  show ?thesis
    using parse_iovecs_frames [OF K iovs, of "i + 2" rest]
    by (simp add: parse_MSGHDR_def msghdr_frames_def read_msghdr_bytes [OF len] read_payload_bytes [OF K] cnt(1)
      iovec_counts_agree(1) [OF w cnt(2)])
qed

text \<open>What a type asks for its value to be read back.\<close>

fun type_reads :: "kenv \<Rightarrow> ctx_regs_t \<Rightarrow> arg_type \<Rightarrow> u64 \<Rightarrow> bool" where
  "type_reads K r (Struct s) a \<longleftrightarrow> s \<noteq> Dirent"
| "type_reads K r (Array n) a \<longleftrightarrow> n \<le> 4096"
| "type_reads K r String_array a \<longleftrightarrow> fst (mem_probe_read_str K 0 MAX_STRING_SIZE) < 0"
| "type_reads K r (Iovecs v) a \<longleftrightarrow> ctx_regs_words r ! v \<le> of_nat MAX_IOV_COUNT"
| "type_reads K r Msghdr a \<longleftrightarrow>
     m_iovlen (msghdr_of (bytes_at K (a AND ADDR_MASK) 56)) = user_word K ((a AND ADDR_MASK) + 24) \<and>
     user_word K ((a AND ADDR_MASK) + 24) \<le> of_nat MAX_IOV_COUNT"
| "type_reads K r (Pointer_to ty) a \<longleftrightarrow> type_reads K r ty (a AND ADDR_MASK)"
| "type_reads K r ty a \<longleftrightarrow> True"

lemma plain_type_parse_frames:
  assumes K: "helper_laws K" and runs: "type_runs K r ty a" and reads: "type_reads K r ty a"
    and plain: "\<And>t. ty \<noteq> Pointer_to t"
  shows "type_parse ty p (concat (type_frames K r ty a i) @ rest) = Some (type_value K r ty a p, rest)"
proof (cases ty)
  case (Iovecs v)
  let ?w = "ctx_regs_words r ! v"
  have cnt: "iov_read_count ?w = iovec_count ?w"
    by (rule iovec_counts_agree(1)) (use runs reads Iovecs in simp_all)
  have "read_arg 8 ((i # le_bytes 8 ?w) @ bs) = Some ((i, ?w), bs)" for bs
    using reg_codec.rd_enc [of "(i, ?w)" bs] by simp
  then show ?thesis
    using parse_iovecs_frames [OF K, of a "iovec_count ?w" "i + 1" rest] runs Iovecs cnt
    by (simp add: parse_IOVEC_def del: append_Cons)
next
  case Msghdr
  let ?b = "a AND ADDR_MASK"
  have "?b AND ADDR_MASK = ?b" by (simp add: and.assoc)
  from parse_msghdr_frames [OF K _ _ _ this, of i rest] runs reads Msghdr show ?thesis by (simp add: Let_def)
next
  case String_array
  then show ?thesis using parse_string_array_frames [OF K, of "unat MAX_LOOP_COUNT" a i rest] reads by simp
qed (use reads plain in \<open>simp_all add: read_payload_bytes [OF K] read_payload_text [OF K] parse_struct_bytes [OF K] parse_ARRAY_bytes [OF K]\<close>)

lemma type_parse_frames:
  assumes K: "helper_laws K" and runs: "type_runs K r ty a" and reads: "type_reads K r ty a"
  shows "type_parse ty p (concat (type_frames K r ty a i) @ rest) = Some (type_value K r ty a p, rest)"
  using runs reads
proof (induction ty arbitrary: a p i)
  case (Pointer_to ty)
  then show ?case by (simp add: read_pointed_bytes [OF K])
qed (use plain_type_parse_frames [OF K] in blast)+

end
