(* ===== verification/Point_Args.thy ===== *)
theory Point_Args
  imports Arg_Values
begin

unbundle bit_operations_syntax

text \<open>
  The arguments of a point, \<open>PointArg\<close> of \<open>user/config/config_point_arg.go\<close>: the word an argument
  is read from (a register, an address computed from registers, the return value), the operations
  \<open>GetOpList\<close> makes of it, what they save, and the parser of the record.
\<close>

subsection \<open>Address expressions\<close>

text \<open>
  \<open>sp+0x20-0x8.+8.-4\<close>: groups of signed terms, separated by a dot that reads a pointer. A sign is
  \<open>True\<close> for minus. \<open>None\<close> is the panic of \<open>ParseArgType\<close> on a number before any register.
\<close>

datatype addr_term = Reg_term nat | Num_term u64

fun term_ops :: "bool \<Rightarrow> bool \<times> addr_term \<Rightarrow> op_config_t list option" where
  "term_ops has_first (neg, Num_term v) =
     (if has_first then Some [if neg then ROP OP_SUB_OFFSET v else ROP OP_ADD_OFFSET v] else None)"
| "term_ops has_first (neg, Reg_term q) =
     Some (READ_MOVE_REG q # (if has_first then [if neg then ROP OP_SUB_REG 0 else ROP OP_ADD_REG 0] else []))"

fun group_ops :: "bool \<Rightarrow> (bool \<times> addr_term) list \<Rightarrow> op_config_t list option" where
  "group_ops has_first [] = Some []"
| "group_ops has_first (t # g) =
     do { a \<leftarrow> term_ops has_first t; b \<leftarrow> group_ops True g; Some (a @ b) }"

fun groups_ops :: "bool \<Rightarrow> (bool \<times> addr_term) list list \<Rightarrow> op_config_t list option" where
  "groups_ops has_first [] = Some []"
| "groups_ops has_first (g # gs) =
     do { a \<leftarrow> group_ops has_first g; b \<leftarrow> groups_ops (has_first \<or> g \<noteq> []) gs;
          Some (ROP OP_READ_POINTER 0 # ROP OP_MOVE_POINTER_VALUE 0 # a @ b) }"

fun address_ops :: "(bool \<times> addr_term) list list \<Rightarrow> op_config_t list option" where
  "address_ops [] = Some []"
| "address_ops (g # gs) =
     do { a \<leftarrow> group_ops False g; b \<leftarrow> groups_ops (g \<noteq> []) gs; Some (a @ b @ [ROP OP_SAVE_ADDR 0]) }"

text \<open>What the comment above that code says an expression means.\<close>

fun term_value :: "ctx_regs_t \<Rightarrow> u64 \<Rightarrow> bool \<times> addr_term \<Rightarrow> u64" where
  "term_value r a (neg, Num_term v) = (if neg then a - v else a + v)"
| "term_value r a (neg, Reg_term q) = (if neg then a - ctx_regs_words r ! q else a + ctx_regs_words r ! q)"

fun groups_value :: "kenv \<Rightarrow> ctx_regs_t \<Rightarrow> u64 \<Rightarrow> (bool \<times> addr_term) list list \<Rightarrow> u64 option" where
  "groups_value K r a [] = Some a"
| "groups_value K r a (g # gs) =
     (if fst (mem_probe_read_user K a 8) = 0
      then groups_value K r (foldl (term_value r) (user_word K a) g) gs else None)"

fun address_value :: "kenv \<Rightarrow> ctx_regs_t \<Rightarrow> (bool \<times> addr_term) list list \<Rightarrow> u64 option" where
  "address_value K r [] = None"
| "address_value K r (g # gs) = groups_value K r (foldl (term_value r) 0 g) gs"

text \<open>The expressions with one register, the first term.\<close>

definition offsets_only :: "(bool \<times> addr_term) list \<Rightarrow> bool" where
  "offsets_only g \<longleftrightarrow> list_all (\<lambda>t. case snd t of Num_term _ \<Rightarrow> True | Reg_term _ \<Rightarrow> False) g"

fun one_register :: "(bool \<times> addr_term) list list \<Rightarrow> bool" where
  "one_register (((neg, Reg_term q) # g) # gs) \<longleftrightarrow> \<not> neg \<and> q < 33 \<and> offsets_only g \<and> list_all offsets_only gs"
| "one_register _ \<longleftrightarrow> False"

subsection \<open>\<open>PointArg\<close>\<close>

record point_arg =
  RegIndex :: nat
  TypeIndex :: arg_type
  ExtraOpList :: "op_config_t list"
  FilterIndexList :: "u64 list"
  PointType :: u32
  GroupType :: u32
  IsRet :: bool

definition EBPF_SYS_ENTER :: u32 where [const_simps]: "EBPF_SYS_ENTER = 1"
definition EBPF_SYS_EXIT :: u32 where [const_simps]: "EBPF_SYS_EXIT = 2"
definition EBPF_SYS_ALL :: u32 where [const_simps]: "EBPF_SYS_ALL = 3"
definition EBPF_UPROBE_ENTER :: u32 where [const_simps]: "EBPF_UPROBE_ENTER = 4"
definition EBPF_UPROBE_EXIT :: u32 where [const_simps]: "EBPF_UPROBE_EXIT = 5"

definition ReadMore :: "point_arg \<Rightarrow> bool" where
  "ReadMore a \<longleftrightarrow> PointType a = EBPF_SYS_ALL \<or> PointType a = GroupType a"

definition parse_more :: "point_arg \<Rightarrow> u32 \<Rightarrow> bool" where
  "parse_more a point_type \<longleftrightarrow> PointType a = EBPF_SYS_ALL \<or> PointType a = point_type"

fun IsString :: "arg_type \<Rightarrow> bool" where
  "IsString String_arg \<longleftrightarrow> True" | "IsString Std_string \<longleftrightarrow> True" | "IsString _ \<longleftrightarrow> False"

fun IsBuffer :: "arg_type \<Rightarrow> bool" where
  "IsBuffer (Buffer_len n) \<longleftrightarrow> True" | "IsBuffer (Buffer_reg v) \<longleftrightarrow> True" | "IsBuffer _ \<longleftrightarrow> False"

definition GetOpList :: "point_arg \<Rightarrow> op_config_t list" where
  "GetOpList a =
     (if RegIndex a = unat REG_ARM64_MAX then []
      else (if IsRet a then [ROP OP_READ_RET 0, ROP OP_SAVE_REG 0]
            else if ExtraOpList a \<noteq> [] then ExtraOpList a
            else [READ_SAVE_REG (RegIndex a), OPC_MOVE_REG_VALUE])
        @ (if \<not> IsRet a \<and> \<not> IsString (TypeIndex a) \<and> \<not> IsBuffer (TypeIndex a)
           then map (ROP OP_FILTER_VALUE) (FilterIndexList a) else [])
        @ (if ReadMore a
           then type_ops (TypeIndex a)
             @ (if IsString (TypeIndex a) then map (ROP OP_FILTER_STRING) (FilterIndexList a)
                else if IsBuffer (TypeIndex a) then map (ROP OP_FILTER_BUFFER) (FilterIndexList a) else [])
           else []))"

text \<open>\<open>AddPointArg\<close> for every argument of a point; unused keys are 0, the operation \<open>SKIP\<close>.\<close>

definition point_ops :: "point_arg list \<Rightarrow> op_config_t list" where
  "point_ops params = concat (map GetOpList params) @ [OPC_SKIP]"

text \<open>\<open>Arg_reg\<close>, then \<open>Parse\<close>.\<close>

definition parse_arg :: "u32 \<Rightarrow> point_arg \<Rightarrow> u8 list \<Rightarrow> (arg_value \<times> u8 list) option" where
  "parse_arg point_type a bs =
     do { (ptr, bs) \<leftarrow> read_arg 8 bs;
          if parse_more a point_type then type_parse (TypeIndex a) (snd ptr) bs
          else Some (Number_value (snd ptr), bs) }"

fun parse_args :: "u32 \<Rightarrow> point_arg list \<Rightarrow> u8 list \<Rightarrow> (arg_value list \<times> u8 list) option" where
  "parse_args point_type [] bs = Some ([], bs)"
| "parse_args point_type (a # params) bs =
     do { (x, bs) \<leftarrow> parse_arg point_type a bs; (xs, bs) \<leftarrow> parse_args point_type params bs; Some (x # xs, bs) }"

text \<open>
  The loop of \<open>UprobeEvent.ParseContext\<close> ends, where that of a system call panics, when there is no
  further register; the failed read uses up what is left.
\<close>

fun parse_uprobe_args :: "u32 \<Rightarrow> point_arg list \<Rightarrow> u8 list \<Rightarrow> (arg_value list \<times> u8 list) option" where
  "parse_uprobe_args point_type [] bs = Some ([], bs)"
| "parse_uprobe_args point_type (a # params) bs =
     (if (read_arg 8 bs :: ((u8 \<times> u64) \<times> u8 list) option) = None then Some ([], [])
      else do { (x, bs) \<leftarrow> parse_arg point_type a bs; (xs, bs) \<leftarrow> parse_uprobe_args point_type params bs; Some (x # xs, bs) })"

lemma parse_uprobe_args_all: "parse_args t params bs = Some r \<Longrightarrow> parse_uprobe_args t params bs = Some r"
proof (induction params arbitrary: bs r)
  case (Cons a params)
  then obtain x bs1 xs bs2 where one: "parse_arg t a bs = Some (x, bs1)" "parse_args t params bs1 = Some (xs, bs2)"
    "r = (x # xs, bs2)" by (auto split: bind_splits)
  then have "(read_arg 8 bs :: ((u8 \<times> u64) \<times> u8 list) option) \<noteq> None" by (auto simp: parse_arg_def split: bind_splits)
  then show ?case using one Cons.IH [OF one(2)] by simp
qed simp

subsection \<open>What an argument stands for\<close>

text \<open>
  \<open>p\<close> is the word of the argument: the return value \<open>v\<close>, the value of its address expression, or
  its register.
\<close>

definition arg_word :: "kenv \<Rightarrow> ctx_regs_t \<Rightarrow> u64 \<Rightarrow> point_arg \<Rightarrow> u64 \<Rightarrow> bool" where
  "arg_word K r v a p \<longleftrightarrow>
     (if IsRet a then p = v
      else if ExtraOpList a = [] then RegIndex a < 33 \<and> p = ctx_regs_words r ! RegIndex a
      else \<exists>gs. one_register gs \<and> address_ops gs = Some (ExtraOpList a) \<and> address_value K r gs = Some p \<and>
             PTR_SIZE (build_arch K) = 8)"

definition arg_value :: "kenv \<Rightarrow> ctx_regs_t \<Rightarrow> point_arg \<Rightarrow> u64 \<Rightarrow> arg_value" where
  "arg_value K r a p = (if ReadMore a then type_value K r (TypeIndex a) p p else Number_value p)"

definition arg_frames :: "kenv \<Rightarrow> ctx_regs_t \<Rightarrow> point_arg \<Rightarrow> u64 \<Rightarrow> u8 \<Rightarrow> u8 list list" where
  "arg_frames K r a p i =
     (i # le_bytes 8 p) # (if ReadMore a then type_frames K r (TypeIndex a) p (i + 1) else [])"

text \<open>The filters of the argument accept it.\<close>

definition filters_accept :: "maps \<Rightarrow> point_arg \<Rightarrow> u64 \<Rightarrow> bool" where
  "filters_accept S a p \<longleftrightarrow>
     FilterIndexList a = [] \<or>
     \<not> IsRet a \<and> ExtraOpList a = [] \<and> \<not> IsString (TypeIndex a) \<and> \<not> IsBuffer (TypeIndex a) \<and>
     list_all (\<lambda>k. case bpf_map_lookup_elem (arg_filter S) k of
                     None \<Rightarrow> False | Some f \<Rightarrow> \<not> value_mismatch f p) (FilterIndexList a)"

text \<open>
  An argument whose operations run to their end. A return value has to be a number: its operations
  do not move it to the read address.
\<close>

definition arg_runs :: "kenv \<Rightarrow> maps \<Rightarrow> ctx_regs_t \<Rightarrow> u64 \<Rightarrow> point_arg \<Rightarrow> u64 \<Rightarrow> bool" where
  "arg_runs K S r v a p \<longleftrightarrow>
     RegIndex a \<noteq> unat REG_ARM64_MAX \<and> arg_word K r v a p \<and> filters_accept S a p \<and>
     (IsRet a \<and> ReadMore a \<longrightarrow> TypeIndex a = Number) \<and>
     (ReadMore a \<longrightarrow> type_runs K r (TypeIndex a) p)"

text \<open>An argument that is also read back.\<close>

definition arg_ok :: "kenv \<Rightarrow> maps \<Rightarrow> ctx_regs_t \<Rightarrow> u64 \<Rightarrow> point_arg \<Rightarrow> u64 \<Rightarrow> bool" where
  "arg_ok K S r v a p \<longleftrightarrow> arg_runs K S r v a p \<and> (ReadMore a \<longrightarrow> type_reads K r (TypeIndex a) p)"

lemma args_ok_run: "list_all2 (arg_ok K S r v) params ps \<Longrightarrow> list_all2 (arg_runs K S r v) params ps"
  by (erule list_all2_mono) (simp add: arg_ok_def)

definition arg_turns :: "kenv \<Rightarrow> ctx_regs_t \<Rightarrow> point_arg \<Rightarrow> u64 \<Rightarrow> nat" where
  "arg_turns K r a p =
     (if IsRet a then 2 else if ExtraOpList a = [] then 3 else block_turns (ExtraOpList a))
     + length (FilterIndexList a) + (if ReadMore a then type_turns K r (TypeIndex a) p else 0)"

subsection \<open>Running the operations of an argument\<close>

lemma performs_offsets:
  "offsets_only g \<Longrightarrow> match_blacklist c \<noteq> 1 \<Longrightarrow>
    \<exists>ops. group_ops True g = Some ops \<and> length ops = length g \<and> block_turns ops = length g \<and>
      performs K S r (length g) ops c [] (c\<lparr>read_addr := foldl (term_value r) (read_addr c) g\<rparr>)"
proof (induction g arbitrary: c)
  case Nil
  then show ?case using performs_Nil [of K S r c] by simp
next
  case (Cons t g)
  obtain neg v where t: "t = (neg, Num_term v)" and g: "offsets_only g"
    using Cons.prems(1) by (cases t; cases "snd t") (auto simp: offsets_only_def)
  let ?op = "if neg then ROP OP_SUB_OFFSET v else ROP OP_ADD_OFFSET v"
  let ?c = "c\<lparr>read_addr := term_value r (read_addr c) t\<rparr>"
  have one: "performs K S r 1 [?op] c [] ?c"
    using performs_add_offset [OF Cons.prems(2), of K S r v] performs_ctx_ops(5) [OF Cons.prems(2), of K S r v]
    by (simp add: t)
  have "match_blacklist ?c \<noteq> 1" using Cons.prems(2) by simp
  from Cons.IH [OF g this] obtain ops where ops: "group_ops True g = Some ops" "length ops = length g"
    "block_turns ops = length g"
    "performs K S r (length g) ops ?c [] (?c\<lparr>read_addr := foldl (term_value r) (read_addr ?c) g\<rparr>)" by blast
  from performs_Cons [OF one ops(4)] ops(1-3) show ?case
    by (simp add: t turns_of_def ROP_def)
qed

lemma performs_groups:
  assumes K: "helper_laws K" "PTR_SIZE (build_arch K) = 8"
  shows "list_all offsets_only gs \<Longrightarrow> match_blacklist c \<noteq> 1 \<Longrightarrow> groups_value K r (read_addr c) gs = Some p \<Longrightarrow>
    \<exists>ops d. groups_ops True gs = Some ops \<and> performs K S r (block_turns ops) ops c [] d \<and>
      keeps c d \<and> save_index d = save_index c \<and> read_addr d = p"
proof (induction gs arbitrary: c)
  case Nil
  then show ?case using performs_Nil [of K S r c] by auto
next
  case (Cons g gs)
  let ?w = "user_word K (read_addr c)"
  have rd: "fst (mem_probe_read_user K (read_addr c) 8) = 0" using Cons.prems(3) by (simp split: if_split_asm)
  let ?c1 = "c\<lparr>pointer_value := ?w\<rparr>" and ?c2 = "c\<lparr>pointer_value := ?w, read_addr := ?w\<rparr>"
  let ?c3 = "?c2\<lparr>read_addr := foldl (term_value r) ?w g\<rparr>"
  have mb: "match_blacklist ?c1 \<noteq> 1" "match_blacklist ?c2 \<noteq> 1" "match_blacklist ?c3 \<noteq> 1" using Cons.prems(2) by simp_all
  have p1: "performs K S r 1 [ROP OP_READ_POINTER 0] c [] ?c1"
    by (rule performs_read_pointer [OF K Cons.prems(2) rd])
  have p2: "performs K S r 1 [ROP OP_MOVE_POINTER_VALUE 0] ?c1 [] ?c2"
    using performs_ctx_ops(3) [OF mb(1), of K S r] by simp
  have g: "offsets_only g" and gs: "list_all offsets_only gs" using Cons.prems(1) by simp_all
  obtain a where a: "group_ops True g = Some a" "block_turns a = length g" "performs K S r (length g) a ?c2 [] ?c3"
    using performs_offsets [OF g mb(2), of K S r] by auto
  have "groups_value K r (read_addr ?c3) gs = Some p" using Cons.prems(3) rd by simp
  from Cons.IH [OF gs mb(3) this] obtain b d where b: "groups_ops True gs = Some b"
    "performs K S r (block_turns b) b ?c3 [] d" "keeps ?c3 d" "save_index d = save_index ?c3" "read_addr d = p"
    by blast
  from performs_append [OF p1 performs_append [OF p2 performs_append [OF a(3) b(2)]]] a b
  show ?case
    by (auto simp: turns_of_def ROP_def keeps_def block_turns_def)
qed

lemma performs_move_reg:
  assumes r: "wf_ctx_regs r" "q < 33" and mb: "match_blacklist c \<noteq> 1"
  shows "performs K S r 2 [READ_MOVE_REG q] c [] ((read_reg_ctx r q c)\<lparr>read_addr := ctx_regs_words r ! q\<rparr>)"
proof -
  let ?c1 = "(read_reg_ctx r q c)\<lparr>read_addr := ctx_regs_words r ! q\<rparr>"
  have d: "op_move_reg_value (read_reg_ctx r q c) = ?c1" by (simp add: op_move_reg_value_def read_reg_ctx_def)
  have "match_blacklist ?c1 \<noteq> 1" using mb by (simp add: read_reg_ctx_def)
  then show ?thesis
    by (intro performs_read_reg [OF r, where oc = OP_MOVE_REG_VALUE])
      (use mb op_does_ctx_ops(6) [of K S r "READ_MOVE_REG q" "read_reg_ctx r q c"] in
        \<open>simp_all add: d, simp_all add: READ_MOVE_REG_def\<close>)
qed

lemma performs_address:
  assumes K: "helper_laws K" "PTR_SIZE (build_arch K) = 8" and r: "wf_ctx_regs r" and mb: "match_blacklist c \<noteq> 1"
    and one: "one_register gs" and ops: "address_ops gs = Some ops" and val: "address_value K r gs = Some p"
  shows "\<exists>d. performs K S r (block_turns ops) ops c [save_index c # le_bytes 8 p] d \<and> keeps c d \<and>
    save_index d = save_index c + 1 \<and> read_addr d = p"
proof -
  obtain q g gs' where gs: "gs = ((False, Reg_term q) # g) # gs'" and q: "q < 33" and g: "offsets_only g"
    and gs': "list_all offsets_only gs'" using one by (cases gs rule: one_register.cases) auto
  let ?w = "ctx_regs_words r ! q"
  let ?c1 = "(read_reg_ctx r q c)\<lparr>read_addr := ?w\<rparr>" and ?c2 = "(read_reg_ctx r q c)\<lparr>read_addr := foldl (term_value r) ?w g\<rparr>"
  have mb1: "match_blacklist ?c1 \<noteq> 1" "match_blacklist ?c2 \<noteq> 1" using mb by (simp_all add: read_reg_ctx_def)
  note p1 = performs_move_reg [OF r q mb, of K S]
  obtain a where a: "group_ops True g = Some a" "block_turns a = length g" "performs K S r (length g) a ?c1 [] ?c2"
    using performs_offsets [OF g mb1(1), of K S r] by (auto simp: read_reg_ctx_def)
  have "groups_value K r (read_addr ?c2) gs' = Some p" using val gs by simp
  from performs_groups [OF K gs' mb1(2) this] obtain b d where b: "groups_ops True gs' = Some b"
    "performs K S r (block_turns b) b ?c2 [] d" "keeps ?c2 d" "save_index d = save_index ?c2" "read_addr d = p"
    by blast
  have mbd: "match_blacklist d \<noteq> 1" using b(3) mb1(2) by (simp add: keeps_def)
  let ?d = "d\<lparr>save_index := save_index d + 1\<rparr>"
  have p4: "performs K S r 1 [ROP OP_SAVE_ADDR 0] d [save_index d # le_bytes 8 p] ?d"
    using performs_ROP [OF op_does_saves(2) [of K S r _ d]] mbd b(5) by simp
  have "ops = READ_MOVE_REG q # a @ b @ [ROP OP_SAVE_ADDR 0]" using ops a(1) b(1) gs by simp
  with performs_append [OF p1 performs_append [OF a(3) performs_append [OF b(2) p4]]] a(2) b(3-5)
  show ?thesis
    by (intro exI [of _ ?d]) (auto simp: turns_of_def ROP_def READ_MOVE_REG_def keeps_def read_reg_ctx_def block_turns_def)
qed

lemma performs_source:
  assumes K: "helper_laws K" and r: "wf_ctx_regs r" and mb: "match_blacklist c \<noteq> 1" and word: "arg_word K r (reg_0 c) a p"
  shows "\<exists>d. performs K S r (if IsRet a then 2 else if ExtraOpList a = [] then 3 else block_turns (ExtraOpList a))
      (if IsRet a then [ROP OP_READ_RET 0, ROP OP_SAVE_REG 0]
       else if ExtraOpList a \<noteq> [] then ExtraOpList a else [READ_SAVE_REG (RegIndex a), OPC_MOVE_REG_VALUE])
      c [save_index c # le_bytes 8 p] d \<and> keeps c d \<and> save_index d = save_index c + 1 \<and>
    (\<not> IsRet a \<longrightarrow> read_addr d = p) \<and> (\<not> IsRet a \<and> ExtraOpList a = [] \<longrightarrow> reg_value d = p)"
proof -
  consider (ret) "IsRet a" | (address) "\<not> IsRet a" "ExtraOpList a \<noteq> []" | (reg) "\<not> IsRet a" "ExtraOpList a = []" by blast
  then show ?thesis
  proof cases
    case ret
    let ?c = "c\<lparr>reg_value := reg_0 c\<rparr>" and ?d = "c\<lparr>reg_value := reg_0 c, save_index := save_index c + 1\<rparr>"
    have "performs K S r 1 [ROP OP_SAVE_REG 0] ?c [save_index c # le_bytes 8 (reg_0 c)] ?d"
      using performs_ROP [OF op_does_saves(1) [of K S r _ ?c]] mb by simp
    from performs_Cons [OF performs_ctx_ops(4) [OF mb] this] ret word show ?thesis
      by (intro exI [of _ ?d]) (simp add: arg_word_def keeps_def numeral_2_eq_2)
  next
    case address
    then obtain gs where "one_register gs" "address_ops gs = Some (ExtraOpList a)" "address_value K r gs = Some p"
      "PTR_SIZE (build_arch K) = 8" using word by (auto simp: arg_word_def)
    from performs_address [OF K this(4) r mb this(1-3), of S] address show ?thesis by auto
  next
    case reg
    then have v: "RegIndex a < 33" and p: "p = ctx_regs_words r ! RegIndex a" using word by (simp_all add: arg_word_def)
    let ?c1 = "(read_reg_ctx r (RegIndex a) c)\<lparr>save_index := save_index c + 1\<rparr>"
    have does: "op_does K S r (READ_SAVE_REG (RegIndex a)) OP_SAVE_REG (read_reg_ctx r (RegIndex a) c) [save_index c # le_bytes 8 p] ?c1"
      using op_does_saves(1) [of K S r "READ_SAVE_REG (RegIndex a)" "read_reg_ctx r (RegIndex a) c"] p
      by (simp add: read_reg_ctx_def)
    have p1: "performs K S r 2 [READ_SAVE_REG (RegIndex a)] c [save_index c # le_bytes 8 p] ?c1"
      by (rule performs_read_reg [OF r v, where oc = OP_SAVE_REG])
        (use mb does in \<open>simp_all add: READ_SAVE_REG_def read_reg_ctx_def\<close>)
    have "match_blacklist ?c1 \<noteq> 1" using mb by (simp add: read_reg_ctx_def)
    from performs_Cons [OF p1 performs_ctx_ops(8) [OF this]] reg p show ?thesis
      by (intro exI [of _ "?c1\<lparr>read_addr := reg_value ?c1\<rparr>"]) (simp add: keeps_def read_reg_ctx_def)
  qed
qed

lemma performs_filters:
  assumes "list_all (\<lambda>k. case bpf_map_lookup_elem (arg_filter S) k of None \<Rightarrow> False | Some f \<Rightarrow> \<not> value_mismatch f (reg_value c)) ks"
    and mb: "match_blacklist c \<noteq> 1"
  shows "performs K S r (length ks) (map (ROP OP_FILTER_VALUE) ks) c [] c"
  using assms(1)
proof (induction ks)
  case Nil
  then show ?case using performs_Nil by simp
next
  case (Cons k ks)
  then obtain f where "bpf_map_lookup_elem (arg_filter S) (cfg_value (ROP OP_FILTER_VALUE k)) = Some f"
    "\<not> value_mismatch f (reg_value c)" by (auto simp: ROP_def split: option.splits)
  then have "performs K S r 1 [ROP OP_FILTER_VALUE k] c [] c"
    by (intro performs_ROP op_does_filter_value mb) simp_all
  from performs_Cons [OF this] Cons show ?case by simp
qed

lemma length_arg_frames: "length (arg_frames K r a p i) = Suc (if ReadMore a then length (type_frames K r (TypeIndex a) p (i + 1)) else 0)"
  by (simp add: arg_frames_def)

lemma performs_arg:
  assumes K: "helper_laws K" and r: "wf_ctx_regs r" and c: "match_blacklist c \<noteq> 1" "loop_count c = 0"
    and ok: "arg_runs K S r (reg_0 c) a p"
  shows "\<exists>d. performs K S r (arg_turns K r a p) (GetOpList a) c (arg_frames K r a p (save_index c)) d \<and> keeps c d \<and>
    save_index d = save_index c + of_nat (length (arg_frames K r a p (save_index c)))"
proof -
  let ?src = "if IsRet a then [ROP OP_READ_RET 0, ROP OP_SAVE_REG 0]
       else if ExtraOpList a \<noteq> [] then ExtraOpList a else [READ_SAVE_REG (RegIndex a), OPC_MOVE_REG_VALUE]"
  let ?t = "if IsRet a then 2 else if ExtraOpList a = [] then 3 else block_turns (ExtraOpList a)"
  let ?flt = "map (ROP OP_FILTER_VALUE) (FilterIndexList a)"
  let ?ty = "if ReadMore a then type_ops (TypeIndex a) else []"
  let ?fs = "if ReadMore a then type_frames K r (TypeIndex a) p (save_index c + 1) else []"
  have word: "arg_word K r (reg_0 c) a p" using ok by (simp add: arg_runs_def)
  obtain d1 where d1: "performs K S r ?t ?src c [save_index c # le_bytes 8 p] d1" "keeps c d1"
    "save_index d1 = save_index c + 1" "\<not> IsRet a \<longrightarrow> read_addr d1 = p"
    "\<not> IsRet a \<and> ExtraOpList a = [] \<longrightarrow> reg_value d1 = p"
    using performs_source [OF K r c(1) word, of S] by blast
  have c1: "match_blacklist d1 \<noteq> 1" "loop_count d1 = 0" using d1(2) c by (simp_all add: keeps_def)
  have flt: "performs K S r (length (FilterIndexList a)) ?flt d1 [] d1"
    by (rule performs_filters [OF _ c1(1)]) (use ok d1(5) in \<open>auto simp: arg_runs_def filters_accept_def\<close>)
  have ops: "GetOpList a = ?src @ ?flt @ ?ty"
    using ok by (auto simp: GetOpList_def arg_runs_def filters_accept_def)
  have "\<exists>d. performs K S r (if ReadMore a then type_turns K r (TypeIndex a) p else 0) ?ty d1 ?fs d \<and> keeps d1 d \<and>
      save_index d = save_index d1 + of_nat (length ?fs)"
  proof (cases "ReadMore a")
    case True
    show ?thesis
    proof (cases "IsRet a")
      case True
      then have "TypeIndex a = Number" using ok \<open>ReadMore a\<close> by (simp add: arg_runs_def)
      then show ?thesis using performs_Nil [of K S r d1] by (intro exI [of _ d1]) simp
    next
      case False
      then have "type_runs K r (TypeIndex a) (read_addr d1)" using ok True d1(4) by (simp add: arg_runs_def)
      from performs_type [OF K r c1 this, of S] True False d1(3,4) show ?thesis by auto
    qed
  next
    case False
    then show ?thesis using performs_Nil [of K S r d1] by (intro exI [of _ d1]) simp
  qed
  then obtain d where d: "performs K S r (if ReadMore a then type_turns K r (TypeIndex a) p else 0) ?ty d1 ?fs d"
    "keeps d1 d" "save_index d = save_index d1 + of_nat (length ?fs)" by blast
  have "performs K S r (arg_turns K r a p) (GetOpList a) c (arg_frames K r a p (save_index c)) d"
    using performs_append [OF d1(1) performs_append [OF flt d(1)]]
    unfolding ops arg_turns_def arg_frames_def by (simp add: add.assoc)
  moreover have "save_index d = save_index c + of_nat (length (arg_frames K r a p (save_index c)))"
    using d(3) d1(3) by (simp add: arg_frames_def)
  ultimately show ?thesis using keeps_trans [OF d1(2) d(2)] by blast
qed

subsection \<open>All arguments of a point\<close>

fun args_frames :: "kenv \<Rightarrow> ctx_regs_t \<Rightarrow> point_arg list \<Rightarrow> u64 list \<Rightarrow> u8 \<Rightarrow> u8 list list" where
  "args_frames K r (a # params) (p # ps) i =
     arg_frames K r a p i @ args_frames K r params ps (i + of_nat (length (arg_frames K r a p i)))"
| "args_frames K r params ps i = []"

lemma performs_args:
  assumes K: "helper_laws K" and r: "wf_ctx_regs r"
  shows "list_all2 (arg_runs K S r (reg_0 c)) params ps \<Longrightarrow> match_blacklist c \<noteq> 1 \<Longrightarrow> loop_count c = 0 \<Longrightarrow>
    \<exists>d. performs K S r (sum_list (map2 (arg_turns K r) params ps)) (concat (map GetOpList params)) c
        (args_frames K r params ps (save_index c)) d \<and> keeps c d \<and>
      save_index d = save_index c + of_nat (length (args_frames K r params ps (save_index c)))"
proof (induction params arbitrary: ps c)
  case Nil
  then show ?case using performs_Nil [of K S r c] by auto
next
  case (Cons a params)
  then obtain p ps' where ps: "ps = p # ps'" and ok: "arg_runs K S r (reg_0 c) a p"
    and oks: "list_all2 (arg_runs K S r (reg_0 c)) params ps'" by (auto simp: list_all2_Cons1)
  obtain d1 where d1: "performs K S r (arg_turns K r a p) (GetOpList a) c (arg_frames K r a p (save_index c)) d1"
    "keeps c d1" "save_index d1 = save_index c + of_nat (length (arg_frames K r a p (save_index c)))"
    using performs_arg [OF K r Cons.prems(2,3) ok] by blast
  have c1: "list_all2 (arg_runs K S r (reg_0 d1)) params ps'" "match_blacklist d1 \<noteq> 1" "loop_count d1 = 0"
    using oks d1(2) Cons.prems by (simp_all add: keeps_def)
  obtain d where d: "performs K S r (sum_list (map2 (arg_turns K r) params ps')) (concat (map GetOpList params)) d1
      (args_frames K r params ps' (save_index d1)) d" "keeps d1 d"
    "save_index d = save_index d1 + of_nat (length (args_frames K r params ps' (save_index d1)))"
    using Cons.IH [OF c1] by blast
  from performs_append [OF d1(1) d(1)] d1(3) d(3) keeps_trans [OF d1(2) d(2)] ps show ?case by auto
qed

text \<open>What user space parses is what the arguments stand for.\<close>

definition parsed_as :: "u32 \<Rightarrow> point_arg list \<Rightarrow> bool" where
  "parsed_as point_type params \<longleftrightarrow>
     list_all (\<lambda>a. TypeIndex a = Number \<or> parse_more a point_type = ReadMore a) params"

lemma parse_arg_frames:
  assumes K: "helper_laws K" and ok: "arg_ok K S r v a p"
    and more: "TypeIndex a = Number \<or> parse_more a t = ReadMore a"
  shows "parse_arg t a (concat (arg_frames K r a p i) @ rest) = Some (arg_value K r a p, rest)"
proof -
  have hdr: "read_arg 8 ((i # le_bytes 8 p) @ bs) = Some ((i, p), bs)" for bs
    using reg_codec.rd_enc [of "(i, p)" bs] by simp
  have "type_parse (TypeIndex a) p (concat (type_frames K r (TypeIndex a) p (i + 1)) @ rest) =
      Some (type_value K r (TypeIndex a) p p, rest)" if "ReadMore a"
    using type_parse_frames [OF K] ok that by (simp add: arg_ok_def arg_runs_def)
  then show ?thesis
    using more hdr by (auto simp: parse_arg_def arg_frames_def arg_value_def simp del: append_Cons)
qed

lemma parse_args_frames:
  assumes K: "helper_laws K"
  shows "list_all2 (arg_ok K S r v) params ps \<Longrightarrow> parsed_as t params \<Longrightarrow>
    parse_args t params (concat (args_frames K r params ps i) @ rest) = Some (map2 (arg_value K r) params ps, rest)"
proof (induction params arbitrary: ps i)
  case (Cons a params)
  then obtain p ps' where ps: "ps = p # ps'" and ok: "arg_ok K S r v a p"
    and oks: "list_all2 (arg_ok K S r v) params ps'" by (auto simp: list_all2_Cons1)
  have more: "TypeIndex a = Number \<or> parse_more a t = ReadMore a" and mores: "parsed_as t params"
    using Cons.prems(2) by (simp_all add: parsed_as_def)
  from parse_arg_frames [OF K ok more, of i] Cons.IH [OF oks mores] ps show ?case by simp
qed (simp add: list_all2_Nil)

text \<open>The size of the frames does not depend on the index they begin with.\<close>

lemma length_concat_strings_frames:
  "length (concat (strings_frames K a n i)) = length (concat (strings_frames K a n j))"
  by (induction n arbitrary: a i j) (simp_all add: string_elem_frames_def payload_frame_def)

lemma length_concat_iovec_frames:
  "length (concat (iovec_frames K a n i)) = length (concat (iovec_frames K a n j))"
  by (induction n arbitrary: a i j) (simp_all add: payload_frame_def)

lemma length_concat_type_frames:
  "length (concat (type_frames K r ty a i)) = length (concat (type_frames K r ty a j))"
proof (induction ty arbitrary: a i j)
  case String_array
  then show ?case using length_concat_strings_frames by simp
next
  case (Iovecs v)
  then show ?case using length_concat_iovec_frames by simp
next
  case Msghdr
  then show ?case
    using length_concat_iovec_frames [of K _ _ "i + 2" "j + 2"] by (simp add: msghdr_frames_def payload_frame_def)
next
  case (Pointer_to ty)
  then show ?case by (simp add: payload_frame_def)
qed (simp_all add: payload_frame_def)

lemma length_concat_args_frames:
  "length (concat (args_frames K r params ps i)) = length (concat (args_frames K r params ps j))"
proof (induction K r params ps i arbitrary: j rule: args_frames.induct)
  case (1 K r a params p ps i)
  have "length (concat (arg_frames K r a p i)) = length (concat (arg_frames K r a p j))"
    using length_concat_type_frames by (auto simp: arg_frames_def)
  then show ?case using "1.IH" [of "j + of_nat (length (arg_frames K r a p j))"] by simp
qed simp_all

end
