(* ===== verification/Uprobe_Args.thy ===== *)
theory Uprobe_Args
  imports Stack_Facts Point_Args
begin

unbundle bit_operations_syntax

text \<open>
  A uprobe with typed arguments from end to end: the stored operations, the interpreter, the
  record, and the values that user space (\<open>UprobeEvent.ParseContext\<close> of
  \<open>user/event/event_uprobe.go\<close>) reads back.
\<close>

subsection \<open>Programs of typed arguments\<close>

text \<open>
  A point whose stored operations are those of \<open>params\<close>, ready to run on the registers \<open>r\<close> and the
  return value \<open>v\<close>: the operations of every argument run to their end, there are turns enough for
  all of them and the final \<open>OP_SKIP\<close>, and the record has room.
\<close>

definition ARGS_ROOM :: nat where "ARGS_ROOM = 27800"

definition runs_program ::
    "kenv \<Rightarrow> maps \<Rightarrow> point_args_t \<Rightarrow> ctx_regs_t \<Rightarrow> u64 \<Rightarrow> point_arg list \<Rightarrow> u64 list \<Rightarrow> bool" where
  "runs_program K S pa r v params ps \<longleftrightarrow>
     program_at (build_module K) pa (op_list S) 0 (point_ops params) \<and>
     list_all2 (arg_runs K S r v) params ps \<and>
     sum_list (map2 (arg_turns K r) params ps) < MAX_OP_COUNT (build_module K) \<and>
     length (concat (args_frames K r params ps 0)) \<le> ARGS_ROOM"

text \<open>The arguments of such a point can also be read back.\<close>

definition arg_program ::
    "kenv \<Rightarrow> maps \<Rightarrow> point_args_t \<Rightarrow> ctx_regs_t \<Rightarrow> u64 \<Rightarrow> point_arg list \<Rightarrow> u64 list \<Rightarrow> bool" where
  "arg_program K S pa r v params ps \<longleftrightarrow>
     program_at (build_module K) pa (op_list S) 0 (point_ops params) \<and>
     list_all2 (arg_ok K S r v) params ps \<and>
     sum_list (map2 (arg_turns K r) params ps) < MAX_OP_COUNT (build_module K) \<and>
     length (concat (args_frames K r params ps 0)) \<le> ARGS_ROOM"

lemma arg_program_runs: "arg_program K S pa r v params ps \<Longrightarrow> runs_program K S pa r v params ps"
  by (simp add: arg_program_def runs_program_def args_ok_run)

lemma runs_program_cong:
  assumes "op_list S' = op_list S" and "arg_filter S' = arg_filter S"
  shows "runs_program K S' pa r v params ps = runs_program K S pa r v params ps"
proof -
  have "arg_runs K S' r v = arg_runs K S r v"
    using assms(2) by (intro ext) (simp add: arg_runs_def filters_accept_def)
  then show ?thesis using assms(1) by (simp add: runs_program_def)
qed

lemma arg_program_cong:
  assumes "op_list S' = op_list S" and "arg_filter S' = arg_filter S"
  shows "arg_program K S' pa r v params ps = arg_program K S pa r v params ps"
proof -
  have "arg_ok K S' r v = arg_ok K S r v"
    using assms(2) by (intro ext) (simp add: arg_ok_def arg_runs_def filters_accept_def)
  then show ?thesis using assms(1) by (simp add: arg_program_def)
qed

text \<open>No reader context holds a pending operation.\<close>

definition no_pending :: "maps \<Rightarrow> bool" where
  "no_pending S \<longleftrightarrow> (\<forall>c \<in> set (op_ctx_map S). post_code c = op_num OP_SKIP)"

text \<open>The reader of a probe runs the stored operations to their end.\<close>

lemma reader_runs:
  assumes perf: "performs K S r t ops (start_op_ctx v idx c) fs d" and keep: "keeps (start_op_ctx v idx c) d"
    and prog: "program_at (build_module K) pa (op_list S) 0 (ops @ [OPC_SKIP])" and turns: "t < MAX_OP_COUNT (build_module K)"
    and pa: "wf_point_args (build_module K) pa" and pend: "no_pending S"
    and c: "array_lookup_elem (op_ctx_map S) i = Some c" and room: "has_room e fs"
  obtains st where
    "run_reader K True pa r \<lparr>rs_maps = S, rs_event = e, rs_ctx = start_op_ctx v idx c\<rparr> = Some (st, False)"
    and "read_args K pa r \<lparr>rs_maps = S, rs_event = e, rs_ctx = start_op_ctx v idx c\<rparr> = Some st"
    and "appended e (rs_event st) fs" and "rs_maps st = S" and "save_index (rs_ctx st) = save_index d"
    and "post_code (rs_ctx st) = op_num OP_SKIP"
proof -
  let ?c = "start_op_ctx v idx c"
  let ?st0 = "\<lparr>rs_maps = S, rs_event = e, rs_ctx = ?c\<rparr>"
  have "c \<in> set (op_ctx_map S)"
    using c by (auto simp: array_lookup_elem_def nth_opt_def split: if_splits)
  then have "post_code c = op_num OP_SKIP" using pend by (simp add: no_pending_def)
  then have at: "at_cfg K pa ?st0 0"
    using pa by (simp add: at_cfg_def start_op_ctx_def memset_op_ctx_def)
  have c0: "match_blacklist ?c = 0" "apply_filter ?c = 0" "skip_flag ?c = 0"
    by (simp_all add: start_op_ctx_def memset_op_ctx_def)
  have progs: "program_at (build_module K) pa (op_list S) 0 ops"
    "program_at (build_module K) pa (op_list S) (length ops) [OPC_SKIP]"
    using prog by (simp_all add: program_at_append)
  have room0: "has_room (rs_event ?st0) fs" using room by simp
  obtain st' where u:
    "runs_to K pa r t 0 ?st0 (0 + length ops) st'" "reaches S ?st0 fs d st'"
    by (rule performsD [OF perf at progs(1) _ _ room0]) simp_all
  have st': "rs_maps st' = S" "view (rs_ctx st') = view d" "appended e (rs_event st') fs"
    using u(2) by (simp_all add: reaches_def)
  have flags: "match_blacklist (rs_ctx st') = 0" "apply_filter (rs_ctx st') = 0" "skip_flag (rs_ctx st') = 0"
    "save_index (rs_ctx st') = save_index d"
    using st'(2) keep c0 by (simp_all add: view_eq_iff keeps_def)
  let ?final = "map_ctx (\<lambda>c. skip_decision (c\<lparr>op_code := op_num OP_SKIP,
      post_code := cfg_post_code OPC_SKIP, op_key_index := op_key_index c + 1\<rparr>)) st'"
  have stop: "cfg_code OPC_SKIP = op_num OP_SKIP" by (simp add: OPC_SKIP_def)
  have stop_at: "program_at (build_module K) pa (op_list (rs_maps st')) (0 + length ops) [OPC_SKIP]"
    using progs(2) st'(1) by simp
  have run: "read_args K pa r ?st0 = Some ?final" by (rule runs_to_end [OF u(1) stop_at stop turns])
  have "run_reader K True pa r ?st0 = Some (?final, False)"
    using run flags by (simp add: run_reader_def map_ctx_def skip_decision_def)
  then show ?thesis
    by (rule that [OF _ run]) (use st' flags in \<open>simp_all add: map_ctx_def skip_decision_def OPC_SKIP_def\<close>)
qed

text \<open>On a point with typed arguments it saves them in order and skips nothing.\<close>

lemma reader_args:
  assumes K: "helper_laws K" and prog: "runs_program K S pa r v params ps"
    and pa: "wf_point_args (build_module K) pa" and r: "wf_ctx_regs r"
    and pend: "no_pending S" and c: "array_lookup_elem (op_ctx_map S) i = Some c"
    and off: "unat (buf_off e) \<le> 32"
  obtains st where
    "run_reader K True pa r \<lparr>rs_maps = S, rs_event = e, rs_ctx = start_op_ctx v idx c\<rparr> = Some (st, False)"
    and "appended e (rs_event st) (args_frames K r params ps idx)"
    and "rs_maps st = S" and "save_index (rs_ctx st) = idx + of_nat (length (args_frames K r params ps idx))"
    and "post_code (rs_ctx st) = op_num OP_SKIP"
proof -
  let ?c = "start_op_ctx v idx c" and ?fs = "args_frames K r params ps idx"
  have c0: "match_blacklist ?c \<noteq> 1" "loop_count ?c = 0" "reg_0 ?c = v" "save_index ?c = idx"
    by (simp_all add: start_op_ctx_def memset_op_ctx_def)
  have ok: "list_all2 (arg_runs K S r (reg_0 ?c)) params ps" using prog c0 by (simp add: runs_program_def)
  obtain d where d: "performs K S r (sum_list (map2 (arg_turns K r) params ps)) (concat (map GetOpList params)) ?c ?fs d"
    "keeps ?c d" "save_index d = idx + of_nat (length ?fs)"
    using performs_args [OF K r ok c0(1,2)] c0(4) by auto
  have room: "has_room e ?fs"
    using off prog length_concat_args_frames [of K r params ps idx 0]
    by (simp add: has_room_def runs_program_def ARGS_ROOM_def SAVE_ROOM_def)
  have stored: "program_at (build_module K) pa (op_list S) 0 (concat (map GetOpList params) @ [OPC_SKIP])"
    and turns: "sum_list (map2 (arg_turns K r) params ps) < MAX_OP_COUNT (build_module K)"
    using prog by (simp_all add: runs_program_def point_ops_def)
  from reader_runs [OF d(1,2) stored turns pa pend c room] that d(3) show ?thesis by metis
qed

subsection \<open>The reader in user space\<close>

definition read_call :: "u8 list \<Rightarrow> ((event_context_t \<times> u32 \<times> u64 list) \<times> u8 list) option" where
  "read_call bs =
     do { (c, bs) \<leftarrow> read_context bs;
          (key, bs) \<leftarrow> read_arg 4 bs;
          (site, bs) \<leftarrow> read_list (read_arg 8) 3 bs;
          Some ((c, snd key, map snd site), bs) }"

text \<open>
  For an exit record the return value is the first argument; a record without one is reported as
  such, which is the empty list here.
\<close>

definition read_uprobe ::
    "u32 \<Rightarrow> point_arg list \<Rightarrow> u8 list \<Rightarrow> ((event_context_t \<times> u32 \<times> u64 list \<times> arg_value list) \<times> u8 list) option" where
  "read_uprobe point_type params bs =
     do { ((c, key, site), bs) \<leftarrow> read_call bs;
          (xs, bs) \<leftarrow> parse_uprobe_args point_type params bs;
          Some ((c, key, site, xs), bs) }"

lemma concat_value_frames:
  "concat (value_frames i ws) = concat (map (\<lambda>(i, w). i # le_bytes 8 w) (zip (index_seq i (length ws)) ws))"
proof (induction ws arbitrary: i)
  case (Cons w ws)
  have "index_seq i (Suc (length ws)) = i # index_seq (i + 1) (length ws)"
    using index_seq_append [of i 1 "length ws"] by simp
  then show ?case using Cons by simp
qed simp

lemma read_value_frames:
  "read_list (read_arg 8) (length ws) (concat (value_frames i ws) @ rest) =
    Some (zip (index_seq i (length ws)) ws, rest)"
proof -
  have len: "length (zip (index_seq i (length ws)) ws) = length ws" by (simp add: index_seq_def)
  show ?thesis
    using reg_codec.read_list_enc [of "zip (index_seq i (length ws)) ws" rest] len
    by (simp only: concat_value_frames) (simp add: list_all_iff)
qed

lemma call_site_value_frames:
  "call_site_frames K f a = value_frames 1 [call_site_lr K f a, call_site_sp K f a, call_site_pc K a]"
  by (simp add: call_site_frames_def)

lemma read_call_record:
  assumes "wf_context c"
  shows "read_call (context_bytes c @ concat (((0 # le_bytes 4 key) # call_site_frames K f a) @ fs)) =
    Some ((c, key, [call_site_lr K f a, call_site_sp K f a, call_site_pc K a]), concat fs)"
proof -
  let ?site = "[call_site_lr K f a, call_site_sp K f a, call_site_pc K a]"
  have "read_arg 4 ((0 # le_bytes 4 key) @ rest) = Some ((0, key), rest)" for rest
    using key_codec.rd_enc [of "(0, key)" rest] by simp
  moreover have "read_list (read_arg 8) 3 (concat (call_site_frames K f a) @ rest) =
      Some (zip (index_seq 1 3) ?site, rest)" for rest
    using read_value_frames [of ?site 1 rest] by (simp add: call_site_value_frames numeral_3_eq_3)
  moreover have "map snd (zip (index_seq 1 3) ?site) = ?site" by (simp add: index_seq_def numeral_3_eq_3)
  ultimately show ?thesis
    using context_codec.rd_enc [OF assms] by (simp add: read_call_def)
qed

text \<open>The record of a point with typed arguments, read back.\<close>

lemma read_uprobe_args:
  assumes K: "helper_laws K" and c: "wf_context c" and prog: "arg_program K S pa r v params ps"
    and parsed: "parsed_as t params"
  shows "read_uprobe t params (context_bytes c
      @ concat (((0 # le_bytes 4 key) # call_site_frames K' f a) @ args_frames K r params ps i)) =
    Some ((c, key, [call_site_lr K' f a, call_site_sp K' f a, call_site_pc K' a], map2 (arg_value K r) params ps), [])"
proof -
  have ok: "list_all2 (arg_ok K S r v) params ps" using prog by (simp add: arg_program_def)
  have "parse_args t params (concat (args_frames K r params ps i)) = Some (map2 (arg_value K r) params ps, [])"
    using parse_args_frames [OF K ok parsed, of i "[]"] by simp
  from parse_uprobe_args_all [OF this] read_call_record [OF c] show ?thesis by (simp add: read_uprobe_def)
qed

subsection \<open>From the probe to the values\<close>

text \<open>A program that ends so leaves nothing pending.\<close>

lemma no_pending_close:
  assumes "no_pending (rs_maps st)" and "post_code (rs_ctx st) = op_num OP_SKIP"
  shows "no_pending (close_reader j (submit_event K i st))"
proof -
  have "op_ctx_map (rs_maps (submit_event K i st)) = op_ctx_map (rs_maps st)"
    by (subst submit_event_maps) simp
  then show ?thesis
    using assms set_update_subset_insert [of "op_ctx_map (rs_maps st)" "unat j" "rs_ctx st"]
    by (auto simp: no_pending_def close_reader_def put_op_ctx_def submit_event_other)
qed

lemma no_pending_signals [simp]: "no_pending (send_signals f pa S) = no_pending S"
  by (simp add: no_pending_def send_signals_def)

text \<open>The record such a run submits, when the perf buffer takes it.\<close>

lemma submit_frames:
  fixes i :: u32
  assumes wf: "wf_context (ev_context e0)" and e0: "buf_off e0 = 0" "argnum (ev_context e0) = 0"
    and ap: "appended e0 (rs_event st) fs" and out: "\<forall>bs. perf_output_ret K bs = 0"
  defines "c \<equiv> (ev_context e0)\<lparr>argnum := of_nat (length fs), eventid := i\<rparr>"
  shows "perf_events (rs_maps (submit_event K i st)) = perf_events (rs_maps st) @ [context_bytes c @ concat fs]"
    and "wf_context c"
proof -
  have c: "(ev_context (rs_event st))\<lparr>eventid := i\<rparr> = c"
    using appended_context [OF ap] e0(2) by (simp add: c_def)
  have wfc: "wf_context (ev_context (rs_event st))"
    using appended_context [OF ap] wf by (simp add: wf_context_def)
  have ok: "buf_ok (rs_event st)" using appended_buf_ok [OF ap] e0(1) by (simp add: buf_ok_def)
  have "buf_bytes (rs_event st) = concat fs"
    using appended_buf_bytes [OF ap] e0(1) by (simp add: buf_bytes_def [of e0] range_of_def)
  then show "perf_events (rs_maps (submit_event K i st)) = perf_events (rs_maps st) @ [context_bytes c @ concat fs]"
    using submit_event_record [OF wfc ok, of K i] out c by (simp add: Let_def)
  show "wf_context c" using wf by (simp add: c_def wf_context_def)
qed

lemma uprobe_args:
  assumes K: "helper_laws K" and S0: "wf_maps (build_module K) S0"
    and ini: "init_program_data K S0 ctx = (S, Some p)" and tr: "should_trace S p"
    and pa: "bpf_map_lookup_elem (uprobe_point_args S0) key = Some pa" and own: "enter_key pa \<in> {0, key + 1}"
    and pt: "arg_program K S0 pa (copy_pt_regs K ctx) (regs (copy_pt_regs K ctx) ! 0) params ps"
    and parsed: "parsed_as EBPF_UPROBE_ENTER params"
    and f: "bpf_map_lookup_elem (common_filter S0) 0 = Some f"
    and post: "no_pending S0" and out: "\<forall>bs. perf_output_ret K bs = 0"
  shows "\<exists>S' bs c. probe_stack_warp K S0 ctx key = Some S' \<and> perf_events S' = perf_events S0 @ [bs] \<and>
    read_uprobe EBPF_UPROBE_ENTER params bs =
      Some ((c, key, [call_site_lr K f ctx, call_site_sp K f ctx, call_site_pc K ctx],
             map2 (arg_value K (copy_pt_regs K ctx)) params ps), []) \<and>
    eventid c = UPROBE_ENTER \<and> tid c = tid (ev_context (pd_event p)) \<and> pid c = pid (ev_context (pd_event p)) \<and>
    argnum c = of_nat (4 + length (args_frames K (copy_pt_regs K ctx) params ps 4)) \<and> no_pending S'"
proof -
  let ?m = "build_module K" and ?r = "copy_pt_regs K ctx"
  let ?fs = "args_frames K ?r params ps 4"
  have other: "uprobe_point_args S = uprobe_point_args S0" "common_filter S = common_filter S0"
    "op_ctx_map S = op_ctx_map S0" "op_list S = op_list S0" "perf_events S = perf_events S0"
    "arg_filter S = arg_filter S0"
    using init_program_data_other [of K S0 ctx] silent_init [of S0 K ctx] ini by (simp_all add: silent_def)
  have S: "wf_maps ?m S" using init_program_data_wf(1) [OF K S0, of ctx] ini by simp
  define S1 where "S1 = (if enter_key pa = 0 then S else fst (save_regs K S ?r (UPROBE_ENTER + key + 1)))"
  have regs: "probe_stack_regs K S pa key ?r = Some (S1, ?r)"
    using own by (auto simp: probe_stack_regs_def S1_def)
  have frame: "S1 = S\<lparr>ctx_regs_map := ctx_regs_map S1\<rparr>"
    using save_regs_frame [of K S ?r "UPROBE_ENTER + key + 1"] by (simp add: S1_def)
  have same: "op_ctx_map S1 = op_ctx_map S" "op_list S1 = op_list S" "perf_events S1 = perf_events S"
    "arg_filter S1 = arg_filter S"
    by (subst frame, simp)+
  have S1: "wf_maps ?m S1" using S wf_maps_save_regs [OF S wf_copy_pt_regs] by (simp add: S1_def)
  let ?e = "save_call_site K f ctx (save_value_u32 K key 0 (pd_event p))"
  let ?hdr = "(0 # le_bytes 4 key) # call_site_frames K f ctx"
  note e0 = init_program_data_Some [OF ini]
  have wf0: "wf_context (ev_context (pd_event p))" by (rule init_program_data_wf(2) [OF K S0 ini])
  have hdr: "appended (pd_event p) ?e ?hdr" by (rule header_commits [OF e0(1)])
  have off: "unat (buf_off ?e) \<le> 32"
    using appended_buf_off [OF hdr] e0(1) by (simp add: call_site_frames_def)
  obtain c0 where c0: "array_lookup_elem (op_ctx_map S1) 0 = Some c0" using wf_maps_op_ctx [OF S1] by blast
  have prog: "arg_program K S1 pa ?r (regs ?r ! 0) params ps"
    using pt other(4,6) same(2,4) arg_program_cong [of S1 S0] by simp
  have pend: "no_pending S1" using post other(3) same(1) by (simp add: no_pending_def)
  obtain st where run: "run_reader K True pa ?r
        \<lparr>rs_maps = S1, rs_event = ?e, rs_ctx = start_op_ctx (regs ?r ! 0) 4 c0\<rparr> = Some (st, False)"
    and ap: "appended ?e (rs_event st) ?fs" and maps: "rs_maps st = S1" and pc: "post_code (rs_ctx st) = op_num OP_SKIP"
    using reader_args [OF K arg_program_runs [OF prog] wf_maps_point_args(1) [OF S0 pa] wf_copy_pt_regs pend c0 off] by blast
  let ?S' = "send_signals f pa (close_reader 0 (submit_event K UPROBE_ENTER st))"
  have res: "probe_stack_warp K S0 ctx key = Some ?S'"
    using run c0 tr pa f other by (simp add: probe_stack_warp_def ini regs Let_def)
  note rec = submit_frames [OF wf0 e0(1,2) appended_trans [OF hdr ap] out, of UPROBE_ENTER]
  have "perf_events ?S' = perf_events (rs_maps (submit_event K UPROBE_ENTER st))"
    by (simp add: send_signals_simps close_reader_outputs)
  moreover have "no_pending ?S'" using no_pending_close [of st] pend maps pc by simp
  ultimately show ?thesis
    using res rec(1) maps same(3) other(5) read_uprobe_args [OF K rec(2) prog parsed, of key K f ctx 4]
    by (simp add: call_site_frames_def)
qed

subsection \<open>The return of the function\<close>

text \<open>A uretprobe that names an entry point reads the registers kept there, and uses them up.\<close>

lemma uretprobe_args:
  assumes K: "helper_laws K" and S0: "wf_maps (build_module K) S0"
    and ini: "init_program_data K S0 ctx = (S, Some p)" and tr: "should_trace S p"
    and pa: "bpf_map_lookup_elem (uretprobe_point_args S0) key = Some pa" "enter_key pa \<noteq> 0" "0 < op_count pa"
    and prog: "arg_program K S0 pa r (READ_KERN K 8 (ctx + core_off K Regs_regs)) params ps"
    and parsed: "parsed_as EBPF_UPROBE_EXIT params"
    and snap: "snapshot S0 (UPROBE_ENTER + enter_key pa) (cur_tid K) = Some r"
    and f: "bpf_map_lookup_elem (common_filter S0) 0 = Some f"
    and post: "no_pending S0" and out: "\<forall>bs. perf_output_ret K bs = 0"
  shows "\<exists>S' bs c. uretprobe_stack_warp K S0 ctx key = Some S' \<and> perf_events S' = perf_events S0 @ [bs] \<and>
    read_uprobe EBPF_UPROBE_EXIT params bs =
      Some ((c, key, [call_site_lr K f ctx, call_site_sp K f ctx, call_site_pc K ctx],
             map2 (arg_value K r) params ps), []) \<and>
    eventid c = UPROBE_EXIT \<and> snapshot S' (UPROBE_ENTER + enter_key pa) (cur_tid K) = None"
proof -
  let ?m = "build_module K" and ?fs = "args_frames K r params ps 4"
  have other: "uretprobe_point_args S = uretprobe_point_args S0" "common_filter S = common_filter S0"
    "op_ctx_map S = op_ctx_map S0" "op_list S = op_list S0" "perf_events S = perf_events S0"
    "ctx_regs_map S = ctx_regs_map S0" "arg_filter S = arg_filter S0"
    using init_program_data_other [of K S0 ctx] silent_init [of S0 K ctx] ini by (simp_all add: silent_def)
  have S: "wf_maps ?m S" using init_program_data_wf(1) [OF K S0, of ctx] ini by simp
  have r: "wf_ctx_regs r" by (rule wf_maps_snapshot [OF S0 snap])
  have snapS: "snapshot S (UPROBE_ENTER + enter_key pa) (cur_tid K) = Some r"
    using snap other(6) by (simp add: snapshot_def)
  define S1 where "S1 = fst (del_regs K S (UPROBE_ENTER + enter_key pa))"
  have regs: "uretprobe_stack_regs K S pa ctx = Some (S1, r)"
    using load_regs_Some [OF snapS r, of zero_ctx_regs] pa(2) by (simp add: uretprobe_stack_regs_def S1_def)
  have gone: "snapshot S1 (UPROBE_ENTER + enter_key pa) (cur_tid K) = None" by (simp add: S1_def snapshot_del)
  have frame: "S1 = S\<lparr>ctx_regs_map := ctx_regs_map S1\<rparr>" unfolding S1_def by (rule del_regs_frame)
  have same: "op_ctx_map S1 = op_ctx_map S" "op_list S1 = op_list S" "perf_events S1 = perf_events S"
    "arg_filter S1 = arg_filter S"
    by (subst frame, simp)+
  have S1: "wf_maps ?m S1" by (rule uretprobe_stack_regs_wf(1) [OF S regs])
  let ?e = "save_call_site K f ctx (save_value_u32 K key 0 (pd_event p))"
  let ?hdr = "(0 # le_bytes 4 key) # call_site_frames K f ctx"
  let ?v = "READ_KERN K 8 (ctx + core_off K Regs_regs)"
  note e0 = init_program_data_Some [OF ini]
  have wf0: "wf_context (ev_context (pd_event p))" by (rule init_program_data_wf(2) [OF K S0 ini])
  have hdr: "appended (pd_event p) ?e ?hdr" by (rule header_commits [OF e0(1)])
  have off: "unat (buf_off ?e) \<le> 32"
    using appended_buf_off [OF hdr] e0(1) by (simp add: call_site_frames_def)
  obtain c0 where c0: "array_lookup_elem (op_ctx_map S1) 0 = Some c0" using wf_maps_op_ctx [OF S1] by blast
  have prog1: "arg_program K S1 pa r ?v params ps"
    using prog other(4,7) same(2,4) arg_program_cong [of S1 S0] by simp
  have pend: "no_pending S1" using post other(3) same(1) by (simp add: no_pending_def)
  obtain st where run: "run_reader K True pa r
        \<lparr>rs_maps = S1, rs_event = ?e, rs_ctx = start_op_ctx ?v 4 c0\<rparr> = Some (st, False)"
    and ap: "appended ?e (rs_event st) ?fs" and maps: "rs_maps st = S1"
    using reader_args [OF K arg_program_runs [OF prog1] wf_maps_point_args(2) [OF S0 pa(1)] r pend c0 off] by blast
  let ?S' = "send_signals f pa (close_reader 0 (submit_event K UPROBE_EXIT st))"
  have res: "uretprobe_stack_warp K S0 ctx key = Some ?S'"
    using run c0 tr pa f other by (simp add: uretprobe_stack_warp_def ini regs Let_def)
  note rec = submit_frames [OF wf0 e0(1,2) appended_trans [OF hdr ap] out, of UPROBE_EXIT]
  have "perf_events ?S' = perf_events (rs_maps (submit_event K UPROBE_EXIT st))"
    by (simp add: send_signals_simps close_reader_outputs)
  moreover have "snapshot ?S' (UPROBE_ENTER + enter_key pa) (cur_tid K) = None"
    using gone maps by (simp add: snapshot_def send_signals_simps close_reader_outputs submit_event_ctx_regs)
  ultimately show ?thesis
    using res rec(1) maps same(3) other(5) read_uprobe_args [OF K rec(2) prog1 parsed, of key K f ctx 4]
    by (simp add: call_site_frames_def)
qed

end
