(* ===== verification/Syscall_Trace.thy ===== *)
theory Syscall_Trace
  imports Probe
begin

unbundle bit_operations_syntax

text \<open>
  The \<open>sys_enter\<close> and \<open>sys_exit\<close> programs of \<open>src/src/syscall.c\<close>. The pair forms a protocol per
  thread: the entry leaves a register snapshot (marked when its event was filtered out), the exit
  uses it up.
\<close>

subsection \<open>Guards shared by entry and exit\<close>

text \<open>A 32-bit task is traced by the 32-bit build only, and a 64-bit task by the 64-bit one.\<close>

definition wrong_bitness :: "kenv \<Rightarrow> bool" where
  "wrong_bitness K =
     (let is32 = (task_thread_info_flags K AND TIF_32BIT \<noteq> 0)
      in case build_arch K of TARGET_ARCH_arm \<Rightarrow> \<not> is32 | TARGET_ARCH_arm64 \<Rightarrow> is32)"

text \<open>\<open>ctx->args[0]\<close> is the \<open>pt_regs\<close>; \<open>(u32)regs->syscallno\<close> with \<open>s32 syscallno\<close>.\<close>

definition raw_pt_regs :: "kenv \<Rightarrow> u64 \<Rightarrow> u64" where
  "raw_pt_regs K ctx = raw_arg K ctx 0"

definition syscall_number :: "kenv \<Rightarrow> u64 \<Rightarrow> u32" where
  "syscall_number K a =
     (let syscallno = scast (READ_KERN K 4 (a + core_off K Regs_syscallno) :: 32 word) :: u64
      in ucast syscallno)"

text \<open>The syscall lists: the whitelist in common mode, the blacklist in every mode.\<close>

definition syscall_listed :: "maps \<Rightarrow> common_filter_t \<Rightarrow> u32 \<Rightarrow> bool" where
  "syscall_listed S f sysno =
     (if trace_mode f = TRACE_COMMON \<and> \<not> in_common_list S (sysno + SYS_WHITELIST_START) then False
      else if in_common_list S (sysno + SYS_BLACKLIST_START) then False
      else True)"

subsection \<open>Entry\<close>

definition raw_syscalls_sys_enter :: "kenv \<Rightarrow> maps \<Rightarrow> u64 \<Rightarrow> maps option" where
  "raw_syscalls_sys_enter K S0 ctx =
     (if get_current_task K = 0 then Some S0
      else if wrong_bitness K then Some S0
      else case init_program_data K S0 ctx of
        (S, None) \<Rightarrow> Some S
      | (S, Some p) \<Rightarrow>
          if \<not> should_trace S p then Some S
          else
            let a = raw_pt_regs K ctx; sysno = syscall_number K a
            in case bpf_map_lookup_elem (sysenter_point_args S) sysno of
              None \<Rightarrow> Some S
            | Some pa \<Rightarrow>
              (case bpf_map_lookup_elem (common_filter S) 0 of
                 None \<Rightarrow> Some S
               | Some f \<Rightarrow>
                 if \<not> syscall_listed S f sysno then Some S
                 else
                   let saved = copy_pt_regs K a;
                       S1 = fst (save_regs K S saved SYSCALL_ENTER);
                       e = save_call_site K f a (save_value_u32 K sysno 0 (pd_event p))
                   in case array_lookup_elem (op_ctx_map S1) 0 of
                        None \<Rightarrow> Some (put_event S1 e)
                      | Some c \<Rightarrow>
                        (case run_reader K True pa saved
                                \<lparr>rs_maps = S1, rs_event = e, rs_ctx = start_op_ctx (regs saved ! 0) 4 c\<rparr> of
                           None \<Rightarrow> None
                         | Some (st, True) \<Rightarrow>
                             Some (fst (save_regs K (close_reader 0 st) (saved\<lparr>flag := 1\<rparr>) SYSCALL_ENTER))
                         | Some (st, False) \<Rightarrow>
                             Some (send_signals f pa (close_reader 0 (submit_event K SYSCALL_ENTER st))))))"

subsection \<open>Exit\<close>

text \<open>The return value is the last argument saved, under the reader's next index.\<close>

definition save_return :: "kenv \<Rightarrow> u64 \<Rightarrow> rstate \<Rightarrow> rstate" where
  "save_return K a st =
     st\<lparr>rs_event := save_value_u64 K (READ_KERN K 8 (a + core_off K Regs_regs))
                      (save_index (rs_ctx st)) (rs_event st)\<rparr>"

definition raw_syscalls_sys_exit :: "kenv \<Rightarrow> maps \<Rightarrow> u64 \<Rightarrow> maps option" where
  "raw_syscalls_sys_exit K S0 ctx =
     (if get_current_task K = 0 then Some S0
      else if wrong_bitness K then Some S0
      else case init_program_data K S0 ctx of
        (S, None) \<Rightarrow> Some S
      | (S, Some p) \<Rightarrow>
          if \<not> should_trace S p then Some S
          else
            let a = raw_pt_regs K ctx; sysno = syscall_number K a
            in case bpf_map_lookup_elem (sysexit_point_args S) sysno of
              None \<Rightarrow> Some S
            | Some pa \<Rightarrow>
              (case bpf_map_lookup_elem (common_filter S) 0 of
                 None \<Rightarrow> Some S
               | Some f \<Rightarrow>
                 let (saved, status) = load_regs K S zero_ctx_regs SYSCALL_ENTER in
                 if status \<noteq> 0 then Some S
                 else
                   let S1 = fst (del_regs K S SYSCALL_ENTER) in
                   if flag saved = 1 then Some S1
                   else if \<not> syscall_listed S1 f sysno then Some S1
                   else
                     let e = save_value_u32 K sysno 0 (pd_event p)
                     in case array_lookup_elem (op_ctx_map S1) 1 of
                          None \<Rightarrow> Some (put_event S1 e)
                        | Some c \<Rightarrow>
                          (case run_reader K True pa saved
                                  \<lparr>rs_maps = S1, rs_event = e, rs_ctx = start_op_ctx (regs saved ! 0) 1 c\<rparr> of
                             None \<Rightarrow> None
                           | Some (st, True) \<Rightarrow> Some (close_reader 1 st)
                           | Some (st, False) \<Rightarrow>
                               Some (close_reader 1 (submit_event K SYSCALL_EXIT (save_return K a st))))))"

end
