(* ===== verification/Syscall_Facts.thy ===== *)
theory Syscall_Facts
  imports Syscall_Trace Stack_Facts
begin

unbundle bit_operations_syntax

text \<open>
  The syscall programs: what one run of the entry or the exit program can do, and the protocol the
  two follow per thread. A snapshot is live when its entry was not filtered out; every exit record
  uses up a live snapshot, and only an entry record makes one.
\<close>

subsection \<open>Live snapshots\<close>

definition live :: "maps \<Rightarrow> u32 \<Rightarrow> bool" where
  "live S t \<longleftrightarrow> (case snapshot S SYSCALL_ENTER t of None \<Rightarrow> False | Some r \<Rightarrow> flag r \<noteq> 1)"

lemma live_same: "ctx_regs_map S' = ctx_regs_map S \<Longrightarrow> live S' t = live S t"
  by (simp add: live_def snapshot_def)

lemma live_save_other:
  "t \<noteq> cur_tid K \<Longrightarrow> live (fst (save_regs K S r SYSCALL_ENTER)) t = live S t"
  by (simp add: live_def snapshot_save_other)

lemma live_save_skipped:
  assumes "flag r = 1"
  shows "\<not> live (fst (save_regs K (fst (save_regs K S r0 SYSCALL_ENTER)) r SYSCALL_ENTER)) (cur_tid K)"
proof (cases "snapshot_room (fst (save_regs K S r0 SYSCALL_ENTER)) \<or>
    snapshot (fst (save_regs K S r0 SYSCALL_ENTER)) SYSCALL_ENTER (cur_tid K) \<noteq> None")
  case True
  then show ?thesis using assms by (simp add: live_def snapshot_save_same)
next
  case False
  then have "ctx_regs_map (fst (save_regs K (fst (save_regs K S r0 SYSCALL_ENTER)) r SYSCALL_ENTER)) =
      ctx_regs_map (fst (save_regs K S r0 SYSCALL_ENTER))"
    by (intro snapshot_save_full) auto
  then have "snapshot (fst (save_regs K (fst (save_regs K S r0 SYSCALL_ENTER)) r SYSCALL_ENTER)) SYSCALL_ENTER
      (cur_tid K) = None" using False by (simp add: snapshot_def)
  then show ?thesis by (simp add: live_def)
qed

lemma live_del:
  "live (fst (del_regs K S SYSCALL_ENTER)) t = (t \<noteq> cur_tid K \<and> live S t)"
  by (simp add: live_def snapshot_del)

lemma save_regs_cong:
  "ctx_regs_map S' = ctx_regs_map S \<Longrightarrow>
    ctx_regs_map (fst (save_regs K S' r e)) = ctx_regs_map (fst (save_regs K S r e))"
  by (simp add: save_regs_def case_prod_unfold Let_def)

text \<open>Every snapshot but that of the thread's own system call is untouched.\<close>

definition others_kept :: "kenv \<Rightarrow> maps \<Rightarrow> maps \<Rightarrow> bool" where
  "others_kept K S S' \<longleftrightarrow>
     (\<forall>e t. (e, t) \<noteq> (SYSCALL_ENTER, cur_tid K) \<longrightarrow> snapshot S' e t = snapshot S e t)"

lemma others_kept_refl [simp]: "others_kept K S S"
  by (simp add: others_kept_def)

lemma others_kept_same: "ctx_regs_map S' = ctx_regs_map S \<Longrightarrow> others_kept K S0 S' = others_kept K S0 S"
  by (simp add: others_kept_def snapshot_def)

lemma others_kept_save: "others_kept K S0 S \<Longrightarrow> others_kept K S0 (fst (save_regs K S r SYSCALL_ENTER))"
  by (simp add: others_kept_def snapshot_save_other)

lemma others_kept_del: "others_kept K S0 S \<Longrightarrow> others_kept K S0 (fst (del_regs K S SYSCALL_ENTER))"
  by (auto simp: others_kept_def snapshot_del)

lemma others_kept_live: "others_kept K S S' \<Longrightarrow> t \<noteq> cur_tid K \<Longrightarrow> live S' t = live S t"
  by (simp add: others_kept_def live_def)

text \<open>What the entry and the exit check before they look at a point.\<close>

definition sys_traced :: "kenv \<Rightarrow> maps \<Rightarrow> u64 \<Rightarrow> maps \<Rightarrow> program_data_t \<Rightarrow> common_filter_t \<Rightarrow> bool" where
  "sys_traced K S0 ctx S p f \<longleftrightarrow>
     get_current_task K \<noteq> 0 \<and> \<not> wrong_bitness K \<and> init_program_data K S0 ctx = (S, Some p) \<and> should_trace S p \<and>
     bpf_map_lookup_elem (common_filter S0) 0 = Some f \<and>
     syscall_listed S0 f (syscall_number K (raw_pt_regs K ctx))"

lemma syscall_listed_cong: "common_list S' = common_list S \<Longrightarrow> syscall_listed S' f n = syscall_listed S f n"
  by (simp add: syscall_listed_def in_common_list_def)

subsection \<open>One run of the entry program\<close>

definition enter_frames :: "kenv \<Rightarrow> common_filter_t \<Rightarrow> u64 \<Rightarrow> u8 list list" where
  "enter_frames K f ctx =
     (0 # le_bytes 4 (syscall_number K (raw_pt_regs K ctx))) # call_site_frames K f (raw_pt_regs K ctx)"

text \<open>An event that the entry program takes up, after all its checks.\<close>

definition enter_ready :: "kenv \<Rightarrow> maps \<Rightarrow> u64 \<Rightarrow> bool" where
  "enter_ready K S ctx \<longleftrightarrow> (\<exists>S1 p f. sys_traced K S ctx S1 p f) \<and>
     bpf_map_lookup_elem (sysenter_point_args S) (syscall_number K (raw_pt_regs K ctx)) \<noteq> None"

text \<open>
  Any other event leaves every snapshot as it is. Of one that is taken up, either the arguments were
  filtered out, and whatever the thread had, no live snapshot is left; or one record is submitted
  and the registers are kept, if the map has room for them.
\<close>

definition enter_outcome :: "kenv \<Rightarrow> maps \<Rightarrow> u64 \<Rightarrow> maps \<Rightarrow> bool" where
  "enter_outcome K S ctx S' \<longleftrightarrow> others_kept K S S' \<and>
     (if \<not> enter_ready K S ctx then silent S S' \<and> ctx_regs_map S' = ctx_regs_map S
      else silent S S' \<and> \<not> live S' (cur_tid K) \<or>
        (\<exists>f. bpf_map_lookup_elem (common_filter S) 0 = Some f \<and>
          traced_record K S ctx SYSCALL_ENTER (enter_frames K f ctx) 4 S') \<and>
        (snapshot_room S \<or> snapshot S SYSCALL_ENTER (cur_tid K) \<noteq> None \<longrightarrow>
          snapshot S' SYSCALL_ENTER (cur_tid K) = Some (copy_pt_regs K (raw_pt_regs K ctx))))"

lemma enter_outcome_live:
  assumes "enter_outcome K S ctx S'"
  shows "silent S S' \<and> (\<forall>t. live S' t \<longrightarrow> live S t) \<or>
     (\<exists>f. traced_record K S ctx SYSCALL_ENTER (enter_frames K f ctx) 4 S') \<and> (\<forall>t. t \<noteq> cur_tid K \<longrightarrow> live S' t = live S t)"
proof (cases "enter_ready K S ctx")
  case True
  have other: "t \<noteq> cur_tid K \<Longrightarrow> live S' t = live S t" for t
    using assms others_kept_live [of K S S'] by (simp add: enter_outcome_def)
  moreover have "live S' t \<longrightarrow> live S t" if "\<not> live S' (cur_tid K)" for t
    using other that by (cases "t = cur_tid K") auto
  ultimately show ?thesis using assms True by (auto simp: enter_outcome_def)
next
  case False
  then show ?thesis using assms live_same [of S' S] by (auto simp: enter_outcome_def)
qed

lemma sys_enter_outcome:
  assumes K: "helper_laws K" and S0: "wf_maps (build_module K) S0"
  shows "\<exists>S'. raw_syscalls_sys_enter K S0 ctx = Some S' \<and> wf_maps (build_module K) S' \<and> enter_outcome K S0 ctx S'"
proof -
  let ?m = "build_module K" and ?t = "cur_tid K"
  obtain S q where ini: "init_program_data K S0 ctx = (S, q)" by fastforce
  have S: "wf_maps ?m S" using init_program_data_wf(1) [OF K S0, of ctx] ini by simp
  have quiet: "silent S0 S" using silent_init [of S0 K ctx] ini by simp
  have same: "common_filter S = common_filter S0" "ctx_regs_map S = ctx_regs_map S0"
    "sysenter_point_args S = sysenter_point_args S0" "common_list S = common_list S0"
    using init_program_data_other [of K S0 ctx] ini by simp_all
  have kept: "others_kept K S0 S" using others_kept_same [OF same(2)] by simp
  let ?a = "raw_pt_regs K ctx" and ?sysno = "syscall_number K (raw_pt_regs K ctx)"
  show ?thesis
  proof (cases "get_current_task K \<noteq> 0 \<and> \<not> wrong_bitness K \<and> (\<exists>p pa f. q = Some p \<and> should_trace S p \<and>
      bpf_map_lookup_elem (sysenter_point_args S) ?sysno = Some pa \<and>
      bpf_map_lookup_elem (common_filter S) 0 = Some f \<and> syscall_listed S f ?sysno)")
    case False
    then have "raw_syscalls_sys_enter K S0 ctx \<in> {Some S0, Some S}"
      by (auto simp: raw_syscalls_sys_enter_def ini Let_def split: option.split)
    moreover have "\<not> enter_ready K S0 ctx"
      using False ini same syscall_listed_cong [OF same(4)] by (auto simp: enter_ready_def sys_traced_def)
    ultimately show ?thesis using S S0 quiet same(2) kept by (auto simp: enter_outcome_def)
  next
    case True
    then obtain p pa f where q: "q = Some p" and guards: "get_current_task K \<noteq> 0" "\<not> wrong_bitness K"
      "should_trace S p" "syscall_listed S f ?sysno"
      and pa: "bpf_map_lookup_elem (sysenter_point_args S) ?sysno = Some pa"
      and f: "bpf_map_lookup_elem (common_filter S) 0 = Some f" by blast
    let ?saved = "copy_pt_regs K ?a"
    define S1 where "S1 = fst (save_regs K S ?saved SYSCALL_ENTER)"
    have S1: "wf_maps ?m S1" unfolding S1_def by (rule wf_maps_save_regs [OF S wf_copy_pt_regs])
    have quiet1: "silent S0 S1"
      using quiet unfolding S1_def by (subst save_regs_frame) (simp add: silent_def)
    have kept1: "others_kept K S0 S1" unfolding S1_def by (rule others_kept_save [OF kept])
    have ready: "enter_ready K S0 ctx"
      using True ini q guards pa f same syscall_listed_cong [OF same(4)] by (auto simp: enter_ready_def sys_traced_def)
    have snap: "snapshot S1 SYSCALL_ENTER ?t = Some ?saved" if "snapshot_room S0 \<or> snapshot S0 SYSCALL_ENTER ?t \<noteq> None"
      unfolding S1_def using that same(2) by (intro snapshot_save_same) (simp add: snapshot_room_def snapshot_def)
    let ?e = "save_call_site K f ?a (save_value_u32 K ?sysno 0 (pd_event p))"
    have pa_wf: "wf_point_args ?m pa" by (rule wf_maps_point_args(3) [OF S pa])
    have ini': "init_program_data K S0 ctx = (S, Some p)" using ini q by simp
    note e0 = init_program_data_Some [OF ini']
    have wf0: "wf_context (ev_context (pd_event p))" by (rule init_program_data_wf(2) [OF K S0 ini'])
    have hdr: "appended (pd_event p) ?e (enter_frames K f ctx)"
      unfolding enter_frames_def by (rule header_commits [OF e0(1)])
    obtain c where c: "array_lookup_elem (op_ctx_map S1) 0 = Some c" using wf_maps_op_ctx [OF S1] by blast
    obtain st skip where run: "run_reader K True pa ?saved
          \<lparr>rs_maps = S1, rs_event = ?e, rs_ctx = start_op_ctx (regs ?saved ! 0) 4 c\<rparr> = Some (st, skip)"
      and wfc: "wf_maps ?m (close_reader 0 st)" and sil: "silent S1 (close_reader 0 st)"
      and cr: "ctx_regs_map (close_reader 0 st) = ctx_regs_map S1"
      and sub: "\<And>g. wf_maps ?m (send_signals g pa (close_reader 0 (submit_event K SYSCALL_ENTER st)))"
        "\<And>g. submitted K (ev_context (pd_event p)) SYSCALL_ENTER (enter_frames K f ctx) 4 S1
           (send_signals g pa (close_reader 0 (submit_event K SYSCALL_ENTER st)))"
        "\<And>g. ctx_regs_map (send_signals g pa (close_reader 0 (submit_event K SYSCALL_ENTER st))) = ctx_regs_map S1"
      using reader_tail [OF K wf_copy_pt_regs pa_wf S1 wf0 e0(1,2) hdr] by metis
    have res: "raw_syscalls_sys_enter K S0 ctx = Some (if skip
        then fst (save_regs K (close_reader 0 st) (?saved\<lparr>flag := 1\<rparr>) SYSCALL_ENTER)
        else send_signals f pa (close_reader 0 (submit_event K SYSCALL_ENTER st)))"
      using run c
      by (simp add: raw_syscalls_sys_enter_def ini q guards pa f Let_def flip: S1_def split: bool.split)
    show ?thesis
    proof (cases skip)
      case True
      let ?S' = "fst (save_regs K (close_reader 0 st) (?saved\<lparr>flag := 1\<rparr>) SYSCALL_ENTER)"
      have cong: "ctx_regs_map ?S' = ctx_regs_map (fst (save_regs K S1 (?saved\<lparr>flag := 1\<rparr>) SYSCALL_ENTER))"
        by (rule save_regs_cong [OF cr])
      have "\<not> live ?S' ?t"
        using live_same [OF cong] live_save_skipped [of "?saved\<lparr>flag := 1\<rparr>" K S ?saved]
        by (simp add: S1_def)
      moreover have "others_kept K S0 ?S'"
        using others_kept_same [OF cong] others_kept_save [OF kept1] by simp
      moreover have "silent S0 ?S'"
        using silent_trans [OF quiet1 sil] by (subst save_regs_frame) (simp add: silent_def)
      moreover have "wf_maps ?m ?S'"
        using wfc by (rule wf_maps_save_regs) (simp add: wf_ctx_regs_def copy_pt_regs_def)
      ultimately show ?thesis using res True ready by (auto simp: enter_outcome_def)
    next
      case False
      let ?S' = "send_signals f pa (close_reader 0 (submit_event K SYSCALL_ENTER st))"
      have "traced_record K S0 ctx SYSCALL_ENTER (enter_frames K f ctx) 4 ?S'"
        using silent_submitted [OF quiet1 sub(2)] ini' guards(3) by (auto simp: traced_record_def)
      moreover have "snapshot ?S' e t = snapshot S1 e t" for e t using sub(3) [of f] by (simp add: snapshot_def)
      moreover have "others_kept K S0 ?S'" using others_kept_same [OF sub(3)] kept1 by simp
      ultimately show ?thesis
        using res False sub(1) ready snap f same(1) by (auto simp: enter_outcome_def)
    qed
  qed
qed

subsection \<open>One run of the exit program\<close>

text \<open>An event whose thread is looked up among the snapshots.\<close>

definition exit_ready :: "kenv \<Rightarrow> maps \<Rightarrow> u64 \<Rightarrow> bool" where
  "exit_ready K S ctx \<longleftrightarrow>
     get_current_task K \<noteq> 0 \<and> \<not> wrong_bitness K \<and> (\<exists>S1 p. init_program_data K S ctx = (S1, Some p) \<and> should_trace S1 p) \<and>
     bpf_map_lookup_elem (sysexit_point_args S) (syscall_number K (raw_pt_regs K ctx)) \<noteq> None \<and>
     bpf_map_lookup_elem (common_filter S) 0 \<noteq> None"

text \<open>Any other event changes no snapshot; this one uses up the thread's, and reports it only if it is live.\<close>

definition exit_outcome :: "kenv \<Rightarrow> maps \<Rightarrow> u64 \<Rightarrow> maps \<Rightarrow> bool" where
  "exit_outcome K S ctx S' \<longleftrightarrow> others_kept K S S' \<and>
     (if \<not> exit_ready K S ctx then silent S S' \<and> ctx_regs_map S' = ctx_regs_map S
      else snapshot S' SYSCALL_ENTER (cur_tid K) = None \<and>
        (silent S S' \<or> live S (cur_tid K) \<and>
          traced_record K S ctx SYSCALL_EXIT [0 # le_bytes 4 (syscall_number K (raw_pt_regs K ctx))] 1 S'))"

lemma exit_outcome_live:
  assumes "exit_outcome K S ctx S'"
  shows "(silent S S' \<and> (\<forall>t. live S' t \<longrightarrow> live S t) \<or>
      live S (cur_tid K) \<and> \<not> live S' (cur_tid K) \<and>
      traced_record K S ctx SYSCALL_EXIT [0 # le_bytes 4 (syscall_number K (raw_pt_regs K ctx))] 1 S') \<and>
     (\<forall>t. t \<noteq> cur_tid K \<longrightarrow> live S' t = live S t)"
proof -
  have other: "t \<noteq> cur_tid K \<Longrightarrow> live S' t = live S t" for t
    using assms others_kept_live [of K S S'] by (simp add: exit_outcome_def)
  show ?thesis
  proof (cases "exit_ready K S ctx")
    case True
    then have own: "\<not> live S' (cur_tid K)" using assms by (simp add: exit_outcome_def live_def)
    moreover have "live S' t \<longrightarrow> live S t" for t using other own by (cases "t = cur_tid K") auto
    ultimately show ?thesis using assms True other by (auto simp: exit_outcome_def)
  next
    case False
    then show ?thesis using assms live_same [of S' S] other by (auto simp: exit_outcome_def)
  qed
qed

lemma save_return_appends:
  "\<exists>fs. appended (rs_event st) (rs_event (save_return K a st)) fs \<and>
    frames_from (save_index (rs_ctx st)) fs (save_index (rs_ctx st) + 1)"
proof -
  let ?i = "save_index (rs_ctx st)" and ?v = "READ_KERN K 8 (a + core_off K Regs_regs) :: u64"
  show ?thesis
  proof (cases "unat (buf_off (rs_event st)) \<le> 31889")
    case True
    then have "appended (rs_event st) (rs_event (save_return K a st)) [?i # le_bytes 8 ?v]"
      by (simp add: save_return_def save_value_u64_commits)
    moreover have "frames_from ?i [?i # le_bytes 8 ?v] (?i + 1)" by (rule frames_from_one) simp_all
    ultimately show ?thesis by blast
  next
    case False
    then have "appended (rs_event st) (rs_event (save_return K a st)) []"
      using save_obj_result [of "le_bytes 8 ?v" 8 "rs_event st" K ?i]
      by (simp add: save_return_def save_value_u64_def MAX_ELEMENT_SIZE_def)
    then show ?thesis by (auto intro: exI [of _ "[]"])
  qed
qed

lemma sys_exit_outcome:
  assumes K: "helper_laws K" and S0: "wf_maps (build_module K) S0"
  shows "\<exists>S'. raw_syscalls_sys_exit K S0 ctx = Some S' \<and> wf_maps (build_module K) S' \<and> exit_outcome K S0 ctx S'"
proof -
  let ?m = "build_module K" and ?t = "cur_tid K"
  obtain S q where ini: "init_program_data K S0 ctx = (S, q)" by fastforce
  have S: "wf_maps ?m S" using init_program_data_wf(1) [OF K S0, of ctx] ini by simp
  have quiet: "silent S0 S" using silent_init [of S0 K ctx] ini by simp
  have same: "common_filter S = common_filter S0" "ctx_regs_map S = ctx_regs_map S0"
    "sysexit_point_args S = sysexit_point_args S0"
    using init_program_data_other [of K S0 ctx] ini by simp_all
  let ?a = "raw_pt_regs K ctx" and ?sysno = "syscall_number K (raw_pt_regs K ctx)"
  define S1 where "S1 = fst (del_regs K S SYSCALL_ENTER)"
  have S1: "wf_maps ?m S1" unfolding S1_def by (rule wf_maps_del_regs [OF S])
  have quiet1: "silent S0 S1"
    using quiet unfolding S1_def by (subst del_regs_frame) (simp add: silent_def)
  have gone: "snapshot S1 SYSCALL_ENTER ?t = None" by (simp add: S1_def snapshot_del)
  have kept: "others_kept K S0 S" using others_kept_same [OF same(2)] by simp
  then have kept1: "others_kept K S0 S1" unfolding S1_def by (rule others_kept_del)
  show ?thesis
  proof (cases "exit_ready K S0 ctx \<and> (\<exists>p pa f saved. q = Some p \<and> should_trace S p \<and>
      bpf_map_lookup_elem (sysexit_point_args S) ?sysno = Some pa \<and>
      bpf_map_lookup_elem (common_filter S) 0 = Some f \<and>
      load_regs K S zero_ctx_regs SYSCALL_ENTER = (saved, 0) \<and> flag saved \<noteq> 1 \<and> syscall_listed S1 f ?sysno)")
    case False
    show ?thesis
    proof (cases "exit_ready K S0 ctx")
      case ready: True
      then have guards: "get_current_task K \<noteq> 0" "\<not> wrong_bitness K" by (simp_all add: exit_ready_def)
      obtain p pa f where q: "q = Some p" "should_trace S p" "bpf_map_lookup_elem (sysexit_point_args S) ?sysno = Some pa"
        "bpf_map_lookup_elem (common_filter S) 0 = Some f"
        using ready ini same by (auto simp: exit_ready_def)
      obtain saved status where load: "load_regs K S zero_ctx_regs SYSCALL_ENTER = (saved, status)" by fastforce
      show ?thesis
      proof (cases "status = 0")
        case True
        then have "flag saved = 1 \<or> \<not> syscall_listed S1 f ?sysno" using False ready q load by blast
        then have "raw_syscalls_sys_exit K S0 ctx = Some S1"
          using load True by (auto simp: raw_syscalls_sys_exit_def ini guards q Let_def S1_def)
        then show ?thesis using S1 ready quiet1 gone kept1 by (simp add: exit_outcome_def)
      next
        case failed: False
        then have "raw_syscalls_sys_exit K S0 ctx = Some S"
          using load by (simp add: raw_syscalls_sys_exit_def ini guards q Let_def)
        moreover have "snapshot S SYSCALL_ENTER ?t = None"
          using load failed by (auto simp: load_regs_def snapshot_def split: option.splits)
        ultimately show ?thesis using S ready quiet kept by (simp add: exit_outcome_def)
      qed
    next
      case not_ready: False
      then have "raw_syscalls_sys_exit K S0 ctx \<in> {Some S0, Some S}"
        using ini same by (auto simp: raw_syscalls_sys_exit_def exit_ready_def Let_def split: option.split)
      then show ?thesis using S0 S quiet same(2) kept not_ready by (auto simp: exit_outcome_def)
    qed
  next
    case True
    then have ready: "exit_ready K S0 ctx" "get_current_task K \<noteq> 0" "\<not> wrong_bitness K" by (simp_all add: exit_ready_def)
    from True obtain p pa f saved where q: "q = Some p" and guards: "should_trace S p" "syscall_listed S1 f ?sysno" "flag saved \<noteq> 1"
      and pa: "bpf_map_lookup_elem (sysexit_point_args S) ?sysno = Some pa"
      and f: "bpf_map_lookup_elem (common_filter S) 0 = Some f"
      and load: "load_regs K S zero_ctx_regs SYSCALL_ENTER = (saved, 0)" by blast
    have saved: "wf_ctx_regs saved" by (rule load_regs_wf [OF S load])
    have "live S ?t"
      using load guards(3) by (auto simp: live_def snapshot_def load_regs_def split: option.splits)
    then have was_live: "live S0 ?t" using live_same [OF same(2)] by simp
    let ?e = "save_value_u32 K ?sysno 0 (pd_event p)" and ?hdr = "[0 # le_bytes 4 ?sysno]"
    have pa_wf: "wf_point_args ?m pa" by (rule wf_maps_point_args(4) [OF S pa])
    have ini': "init_program_data K S0 ctx = (S, Some p)" using ini q by simp
    note e0 = init_program_data_Some [OF ini']
    have wf0: "wf_context (ev_context (pd_event p))" by (rule init_program_data_wf(2) [OF K S0 ini'])
    have hdr: "appended (pd_event p) ?e ?hdr" by (rule save_key_commits [OF e0(1)])
    obtain c where c: "array_lookup_elem (op_ctx_map S1) 1 = Some c" using wf_maps_op_ctx [OF S1] by blast
    let ?st0 = "\<lparr>rs_maps = S1, rs_event = ?e, rs_ctx = start_op_ctx (regs saved ! 0) 1 c\<rparr>"
    obtain st skip where run: "run_reader K True pa saved ?st0 = Some (st, skip)"
      and wfc: "wf_maps ?m (close_reader 1 st)" and sil: "silent S1 (close_reader 1 st)"
      and cr: "ctx_regs_map (close_reader 1 st) = ctx_regs_map S1" and rd: "reads_to ?st0 st"
      using reader_tail [OF K saved pa_wf S1 wf0 e0(1,2) hdr] by metis
    let ?st' = "save_return K ?a st"
    let ?S' = "close_reader 1 (submit_event K SYSCALL_EXIT ?st')"
    have res: "raw_syscalls_sys_exit K S0 ctx = Some (if skip then close_reader 1 st else ?S')"
      using run c load
      by (simp add: raw_syscalls_sys_exit_def ini q ready guards pa f Let_def flip: S1_def split: bool.split)
    show ?thesis
    proof (cases skip)
      case True
      then show ?thesis
        using res wfc silent_trans [OF quiet1 sil] others_kept_same [OF cr, of K S0] kept1 gone ready(1) cr
        by (simp add: exit_outcome_def snapshot_def)
    next
      case False
      obtain fs gs where fs: "appended ?e (rs_event st) fs" "frames_from 1 fs (save_index (rs_ctx st))"
        and gs: "appended (rs_event st) (rs_event ?st') gs"
          "frames_from (save_index (rs_ctx st)) gs (save_index (rs_ctx st) + 1)"
        using rd save_return_appends [of st K ?a] by (auto simp: reads_to_def start_op_ctx_def)
      have ap: "appended (pd_event p) (rs_event ?st') (?hdr @ (fs @ gs))"
        by (rule appended_trans [OF hdr appended_trans [OF fs(1) gs(1)]])
      have ff: "frames_from 1 (fs @ gs) (save_index (rs_ctx st) + 1)" by (rule frames_from_trans [OF fs(2) gs(2)])
      have maps': "rs_maps ?st' = rs_maps st" by (simp add: save_return_def)
      note rec = submitted_record [OF wf0 e0(1,2) ap ff, of SYSCALL_EXIT K]
      have "perf_events (rs_maps ?st') = perf_events S1"
        using reads_to_outputs(1) [OF rd] maps' by simp
      then have "submitted K (ev_context (pd_event p)) SYSCALL_EXIT ?hdr 1 S1 ?S'"
        using rec by (simp only: submitted_def close_reader_outputs)
      note sub = silent_submitted [OF quiet1 this]
      have cr': "ctx_regs_map ?S' = ctx_regs_map S1"
        using reads_to_outputs(3) [OF rd] maps' by (simp add: close_reader_outputs submit_event_ctx_regs)
      have wfs: "wf_maps ?m (rs_maps ?st')" "wf_context (ev_context (rs_event ?st'))"
        using reads_to_wf(2) [OF rd] wf0 appended_context [OF ap] maps' S1 appended_context [OF hdr]
        by (simp_all add: wf_context_def)
      have "wf_maps ?m ?S'" by (rule wf_submit_event [OF wfs])
      moreover have "traced_record K S0 ctx SYSCALL_EXIT ?hdr 1 ?S'"
        using sub ini' guards(1) by (auto simp: traced_record_def)
      moreover have "snapshot ?S' SYSCALL_ENTER ?t = None" using gone cr' by (simp add: snapshot_def)
      ultimately show ?thesis
        using res False others_kept_same [OF cr', of K S0] kept1 was_live ready(1) by (simp add: exit_outcome_def)
    qed
  qed
qed

end
