(* ===== verification/Syscall_Args.thy ===== *)
theory Syscall_Args
  imports Uprobe_Args Syscall_Facts
begin

unbundle bit_operations_syntax

text \<open>
  A system call with typed arguments from end to end: the entry record carries the arguments the
  thread entered with, and the exit record of the same thread the registers kept at its entry (not
  those at the exit) and then the return value, as \<open>SyscallEvent.ParseContext\<close> of
  \<open>user/event/event_raw_syscalls.go\<close> reads them.
\<close>

subsection \<open>The readers in user space\<close>

text \<open>The entry record begins like a uprobe record, with the call number as its key.\<close>

definition read_sys_enter ::
    "point_arg list \<Rightarrow> u8 list \<Rightarrow> ((event_context_t \<times> u32 \<times> u64 list \<times> arg_value list) \<times> u8 list) option" where
  "read_sys_enter params bs =
     do { ((c, nr, site), bs) \<leftarrow> read_call bs;
          (xs, bs) \<leftarrow> parse_args EBPF_SYS_ENTER params bs;
          Some ((c, nr, site, xs), bs) }"

lemma read_sys_enter_args:
  assumes K: "helper_laws K" and c: "wf_context c" and prog: "arg_program K S pa r v params ps"
    and parsed: "parsed_as EBPF_SYS_ENTER params"
  shows "read_sys_enter params (context_bytes c
      @ concat (((0 # le_bytes 4 nr) # call_site_frames K' f a) @ args_frames K r params ps i)) =
    Some ((c, nr, [call_site_lr K' f a, call_site_sp K' f a, call_site_pc K' a], map2 (arg_value K r) params ps), [])"
proof -
  have ok: "list_all2 (arg_ok K S r v) params ps" using prog by (simp add: arg_program_def)
  show ?thesis
    using parse_args_frames [OF K ok parsed, of i "[]"] read_call_record [OF c] by (simp add: read_sys_enter_def)
qed

definition read_sys_exit ::
    "point_arg list \<Rightarrow> u8 list \<Rightarrow> ((event_context_t \<times> u32 \<times> arg_value list \<times> u64) \<times> u8 list) option" where
  "read_sys_exit params bs =
     do { (c, bs) \<leftarrow> read_context bs;
          (nr, bs) \<leftarrow> read_arg 4 bs;
          (xs, bs) \<leftarrow> parse_args EBPF_SYS_EXIT params bs;
          (ret, bs) \<leftarrow> read_arg 8 bs;
          Some ((c, snd nr, xs, snd ret), bs) }"

lemma read_sys_exit_record:
  assumes K: "helper_laws K" and c: "wf_context c" and prog: "arg_program K S pa r v params ps"
    and parsed: "parsed_as EBPF_SYS_EXIT params"
  shows "read_sys_exit params (context_bytes c
      @ concat ((0 # le_bytes 4 nr) # args_frames K r params ps i @ [j # le_bytes 8 ret])) =
    Some ((c, nr, map2 (arg_value K r) params ps, ret), [])"
proof -
  have ok: "list_all2 (arg_ok K S r v) params ps" using prog by (simp add: arg_program_def)
  have "read_arg 4 ((0 # le_bytes 4 nr) @ rest) = Some ((0, nr), rest)" for rest
    using key_codec.rd_enc [of "(0, nr)" rest] by simp
  moreover have "read_arg 8 (j # le_bytes 8 ret) = Some ((j, ret), [])"
    using reg_codec.rd_enc [of "(j, ret)" "[]"] by simp
  ultimately show ?thesis
    using context_codec.rd_enc [OF c] parse_args_frames [OF K ok parsed]
    by (simp add: read_sys_exit_def)
qed

subsection \<open>Entry\<close>

lemma sys_enter_args:
  assumes K: "helper_laws K" and S0: "wf_maps (build_module K) S0" and tr: "sys_traced K S0 ctx S p f"
    and pa: "bpf_map_lookup_elem (sysenter_point_args S0) (syscall_number K (raw_pt_regs K ctx)) = Some pa"
    and prog: "arg_program K S0 pa (copy_pt_regs K (raw_pt_regs K ctx))
      (regs (copy_pt_regs K (raw_pt_regs K ctx)) ! 0) params ps"
    and parsed: "parsed_as EBPF_SYS_ENTER params" and post: "no_pending S0" and room: "snapshot_room S0"
    and out: "\<forall>bs. perf_output_ret K bs = 0"
  shows "\<exists>S' bs c. raw_syscalls_sys_enter K S0 ctx = Some S' \<and> perf_events S' = perf_events S0 @ [bs] \<and>
    read_sys_enter params bs =
      Some ((c, syscall_number K (raw_pt_regs K ctx),
             [call_site_lr K f (raw_pt_regs K ctx), call_site_sp K f (raw_pt_regs K ctx), call_site_pc K (raw_pt_regs K ctx)],
             map2 (arg_value K (copy_pt_regs K (raw_pt_regs K ctx))) params ps), []) \<and>
    eventid c = SYSCALL_ENTER \<and> snapshot S' SYSCALL_ENTER (cur_tid K) = Some (copy_pt_regs K (raw_pt_regs K ctx)) \<and>
    no_pending S'"
proof -
  let ?m = "build_module K" and ?a = "raw_pt_regs K ctx"
  let ?nr = "syscall_number K ?a" and ?r = "copy_pt_regs K ?a"
  let ?fs = "args_frames K ?r params ps 4"
  have ini: "init_program_data K S0 ctx = (S, Some p)" using tr by (simp add: sys_traced_def)
  have other: "sysenter_point_args S = sysenter_point_args S0" "common_filter S = common_filter S0"
    "op_ctx_map S = op_ctx_map S0" "op_list S = op_list S0" "perf_events S = perf_events S0"
    "ctx_regs_map S = ctx_regs_map S0" "common_list S = common_list S0"
    "arg_filter S = arg_filter S0"
    using init_program_data_other [of K S0 ctx] silent_init [of S0 K ctx] ini by (simp_all add: silent_def)
  have listed: "syscall_listed S f ?nr"
    using tr syscall_listed_cong [OF other(7)] by (simp add: sys_traced_def)
  have S: "wf_maps ?m S" using init_program_data_wf(1) [OF K S0, of ctx] ini by simp
  define S1 where "S1 = fst (save_regs K S ?r SYSCALL_ENTER)"
  have frame: "S1 = S\<lparr>ctx_regs_map := ctx_regs_map S1\<rparr>" unfolding S1_def by (rule save_regs_frame)
  have same: "op_ctx_map S1 = op_ctx_map S" "op_list S1 = op_list S" "perf_events S1 = perf_events S"
    "arg_filter S1 = arg_filter S"
    by (subst frame, simp)+
  have S1: "wf_maps ?m S1" unfolding S1_def by (rule wf_maps_save_regs [OF S wf_copy_pt_regs])
  have snap: "snapshot S1 SYSCALL_ENTER (cur_tid K) = Some ?r"
    unfolding S1_def using room other(6) by (intro snapshot_save_same) (simp add: snapshot_room_def)
  let ?e = "save_call_site K f ?a (save_value_u32 K ?nr 0 (pd_event p))"
  let ?hdr = "(0 # le_bytes 4 ?nr) # call_site_frames K f ?a"
  note e0 = init_program_data_Some [OF ini]
  have wf0: "wf_context (ev_context (pd_event p))" by (rule init_program_data_wf(2) [OF K S0 ini])
  have hdr: "appended (pd_event p) ?e ?hdr" by (rule header_commits [OF e0(1)])
  have off: "unat (buf_off ?e) \<le> 32"
    using appended_buf_off [OF hdr] e0(1) by (simp add: call_site_frames_def)
  obtain c0 where c0: "array_lookup_elem (op_ctx_map S1) 0 = Some c0" using wf_maps_op_ctx [OF S1] by blast
  have prog1: "arg_program K S1 pa ?r (regs ?r ! 0) params ps"
    using prog other(4,8) same(2,4) arg_program_cong [of S1 S0] by simp
  have pend: "no_pending S1" using post other(3) same(1) by (simp add: no_pending_def)
  obtain st where run: "run_reader K True pa ?r
        \<lparr>rs_maps = S1, rs_event = ?e, rs_ctx = start_op_ctx (regs ?r ! 0) 4 c0\<rparr> = Some (st, False)"
    and ap: "appended ?e (rs_event st) ?fs" and maps: "rs_maps st = S1"
    and pc: "post_code (rs_ctx st) = op_num OP_SKIP"
    using reader_args [OF K arg_program_runs [OF prog1] wf_maps_point_args(3) [OF S0 pa] wf_copy_pt_regs pend c0 off] by blast
  let ?S' = "send_signals f pa (close_reader 0 (submit_event K SYSCALL_ENTER st))"
  have res: "raw_syscalls_sys_enter K S0 ctx = Some ?S'"
    using run c0 tr pa listed other
    by (simp add: raw_syscalls_sys_enter_def sys_traced_def Let_def flip: S1_def)
  note rec = submit_frames [OF wf0 e0(1,2) appended_trans [OF hdr ap] out, of SYSCALL_ENTER]
  have "perf_events ?S' = perf_events (rs_maps (submit_event K SYSCALL_ENTER st))"
    by (simp add: send_signals_simps close_reader_outputs)
  moreover have "snapshot ?S' SYSCALL_ENTER (cur_tid K) = Some ?r"
    using snap maps by (simp add: snapshot_def send_signals_simps close_reader_outputs submit_event_ctx_regs)
  moreover have "no_pending ?S'" using no_pending_close [of st] pend maps pc by simp
  ultimately show ?thesis
    using res rec(1) maps same(3) other(5) read_sys_enter_args [OF K rec(2) prog1 parsed, of ?nr K f ?a 4]
    by (simp add: call_site_frames_def)
qed

subsection \<open>Exit\<close>

text \<open>The record of an exit, for any arguments whose operations run.\<close>

lemma sys_exit_record:
  assumes K: "helper_laws K" and S0: "wf_maps (build_module K) S0" and tr: "sys_traced K S0 ctx S p f"
    and pa: "bpf_map_lookup_elem (sysexit_point_args S0) (syscall_number K (raw_pt_regs K ctx)) = Some pa"
    and prog: "runs_program K S0 pa r (regs r ! 0) params ps" and post: "no_pending S0"
    and snap: "snapshot S0 SYSCALL_ENTER (cur_tid K) = Some r" "flag r \<noteq> 1"
    and out: "\<forall>bs. perf_output_ret K bs = 0"
  shows "\<exists>S' bs c. raw_syscalls_sys_exit K S0 ctx = Some S' \<and> perf_events S' = perf_events S0 @ [bs] \<and>
    bs = context_bytes c @ concat ((0 # le_bytes 4 (syscall_number K (raw_pt_regs K ctx))) # args_frames K r params ps 1 @
      [(1 + of_nat (length (args_frames K r params ps 1))) #
       le_bytes 8 (READ_KERN K 8 (raw_pt_regs K ctx + core_off K Regs_regs) :: u64)]) \<and>
    wf_context c \<and> eventid c = SYSCALL_EXIT \<and> snapshot S' SYSCALL_ENTER (cur_tid K) = None"
proof -
  let ?m = "build_module K" and ?a = "raw_pt_regs K ctx"
  let ?nr = "syscall_number K ?a" and ?fs = "args_frames K r params ps 1"
  let ?ret = "READ_KERN K 8 (?a + core_off K Regs_regs) :: u64"
  have ini: "init_program_data K S0 ctx = (S, Some p)" using tr by (simp add: sys_traced_def)
  have other: "sysexit_point_args S = sysexit_point_args S0" "common_filter S = common_filter S0"
    "op_ctx_map S = op_ctx_map S0" "op_list S = op_list S0" "perf_events S = perf_events S0"
    "ctx_regs_map S = ctx_regs_map S0" "common_list S = common_list S0"
    "arg_filter S = arg_filter S0"
    using init_program_data_other [of K S0 ctx] silent_init [of S0 K ctx] ini by (simp_all add: silent_def)
  have S: "wf_maps ?m S" using init_program_data_wf(1) [OF K S0, of ctx] ini by simp
  have r: "wf_ctx_regs r" by (rule wf_maps_snapshot [OF S0 snap(1)])
  have "snapshot S SYSCALL_ENTER (cur_tid K) = Some r" using snap(1) other(6) by (simp add: snapshot_def)
  note load = load_regs_Some [OF this r, of zero_ctx_regs]
  define S1 where "S1 = fst (del_regs K S SYSCALL_ENTER)"
  have frame: "S1 = S\<lparr>ctx_regs_map := ctx_regs_map S1\<rparr>" unfolding S1_def by (rule del_regs_frame)
  have same: "op_ctx_map S1 = op_ctx_map S" "op_list S1 = op_list S" "perf_events S1 = perf_events S"
    "common_list S1 = common_list S" "arg_filter S1 = arg_filter S"
    by (subst frame, simp)+
  have listed: "syscall_listed S1 f ?nr"
    using tr syscall_listed_cong [of S1 S0 f ?nr] same(4) other(7) by (simp add: sys_traced_def)
  have S1: "wf_maps ?m S1" unfolding S1_def by (rule wf_maps_del_regs [OF S])
  have gone: "snapshot S1 SYSCALL_ENTER (cur_tid K) = None" by (simp add: S1_def snapshot_del)
  let ?e = "save_value_u32 K ?nr 0 (pd_event p)" and ?hdr = "[0 # le_bytes 4 ?nr]"
  note e0 = init_program_data_Some [OF ini]
  have wf0: "wf_context (ev_context (pd_event p))" by (rule init_program_data_wf(2) [OF K S0 ini])
  have hdr: "appended (pd_event p) ?e ?hdr" by (rule save_key_commits [OF e0(1)])
  have off: "unat (buf_off ?e) = 5" using appended_buf_off [OF hdr] e0(1) by simp
  then have off1: "unat (buf_off ?e) \<le> 32" by simp
  obtain c0 where c0: "array_lookup_elem (op_ctx_map S1) 1 = Some c0" using wf_maps_op_ctx [OF S1] by blast
  have prog1: "runs_program K S1 pa r (regs r ! 0) params ps"
    using prog other(4,8) same(2,5) runs_program_cong [of S1 S0] by simp
  have pend: "no_pending S1" using post other(3) same(1) by (simp add: no_pending_def)
  obtain st where run: "run_reader K True pa r
        \<lparr>rs_maps = S1, rs_event = ?e, rs_ctx = start_op_ctx (regs r ! 0) 1 c0\<rparr> = Some (st, False)"
    and ap: "appended ?e (rs_event st) ?fs" and maps: "rs_maps st = S1"
    and idx: "save_index (rs_ctx st) = 1 + of_nat (length ?fs)"
    using reader_args [OF K prog1 wf_maps_point_args(4) [OF S0 pa] r pend c0 off1] by blast
  let ?S' = "close_reader 1 (submit_event K SYSCALL_EXIT (save_return K ?a st))"
  have res: "raw_syscalls_sys_exit K S0 ctx = Some ?S'"
    using run c0 tr pa listed other load snap(2)
    by (simp add: raw_syscalls_sys_exit_def sys_traced_def Let_def flip: S1_def)
  have off2: "unat (buf_off (rs_event st)) \<le> 31889"
    using appended_buf_off [OF ap] off prog length_concat_args_frames [of K r params ps 1 0]
    by (simp add: runs_program_def ARGS_ROOM_def)
  have ret: "appended (rs_event st) (rs_event (save_return K ?a st)) [(1 + of_nat (length ?fs)) # le_bytes 8 ?ret]"
    using save_value_u64_commits [OF off2, of K ?ret "save_index (rs_ctx st)"] idx by (simp add: save_return_def)
  note all = appended_trans [OF hdr appended_trans [OF ap ret]]
  note rec = submit_frames [OF wf0 e0(1,2) all out, of SYSCALL_EXIT]
  let ?c = "(ev_context (pd_event p))\<lparr>argnum := of_nat (length (?hdr @ ?fs @ [(1 + of_nat (length ?fs)) # le_bytes 8 ?ret])),
    eventid := SYSCALL_EXIT\<rparr>"
  have "perf_events ?S' = perf_events (rs_maps (submit_event K SYSCALL_EXIT (save_return K ?a st)))"
    by (simp add: close_reader_outputs)
  then have "perf_events ?S' = perf_events S0 @ [context_bytes ?c @ concat (?hdr @ ?fs @ [(1 + of_nat (length ?fs)) # le_bytes 8 ?ret])]"
    using rec(1) maps same(3) other(5) by (simp add: save_return_def del: append.simps concat.simps)
  moreover have "snapshot ?S' SYSCALL_ENTER (cur_tid K) = None"
    using gone maps by (simp add: snapshot_def close_reader_outputs submit_event_ctx_regs save_return_def)
  moreover have "eventid ?c = SYSCALL_EXIT" by simp
  ultimately show ?thesis using res rec(2) by (metis append_Cons append_Nil)
qed

text \<open>With arguments that can be read back, user space reads them and the return value.\<close>

lemma sys_exit_args:
  assumes K: "helper_laws K" and S0: "wf_maps (build_module K) S0" and tr: "sys_traced K S0 ctx S p f"
    and pa: "bpf_map_lookup_elem (sysexit_point_args S0) (syscall_number K (raw_pt_regs K ctx)) = Some pa"
    and prog: "arg_program K S0 pa r (regs r ! 0) params ps" and parsed: "parsed_as EBPF_SYS_EXIT params" and post: "no_pending S0"
    and snap: "snapshot S0 SYSCALL_ENTER (cur_tid K) = Some r" "flag r \<noteq> 1"
    and out: "\<forall>bs. perf_output_ret K bs = 0"
  shows "\<exists>S' bs c. raw_syscalls_sys_exit K S0 ctx = Some S' \<and> perf_events S' = perf_events S0 @ [bs] \<and>
    read_sys_exit params bs =
      Some ((c, syscall_number K (raw_pt_regs K ctx), map2 (arg_value K r) params ps,
             READ_KERN K 8 (raw_pt_regs K ctx + core_off K Regs_regs)), []) \<and>
    eventid c = SYSCALL_EXIT \<and> snapshot S' SYSCALL_ENTER (cur_tid K) = None"
  using sys_exit_record [OF K S0 tr pa arg_program_runs [OF prog] post snap out] read_sys_exit_record [OF K _ prog parsed]
  by blast

end
