(* ===== verification/Syscall_Protocol.thy ===== *)
theory Syscall_Protocol
  imports Syscall_Facts
begin

unbundle bit_operations_syntax

text \<open>
  Runs of the syscall module: any interleaving of entries, exits and forks of any threads, as a
  step relation on the maps with a log of the records that went out. While no record is lost, every
  exit record of a thread has an entry record of the same thread before it.
\<close>

datatype sys_event = Entered u32 | Exited u32

text \<open>A run's environment: the helpers keep their contract and the perf buffer takes every record.\<close>

definition reliable :: "module_kind \<Rightarrow> kenv \<Rightarrow> bool" where
  "reliable m K \<longleftrightarrow> helper_laws K \<and> build_module K = m \<and> (\<forall>bs. perf_output_ret K bs = 0)"

definition logged :: "maps \<Rightarrow> maps \<Rightarrow> sys_event \<Rightarrow> sys_event list" where
  "logged S S' ev = (if perf_events S' = perf_events S then [] else [ev])"

inductive sys_step :: "module_kind \<Rightarrow> maps \<Rightarrow> sys_event list \<Rightarrow> maps \<Rightarrow> bool" for m where
  step_enter: "reliable m K \<Longrightarrow> raw_syscalls_sys_enter K S ctx = Some S' \<Longrightarrow>
    sys_step m S (logged S S' (Entered (cur_tid K))) S'"
| step_exit: "reliable m K \<Longrightarrow> raw_syscalls_sys_exit K S ctx = Some S' \<Longrightarrow>
    sys_step m S (logged S S' (Exited (cur_tid K))) S'"
| step_fork: "reliable m K \<Longrightarrow> sched_process_fork K S ctx = S' \<Longrightarrow> sys_step m S [] S'"

inductive sys_run :: "module_kind \<Rightarrow> maps \<Rightarrow> sys_event list \<Rightarrow> maps \<Rightarrow> bool" for m S0 where
  run_start: "sys_run m S0 [] S0"
| run_step: "sys_run m S0 log S \<Longrightarrow> sys_step m S evs S' \<Longrightarrow> sys_run m S0 (log @ evs) S'"

text \<open>The bookkeeping of one thread: open entries against exits.\<close>

definition balanced :: "sys_event list \<Rightarrow> maps \<Rightarrow> bool" where
  "balanced log S \<longleftrightarrow>
     (\<forall>t. count_list log (Exited t) + (if live S t then 1 else 0) \<le> count_list log (Entered t))"

lemma sched_process_fork_keeps:
  "ctx_regs_map (sched_process_fork K S ctx) = ctx_regs_map S"
  "op_ctx_map (sched_process_fork K S ctx) = op_ctx_map S"
  "perf_events (sched_process_fork K S ctx) = perf_events S"
  using init_program_data_other [of K S ctx] silent_init [of S K ctx]
  by (auto simp: sched_process_fork_def Let_def silent_def split: prod.splits option.splits)

lemma wf_maps_fork:
  assumes "helper_laws K" and "wf_maps m S"
  shows "wf_maps m (sched_process_fork K S ctx)"
proof -
  obtain S1 q where ini: "init_program_data K S ctx = (S1, q)" by fastforce
  have S1: "wf_maps m S1" using init_program_data_wf(1) [OF assms, of ctx] ini by simp
  then show ?thesis by (simp add: sched_process_fork_def ini Let_def split: option.split)
qed

lemma sys_step_wf:
  assumes "sys_step m S evs S'" and "wf_maps m S"
  shows "wf_maps m S'"
  using assms(1)
proof cases
  case (step_enter K ctx)
  then show ?thesis using sys_enter_outcome [of K S ctx] assms(2) by (auto simp: reliable_def)
next
  case (step_exit K ctx)
  then show ?thesis using sys_exit_outcome [of K S ctx] assms(2) by (auto simp: reliable_def)
next
  case (step_fork K ctx)
  then show ?thesis using wf_maps_fork [of K m S ctx] assms(2) by (simp add: reliable_def)
qed

lemma submitted_grows:
  "submitted K c i hdr idx S S' \<Longrightarrow> \<forall>bs. perf_output_ret K bs = 0 \<Longrightarrow> perf_events S' \<noteq> perf_events S"
  by (auto simp: submitted_def)

lemma balanced_no_new: "balanced log S \<Longrightarrow> \<forall>t. live S' t \<longrightarrow> live S t \<Longrightarrow> balanced log S'"
  unfolding balanced_def by (metis (mono_tags) add.right_neutral le_trans le_add1)

lemma balanced_enter:
  assumes "balanced log S" and "\<forall>t. t \<noteq> c \<longrightarrow> live S' t = live S t"
  shows "balanced (log @ [Entered c]) S'"
  unfolding balanced_def
proof
  fix t
  have "count_list log (Exited t) + (if live S t then 1 else 0) \<le> count_list log (Entered t)"
    using assms(1) by (simp add: balanced_def)
  then show "count_list (log @ [Entered c]) (Exited t) + (if live S' t then 1 else 0)
      \<le> count_list (log @ [Entered c]) (Entered t)"
    using assms(2) by (cases "t = c") (auto split: if_splits)
qed

lemma balanced_exit:
  assumes "balanced log S" and "\<forall>t. t \<noteq> c \<longrightarrow> live S' t = live S t" and "live S c" "\<not> live S' c"
  shows "balanced (log @ [Exited c]) S'"
  unfolding balanced_def
proof
  fix t
  have "count_list log (Exited t) + (if live S t then 1 else 0) \<le> count_list log (Entered t)"
    using assms(1) by (simp add: balanced_def)
  then show "count_list (log @ [Exited c]) (Exited t) + (if live S' t then 1 else 0)
      \<le> count_list (log @ [Exited c]) (Entered t)"
    using assms(2-) by (cases "t = c") (auto split: if_splits)
qed

lemma sys_step_balanced:
  assumes "sys_step m S evs S'" and wf: "wf_maps m S" and bal: "balanced log S"
  shows "balanced (log @ evs) S'"
  using assms(1)
proof cases
  case (step_enter K ctx)
  then have K: "helper_laws K" "build_module K = m" and rel: "\<forall>bs. perf_output_ret K bs = 0"
    by (simp_all add: reliable_def)
  note out = enter_outcome_live [of K S ctx S']
  have run: "enter_outcome K S ctx S'" using sys_enter_outcome [OF K(1), of S ctx] wf K(2) step_enter by auto
  show ?thesis
  proof (cases "perf_events S' = perf_events S")
    case True
    then have "\<forall>t. live S' t \<longrightarrow> live S t"
      using out [OF run] submitted_grows [OF _ rel] by (auto simp: traced_record_def)
    then show ?thesis using balanced_no_new [OF bal] True step_enter by (simp add: logged_def)
  next
    case False
    have "\<forall>t. t \<noteq> cur_tid K \<longrightarrow> live S' t = live S t" using out [OF run] False by (simp add: silent_def)
    then show ?thesis using balanced_enter [OF bal] False step_enter by (simp add: logged_def)
  qed
next
  case (step_exit K ctx)
  then have K: "helper_laws K" "build_module K = m" and rel: "\<forall>bs. perf_output_ret K bs = 0"
    by (simp_all add: reliable_def)
  note out = exit_outcome_live [of K S ctx S']
  have run: "exit_outcome K S ctx S'" using sys_exit_outcome [OF K(1), of S ctx] wf K(2) step_exit by auto
  show ?thesis
  proof (cases "perf_events S' = perf_events S")
    case True
    then have "\<forall>t. live S' t \<longrightarrow> live S t"
      using out [OF run] submitted_grows [OF _ rel] by (auto simp: traced_record_def)
    then show ?thesis using balanced_no_new [OF bal] True step_exit by (simp add: logged_def)
  next
    case False
    then have "live S (cur_tid K)" "\<not> live S' (cur_tid K)" "\<forall>t. t \<noteq> cur_tid K \<longrightarrow> live S' t = live S t"
      using out [OF run] by (auto simp: silent_def)
    then show ?thesis using balanced_exit [OF bal] False step_exit by (simp add: logged_def)
  qed
next
  case (step_fork K ctx)
  then have "live S' t = live S t" for t
    using live_same [of S' S] sched_process_fork_keeps(1) by auto
  then show ?thesis using bal step_fork by (simp add: balanced_def)
qed

lemma sys_run_invariant:
  assumes "sys_run m S0 log S" and "wf_maps m S0" and "\<forall>t. \<not> live S0 t"
  shows "wf_maps m S \<and> balanced log S"
  using assms(1)
proof induction
  case run_start
  then show ?case using assms(2,3) by (simp add: balanced_def)
next
  case (run_step log S evs S')
  then show ?case using sys_step_wf sys_step_balanced by blast
qed

text \<open>At every moment of a run, no thread has more exit records than entry records.\<close>

lemma sys_step_one_event: "sys_step m S evs S' \<Longrightarrow> length evs \<le> 1"
  by (auto elim!: sys_step.cases simp: logged_def)

lemma sys_run_prefix:
  assumes "sys_run m S0 log S" and "wf_maps m S0" and "\<forall>t. \<not> live S0 t"
  shows "count_list (take k log) (Exited t) \<le> count_list (take k log) (Entered t)"
  using assms
proof (induction rule: sys_run.induct)
  case (run_step log S evs S')
  have "balanced (log @ evs) S'"
    using sys_run_invariant [OF sys_run.run_step [OF run_step.hyps] run_step.prems] by simp
  then have whole: "count_list (log @ evs) (Exited t) \<le> count_list (log @ evs) (Entered t)"
    unfolding balanced_def by (metis add_leD1)
  show ?case
  proof (cases "k \<le> length log")
    case True
    then show ?thesis using run_step.IH [OF run_step.prems] by simp
  next
    case False
    then have "take k (log @ evs) = log @ evs" using sys_step_one_event [OF run_step.hyps(2)] by simp
    then show ?thesis using whole by (simp only:)
  qed
qed simp

end
