(* ===== verification/Example_State.thy ===== *)
theory Example_State
  imports Syscall_Args Syscall_Protocol
begin

text \<open>
  A concrete state the examples of the properties run in: one traced process (user root, no list
  names it), a uprobe point that reads a string and a register, its uretprobe point, which adds the return value, and the same
  operations for system call 0. No memory is mapped, so every register reads as 0.
\<close>

definition ex_op_ctx :: op_ctx_t where
  "ex_op_ctx = \<lparr>save_index = 0, reg_index = 0, loop_count = 0, break_count = 0, apply_filter = 0,
     skip_flag = 0, match_whitelist = 0, match_blacklist = 0, loop_index = 0, op_key_index = 0,
     op_code = 0, post_code = op_num OP_SKIP, str_len = 0, read_len = 0, read_addr = 0,
     reg_value = 0, pointer_value = 0, tmp_value = 0, reg_0 = 0\<rparr>"

definition ex_context :: event_context_t where
  "ex_context = \<lparr>ts = 0, eventid = 0, host_tid = 0, host_pid = 0, tid = 0, pid = 0, uid = 0,
     comm = replicate 16 0, argnum = 0, ctx_padding = replicate 7 0\<rparr>"

definition ex_event :: event_data_t where
  "ex_event = \<lparr>ev_context = ex_context, args = (\<lambda>_. 0), buf_off = 0, task = 0\<rparr>"

definition ex_param :: "nat \<Rightarrow> arg_type \<Rightarrow> bool \<Rightarrow> point_arg" where
  "ex_param q ty ret = \<lparr>RegIndex = q, TypeIndex = ty, ExtraOpList = [], FilterIndexList = [],
     PointType = EBPF_SYS_ALL, GroupType = 0, IsRet = ret\<rparr>"

definition ex_params :: "point_arg list" where
  "ex_params = [ex_param 0 String_arg False, ex_param 31 Number False]"

definition ex_ret_params :: "point_arg list" where
  "ex_ret_params = ex_param 0 Number True # ex_params"

definition ex_point :: "module_kind \<Rightarrow> u32 \<Rightarrow> point_args_t" where
  "ex_point m k = \<lparr>enter_key = k, point_signal = 0, op_count = 5,
     op_key_list = [1, 2, 4, 3, 2, 0] @ replicate (MAX_OP_COUNT m - 6) 0\<rparr>"

definition ex_ret_point :: "module_kind \<Rightarrow> u32 \<Rightarrow> point_args_t" where
  "ex_ret_point m k = \<lparr>enter_key = k, point_signal = 0, op_count = 7,
     op_key_list = [5, 6, 1, 2, 4, 3, 2, 0] @ replicate (MAX_OP_COUNT m - 8) 0\<rparr>"

definition ex_maps :: "module_kind \<Rightarrow> maps" where
  "ex_maps m = \<lparr>bufs = [], base_config = [\<lparr>stackplz_pid = 99, thread_whitelist = 0\<rparr>],
     event_data_map = [ex_event], op_ctx_map = [ex_op_ctx, ex_op_ctx],
     str_buf_gen = [\<lparr>str_val = replicate 256 0\<rparr>],
     common_filter = [(0, \<lparr>is_32bit = 0, trace_mode = TRACE_ALL, trace_uid_group = GROUP_ROOT,
       signal = 0, tsignal = 0\<rparr>)],
     common_list = [], thread_filter = [], arg_filter = [], str_buf = [], str_buf_map = [],
     child_parent_map = [(7, 7)], ctx_regs_map = [],
     op_list = [(0, OPC_SKIP), (1, READ_SAVE_REG 0), (2, OPC_MOVE_REG_VALUE), (3, READ_SAVE_REG 31),
       (4, ROP OP_SAVE_STRING 0), (5, ROP OP_READ_RET 0), (6, ROP OP_SAVE_REG 0)],
     uprobe_point_args = [(0, ex_point m 0), (1, ex_point m 2)], uretprobe_point_args = [(0, ex_ret_point m 2)],
     sysenter_point_args = [(0, ex_point m 0)], sysexit_point_args = [(0, ex_point m 0)],
     perf_events = [], signals = [], trace_pipe = []\<rparr>"

definition ex_env :: "module_kind \<Rightarrow> kenv" where
  "ex_env m = mem_kenv TARGET_ARCH_arm64 m 0x100000002 Map.empty"

lemma ex_env_laws [simp]: "helper_laws (ex_env m)"
  by (simp add: ex_env_def)

lemma ex_env_build [simp]: "build_module (ex_env m) = m"
  by (simp add: ex_env_def)

lemma ex_env_output [simp]: "perf_output_ret (ex_env m) bs = 0"
  by (simp add: ex_env_def mem_kenv_def)

lemma ex_env_reliable [simp]: "reliable m (ex_env m)"
  by (simp add: reliable_def)

lemma wf_ex_point [simp]: "wf_point_args m (ex_point m k)" "wf_point_args m (ex_ret_point m k)"
  by (cases m; simp add: wf_point_args_def ex_point_def ex_ret_point_def)+

lemma wf_ex_maps [simp]: "wf_maps m (ex_maps m)"
  by (simp add: wf_maps_def ex_maps_def ex_event_def ex_context_def wf_context_def const_simps)

lemma ex_not_live [simp]: "\<not> live (ex_maps m) t"
  by (simp add: live_def snapshot_def ex_maps_def bpf_map_lookup_elem_def)

lemma mem_read_empty: "mem_read Map.empty a (Suc n) = (-14, [])"
  by (simp add: mem_read_def Let_def)

lemma le_word_zeros [simp]: "le_word (replicate n 0) = 0"
  by (induction n) simp_all

lemma ex_env_reads [simp]: "READ_KERN (ex_env m) n a = 0"
  by (cases n) (simp_all add: READ_KERN_def ex_env_def mem_read_empty mem_read_def [of _ _ 0] del: replicate.simps)

lemma ex_env_pids [simp]: "get_task_ns_pid (ex_env m) t = 0" "get_task_ns_tgid (ex_env m) t = 0"
  by (simp_all add: get_task_ns_pid_def get_task_ns_tgid_def get_task_pid_vnr_def Let_def)

lemma ex_env_uid [simp]: "get_current_uid_gid (ex_env m) = 0"
  by (simp add: ex_env_def mem_kenv_def)

text \<open>The same state after an entry: the thread has register snapshots.\<close>

definition ex_regs :: ctx_regs_t where
  "ex_regs = \<lparr>regs = [7] @ replicate 30 0, sp = 8, pc = 9, flag = 0\<rparr>"

definition ex_entered :: "module_kind \<Rightarrow> maps" where
  "ex_entered m = (ex_maps m)\<lparr>ctx_regs_map :=
     [(regs_key SYSCALL_ENTER 2, ex_regs), (regs_key (UPROBE_ENTER + 2) 2, ex_regs)]\<rparr>"

lemma ex_regs_flag [simp]: "flag ex_regs \<noteq> 1"
  by (simp add: ex_regs_def)

lemma wf_ex_entered [simp]: "wf_maps m (ex_entered m)"
  using wf_ex_maps [of m] by (simp add: wf_maps_def ex_entered_def ex_regs_def wf_ctx_regs_def)

lemma ex_env_tid [simp]: "cur_tid (ex_env m) = 2"
  by (simp add: cur_tid_def ex_env_def mem_kenv_def)

lemma ex_snapshots [simp]:
  "snapshot (ex_entered m) SYSCALL_ENTER 2 = Some ex_regs"
  "snapshot (ex_entered m) (UPROBE_ENTER + 2) 2 = Some ex_regs"
  by (simp_all add: snapshot_def ex_entered_def bpf_map_lookup_elem_def regs_key_inj)

lemma ex_tables [simp]:
  "bpf_map_lookup_elem (common_filter (ex_maps m)) 0 = Some \<lparr>is_32bit = 0, trace_mode = TRACE_ALL,
     trace_uid_group = GROUP_ROOT, signal = 0, tsignal = 0\<rparr>"
  "bpf_map_lookup_elem (uprobe_point_args (ex_maps m)) 0 = Some (ex_point m 0)"
  "bpf_map_lookup_elem (uprobe_point_args (ex_maps m)) 1 = Some (ex_point m 2)"
  "bpf_map_lookup_elem (uretprobe_point_args (ex_maps m)) 0 = Some (ex_ret_point m 2)"
  "bpf_map_lookup_elem (sysenter_point_args (ex_maps m)) 0 = Some (ex_point m 0)"
  "bpf_map_lookup_elem (sysexit_point_args (ex_maps m)) 0 = Some (ex_point m 0)"
  by (simp_all add: ex_maps_def bpf_map_lookup_elem_def)

lemma ex_entered_tables [simp]:
  "common_filter (ex_entered m) = common_filter (ex_maps m)"
  "uretprobe_point_args (ex_entered m) = uretprobe_point_args (ex_maps m)"
  "sysexit_point_args (ex_entered m) = sysexit_point_args (ex_maps m)"
  "common_list (ex_entered m) = common_list (ex_maps m)"
  by (simp_all add: ex_entered_def)

lemma ex_common_list [simp]: "common_list (ex_maps m) = []"
  by (simp add: ex_maps_def)

lemma mem_str_empty: "0 < n \<Longrightarrow> mem_str Map.empty a n = None"
  by (cases n) simp_all

lemma ex_string_payload [simp]: "string_payload (ex_env m) a = []"
  by (simp add: string_payload_def ex_env_def mem_read_str_def mem_str_empty const_simps)

lemma ex_param_runs [simp]:
  "RegIndex (ex_param q ty ret) = q" "TypeIndex (ex_param q ty ret) = ty" "ExtraOpList (ex_param q ty ret) = []"
  "FilterIndexList (ex_param q ty ret) = []" "IsRet (ex_param q ty ret) = ret" "ReadMore (ex_param q ty ret)"
  "parse_more (ex_param q ty ret) t"
  by (simp_all add: ex_param_def ReadMore_def parse_more_def)

definition ex_words :: "ctx_regs_t \<Rightarrow> u64 list" where
  "ex_words r = [ctx_regs_words r ! 0, ctx_regs_words r ! 31]"

lemma ex_arg_ok [simp]:
  "list_all2 (arg_ok (ex_env m) S r v) ex_params (ex_words r)"
  "list_all2 (arg_ok (ex_env m) S r v) ex_ret_params (v # ex_words r)"
  by (simp_all add: ex_params_def ex_ret_params_def ex_words_def arg_ok_def arg_runs_def arg_word_def filters_accept_def const_simps)

lemma ex_point_ops:
  "point_ops ex_params = [READ_SAVE_REG 0, OPC_MOVE_REG_VALUE, ROP OP_SAVE_STRING 0, READ_SAVE_REG 31, OPC_MOVE_REG_VALUE, OPC_SKIP]"
  "point_ops ex_ret_params = [ROP OP_READ_RET 0, ROP OP_SAVE_REG 0, READ_SAVE_REG 0, OPC_MOVE_REG_VALUE,
     ROP OP_SAVE_STRING 0, READ_SAVE_REG 31, OPC_MOVE_REG_VALUE, OPC_SKIP]"
  by (simp_all add: point_ops_def ex_params_def ex_ret_params_def GetOpList_def const_simps)

lemma ex_arg_turns: "arg_turns K r (ex_param q Number False) p = 3" "arg_turns K r (ex_param q String_arg False) p = 4"
  "arg_turns K r (ex_param q Number True) p = 2"
  by (simp_all add: arg_turns_def del: ex_param_runs) (simp_all add: ex_param_def ReadMore_def)

lemma ex_arg_frames: "concat (arg_frames (ex_env m) r (ex_param q Number ret) p i) = i # le_bytes 8 p"
  "length (concat (arg_frames (ex_env m) r (ex_param q String_arg ret) p i)) = 14"
  by (simp_all add: arg_frames_def text_at_def payload_frame_def)

lemma ex_arg_sizes:
  "sum_list (map2 (arg_turns K r) ex_params (ex_words r)) < MAX_OP_COUNT m"
  "sum_list (map2 (arg_turns K r) ex_ret_params (v # ex_words r)) < MAX_OP_COUNT m"
  "length (concat (args_frames (ex_env m) r ex_params (ex_words r) 0)) \<le> ARGS_ROOM"
  "length (concat (args_frames (ex_env m) r ex_ret_params (v # ex_words r) 0)) \<le> ARGS_ROOM"
proof -
  have turns: "7 < MAX_OP_COUNT m" "9 < MAX_OP_COUNT m" by (cases m; simp)+
  then show "sum_list (map2 (arg_turns K r) ex_params (ex_words r)) < MAX_OP_COUNT m"
    "sum_list (map2 (arg_turns K r) ex_ret_params (v # ex_words r)) < MAX_OP_COUNT m"
    by (simp_all add: ex_params_def ex_ret_params_def ex_words_def ex_arg_turns)
  show "length (concat (args_frames (ex_env m) r ex_params (ex_words r) 0)) \<le> ARGS_ROOM"
    "length (concat (args_frames (ex_env m) r ex_ret_params (v # ex_words r) 0)) \<le> ARGS_ROOM"
    by (simp_all only: ex_params_def ex_ret_params_def ex_words_def args_frames.simps concat_append length_append ex_arg_frames)
      (simp_all add: ARGS_ROOM_def)
qed

lemma ex_arg_program [simp]:
  "arg_program (ex_env m) (ex_maps m) (ex_point m k) r v ex_params (ex_words r)"
  "arg_program (ex_env m) (ex_maps m) (ex_ret_point m k) r v ex_ret_params (v # ex_words r)"
proof -
  have "program_at m (ex_point m k) (op_list (ex_maps m)) 0 (point_ops ex_params)"
    "program_at m (ex_ret_point m k) (op_list (ex_maps m)) 0 (point_ops ex_ret_params)"
    by (cases m; simp add: ex_point_ops ex_point_def ex_ret_point_def ex_maps_def bpf_map_lookup_elem_def)+
  then show "arg_program (ex_env m) (ex_maps m) (ex_point m k) r v ex_params (ex_words r)"
    "arg_program (ex_env m) (ex_maps m) (ex_ret_point m k) r v ex_ret_params (v # ex_words r)"
    using ex_arg_sizes by (simp_all add: arg_program_def)
qed

lemma ex_parsed [simp]: "parsed_as t ex_params" "parsed_as t ex_ret_params"
  by (simp_all add: parsed_as_def ex_params_def ex_ret_params_def)

lemma ex_no_pending [simp]: "no_pending (ex_maps m)" "no_pending (ex_entered m)"
  by (simp_all add: no_pending_def ex_entered_def ex_maps_def ex_op_ctx_def)

lemma ex_no_events [simp]: "perf_events (ex_maps m) = []" "perf_events (ex_entered m) = []"
  by (simp_all add: ex_maps_def ex_entered_def)

lemma ex_point_fields [simp]: "enter_key (ex_point m k) = k" "op_count (ex_point m k) = 5" "point_signal (ex_point m k) = 0"
  "enter_key (ex_ret_point m k) = k" "op_count (ex_ret_point m k) = 7" "point_signal (ex_ret_point m k) = 0"
  by (simp_all add: ex_point_def ex_ret_point_def)

lemma ex_syscall [simp]: "syscall_number (ex_env m) a = 0"
  by (simp add: syscall_number_def)

lemma ex_words_at:
  "ex_words (copy_pt_regs (ex_env m) a) = [0, 0]" "ex_words ex_regs = [7, 8]"
  by (simp_all add: ex_words_def ctx_regs_words_def copy_pt_regs_def ex_regs_def nth_append)

lemma ex_values:
  "map2 (arg_value (ex_env m) r) ex_params [p, q] = [Bytes_value p [], Number_value q]"
  "map2 (arg_value (ex_env m) r) ex_ret_params [v, p, q] = [Number_value v, Bytes_value p [], Number_value q]"
  by (simp_all add: ex_params_def ex_ret_params_def arg_value_def text_at_def)

text \<open>The equations that turn a property at this state into the concrete claim.\<close>

lemmas ex_eval = ex_words_at ex_values ex_no_events append_Nil ex_syscall ex_env_reads ex_env_tid append.simps

lemma ex_room [simp]: "snapshot_room (ex_maps m)"
  by (simp add: snapshot_room_def ex_maps_def)

lemma ex_bitness [simp]: "get_current_task (ex_env m) \<noteq> 0" "\<not> wrong_bitness (ex_env m)"
  by (simp_all add: wrong_bitness_def ex_env_def mem_kenv_def)

lemma ex_init:
  obtains S p where "init_program_data (ex_env m) ((ex_maps m)\<lparr>ctx_regs_map := M\<rparr>) ctx = (S, Some p)"
    and "should_trace S p" and "S = (ex_maps m)\<lparr>ctx_regs_map := M, event_data_map := event_data_map S\<rparr>"
proof -
  let ?S0 = "(ex_maps m)\<lparr>ctx_regs_map := M\<rparr>"
  obtain S p where ini: "init_program_data (ex_env m) ?S0 ctx = (S, Some p)"
    and cfg: "pd_config p = \<lparr>stackplz_pid = 99, thread_whitelist = 0\<rparr>"
    by (auto simp: init_program_data_def init_context_def Let_def ex_maps_def array_lookup_elem_def
      nth_opt_def ex_env_def mem_kenv_def split: prod.split)
  have frame: "S = ?S0\<lparr>event_data_map := event_data_map S\<rparr>"
    using init_program_data_frame [of "ex_env m" ?S0 ctx] ini by simp
  have ctx: "pid (ev_context (pd_event p)) = 0" "uid (ev_context (pd_event p)) = 0"
    using init_program_data_context [OF ini] by simp_all
  have "should_trace S p"
    using cfg ctx by (subst frame) (simp add: should_trace_def Let_def ex_maps_def trace_by_id_def
      in_common_list_def bpf_map_lookup_elem_def trace_by_group_def in_group_def const_simps)
  then show ?thesis using ini frame that by blast
qed

lemma ex_maps_fresh: "(ex_maps m)\<lparr>ctx_regs_map := []\<rparr> = ex_maps m"
  by (simp add: ex_maps_def)

lemma ex_traced:
  obtains S p where "init_program_data (ex_env m) (ex_maps m) ctx = (S, Some p)" and "should_trace S p"
    and "S = (ex_maps m)\<lparr>event_data_map := event_data_map S\<rparr>"
  using ex_init [of m "[]" ctx] by (simp add: ex_maps_fresh) (metis ex_maps_fresh maps.update_convs(1))

lemma ex_entered_traced:
  obtains S p where "init_program_data (ex_env m) (ex_entered m) ctx = (S, Some p)" and "should_trace S p"
  using ex_init unfolding ex_entered_def by blast

lemma ex_sys_traced:
  obtains S p where "sys_traced (ex_env m) (ex_maps m) ctx S p \<lparr>is_32bit = 0, trace_mode = TRACE_ALL,
     trace_uid_group = GROUP_ROOT, signal = 0, tsignal = 0\<rparr>"
  by (rule ex_traced [of m ctx])
    (auto simp: sys_traced_def syscall_listed_def in_common_list_def bpf_map_lookup_elem_def [of "[]"] const_simps)

lemma ex_sys_exit_traced:
  obtains S p where "sys_traced (ex_env m) (ex_entered m) ctx S p \<lparr>is_32bit = 0, trace_mode = TRACE_ALL,
     trace_uid_group = GROUP_ROOT, signal = 0, tsignal = 0\<rparr>"
  by (rule ex_entered_traced [of m ctx])
    (auto simp: sys_traced_def syscall_listed_def in_common_list_def bpf_map_lookup_elem_def [of "[]"] const_simps)

text \<open>A run of the syscall module: the thread enters system call 0.\<close>

lemma ex_sys_run:
  obtains S where "sys_run MODULE_SYSCALL (ex_maps MODULE_SYSCALL) [Entered 2] S"
proof -
  let ?m = MODULE_SYSCALL
  obtain S p where "sys_traced (ex_env ?m) (ex_maps ?m) 64 S p \<lparr>is_32bit = 0,
      trace_mode = TRACE_ALL, trace_uid_group = GROUP_ROOT, signal = 0, tsignal = 0\<rparr>"
    by (rule ex_sys_traced)
  note sys_enter_args [OF ex_env_laws _ this, unfolded ex_syscall ex_env_build,
    OF wf_ex_maps ex_tables(5) ex_arg_program(1) ex_parsed(1) ex_no_pending(1) ex_room]
  then obtain S' bs where S': "raw_syscalls_sys_enter (ex_env ?m) (ex_maps ?m) 64 = Some S'" "perf_events S' = [bs]"
    using ex_env_output by auto
  have "sys_step ?m (ex_maps ?m) (logged (ex_maps ?m) S' (Entered (cur_tid (ex_env ?m)))) S'"
    by (rule step_enter [OF ex_env_reliable S'(1)])
  then have "sys_run ?m (ex_maps ?m) ([] @ [Entered 2]) S'"
    using S'(2) by (intro run_step [OF run_start]) (simp add: logged_def)
  then show ?thesis using that by simp
qed

end
