(* ===== verification/Value_Filter.thy ===== *)
theory Value_Filter
  imports Uprobe_Args
begin
unbundle bit_operations_syntax

text \<open>A filter on one integer argument, as user space compiles it (\<open>READ_SAVE_REG\<close>, \<open>MOVE_REG_VALUE\<close>,
\<open>FILTER_VALUE\<close>): what the run of \<open>read_args\<close> leaves in \<open>skip_flag\<close>, which decides whether the
event is kept.\<close>

definition OPC_FILTER_VALUE :: "u64 \<Rightarrow> op_config_t" where
  "OPC_FILTER_VALUE k = \<lparr>cfg_code = op_num OP_FILTER_VALUE, cfg_pre_code = op_num OP_SKIP,
     cfg_post_code = op_num OP_SKIP, cfg_value = k\<rparr>"

text \<open>The last two turns of such a program: the filter, and the terminator when the value passes.\<close>

lemma value_filter_tail:
  assumes at: "at_cfg K pa st 2"
    and prog: "program_at (build_module K) pa (op_list (rs_maps st)) 2 [OPC_FILTER_VALUE k, OPC_SKIP]"
    and st: "match_blacklist (rs_ctx st) = 0" "apply_filter (rs_ctx st) = 0" "skip_flag (rs_ctx st) = 0"
      "reg_value (rs_ctx st) = x"
    and flt: "bpf_map_lookup_elem (arg_filter (rs_maps st)) k = Some f"
  shows "\<exists>st'. read_loop K pa r (Suc (Suc n)) op st = (st', Loop_done) \<and>
    skip_flag (skip_decision (rs_ctx st')) = (if value_mismatch f x then 1 else 0)"
proof -
  let ?c = "(rs_ctx st)\<lparr>op_code := cfg_code (OPC_FILTER_VALUE k), post_code := cfg_post_code (OPC_FILTER_VALUE k),
    op_key_index := op_key_index (rs_ctx st) + 1\<rparr>"
  let ?st2 = "st\<lparr>rs_ctx := ?c\<rparr>"
  let ?hit = "map_ctx (\<lambda>c. c\<lparr>match_blacklist := 1\<rparr>) ?st2"
  note fetch = fetch_cfg [OF at prog, of op]
  have num: "op_code ?c = op_num OP_FILTER_VALUE" by (simp add: OPC_FILTER_VALUE_def)
  have ex: "exec_code K r (OPC_FILTER_VALUE k) ?st2 = (if value_mismatch f x then ?hit else ?st2, Next)"
    using num flt st by (simp add: exec_code_num [where oc = OP_FILTER_VALUE] op_filter_value_def OPC_FILTER_VALUE_def)
  show ?thesis
  proof (cases "value_mismatch f x")
    case True
    then have "read_loop K pa r (Suc (Suc n)) op st = (?hit, Loop_done)"
      using fetch num ex by (simp add: map_ctx_def)
    then show ?thesis using True by (simp add: map_ctx_def skip_decision_def)
  next
    case False
    then have ex2: "exec_code K r (OPC_FILTER_VALUE k) ?st2 = (?st2, Next)" using ex by simp
    have "read_loop K pa r (Suc (Suc n)) op st = read_loop K pa r (Suc n) (Some (OPC_FILTER_VALUE k)) ?st2"
      by (rule read_loop_turn [OF fetch _ ex2]) (use num st in simp_all)
    moreover have at2: "at_cfg K pa ?st2 3"
      using at unat_succ_u32 [of "op_key_index (rs_ctx st)"] by (simp add: at_cfg_def OPC_FILTER_VALUE_def)
    have "program_at (build_module K) pa (op_list (rs_maps ?st2)) 3 [OPC_SKIP]"
      using prog by (simp add: numeral_3_eq_3 numeral_2_eq_2)
    note read_loop_skip [OF at2 this, of r n "Some (OPC_FILTER_VALUE k)"]
    ultimately show ?thesis using False st by (simp add: skip_decision_def OPC_SKIP_def map_ctx_def del: read_loop.simps)
  qed
qed

text \<open>The run of an argument and its filter: the mismatch decides \<open>skip_flag\<close>.\<close>

lemma read_args_value_filter:
  assumes at: "at_cfg K pa st 0"
    and prog: "program_at (build_module K) pa (op_list (rs_maps st)) 0
      [READ_SAVE_REG v, OPC_MOVE_REG_VALUE, OPC_FILTER_VALUE k, OPC_SKIP]"
    and r: "wf_ctx_regs r" and v: "v < 33" and off: "unat (buf_off (rs_event st)) \<le> 31889"
    and flags: "match_blacklist (rs_ctx st) = 0" "apply_filter (rs_ctx st) = 0" "skip_flag (rs_ctx st) = 0"
    and flt: "bpf_map_lookup_elem (arg_filter (rs_maps st)) k = Some f"
  shows "\<exists>st'. read_args K pa r st = Some st' \<and>
    skip_flag (rs_ctx st') = (if value_mismatch f (ctx_regs_words r ! v) then 1 else 0)"
proof -
  have mb: "match_blacklist (rs_ctx st) \<noteq> 1" using flags by simp
  obtain st1 where eq: "\<And>cfgs. run_block K r (READ_SAVE_REG v # OPC_MOVE_REG_VALUE # cfgs) st = run_block K r cfgs st1"
    and st1: "match_blacklist (rs_ctx st1) = 0" "apply_filter (rs_ctx st1) = 0" "skip_flag (rs_ctx st1) = 0"
      "rs_maps st1 = rs_maps st" "reg_value (rs_ctx st1) = ctx_regs_words r ! v"
    using run_int_arg [OF r v mb off] flags by metis
  let ?blk = "[READ_SAVE_REG v, OPC_MOVE_REG_VALUE]"
  have plain: "list_all plain_cfg ?blk"
    by (simp add: plain_cfg_def READ_SAVE_REG_def OPC_MOVE_REG_VALUE_def)
  have run: "run_block K r ?blk st = Some st1" using eq [of "[]"] by simp
  have progs: "program_at (build_module K) pa (op_list (rs_maps st)) 0 ?blk"
    "program_at (build_module K) pa (op_list (rs_maps st1)) 2 [OPC_FILTER_VALUE k, OPC_SKIP]"
    using prog st1(4) by (simp_all add: numeral_2_eq_2)
  let ?op = "bpf_map_lookup_elem (op_list (rs_maps st)) 0"
  have bt: "block_turns ?blk = 3"
    by (simp add: turns_of_def READ_SAVE_REG_def OPC_MOVE_REG_VALUE_def)
  note blk = read_loop_block [OF at progs(1) plain run, of ?op, unfolded bt]
  obtain op1 where loop: "\<forall>n. read_loop K pa r (3 + n) ?op st = read_loop K pa r n op1 st1"
    using blk by blast
  have at1: "at_cfg K pa st1 2" using blk by (simp add: numeral_2_eq_2)
  obtain n where n: "MAX_OP_COUNT (build_module K) = 3 + Suc (Suc n)"
    by (cases "build_module K") (simp_all add: numeral_eq_Suc)
  have "bpf_map_lookup_elem (arg_filter (rs_maps st1)) k = Some f" using flt st1(4) by simp
  then obtain st2 where "read_loop K pa r (3 + Suc (Suc n)) ?op st = (st2, Loop_done)"
    "skip_flag (skip_decision (rs_ctx st2)) = (if value_mismatch f (ctx_regs_words r ! v) then 1 else 0)"
    using value_filter_tail [OF at1 progs(2) st1(1-3,5), of f r n op1] loop by metis
  then show ?thesis
    unfolding read_args_def n by (simp add: map_ctx_def del: read_loop.simps)
qed

end
