(* ===== verification/Unwinder.thy ===== *)
theory Unwinder
  imports Main "HOL-Library.Word"
begin

text \<open>
  The loader of the stack unwinding library, \<open>src/user/event/load_so.c\<close>. The dynamic linker is a
  parameter; the state holds the three static variables, the linker's pending error and the
  handles that are open. The safety property is that no call goes through a pointer into a library
  that was closed, and that no handle is lost.
\<close>

subsection \<open>The dynamic linker\<close>

text \<open>
  \<open>dlopen\<close> gives a handle or NULL; \<open>dlsym\<close> an address, and an error text when the symbol is not
  found. Pointers are numbers, NULL is 0.
\<close>

record dl_env =
  dlopen :: "string \<Rightarrow> nat"
  dlsym :: "nat \<Rightarrow> string \<Rightarrow> nat \<times> string option"

text \<open>The documented behaviour of \<open>dlsym\<close>: NULL when it reports an error.\<close>

definition dlsym_law :: "dl_env \<Rightarrow> bool" where
  "dlsym_law D \<longleftrightarrow> (\<forall>h s. snd (dlsym D h s) \<noteq> None \<longrightarrow> fst (dlsym D h s) = 0)"

record unwinder =
  g_handle :: nat
  g_fptr :: nat
  g_fptrv2 :: nat
  dl_error :: "string option"
  open_handles :: "nat list"

definition no_unwinder :: unwinder where
  "no_unwinder = \<lparr>g_handle = 0, g_fptr = 0, g_fptrv2 = 0, dl_error = None, open_handles = []\<rparr>"

text \<open>\<open>dlerror()\<close> returns the pending error and clears it.\<close>

definition dlerror :: "unwinder \<Rightarrow> unwinder \<times> string option" where
  "dlerror u = (u\<lparr>dl_error := None\<rparr>, dl_error u)"

definition dl_open :: "dl_env \<Rightarrow> string \<Rightarrow> unwinder \<Rightarrow> unwinder \<times> nat" where
  "dl_open D path u =
     (let h = dlopen D path
      in if h = 0 then (u\<lparr>dl_error := Some path\<rparr>, 0) else (u\<lparr>open_handles := h # open_handles u\<rparr>, h))"

definition dl_sym :: "dl_env \<Rightarrow> nat \<Rightarrow> string \<Rightarrow> unwinder \<Rightarrow> unwinder \<times> nat" where
  "dl_sym D h s u =
     (let (v, err) = dlsym D h s
      in (case err of None \<Rightarrow> u | Some m \<Rightarrow> u\<lparr>dl_error := Some m\<rparr>, v))"

definition dl_close :: "nat \<Rightarrow> unwinder \<Rightarrow> unwinder" where
  "dl_close h u = u\<lparr>open_handles := remove1 h (open_handles u)\<rparr>"

subsection \<open>The functions\<close>

text \<open>\<open>snprintf\<close> into \<open>char full_path[256]\<close> keeps at most 255 characters.\<close>

definition full_path :: "string \<Rightarrow> string" where
  "full_path dl_path = take 255 (dl_path @ ''/'' @ ''libstackplz.so'')"

definition init_stack_unwinder :: "dl_env \<Rightarrow> string \<Rightarrow> unwinder \<Rightarrow> unwinder \<times> int" where
  "init_stack_unwinder D dl_path u =
     (if g_handle u \<noteq> 0 then (u, 0)
      else
        let (u1, h) = dl_open D (full_path dl_path) u; u1 = u1\<lparr>g_handle := h\<rparr> in
        if h = 0 then (fst (dlerror u1), -1)
        else
          let u2 = fst (dlerror u1);
              (u3, f) = dl_sym D h ''StackPlz'' u2;
              (u4, err) = dlerror (u3\<lparr>g_fptr := f\<rparr>)
          in if err \<noteq> None then ((dl_close h u4)\<lparr>g_handle := 0\<rparr>, -1)
             else
               let u5 = fst (dlerror u4);
                   (u6, f2) = dl_sym D h ''StackPlzV2'' u5;
                   (u7, err2) = dlerror (u6\<lparr>g_fptrv2 := f2\<rparr>)
               in if err2 \<noteq> None then ((dl_close h u7)\<lparr>g_handle := 0, g_fptr := 0\<rparr>, -1) else (u7, 0))"

definition close_stack_unwinder :: "unwinder \<Rightarrow> unwinder" where
  "close_stack_unwinder u =
     (if g_handle u \<noteq> 0
      then (dl_close (g_handle u) u)\<lparr>g_handle := 0, g_fptr := 0, g_fptrv2 := 0\<rparr> else u)"

text \<open>The calls through the pointers: \<open>call f args\<close> is what the function at \<open>f\<close> returns.\<close>

definition get_stack :: "unwinder \<Rightarrow> (nat \<Rightarrow> 'args \<Rightarrow> nat) \<Rightarrow> 'args \<Rightarrow> nat" where
  "get_stack u call a = (if g_fptr u = 0 then 0 else call (g_fptr u) a)"

definition get_stackv2 :: "unwinder \<Rightarrow> (nat \<Rightarrow> 'args \<Rightarrow> nat) \<Rightarrow> 'args \<Rightarrow> nat" where
  "get_stackv2 u call a = (if g_fptrv2 u = 0 then 0 else call (g_fptrv2 u) a)"

text \<open>\<open>free_stack_str\<close> over the set of live allocations; \<open>None\<close> is a free of a dead pointer.\<close>

definition free_stack_str :: "nat \<Rightarrow> nat set \<Rightarrow> nat set option" where
  "free_stack_str s heap = (if s \<noteq> 0 then (if s \<in> heap then Some (heap - {s}) else None) else Some heap)"

subsection \<open>The invariant\<close>

text \<open>One handle at most is open, it is the one remembered, and pointers exist only with it.\<close>

definition unwinder_inv :: "unwinder \<Rightarrow> bool" where
  "unwinder_inv u \<longleftrightarrow>
     open_handles u = (if g_handle u = 0 then [] else [g_handle u]) \<and>
     (g_handle u = 0 \<longrightarrow> g_fptr u = 0 \<and> g_fptrv2 u = 0)"

lemma no_unwinder_inv: "unwinder_inv no_unwinder"
  by (simp add: unwinder_inv_def no_unwinder_def)

lemma init_stack_unwinder_cases:
  assumes "unwinder_inv u" and "dlsym_law D"
  shows "unwinder_inv (fst (init_stack_unwinder D p u)) \<and>
    snd (init_stack_unwinder D p u) \<in> {0, -1} \<and>
    (snd (init_stack_unwinder D p u) = 0 \<longleftrightarrow> g_handle (fst (init_stack_unwinder D p u)) \<noteq> 0)"
proof (cases "g_handle u = 0")
  case False
  then show ?thesis using assms by (simp add: init_stack_unwinder_def)
next
  case idle: True
  let ?h = "dlopen D (full_path p)"
  have u: "open_handles u = []" "g_fptr u = 0" "g_fptrv2 u = 0"
    using assms(1) idle by (simp_all add: unwinder_inv_def)
  show ?thesis
  proof (cases "?h = 0")
    case True
    then show ?thesis
      using idle u by (simp add: init_stack_unwinder_def dl_open_def dlerror_def unwinder_inv_def)
  next
    case h: False
    obtain f err where sym: "dlsym D ?h ''StackPlz'' = (f, err)" by fastforce
    obtain f2 err2 where sym2: "dlsym D ?h ''StackPlzV2'' = (f2, err2)" by fastforce
    have law: "err \<noteq> None \<Longrightarrow> f = 0" "err2 \<noteq> None \<Longrightarrow> f2 = 0"
      using assms(2) sym sym2 unfolding dlsym_law_def by (metis fst_conv snd_conv)+
    show ?thesis
      using idle u h sym sym2 law
      by (cases err; cases err2)
        (simp_all add: init_stack_unwinder_def dl_open_def dl_sym_def dl_close_def dlerror_def
          unwinder_inv_def Let_def)
  qed
qed

lemma close_stack_unwinder_inv:
  "unwinder_inv u \<Longrightarrow> unwinder_inv (close_stack_unwinder u) \<and> open_handles (close_stack_unwinder u) = []"
  by (auto simp: unwinder_inv_def close_stack_unwinder_def dl_close_def)

subsection \<open>Any sequence of calls\<close>

inductive unwinder_reach :: "dl_env \<Rightarrow> unwinder \<Rightarrow> bool" for D where
  reach_start: "unwinder_reach D no_unwinder"
| reach_init: "unwinder_reach D u \<Longrightarrow> unwinder_reach D (fst (init_stack_unwinder D p u))"
| reach_close: "unwinder_reach D u \<Longrightarrow> unwinder_reach D (close_stack_unwinder u)"

lemma unwinder_reach_inv: "unwinder_reach D u \<Longrightarrow> dlsym_law D \<Longrightarrow> unwinder_inv u"
  by (induction rule: unwinder_reach.induct)
    (simp_all add: no_unwinder_inv init_stack_unwinder_cases close_stack_unwinder_inv)

text \<open>A second initialisation changes nothing; after closing, the library is loaded anew.\<close>

lemma init_twice: "g_handle u \<noteq> 0 \<Longrightarrow> init_stack_unwinder D p u = (u, 0)"
  by (simp add: init_stack_unwinder_def)

lemma full_path_fits: "length dl_path \<le> 240 \<Longrightarrow> full_path dl_path = dl_path @ ''/libstackplz.so''"
  by (simp add: full_path_def)

lemma full_path_cut: "240 < length dl_path \<Longrightarrow> full_path dl_path \<noteq> dl_path @ ''/libstackplz.so''"
proof
  assume "240 < length dl_path" and "full_path dl_path = dl_path @ ''/libstackplz.so''"
  then have "length (dl_path @ ''/libstackplz.so'') \<le> 255" by (metis full_path_def length_take min.cobounded2)
  with \<open>240 < length dl_path\<close> show False by simp
qed

end
