(* ===== verification/Example_Inputs.thy ===== *)
theory Example_Inputs
  imports Example_State Reader_Loop Value_Filter Unwinder
begin

text \<open>Further concrete inputs for the examples of the properties: a program with a loop, one with a
filter, a configuration of user space, and a dynamic linker that lacks a symbol.\<close>

lemma ex_env_zero_read: "fst (mem_probe_read (ex_env m) a 0) = 0"
  by (simp add: ex_env_def mem_kenv_def mem_read_def)

definition ex_loop_state :: rstate where
  "ex_loop_state = \<lparr>rs_maps = (ex_maps MODULE_STACK)\<lparr>op_list := [(2, OPC_MOVE_REG_VALUE), (4, FOR_BREAK)]\<rparr>,
     rs_event = ex_event, rs_ctx = ex_op_ctx\<lparr>break_count := 2\<rparr>\<rparr>"

definition ex_loop_point :: point_args_t where
  "ex_loop_point = (ex_point MODULE_STACK 0)\<lparr>op_key_list := [4, 2, 4] @ replicate 61 0\<rparr>"

lemma ex_loop:
  "at_cfg (ex_env MODULE_STACK) ex_loop_point ex_loop_state 0"
  "list_all body_cfg [OPC_MOVE_REG_VALUE]"
  "program_at (build_module (ex_env MODULE_STACK)) ex_loop_point (op_list (rs_maps ex_loop_state)) 0
     (FOR_BREAK # [OPC_MOVE_REG_VALUE] @ [FOR_BREAK])"
  "loop_count (rs_ctx ex_loop_state) = 0" "match_blacklist (rs_ctx ex_loop_state) \<noteq> 1"
  "\<exists>st'. loop_passes (ex_env MODULE_STACK) ex_regs [OPC_MOVE_REG_VALUE]
     (max 1 (unat (break_count (rs_ctx ex_loop_state)))) (for_break_state ex_loop_state) = Some st'"
proof -
  have mb: "match_blacklist (rs_ctx (for_break_state ex_loop_state)) \<noteq> 1"
    by (simp add: for_break_state_other ex_loop_state_def ex_op_ctx_def)
  have two: "max 1 (unat (break_count (rs_ctx ex_loop_state))) = Suc (Suc 0)"
    by (simp add: ex_loop_state_def)
  show "\<exists>st'. loop_passes (ex_env MODULE_STACK) ex_regs [OPC_MOVE_REG_VALUE]
     (max 1 (unat (break_count (rs_ctx ex_loop_state)))) (for_break_state ex_loop_state) = Some st'"
    unfolding two using mb
    by (simp add: run_move_reg_value run_for_break for_break_state_other map_ctx_def op_move_reg_value_def)
qed (simp_all add: at_cfg_def wf_point_args_def ex_loop_point_def ex_loop_state_def ex_op_ctx_def
  body_cfg_def plain_cfg_def OPC_MOVE_REG_VALUE_def loop_codes_def bpf_map_lookup_elem_def)

lemma ex_le_bytes: "le_bytes 4 (2 :: u32) = [2, 0, 0, 0]"
  by code_simp

definition ex_conf :: "u32 list \<Rightarrow> filter_conf" where
  "ex_conf tids = \<lparr>UidWhitelist = [], UidBlacklist = [], PidWhitelist = [], PidBlacklist = [],
     TidWhitelist = tids, TidBlacklist = []\<rparr>"

definition ex_program_data :: "u32 \<Rightarrow> program_data_t" where
  "ex_program_data t = \<lparr>pd_config = \<lparr>stackplz_pid = 99, thread_whitelist = 0\<rparr>,
     pd_event = ex_event\<lparr>ev_context := ex_context\<lparr>tid := t\<rparr>\<rparr>, pd_ctx = 64\<rparr>"

lemma ex_conf_list: "update_common_filter (ex_conf [t]) [] = Some [(t + 0x1C00, t + 0x1C00)]"
  by (simp add: update_common_filter_def ex_conf_def bpf_map_update_elem_def const_simps)

definition ex_filter_state :: rstate where
  "ex_filter_state = \<lparr>rs_maps = (ex_maps MODULE_STACK)
       \<lparr>op_list := [(0, OPC_SKIP), (1, READ_SAVE_REG 0), (2, OPC_MOVE_REG_VALUE), (3, OPC_FILTER_VALUE 6)],
        arg_filter := [(6, \<lparr>filter_type = arg_filter_num GREATER_FILTER, filter_str_val = replicate 256 0,
          filter_str_len = 0, num_val = 5\<rparr>)]\<rparr>,
     rs_event = ex_event, rs_ctx = ex_op_ctx\<rparr>"

definition ex_filter_point :: point_args_t where
  "ex_filter_point = (ex_point MODULE_STACK 0)\<lparr>op_key_list := [1, 2, 3, 0] @ replicate 60 0\<rparr>"

definition ex_dl :: dl_env where
  "ex_dl = \<lparr>dlopen = (\<lambda>_. 3), dlsym = (\<lambda>h s. (if s = ''StackPlz'' then (8, None) else (0, Some s)))\<rparr>"

end
