(* ===== verification/Thread_Isolation.thy ===== *)
theory Thread_Isolation
  imports Syscall_Args Syscall_Protocol
begin

unbundle bit_operations_syntax

text \<open>
  What a run of any program leaves alone: the tables that user space fills, and the register
  snapshots of every thread but its own. From it, pairs of programs of one thread with any runs of
  other threads between them: the exit of a system call, or the return of a function, reports the
  registers that the same thread entered with.
\<close>

subsection \<open>The frame of a program\<close>

definition config_tables :: "maps \<Rightarrow> _" where
  "config_tables S = (base_config S, common_filter S, common_list S, thread_filter S, arg_filter S, op_list S,
     uprobe_point_args S, uretprobe_point_args S, sysenter_point_args S, sysexit_point_args S,
     length (event_data_map S), length (op_ctx_map S))"

definition program_frame :: "kenv \<Rightarrow> maps \<Rightarrow> maps \<Rightarrow> bool" where
  "program_frame K S S' \<longleftrightarrow> config_tables S' = config_tables S \<and>
     (\<forall>e t. t \<noteq> cur_tid K \<longrightarrow> snapshot S' e t = snapshot S e t)"

lemma program_frame_refl [simp]: "program_frame K S S"
  by (simp add: program_frame_def)

lemma program_frame_trans: "program_frame K S S1 \<Longrightarrow> program_frame K S1 S2 \<Longrightarrow> program_frame K S S2"
  by (simp add: program_frame_def)

text \<open>An update of the other components.\<close>

lemma program_frame_other:
  "config_tables S' = config_tables S \<Longrightarrow> ctx_regs_map S' = ctx_regs_map S \<Longrightarrow> program_frame K S S'"
  by (simp add: program_frame_def snapshot_def)

lemma init_program_data_events: "length (event_data_map (fst (init_program_data K S ctx))) = length (event_data_map S)"
  by (auto simp: init_program_data_def Let_def split: option.splits prod.splits)

lemma program_frame_init: "program_frame K S (fst (init_program_data K' S ctx))"
  by (rule program_frame_other; subst init_program_data_frame)
    (simp_all add: config_tables_def init_program_data_events)

lemma program_frame_save: "program_frame K S (fst (save_regs K S r e))"
proof -
  have "config_tables (fst (save_regs K S r e)) = config_tables S"
    by (subst save_regs_frame) (simp add: config_tables_def)
  then show ?thesis by (simp add: program_frame_def snapshot_save_other)
qed

lemma program_frame_del: "program_frame K S (fst (del_regs K S e))"
proof -
  have "config_tables (fst (del_regs K S e)) = config_tables S"
    by (subst del_regs_frame) (simp add: config_tables_def)
  then show ?thesis by (simp add: program_frame_def snapshot_del)
qed

lemma program_frame_put_event: "program_frame K S S1 \<Longrightarrow> program_frame K S (put_event S1 e)"
  by (erule program_frame_trans) (rule program_frame_other; simp add: config_tables_def)

lemma program_frame_close: "program_frame K S (rs_maps st) \<Longrightarrow> program_frame K S (close_reader j st)"
  by (erule program_frame_trans)
    (rule program_frame_other; simp add: config_tables_def close_reader_def put_op_ctx_def)

lemma program_frame_signals: "program_frame K S S1 \<Longrightarrow> program_frame K S (send_signals f pa S1)"
  by (erule program_frame_trans) (rule program_frame_other; simp add: config_tables_def send_signals_def)

lemma program_frame_submit:
  "program_frame K S (rs_maps st) \<Longrightarrow> program_frame K S (rs_maps (submit_event K' i st))"
  by (erule program_frame_trans)
    (rule program_frame_other; subst submit_event_maps; simp add: config_tables_def)

lemma reads_to_frame: "reads_to st st' \<Longrightarrow> program_frame K (rs_maps st) (rs_maps st')"
  by (auto simp: reads_to_def scratch_only_def config_tables_def intro!: program_frame_other)

lemma run_reader_frame:
  assumes "helper_laws K" and "run_reader K run pa r st0 = Some (st, skip)"
    and "program_frame K S (rs_maps st0)"
  shows "program_frame K S (rs_maps st)"
proof -
  obtain st1 where st1: "(if run then read_args K pa r st0 else Some st0) = Some st1" and "rs_maps st = rs_maps st1"
    using assms(2) by (auto simp: run_reader_def map_ctx_def split: option.splits if_splits)
  moreover have "reads_to st0 st1"
    using st1 kernel_env.read_args_reads_to [OF kernel_env.intro [OF assms(1)]] by (cases run) simp_all
  ultimately show ?thesis using program_frame_trans [OF assms(3) reads_to_frame] by metis
qed

lemma probe_stack_regs_frame:
  "probe_stack_regs K S pa key r = Some (S1, saved) \<Longrightarrow> program_frame K S S1"
  by (auto simp: probe_stack_regs_def Let_def program_frame_save program_frame_del split: if_splits prod.splits)

lemma uretprobe_stack_regs_frame:
  "uretprobe_stack_regs K S pa ctx = Some (S1, saved) \<Longrightarrow> program_frame K S S1"
  by (auto simp: uretprobe_stack_regs_def Let_def program_frame_del split: if_splits prod.splits)

lemmas frame_intros = program_frame_close program_frame_signals program_frame_submit program_frame_put_event

lemma probe_stack_warp_frame:
  assumes K: "helper_laws K" and run: "probe_stack_warp K S0 ctx key = Some S'"
  shows "program_frame K S0 S'"
proof -
  obtain S q where ini: "init_program_data K S0 ctx = (S, q)" by fastforce
  have S: "program_frame K S0 S" using program_frame_init [of K S0 K ctx] ini by simp
  show ?thesis
    using run S unfolding probe_stack_warp_def ini
    by (auto simp: Let_def split: option.splits if_splits prod.splits bool.splits
      intro!: frame_intros dest!: probe_stack_regs_frame elim!: run_reader_frame [OF K] intro: program_frame_trans)
qed

lemma uretprobe_stack_warp_frame:
  assumes K: "helper_laws K" and run: "uretprobe_stack_warp K S0 ctx key = Some S'"
  shows "program_frame K S0 S'"
proof -
  obtain S q where ini: "init_program_data K S0 ctx = (S, q)" by fastforce
  have S: "program_frame K S0 S" using program_frame_init [of K S0 K ctx] ini by simp
  show ?thesis
    using run S unfolding uretprobe_stack_warp_def ini
    by (auto simp: Let_def split: option.splits if_splits prod.splits bool.splits
      intro!: frame_intros dest!: uretprobe_stack_regs_frame elim!: run_reader_frame [OF K] intro: program_frame_trans)
qed

lemma sys_enter_frame:
  assumes K: "helper_laws K" and run: "raw_syscalls_sys_enter K S0 ctx = Some S'"
  shows "program_frame K S0 S'"
proof -
  obtain S q where ini: "init_program_data K S0 ctx = (S, q)" by fastforce
  have S: "program_frame K S0 S" using program_frame_init [of K S0 K ctx] ini by simp
  have save: "program_frame K S0 S1 \<Longrightarrow> program_frame K S0 (fst (save_regs K S1 r e))" for S1 r e
    by (rule program_frame_trans [OF _ program_frame_save])
  show ?thesis
    using run S unfolding raw_syscalls_sys_enter_def ini
    by (auto simp: Let_def split: option.splits if_splits prod.splits bool.splits
      intro!: frame_intros save elim!: run_reader_frame [OF K])
qed

lemma program_frame_return: "program_frame K S (rs_maps st) \<Longrightarrow> program_frame K S (rs_maps (save_return K' a st))"
  by (simp add: save_return_def)

lemma sys_exit_frame:
  assumes K: "helper_laws K" and run: "raw_syscalls_sys_exit K S0 ctx = Some S'"
  shows "program_frame K S0 S'"
proof -
  obtain S q where ini: "init_program_data K S0 ctx = (S, q)" by fastforce
  have S: "program_frame K S0 S" using program_frame_init [of K S0 K ctx] ini by simp
  have del: "program_frame K S0 S1 \<Longrightarrow> program_frame K S0 (fst (del_regs K S1 e))" for S1 e
    by (rule program_frame_trans [OF _ program_frame_del])
  show ?thesis
    using run S unfolding raw_syscalls_sys_exit_def ini
    by (auto simp: Let_def split: option.splits if_splits prod.splits bool.splits
      intro!: frame_intros del program_frame_return elim!: run_reader_frame [OF K])
qed

lemma fork_frame: "program_frame K S (sched_process_fork K S ctx)"
proof -
  obtain S1 q where ini: "init_program_data K S ctx = (S1, q)" by fastforce
  have "program_frame K S S1" using program_frame_init [of K S K ctx] ini by simp
  then show ?thesis
    by (auto simp: sched_process_fork_def ini Let_def program_frame_def config_tables_def snapshot_def
      split: option.split)
qed

subsection \<open>Runs of other threads\<close>

inductive program_step :: "kenv \<Rightarrow> maps \<Rightarrow> maps \<Rightarrow> bool" for K S where
  probe: "probe_stack_warp K S ctx key = Some S' \<Longrightarrow> program_step K S S'"
| uretprobe: "uretprobe_stack_warp K S ctx key = Some S' \<Longrightarrow> program_step K S S'"
| sys_enter: "raw_syscalls_sys_enter K S ctx = Some S' \<Longrightarrow> program_step K S S'"
| sys_exit: "raw_syscalls_sys_exit K S ctx = Some S' \<Longrightarrow> program_step K S S'"
| fork: "sched_process_fork K S ctx = S' \<Longrightarrow> program_step K S S'"

inductive_cases program_stepE: "program_step K S S'"

lemma program_step_frame: "helper_laws K \<Longrightarrow> program_step K S S' \<Longrightarrow> program_frame K S S'"
  by (erule program_stepE)
    (auto intro: probe_stack_warp_frame uretprobe_stack_warp_frame sys_enter_frame sys_exit_frame fork_frame)

lemma program_step_wf:
  assumes "helper_laws K" and "program_step K S S'" and "wf_maps (build_module K) S"
  shows "wf_maps (build_module K) S'"
  using assms(2)
proof (rule program_stepE)
  fix ctx key
  assume "probe_stack_warp K S ctx key = Some S'"
  then show ?thesis using probe_stack_warp_outcome [OF assms(1,3), of ctx key] by auto
next
  fix ctx key
  assume "uretprobe_stack_warp K S ctx key = Some S'"
  then show ?thesis using uretprobe_stack_warp_outcome [OF assms(1,3), of ctx key] by auto
next
  fix ctx
  assume "raw_syscalls_sys_enter K S ctx = Some S'"
  then show ?thesis using sys_enter_outcome [OF assms(1,3), of ctx] by auto
next
  fix ctx
  assume "raw_syscalls_sys_exit K S ctx = Some S'"
  then show ?thesis using sys_exit_outcome [OF assms(1,3), of ctx] by auto
next
  fix ctx
  assume "sched_process_fork K S ctx = S'"
  then show ?thesis using wf_maps_fork [OF assms(1,3), of ctx] by auto
qed

text \<open>Any number of programs run by threads other than \<open>t\<close>.\<close>

inductive foreign_run :: "module_kind \<Rightarrow> u32 \<Rightarrow> maps \<Rightarrow> maps \<Rightarrow> bool" for m t S where
  foreign_start: "foreign_run m t S S"
| foreign_step: "foreign_run m t S S1 \<Longrightarrow> helper_laws K \<Longrightarrow> build_module K = m \<Longrightarrow> cur_tid K \<noteq> t \<Longrightarrow>
    program_step K S1 S2 \<Longrightarrow> foreign_run m t S S2"

lemma foreign_run_keeps:
  assumes "foreign_run m t S S'"
  shows "config_tables S' = config_tables S \<and> (\<forall>e. snapshot S' e t = snapshot S e t) \<and> (wf_maps m S \<longrightarrow> wf_maps m S')"
  using assms
proof induction
  case (foreign_step S1 K S2)
  then show ?case
    using program_step_frame [of K S1 S2] program_step_wf [of K S1 S2] by (auto simp: program_frame_def)
qed simp

lemma config_tablesD:
  assumes "config_tables S' = config_tables S"
  shows "common_filter S' = common_filter S" "op_list S' = op_list S"
    "uretprobe_point_args S' = uretprobe_point_args S" "sysexit_point_args S' = sysexit_point_args S"
    "arg_filter S' = arg_filter S"
  using assms by (simp_all add: config_tables_def)

subsection \<open>Pairs\<close>

lemma syscall_pair:
  assumes K: "helper_laws K" "wf_maps (build_module K) S0" "sys_traced K S0 ctx S p f"
    and enter: "bpf_map_lookup_elem (sysenter_point_args S0) (syscall_number K (raw_pt_regs K ctx)) = Some pa"
      "arg_program K S0 pa (copy_pt_regs K (raw_pt_regs K ctx)) (regs (copy_pt_regs K (raw_pt_regs K ctx)) ! 0) params ps"
      "parsed_as EBPF_SYS_ENTER params" "no_pending S0" "snapshot_room S0" "\<forall>bs. perf_output_ret K bs = 0"
      "raw_syscalls_sys_enter K S0 ctx = Some S1"
    and between: "foreign_run (build_module K) (cur_tid K) S1 S2"
    and K': "helper_laws K'" "build_module K' = build_module K" "cur_tid K' = cur_tid K" "sys_traced K' S2 ctx' S' p' f'"
    and exit: "bpf_map_lookup_elem (sysexit_point_args S0) (syscall_number K' (raw_pt_regs K' ctx')) = Some pa'"
      "arg_program K' S0 pa' (copy_pt_regs K (raw_pt_regs K ctx)) (regs (copy_pt_regs K (raw_pt_regs K ctx)) ! 0) params' ps'"
      "parsed_as EBPF_SYS_EXIT params'" "no_pending S2" "\<forall>bs. perf_output_ret K' bs = 0"
  shows "\<exists>S3 bs c. raw_syscalls_sys_exit K' S2 ctx' = Some S3 \<and> perf_events S3 = perf_events S2 @ [bs] \<and>
    read_sys_exit params' bs =
      Some ((c, syscall_number K' (raw_pt_regs K' ctx'), map2 (arg_value K' (copy_pt_regs K (raw_pt_regs K ctx))) params' ps',
             READ_KERN K' 8 (raw_pt_regs K' ctx' + core_off K' Regs_regs)), []) \<and>
    snapshot S3 SYSCALL_ENTER (cur_tid K) = None"
proof -
  have "snapshot S1 SYSCALL_ENTER (cur_tid K) = Some (copy_pt_regs K (raw_pt_regs K ctx))"
    using sys_enter_args [OF K enter(1-6)] enter(7) by auto
  then have snap: "snapshot S2 SYSCALL_ENTER (cur_tid K') = Some (copy_pt_regs K (raw_pt_regs K ctx))"
    using foreign_run_keeps [OF between] K'(3) by simp
  have S1: "wf_maps (build_module K) S1" using sys_enter_outcome [OF K(1,2), of ctx] enter(7) by auto
  have S2: "wf_maps (build_module K') S2" using foreign_run_keeps [OF between] S1 K'(2) by simp
  have "config_tables S2 = config_tables S0"
    using foreign_run_keeps [OF between] sys_enter_frame [OF K(1) enter(7)] by (simp add: program_frame_def)
  note tables = config_tablesD [OF this]
  have flag: "flag (copy_pt_regs K (raw_pt_regs K ctx)) \<noteq> 1" by (simp add: copy_pt_regs_def)
  have pa': "bpf_map_lookup_elem (sysexit_point_args S2) (syscall_number K' (raw_pt_regs K' ctx')) = Some pa'"
    using exit(1) tables(4) by simp
  have prog: "arg_program K' S2 pa' (copy_pt_regs K (raw_pt_regs K ctx)) (regs (copy_pt_regs K (raw_pt_regs K ctx)) ! 0) params' ps'"
    using exit(2) arg_program_cong [OF tables(2,5)] by simp
  show ?thesis
    using sys_exit_args [OF K'(1) S2 K'(4) pa' prog exit(3,4) snap flag exit(5)] unfolding K'(3) by blast
qed

lemma function_pair:
  assumes K: "helper_laws K" "wf_maps (build_module K) S0" "init_program_data K S0 ctx = (S, Some p)" "should_trace S p"
    and entry: "bpf_map_lookup_elem (uprobe_point_args S0) key = Some pa" "enter_key pa = key + 1" "enter_key pa \<noteq> 0"
      "bpf_map_lookup_elem (common_filter S0) 0 = Some f" "snapshot_room S0" "probe_stack_warp K S0 ctx key = Some S1"
    and between: "foreign_run (build_module K) (cur_tid K) S1 S2"
    and K': "helper_laws K'" "build_module K' = build_module K" "cur_tid K' = cur_tid K"
      "init_program_data K' S2 ctx' = (S', Some p')" "should_trace S' p'"
    and return: "bpf_map_lookup_elem (uretprobe_point_args S0) key' = Some pa'" "enter_key pa' = enter_key pa" "0 < op_count pa'"
      "arg_program K' S0 pa' (copy_pt_regs K ctx) (READ_KERN K' 8 (ctx' + core_off K' Regs_regs)) params ps"
      "parsed_as EBPF_UPROBE_EXIT params" "no_pending S2" "\<forall>bs. perf_output_ret K' bs = 0"
  shows "\<exists>S3 bs c. uretprobe_stack_warp K' S2 ctx' key' = Some S3 \<and> perf_events S3 = perf_events S2 @ [bs] \<and>
    read_uprobe EBPF_UPROBE_EXIT params bs =
      Some ((c, key', [call_site_lr K' f ctx', call_site_sp K' f ctx', call_site_pc K' ctx'],
             map2 (arg_value K' (copy_pt_regs K ctx)) params ps), []) \<and>
    eventid c = UPROBE_EXIT \<and> snapshot S3 (UPROBE_ENTER + enter_key pa) (cur_tid K) = None"
proof -
  have snap: "snapshot S2 (UPROBE_ENTER + enter_key pa') (cur_tid K') = Some (copy_pt_regs K ctx)"
    using probe_stack_warp_keeps [OF K entry] foreign_run_keeps [OF between] K'(3) return(2) by simp
  have S1: "wf_maps (build_module K) S1" using probe_stack_warp_outcome [OF K(1,2), of ctx key] entry(6) by auto
  have S2: "wf_maps (build_module K') S2" using foreign_run_keeps [OF between] S1 K'(2) by simp
  have "config_tables S2 = config_tables S0"
    using foreign_run_keeps [OF between] probe_stack_warp_frame [OF K(1) entry(6)] by (simp add: program_frame_def)
  note tables = config_tablesD [OF this]
  have pa': "bpf_map_lookup_elem (uretprobe_point_args S2) key' = Some pa'" using return(1) tables(3) by simp
  have prog: "arg_program K' S2 pa' (copy_pt_regs K ctx) (READ_KERN K' 8 (ctx' + core_off K' Regs_regs)) params ps"
    using return(4) arg_program_cong [OF tables(2,5)] by simp
  have f: "bpf_map_lookup_elem (common_filter S2) 0 = Some f" using entry(4) tables(1) by simp
  have named: "enter_key pa' \<noteq> 0" using entry(3) return(2) by simp
  show ?thesis
    using uretprobe_args [OF K'(1) S2 K'(4,5) pa' named return(3) prog return(5) snap f return(6,7)]
    unfolding K'(3) return(2) by blast
qed

end
