(* ===== verification/Example_Pairs.thy ===== *)
theory Example_Pairs
  imports Example_State Thread_Isolation
begin

text \<open>The example thread after one of its programs: it is still traced, with the same tables.\<close>

lemma ex_after_init:
  assumes "config_tables T = config_tables (ex_maps m)"
  obtains S p where "init_program_data (ex_env m) T ctx = (S, Some p)" and "should_trace S p"
proof -
  have tables: "base_config T = [\<lparr>stackplz_pid = 99, thread_whitelist = 0\<rparr>]" "length (event_data_map T) = 1"
    "common_filter T = common_filter (ex_maps m)" "common_list T = []" "thread_filter T = []"
    using assms by (simp_all add: config_tables_def ex_maps_def)
  obtain e where "array_lookup_elem (event_data_map T) 0 = Some e"
    using tables(2) by (auto simp: array_lookup_elem_def)
  then obtain S p where ini: "init_program_data (ex_env m) T ctx = (S, Some p)"
    and cfg: "pd_config p = \<lparr>stackplz_pid = 99, thread_whitelist = 0\<rparr>"
    using tables(1)
    by (auto simp: init_program_data_def init_context_def Let_def array_lookup_elem_def [of "[_]"]
      nth_opt_def ex_env_def mem_kenv_def split: prod.split)
  have frame: "S = T\<lparr>event_data_map := event_data_map S\<rparr>"
    using init_program_data_frame [of "ex_env m" T ctx] ini by simp
  have ctx: "pid (ev_context (pd_event p)) = 0" "uid (ev_context (pd_event p)) = 0"
    using init_program_data_context [OF ini] by simp_all
  have "should_trace S p"
    using cfg ctx by (subst frame) (simp add: should_trace_def Let_def trace_by_id_def tables
      in_common_list_def bpf_map_lookup_elem_def [of "[]"] trace_by_group_def in_group_def const_simps)
  then show ?thesis using ini that by blast
qed

lemma ex_after_sys_traced:
  assumes "config_tables T = config_tables (ex_maps m)"
  obtains S p where "sys_traced (ex_env m) T ctx S p \<lparr>is_32bit = 0, trace_mode = TRACE_ALL,
     trace_uid_group = GROUP_ROOT, signal = 0, tsignal = 0\<rparr>"
proof -
  have "common_filter T = common_filter (ex_maps m)" "common_list T = []"
    using assms by (simp_all add: config_tables_def)
  then show ?thesis
    using ex_after_init [OF assms, of ctx] that
    by (auto simp: sys_traced_def syscall_listed_def in_common_list_def bpf_map_lookup_elem_def [of "[]"] const_simps)
qed

text \<open>The thread has entered system call 0, or the function of point 1.\<close>

lemma ex_sys_entered:
  obtains S1 where "raw_syscalls_sys_enter (ex_env MODULE_SYSCALL) (ex_maps MODULE_SYSCALL) 64 = Some S1"
    and "no_pending S1" and "config_tables S1 = config_tables (ex_maps MODULE_SYSCALL)"
proof -
  let ?m = MODULE_SYSCALL
  obtain S p where "sys_traced (ex_env ?m) (ex_maps ?m) 64 S p \<lparr>is_32bit = 0,
      trace_mode = TRACE_ALL, trace_uid_group = GROUP_ROOT, signal = 0, tsignal = 0\<rparr>"
    by (rule ex_sys_traced)
  note sys_enter_args [OF ex_env_laws _ this, unfolded ex_syscall ex_env_build,
    OF wf_ex_maps ex_tables(5) ex_arg_program(1) ex_parsed(1) ex_no_pending(1) ex_room]
  then obtain S1 where S1: "raw_syscalls_sys_enter (ex_env ?m) (ex_maps ?m) 64 = Some S1" "no_pending S1"
    using ex_env_output by blast
  then show ?thesis using sys_enter_frame [OF ex_env_laws S1(1)] that by (simp add: program_frame_def)
qed

lemma ex_function_entered:
  obtains S1 where "probe_stack_warp (ex_env MODULE_STACK) (ex_maps MODULE_STACK) 64 1 = Some S1"
    and "no_pending S1" and "config_tables S1 = config_tables (ex_maps MODULE_STACK)"
proof -
  let ?m = MODULE_STACK
  obtain S p where ini: "init_program_data (ex_env ?m) (ex_maps ?m) 64 = (S, Some p)" "should_trace S p"
    by (rule ex_traced)
  have "enter_key (ex_point ?m 2) \<in> {0, 1 + 1}" by simp
  note uprobe_args [OF ex_env_laws _ ini, unfolded ex_env_build,
    OF wf_ex_maps ex_tables(3) this ex_arg_program(1) ex_parsed(1) ex_tables(1) ex_no_pending(1)]
  then obtain S1 where S1: "probe_stack_warp (ex_env ?m) (ex_maps ?m) 64 1 = Some S1" "no_pending S1"
    using ex_env_output by blast
  then show ?thesis using probe_stack_warp_frame [OF ex_env_laws S1(1)] that by (simp add: program_frame_def)
qed

end
