(* ===== verification/C_Layout.thy ===== *)
theory C_Layout
  imports Prelude
begin

text \<open>
  The layout of C types as the compiler gives it to the structures of
  \<open>src/src/vmlinux_510.h\<close>: a type is its size, its alignment and the places of its named members, in
  bits, so that bit-fields need no case of their own. Members of an anonymous structure or union are
  members of the structure around it. The lemmas show that every layout built this way is sound: the
  size is a multiple of the alignment, direct members do not overlap, each starts at a multiple of
  its own alignment, and every named member, nested ones included, lies inside the type.
\<close>

record ctype =
  t_size :: nat
  t_align :: nat
  t_members :: "(string \<times> nat \<times> nat) list"

text \<open>\<open>Bits f s w\<close> is a bit-field of \<open>w\<close> bits of an integer type of \<open>s\<close> bytes; padding has no name.\<close>

datatype member = Field string ctype | Bits string nat nat | Anon ctype

definition scalar :: "nat \<Rightarrow> ctype" where
  "scalar n = \<lparr>t_size = n, t_align = n, t_members = []\<rparr>"

definition pointer :: ctype where
  "pointer = scalar 8"

definition array_of :: "nat \<Rightarrow> ctype \<Rightarrow> ctype" where
  "array_of n t = \<lparr>t_size = n * t_size t, t_align = t_align t, t_members = []\<rparr>"

definition round_up :: "nat \<Rightarrow> nat \<Rightarrow> nat" where
  "round_up a n = (if n mod a = 0 then n else n + (a - n mod a))"

fun m_align :: "member \<Rightarrow> nat" where
  "m_align (Field f t) = t_align t"
| "m_align (Anon t) = t_align t"
| "m_align (Bits f s w) = (if f = [] then 1 else s)"

fun m_bits :: "member \<Rightarrow> nat" where
  "m_bits (Field f t) = 8 * t_size t"
| "m_bits (Anon t) = 8 * t_size t"
| "m_bits (Bits f s w) = w"

text \<open>A bit-field that would straddle a unit of its type starts a new one.\<close>

fun m_start :: "member \<Rightarrow> nat \<Rightarrow> nat" where
  "m_start (Field f t) b = round_up (8 * t_align t) b"
| "m_start (Anon t) b = round_up (8 * t_align t) b"
| "m_start (Bits f s w) b = (if b mod (8 * s) + w \<le> 8 * s then b else round_up (8 * s) b)"

fun m_names :: "member \<Rightarrow> nat \<Rightarrow> (string \<times> nat \<times> nat) list" where
  "m_names (Field f t) b = [(f, b, 8 * t_size t)]"
| "m_names (Anon t) b = map (\<lambda>(f, o1, n). (f, b + o1, n)) (t_members t)"
| "m_names (Bits f s w) b = (if f = [] then [] else [(f, b, w)])"

fun place_members :: "nat \<Rightarrow> member list \<Rightarrow> (string \<times> nat \<times> nat) list" where
  "place_members b [] = []"
| "place_members b (m # ms) = m_names m (m_start m b) @ place_members (m_start m b + m_bits m) ms"

fun members_end :: "nat \<Rightarrow> member list \<Rightarrow> nat" where
  "members_end b [] = b"
| "members_end b (m # ms) = members_end (m_start m b + m_bits m) ms"

text \<open>The largest alignment and the largest number of bits among the members, and the given bound.\<close>

fun max_align :: "nat \<Rightarrow> member list \<Rightarrow> nat" where
  "max_align a [] = a"
| "max_align a (m # ms) = max_align (if a \<le> m_align m then m_align m else a) ms"

fun max_bits :: "nat \<Rightarrow> member list \<Rightarrow> nat" where
  "max_bits n [] = n"
| "max_bits n (m # ms) = max_bits (if n \<le> m_bits m then m_bits m else n) ms"

definition bytes_of_bits :: "nat \<Rightarrow> nat" where
  "bytes_of_bits b = (b + 7) div 8"

definition struct_of :: "member list \<Rightarrow> ctype" where
  "struct_of ms =
     \<lparr>t_size = round_up (max_align 1 ms) (bytes_of_bits (members_end 0 ms)),
      t_align = max_align 1 ms, t_members = place_members 0 ms\<rparr>"

definition union_of :: "member list \<Rightarrow> ctype" where
  "union_of ms =
     \<lparr>t_size = round_up (max_align 1 ms) (bytes_of_bits (max_bits 0 ms)),
      t_align = max_align 1 ms, t_members = concat (map (\<lambda>m. m_names m 0) ms)\<rparr>"

text \<open>The place of a member, in bytes: its offset and its size.\<close>

definition member_at :: "ctype \<Rightarrow> string \<Rightarrow> (nat \<times> nat) option" where
  "member_at t f = map_option (\<lambda>(b, n). (b div 8, n div 8)) (map_of (t_members t) f)"

definition offset_in :: "ctype \<Rightarrow> string \<Rightarrow> nat" where
  "offset_in t f = (case member_at t f of None \<Rightarrow> 0 | Some (o1, n) \<Rightarrow> o1)"

subsection \<open>Sound layouts\<close>

definition sound_type :: "ctype \<Rightarrow> bool" where
  "sound_type t \<longleftrightarrow> 0 < t_align t \<and> t_align t dvd t_size t \<and>
     list_all (\<lambda>(f, b, n). b + n \<le> 8 * t_size t) (t_members t)"

fun sound_member :: "member \<Rightarrow> bool" where
  "sound_member (Field f t) = sound_type t"
| "sound_member (Anon t) = sound_type t"
| "sound_member (Bits f s w) = (0 < s \<and> w \<le> 8 * s)"

text \<open>The direct members of a structure: first bit, number of bits and the required alignment in bits.\<close>

fun spans :: "nat \<Rightarrow> member list \<Rightarrow> (nat \<times> nat \<times> nat) list" where
  "spans b [] = []"
| "spans b (m # ms) =
     (m_start m b, m_bits m, case m of Bits f s w \<Rightarrow> 1 | _ \<Rightarrow> 8 * m_align m) # spans (m_start m b + m_bits m) ms"

lemma round_up_ge [simp]: "n \<le> round_up a n"
  by (simp add: round_up_def)

lemma dvd_round_up: "0 < a \<Longrightarrow> a dvd round_up a n"
proof -
  assume a: "0 < a"
  have "n + (a - n mod a) = (n div a + 1) * a" if "n mod a \<noteq> 0"
    using mod_less_divisor [OF a, of n] div_mult_mod_eq [of n a] unfolding add_mult_distrib by linarith
  then show ?thesis by (auto simp: round_up_def)
qed

lemma bytes_of_bits_ge: "b \<le> 8 * bytes_of_bits b"
  by (simp add: bytes_of_bits_def)

lemma max_align_pos: "0 < a \<Longrightarrow> 0 < max_align a ms"
  by (induction ms arbitrary: a) auto

lemma m_start_ge: "sound_member m \<Longrightarrow> b \<le> m_start m b"
  by (cases m) auto

lemma members_end_ge: "list_all sound_member ms \<Longrightarrow> b \<le> members_end b ms"
proof (induction ms arbitrary: b)
  case (Cons m ms)
  have "b \<le> m_start m b" using Cons.prems by (simp add: m_start_ge)
  also have "\<dots> \<le> members_end (m_start m b + m_bits m) ms"
    using Cons.IH [of "m_start m b + m_bits m"] Cons.prems by simp
  finally show ?case by simp
qed simp

lemma m_names_within:
  "sound_member m \<Longrightarrow> (f, b, n) \<in> set (m_names m s) \<Longrightarrow> s \<le> b \<and> b + n \<le> s + m_bits m"
  by (cases m) (auto simp: sound_type_def list_all_iff split: if_splits)

lemma place_members_within:
  "list_all sound_member ms \<Longrightarrow> (f, o1, n) \<in> set (place_members b ms) \<Longrightarrow> o1 + n \<le> members_end b ms"
proof (induction ms arbitrary: b)
  case (Cons m ms)
  let ?e = "m_start m b + m_bits m"
  consider "(f, o1, n) \<in> set (m_names m (m_start m b))" | "(f, o1, n) \<in> set (place_members ?e ms)"
    using Cons.prems by auto
  then show ?case
  proof cases
    case 1
    then show ?thesis
      using m_names_within [OF _ 1] members_end_ge [of ms ?e] Cons.prems(1) by (simp add: le_trans)
  next
    case 2
    then show ?thesis using Cons by simp
  qed
qed simp

lemma max_bits_ge: "n \<le> max_bits n ms \<and> (m \<in> set ms \<longrightarrow> m_bits m \<le> max_bits n ms)"
  by (induction ms arbitrary: n) (auto, (meson le_trans nat_le_linear)+)

lemma size_covers:
  "b \<le> 8 * round_up (max_align 1 ms) (bytes_of_bits b)"
  using bytes_of_bits_ge [of b] round_up_ge [of "bytes_of_bits b" "max_align 1 ms"] by linarith

lemma sound_scalar [simp]: "0 < n \<Longrightarrow> sound_type (scalar n)"
  by (simp add: sound_type_def scalar_def)

lemma sound_pointer [simp]: "sound_type pointer"
  by (simp add: pointer_def)

lemma sound_array [simp]: "sound_type t \<Longrightarrow> sound_type (array_of n t)"
  by (simp add: sound_type_def array_of_def)

lemma sound_struct [simp]: "list_all sound_member ms \<Longrightarrow> sound_type (struct_of ms)"
  using place_members_within [of ms] size_covers [of "members_end 0 ms" ms]
  by (fastforce simp: sound_type_def struct_of_def max_align_pos dvd_round_up list_all_iff intro: order_trans)

lemma sound_union [simp]:
  assumes "list_all sound_member ms"
  shows "sound_type (union_of ms)"
proof -
  have "b + n \<le> 8 * t_size (union_of ms)" if "m \<in> set ms" "(f, b, n) \<in> set (m_names m 0)" for m f b n
    using m_names_within [of m f b n 0] that assms max_bits_ge [of 0 ms m] size_covers [of "max_bits 0 ms" ms]
    by (fastforce simp: union_of_def list_all_iff)
  then show ?thesis
    by (fastforce simp: sound_type_def union_of_def max_align_pos dvd_round_up list_all_iff)
qed

lemma spans_after:
  "list_all sound_member ms \<Longrightarrow> (s, n, a) \<in> set (spans b ms) \<Longrightarrow> b \<le> s"
proof (induction ms arbitrary: b)
  case (Cons m ms)
  then show ?case using m_start_ge [of m b] Cons.IH [of "m_start m b + m_bits m"] by force
qed simp

lemma spans_sorted:
  "list_all sound_member ms \<Longrightarrow> sorted_wrt (\<lambda>(s, n, a) (s', n', a'). s + n \<le> s') (spans b ms)"
proof (induction ms arbitrary: b)
  case (Cons m ms)
  then show ?case using spans_after [of ms _ _ _ "m_start m b + m_bits m"] by auto
qed simp

lemma spans_aligned: "list_all sound_member ms \<Longrightarrow> (s, n, a) \<in> set (spans b ms) \<Longrightarrow> a dvd s"
proof (induction ms arbitrary: b)
  case (Cons m ms)
  have "(case m of Bits f z w \<Rightarrow> 1 | _ \<Rightarrow> 8 * m_align m) dvd m_start m b"
    using Cons.prems by (cases m) (auto simp: dvd_round_up sound_type_def)
  with Cons show ?case by auto
qed simp

lemma member_at_within:
  assumes "sound_type t" and "member_at t f = Some (o1, n)"
  shows "o1 + n \<le> t_size t"
proof -
  obtain b k where bk: "map_of (t_members t) f = Some (b, k)" "o1 = b div 8" "n = k div 8"
    using assms(2) by (auto simp: member_at_def)
  have "b + k \<le> 8 * t_size t"
    using assms(1) map_of_SomeD [OF bk(1)] by (auto simp: sound_type_def list_all_iff)
  then show ?thesis using bk by linarith
qed

subsection \<open>Computing with layouts\<close>

text \<open>Searching a member of a structure without placing the members behind it.\<close>

fun find_member :: "string \<Rightarrow> nat \<Rightarrow> member list \<Rightarrow> (nat \<times> nat) option" where
  "find_member f b [] = None"
| "find_member f b (Field g t # ms) =
     (if f = g then Some (m_start (Field g t) b, 8 * t_size t)
      else find_member f (m_start (Field g t) b + 8 * t_size t) ms)"
| "find_member f b (Bits g s w # ms) =
     (if f = g \<and> g \<noteq> [] then Some (m_start (Bits g s w) b, w) else find_member f (m_start (Bits g s w) b + w) ms)"
| "find_member f b (Anon t # ms) =
     (case map_of (t_members t) f of
        None \<Rightarrow> find_member f (m_start (Anon t) b + 8 * t_size t) ms
      | Some (o1, n) \<Rightarrow> Some (m_start (Anon t) b + o1, n))"

lemma map_of_shift:
  "map_of (map (\<lambda>(f, o1, n). (f, b + o1, n)) xs) f = map_option (\<lambda>(o1, n). (b + o1, n)) (map_of xs f)"
  by (induction xs) auto

lemma map_of_place_members: "map_of (place_members b ms) f = find_member f b ms"
  by (induction f b ms rule: find_member.induct) (auto simp: map_add_def map_of_shift split: option.splits)

lemma find_member_append:
  "find_member f b (A @ B) =
    (case find_member f b A of None \<Rightarrow> find_member f (members_end b A) B | Some r \<Rightarrow> Some r)"
  by (induction f b A rule: find_member.induct) (auto split: option.splits)

lemma member_at_struct:
  "member_at (struct_of ms) f = map_option (\<lambda>(b, n). (b div 8, n div 8)) (find_member f 0 ms)"
  by (simp add: member_at_def struct_of_def map_of_place_members)

lemma members_simps:
  "t_members (struct_of ms) = place_members 0 ms"
  "t_members (union_of ms) = concat (map (\<lambda>m. m_names m 0) ms)"
  by (simp_all add: struct_of_def union_of_def)

text \<open>The size and alignment of a type built from types of known size and alignment.\<close>

lemma size_simps:
  "t_size (struct_of ms) = round_up (max_align 1 ms) (bytes_of_bits (members_end 0 ms))"
  "t_align (struct_of ms) = max_align 1 ms"
  "t_size (union_of ms) = round_up (max_align 1 ms) (bytes_of_bits (max_bits 0 ms))"
  "t_align (union_of ms) = max_align 1 ms"
  "t_size (array_of n t) = n * t_size t" "t_align (array_of n t) = t_align t"
  "t_size (scalar n) = n" "t_align (scalar n) = n" "t_size pointer = 8" "t_align pointer = 8"
  by (simp_all add: struct_of_def union_of_def array_of_def scalar_def pointer_def)

lemmas layout_simps = size_simps round_up_def bytes_of_bits_def

lemmas member_simps = layout_simps members_simps member_at_struct

end
