(* ===== verification/Kernel_Types.thy ===== *)
theory Kernel_Types
  imports C_Layout
begin

text \<open>
  The structures of \<open>src/src/vmlinux_510.h\<close> that the programs name, those that describe the identity,
  the files and the mounts of a task and that members of the former point at, and every type these
  hold by value, in the order of their dependencies. A structure, union or enumeration tag and a typedef
  name keep their C namespace as a prefix (leading underscores are dropped). Other pointers
  are not followed. Each type comes with its size, its alignment and the soundness of its layout, so that
  the layout of a type needs only those of its members.
\<close>

definition typedef_u64 :: ctype where
  "typedef_u64 = scalar 8"

lemma typedef_u64_size [simp]: "t_size typedef_u64 = 8" "t_align typedef_u64 = 8"
  by (simp_all add: typedef_u64_def layout_simps)

lemma typedef_u64_sound [simp]: "sound_type typedef_u64"
  by (simp add: typedef_u64_def)

definition struct_bpf_raw_tracepoint_args :: ctype where
  "struct_bpf_raw_tracepoint_args =
   struct_of
    [Field ''args'' (array_of 0 typedef_u64)]"

lemma struct_bpf_raw_tracepoint_args_size [simp]: "t_size struct_bpf_raw_tracepoint_args = 0" "t_align struct_bpf_raw_tracepoint_args = 8"
  by (simp_all add: struct_bpf_raw_tracepoint_args_def layout_simps)

lemma struct_bpf_raw_tracepoint_args_sound [simp]: "sound_type struct_bpf_raw_tracepoint_args"
  by (simp add: struct_bpf_raw_tracepoint_args_def)

definition typedef_kernel_sa_family_t :: ctype where
  "typedef_kernel_sa_family_t = scalar 2"

lemma typedef_kernel_sa_family_t_size [simp]: "t_size typedef_kernel_sa_family_t = 2" "t_align typedef_kernel_sa_family_t = 2"
  by (simp_all add: typedef_kernel_sa_family_t_def layout_simps)

lemma typedef_kernel_sa_family_t_sound [simp]: "sound_type typedef_kernel_sa_family_t"
  by (simp add: typedef_kernel_sa_family_t_def)

definition struct_sockaddr_un :: ctype where
  "struct_sockaddr_un =
   struct_of
    [Field ''sun_family'' typedef_kernel_sa_family_t,
     Field ''sun_path'' (array_of 108 (scalar 1))]"

lemma struct_sockaddr_un_size [simp]: "t_size struct_sockaddr_un = 110" "t_align struct_sockaddr_un = 2"
  by (simp_all add: struct_sockaddr_un_def layout_simps)

lemma struct_sockaddr_un_sound [simp]: "sound_type struct_sockaddr_un"
  by (simp add: struct_sockaddr_un_def)

definition struct_user_pt_regs :: ctype where
  "struct_user_pt_regs =
   struct_of
    [Field ''regs'' (array_of 31 typedef_u64),
     Field ''sp'' typedef_u64,
     Field ''pc'' typedef_u64,
     Field ''pstate'' typedef_u64]"

lemma struct_user_pt_regs_size [simp]: "t_size struct_user_pt_regs = 272" "t_align struct_user_pt_regs = 8"
  by (simp_all add: struct_user_pt_regs_def layout_simps)

lemma struct_user_pt_regs_sound [simp]: "sound_type struct_user_pt_regs"
  by (simp add: struct_user_pt_regs_def)

definition typedef_kernel_u64 :: ctype where
  "typedef_kernel_u64 = typedef_u64"

lemma typedef_kernel_u64_size [simp]: "t_size typedef_kernel_u64 = 8" "t_align typedef_kernel_u64 = 8"
  by (simp_all add: typedef_kernel_u64_def layout_simps)

lemma typedef_kernel_u64_sound [simp]: "sound_type typedef_kernel_u64"
  by (simp add: typedef_kernel_u64_def)

definition typedef_s32 :: ctype where
  "typedef_s32 = scalar 4"

lemma typedef_s32_size [simp]: "t_size typedef_s32 = 4" "t_align typedef_s32 = 4"
  by (simp_all add: typedef_s32_def layout_simps)

lemma typedef_s32_sound [simp]: "sound_type typedef_s32"
  by (simp add: typedef_s32_def)

definition typedef_kernel_s32 :: ctype where
  "typedef_kernel_s32 = typedef_s32"

lemma typedef_kernel_s32_size [simp]: "t_size typedef_kernel_s32 = 4" "t_align typedef_kernel_s32 = 4"
  by (simp_all add: typedef_kernel_s32_def layout_simps)

lemma typedef_kernel_s32_sound [simp]: "sound_type typedef_kernel_s32"
  by (simp add: typedef_kernel_s32_def)

definition typedef_u32 :: ctype where
  "typedef_u32 = scalar 4"

lemma typedef_u32_size [simp]: "t_size typedef_u32 = 4" "t_align typedef_u32 = 4"
  by (simp_all add: typedef_u32_def layout_simps)

lemma typedef_u32_sound [simp]: "sound_type typedef_u32"
  by (simp add: typedef_u32_def)

definition typedef_kernel_u32 :: ctype where
  "typedef_kernel_u32 = typedef_u32"

lemma typedef_kernel_u32_size [simp]: "t_size typedef_kernel_u32 = 4" "t_align typedef_kernel_u32 = 4"
  by (simp_all add: typedef_kernel_u32_def layout_simps)

lemma typedef_kernel_u32_sound [simp]: "sound_type typedef_kernel_u32"
  by (simp add: typedef_kernel_u32_def)

definition struct_pt_regs :: ctype where
  "struct_pt_regs =
   struct_of
    [Anon (union_of [Field ''user_regs'' struct_user_pt_regs,
     Anon (struct_of [Field ''regs'' (array_of 31 typedef_kernel_u64),
     Field ''sp'' typedef_kernel_u64,
     Field ''pc'' typedef_kernel_u64,
     Field ''pstate'' typedef_kernel_u64])]),
     Field ''orig_x0'' typedef_kernel_u64,
     Field ''syscallno'' typedef_kernel_s32,
     Field ''unused2'' typedef_kernel_u32,
     Field ''orig_addr_limit'' typedef_kernel_u64,
     Field ''pmr_save'' typedef_kernel_u64,
     Field ''stackframe'' (array_of 2 typedef_kernel_u64),
     Field ''lockdep_hardirqs'' typedef_kernel_u64,
     Field ''exit_rcu'' typedef_kernel_u64]"

lemma struct_pt_regs_size [simp]: "t_size struct_pt_regs = 336" "t_align struct_pt_regs = 8"
  by (simp_all add: struct_pt_regs_def layout_simps)

lemma struct_pt_regs_sound [simp]: "sound_type struct_pt_regs"
  by (simp add: struct_pt_regs_def)

definition struct_upid :: ctype where
  "struct_upid =
   struct_of
    [Field ''nr'' (scalar 4),
     Field ''ns'' pointer]"

lemma struct_upid_size [simp]: "t_size struct_upid = 16" "t_align struct_upid = 8"
  by (simp_all add: struct_upid_def layout_simps)

lemma struct_upid_sound [simp]: "sound_type struct_upid"
  by (simp add: struct_upid_def)

definition typedef_atomic_t :: ctype where
  "typedef_atomic_t =
   struct_of
    [Field ''counter'' (scalar 4)]"

lemma typedef_atomic_t_size [simp]: "t_size typedef_atomic_t = 4" "t_align typedef_atomic_t = 4"
  by (simp_all add: typedef_atomic_t_def layout_simps)

lemma typedef_atomic_t_sound [simp]: "sound_type typedef_atomic_t"
  by (simp add: typedef_atomic_t_def)

definition struct_refcount_struct :: ctype where
  "struct_refcount_struct =
   struct_of
    [Field ''refs'' typedef_atomic_t]"

lemma struct_refcount_struct_size [simp]: "t_size struct_refcount_struct = 4" "t_align struct_refcount_struct = 4"
  by (simp_all add: struct_refcount_struct_def layout_simps)

lemma struct_refcount_struct_sound [simp]: "sound_type struct_refcount_struct"
  by (simp add: struct_refcount_struct_def)

definition typedef_refcount_t :: ctype where
  "typedef_refcount_t = struct_refcount_struct"

lemma typedef_refcount_t_size [simp]: "t_size typedef_refcount_t = 4" "t_align typedef_refcount_t = 4"
  by (simp_all add: typedef_refcount_t_def layout_simps)

lemma typedef_refcount_t_sound [simp]: "sound_type typedef_refcount_t"
  by (simp add: typedef_refcount_t_def)

definition typedef_u8 :: ctype where
  "typedef_u8 = scalar 1"

lemma typedef_u8_size [simp]: "t_size typedef_u8 = 1" "t_align typedef_u8 = 1"
  by (simp_all add: typedef_u8_def layout_simps)

lemma typedef_u8_sound [simp]: "sound_type typedef_u8"
  by (simp add: typedef_u8_def)

definition typedef_kernel_u8 :: ctype where
  "typedef_kernel_u8 = typedef_u8"

lemma typedef_kernel_u8_size [simp]: "t_size typedef_kernel_u8 = 1" "t_align typedef_kernel_u8 = 1"
  by (simp_all add: typedef_kernel_u8_def layout_simps)

lemma typedef_kernel_u8_sound [simp]: "sound_type typedef_kernel_u8"
  by (simp add: typedef_kernel_u8_def)

definition typedef_u16 :: ctype where
  "typedef_u16 = scalar 2"

lemma typedef_u16_size [simp]: "t_size typedef_u16 = 2" "t_align typedef_u16 = 2"
  by (simp_all add: typedef_u16_def layout_simps)

lemma typedef_u16_sound [simp]: "sound_type typedef_u16"
  by (simp add: typedef_u16_def)

definition typedef_kernel_u16 :: ctype where
  "typedef_kernel_u16 = typedef_u16"

lemma typedef_kernel_u16_size [simp]: "t_size typedef_kernel_u16 = 2" "t_align typedef_kernel_u16 = 2"
  by (simp_all add: typedef_kernel_u16_def layout_simps)

lemma typedef_kernel_u16_sound [simp]: "sound_type typedef_kernel_u16"
  by (simp add: typedef_kernel_u16_def)

definition struct_qspinlock :: ctype where
  "struct_qspinlock =
   struct_of
    [Anon (union_of [Field ''val'' typedef_atomic_t,
     Anon (struct_of [Field ''locked'' typedef_kernel_u8,
     Field ''pending'' typedef_kernel_u8]),
     Anon (struct_of [Field ''locked_pending'' typedef_kernel_u16,
     Field ''tail'' typedef_kernel_u16])])]"

lemma struct_qspinlock_size [simp]: "t_size struct_qspinlock = 4" "t_align struct_qspinlock = 4"
  by (simp_all add: struct_qspinlock_def layout_simps)

lemma struct_qspinlock_sound [simp]: "sound_type struct_qspinlock"
  by (simp add: struct_qspinlock_def)

definition typedef_arch_spinlock_t :: ctype where
  "typedef_arch_spinlock_t = struct_qspinlock"

lemma typedef_arch_spinlock_t_size [simp]: "t_size typedef_arch_spinlock_t = 4" "t_align typedef_arch_spinlock_t = 4"
  by (simp_all add: typedef_arch_spinlock_t_def layout_simps)

lemma typedef_arch_spinlock_t_sound [simp]: "sound_type typedef_arch_spinlock_t"
  by (simp add: typedef_arch_spinlock_t_def)

definition struct_raw_spinlock :: ctype where
  "struct_raw_spinlock =
   struct_of
    [Field ''raw_lock'' typedef_arch_spinlock_t]"

lemma struct_raw_spinlock_size [simp]: "t_size struct_raw_spinlock = 4" "t_align struct_raw_spinlock = 4"
  by (simp_all add: struct_raw_spinlock_def layout_simps)

lemma struct_raw_spinlock_sound [simp]: "sound_type struct_raw_spinlock"
  by (simp add: struct_raw_spinlock_def)

definition struct_spinlock :: ctype where
  "struct_spinlock =
   struct_of
    [Anon (union_of [Field ''rlock'' struct_raw_spinlock])]"

lemma struct_spinlock_size [simp]: "t_size struct_spinlock = 4" "t_align struct_spinlock = 4"
  by (simp_all add: struct_spinlock_def layout_simps)

lemma struct_spinlock_sound [simp]: "sound_type struct_spinlock"
  by (simp add: struct_spinlock_def)

definition typedef_spinlock_t :: ctype where
  "typedef_spinlock_t = struct_spinlock"

lemma typedef_spinlock_t_size [simp]: "t_size typedef_spinlock_t = 4" "t_align typedef_spinlock_t = 4"
  by (simp_all add: typedef_spinlock_t_def layout_simps)

lemma typedef_spinlock_t_sound [simp]: "sound_type typedef_spinlock_t"
  by (simp add: typedef_spinlock_t_def)

definition struct_hlist_head :: ctype where
  "struct_hlist_head =
   struct_of
    [Field ''first'' pointer]"

lemma struct_hlist_head_size [simp]: "t_size struct_hlist_head = 8" "t_align struct_hlist_head = 8"
  by (simp_all add: struct_hlist_head_def layout_simps)

lemma struct_hlist_head_sound [simp]: "sound_type struct_hlist_head"
  by (simp add: struct_hlist_head_def)

definition struct_list_head :: ctype where
  "struct_list_head =
   struct_of
    [Field ''next'' pointer,
     Field ''prev'' pointer]"

lemma struct_list_head_size [simp]: "t_size struct_list_head = 16" "t_align struct_list_head = 8"
  by (simp_all add: struct_list_head_def layout_simps)

lemma struct_list_head_sound [simp]: "sound_type struct_list_head"
  by (simp add: struct_list_head_def)

definition struct_wait_queue_head :: ctype where
  "struct_wait_queue_head =
   struct_of
    [Field ''lock'' typedef_spinlock_t,
     Field ''head'' struct_list_head]"

lemma struct_wait_queue_head_size [simp]: "t_size struct_wait_queue_head = 24" "t_align struct_wait_queue_head = 8"
  by (simp_all add: struct_wait_queue_head_def layout_simps)

lemma struct_wait_queue_head_sound [simp]: "sound_type struct_wait_queue_head"
  by (simp add: struct_wait_queue_head_def)

definition typedef_wait_queue_head_t :: ctype where
  "typedef_wait_queue_head_t = struct_wait_queue_head"

lemma typedef_wait_queue_head_t_size [simp]: "t_size typedef_wait_queue_head_t = 24" "t_align typedef_wait_queue_head_t = 8"
  by (simp_all add: typedef_wait_queue_head_t_def layout_simps)

lemma typedef_wait_queue_head_t_sound [simp]: "sound_type typedef_wait_queue_head_t"
  by (simp add: typedef_wait_queue_head_t_def)

definition struct_callback_head :: ctype where
  "struct_callback_head =
   struct_of
    [Field ''next'' pointer,
     Field ''func'' pointer]"

lemma struct_callback_head_size [simp]: "t_size struct_callback_head = 16" "t_align struct_callback_head = 8"
  by (simp_all add: struct_callback_head_def layout_simps)

lemma struct_callback_head_sound [simp]: "sound_type struct_callback_head"
  by (simp add: struct_callback_head_def)

definition struct_pid :: ctype where
  "struct_pid =
   struct_of
    [Field ''count'' typedef_refcount_t,
     Field ''level'' (scalar 4),
     Field ''lock'' typedef_spinlock_t,
     Field ''tasks'' (array_of 4 struct_hlist_head),
     Field ''inodes'' struct_hlist_head,
     Field ''wait_pidfd'' typedef_wait_queue_head_t,
     Field ''rcu'' struct_callback_head,
     Field ''numbers'' (array_of 1 struct_upid)]"

lemma struct_pid_size [simp]: "t_size struct_pid = 112" "t_align struct_pid = 8"
  by (simp_all add: struct_pid_def layout_simps)

lemma struct_pid_sound [simp]: "sound_type struct_pid"
  by (simp add: struct_pid_def)

definition struct_rb_node :: ctype where
  "struct_rb_node =
   struct_of
    [Field ''__rb_parent_color'' (scalar 8),
     Field ''rb_right'' pointer,
     Field ''rb_left'' pointer]"

lemma struct_rb_node_size [simp]: "t_size struct_rb_node = 24" "t_align struct_rb_node = 8"
  by (simp_all add: struct_rb_node_def layout_simps)

lemma struct_rb_node_sound [simp]: "sound_type struct_rb_node"
  by (simp add: struct_rb_node_def)

definition typedef_pteval_t :: ctype where
  "typedef_pteval_t = typedef_kernel_u64"

lemma typedef_pteval_t_size [simp]: "t_size typedef_pteval_t = 8" "t_align typedef_pteval_t = 8"
  by (simp_all add: typedef_pteval_t_def layout_simps)

lemma typedef_pteval_t_sound [simp]: "sound_type typedef_pteval_t"
  by (simp add: typedef_pteval_t_def)

definition typedef_pgprot_t :: ctype where
  "typedef_pgprot_t =
   struct_of
    [Field ''pgprot'' typedef_pteval_t]"

lemma typedef_pgprot_t_size [simp]: "t_size typedef_pgprot_t = 8" "t_align typedef_pgprot_t = 8"
  by (simp_all add: typedef_pgprot_t_def layout_simps)

lemma typedef_pgprot_t_sound [simp]: "sound_type typedef_pgprot_t"
  by (simp add: typedef_pgprot_t_def)

definition typedef_s64 :: ctype where
  "typedef_s64 = scalar 8"

lemma typedef_s64_size [simp]: "t_size typedef_s64 = 8" "t_align typedef_s64 = 8"
  by (simp_all add: typedef_s64_def layout_simps)

lemma typedef_s64_sound [simp]: "sound_type typedef_s64"
  by (simp add: typedef_s64_def)

definition typedef_kernel_s64 :: ctype where
  "typedef_kernel_s64 = typedef_s64"

lemma typedef_kernel_s64_size [simp]: "t_size typedef_kernel_s64 = 8" "t_align typedef_kernel_s64 = 8"
  by (simp_all add: typedef_kernel_s64_def layout_simps)

lemma typedef_kernel_s64_sound [simp]: "sound_type typedef_kernel_s64"
  by (simp add: typedef_kernel_s64_def)

definition typedef_atomic64_t :: ctype where
  "typedef_atomic64_t =
   struct_of
    [Field ''counter'' typedef_kernel_s64]"

lemma typedef_atomic64_t_size [simp]: "t_size typedef_atomic64_t = 8" "t_align typedef_atomic64_t = 8"
  by (simp_all add: typedef_atomic64_t_def layout_simps)

lemma typedef_atomic64_t_sound [simp]: "sound_type typedef_atomic64_t"
  by (simp add: typedef_atomic64_t_def)

definition typedef_atomic_long_t :: ctype where
  "typedef_atomic_long_t = typedef_atomic64_t"

lemma typedef_atomic_long_t_size [simp]: "t_size typedef_atomic_long_t = 8" "t_align typedef_atomic_long_t = 8"
  by (simp_all add: typedef_atomic_long_t_def layout_simps)

lemma typedef_atomic_long_t_sound [simp]: "sound_type typedef_atomic_long_t"
  by (simp add: typedef_atomic_long_t_def)

definition struct_vm_userfaultfd_ctx :: ctype where
  "struct_vm_userfaultfd_ctx =
   struct_of
    [Field ''ctx'' pointer]"

lemma struct_vm_userfaultfd_ctx_size [simp]: "t_size struct_vm_userfaultfd_ctx = 8" "t_align struct_vm_userfaultfd_ctx = 8"
  by (simp_all add: struct_vm_userfaultfd_ctx_def layout_simps)

lemma struct_vm_userfaultfd_ctx_sound [simp]: "sound_type struct_vm_userfaultfd_ctx"
  by (simp add: struct_vm_userfaultfd_ctx_def)

definition struct_vm_area_struct :: ctype where
  "struct_vm_area_struct =
   struct_of
    [Field ''vm_start'' (scalar 8),
     Field ''vm_end'' (scalar 8),
     Field ''vm_next'' pointer,
     Field ''vm_prev'' pointer,
     Field ''vm_rb'' struct_rb_node,
     Field ''rb_subtree_gap'' (scalar 8),
     Field ''vm_mm'' pointer,
     Field ''vm_page_prot'' typedef_pgprot_t,
     Field ''vm_flags'' (scalar 8),
     Field ''shared'' (struct_of [Field ''rb'' struct_rb_node,
     Field ''rb_subtree_last'' (scalar 8)]),
     Field ''anon_vma_chain'' struct_list_head,
     Field ''anon_vma'' pointer,
     Field ''vm_ops'' pointer,
     Field ''vm_pgoff'' (scalar 8),
     Field ''vm_file'' pointer,
     Field ''vm_private_data'' pointer,
     Field ''swap_readahead_info'' typedef_atomic_long_t,
     Field ''vm_policy'' pointer,
     Field ''vm_userfaultfd_ctx'' struct_vm_userfaultfd_ctx]"

lemma struct_vm_area_struct_size [simp]: "t_size struct_vm_area_struct = 200" "t_align struct_vm_area_struct = 8"
  by (simp_all add: struct_vm_area_struct_def layout_simps)

lemma struct_vm_area_struct_sound [simp]: "sound_type struct_vm_area_struct"
  by (simp add: struct_vm_area_struct_def)

definition struct_rb_root :: ctype where
  "struct_rb_root =
   struct_of
    [Field ''rb_node'' pointer]"

lemma struct_rb_root_size [simp]: "t_size struct_rb_root = 8" "t_align struct_rb_root = 8"
  by (simp_all add: struct_rb_root_def layout_simps)

lemma struct_rb_root_sound [simp]: "sound_type struct_rb_root"
  by (simp add: struct_rb_root_def)

definition struct_seqcount :: ctype where
  "struct_seqcount =
   struct_of
    [Field ''sequence'' (scalar 4)]"

lemma struct_seqcount_size [simp]: "t_size struct_seqcount = 4" "t_align struct_seqcount = 4"
  by (simp_all add: struct_seqcount_def layout_simps)

lemma struct_seqcount_sound [simp]: "sound_type struct_seqcount"
  by (simp add: struct_seqcount_def)

definition typedef_seqcount_t :: ctype where
  "typedef_seqcount_t = struct_seqcount"

lemma typedef_seqcount_t_size [simp]: "t_size typedef_seqcount_t = 4" "t_align typedef_seqcount_t = 4"
  by (simp_all add: typedef_seqcount_t_def layout_simps)

lemma typedef_seqcount_t_sound [simp]: "sound_type typedef_seqcount_t"
  by (simp add: typedef_seqcount_t_def)

definition struct_optimistic_spin_queue :: ctype where
  "struct_optimistic_spin_queue =
   struct_of
    [Field ''tail'' typedef_atomic_t]"

lemma struct_optimistic_spin_queue_size [simp]: "t_size struct_optimistic_spin_queue = 4" "t_align struct_optimistic_spin_queue = 4"
  by (simp_all add: struct_optimistic_spin_queue_def layout_simps)

lemma struct_optimistic_spin_queue_sound [simp]: "sound_type struct_optimistic_spin_queue"
  by (simp add: struct_optimistic_spin_queue_def)

definition typedef_raw_spinlock_t :: ctype where
  "typedef_raw_spinlock_t = struct_raw_spinlock"

lemma typedef_raw_spinlock_t_size [simp]: "t_size typedef_raw_spinlock_t = 4" "t_align typedef_raw_spinlock_t = 4"
  by (simp_all add: typedef_raw_spinlock_t_def layout_simps)

lemma typedef_raw_spinlock_t_sound [simp]: "sound_type typedef_raw_spinlock_t"
  by (simp add: typedef_raw_spinlock_t_def)

definition struct_rw_semaphore :: ctype where
  "struct_rw_semaphore =
   struct_of
    [Field ''count'' typedef_atomic_long_t,
     Field ''owner'' typedef_atomic_long_t,
     Field ''osq'' struct_optimistic_spin_queue,
     Field ''wait_lock'' typedef_raw_spinlock_t,
     Field ''wait_list'' struct_list_head]"

lemma struct_rw_semaphore_size [simp]: "t_size struct_rw_semaphore = 40" "t_align struct_rw_semaphore = 8"
  by (simp_all add: struct_rw_semaphore_def layout_simps)

lemma struct_rw_semaphore_sound [simp]: "sound_type struct_rw_semaphore"
  by (simp add: struct_rw_semaphore_def)

definition struct_mm_rss_stat :: ctype where
  "struct_mm_rss_stat =
   struct_of
    [Field ''count'' (array_of 4 typedef_atomic_long_t)]"

lemma struct_mm_rss_stat_size [simp]: "t_size struct_mm_rss_stat = 32" "t_align struct_mm_rss_stat = 8"
  by (simp_all add: struct_mm_rss_stat_def layout_simps)

lemma struct_mm_rss_stat_sound [simp]: "sound_type struct_mm_rss_stat"
  by (simp add: struct_mm_rss_stat_def)

definition typedef_mm_context_t :: ctype where
  "typedef_mm_context_t =
   struct_of
    [Field ''id'' typedef_atomic64_t,
     Field ''sigpage'' pointer,
     Field ''pinned'' typedef_refcount_t,
     Field ''vdso'' pointer,
     Field ''flags'' (scalar 8)]"

lemma typedef_mm_context_t_size [simp]: "t_size typedef_mm_context_t = 40" "t_align typedef_mm_context_t = 8"
  by (simp_all add: typedef_mm_context_t_def layout_simps)

lemma typedef_mm_context_t_sound [simp]: "sound_type typedef_mm_context_t"
  by (simp add: typedef_mm_context_t_def)

definition struct_uprobes_state :: ctype where
  "struct_uprobes_state =
   struct_of
    [Field ''xol_area'' pointer]"

lemma struct_uprobes_state_size [simp]: "t_size struct_uprobes_state = 8" "t_align struct_uprobes_state = 8"
  by (simp_all add: struct_uprobes_state_def layout_simps)

lemma struct_uprobes_state_sound [simp]: "sound_type struct_uprobes_state"
  by (simp add: struct_uprobes_state_def)

definition typedef_work_func_t :: ctype where
  "typedef_work_func_t = pointer"

lemma typedef_work_func_t_size [simp]: "t_size typedef_work_func_t = 8" "t_align typedef_work_func_t = 8"
  by (simp_all add: typedef_work_func_t_def layout_simps)

lemma typedef_work_func_t_sound [simp]: "sound_type typedef_work_func_t"
  by (simp add: typedef_work_func_t_def)

definition struct_work_struct :: ctype where
  "struct_work_struct =
   struct_of
    [Field ''data'' typedef_atomic_long_t,
     Field ''entry'' struct_list_head,
     Field ''func'' typedef_work_func_t]"

lemma struct_work_struct_size [simp]: "t_size struct_work_struct = 32" "t_align struct_work_struct = 8"
  by (simp_all add: struct_work_struct_def layout_simps)

lemma struct_work_struct_sound [simp]: "sound_type struct_work_struct"
  by (simp add: struct_work_struct_def)

definition struct_mm_struct :: ctype where
  "struct_mm_struct =
   struct_of
    [Anon (struct_of [Field ''mmap'' pointer,
     Field ''mm_rb'' struct_rb_root,
     Field ''vmacache_seqnum'' typedef_kernel_u64,
     Field ''get_unmapped_area'' pointer,
     Field ''mmap_base'' (scalar 8),
     Field ''mmap_legacy_base'' (scalar 8),
     Field ''task_size'' (scalar 8),
     Field ''highest_vm_end'' (scalar 8),
     Field ''pgd'' pointer,
     Field ''membarrier_state'' typedef_atomic_t,
     Field ''mm_users'' typedef_atomic_t,
     Field ''mm_count'' typedef_atomic_t,
     Field ''has_pinned'' typedef_atomic_t,
     Field ''write_protect_seq'' typedef_seqcount_t,
     Field ''pgtables_bytes'' typedef_atomic_long_t,
     Field ''map_count'' (scalar 4),
     Field ''page_table_lock'' typedef_spinlock_t,
     Field ''mmap_lock'' struct_rw_semaphore,
     Field ''mmlist'' struct_list_head,
     Field ''hiwater_rss'' (scalar 8),
     Field ''hiwater_vm'' (scalar 8),
     Field ''total_vm'' (scalar 8),
     Field ''locked_vm'' (scalar 8),
     Field ''pinned_vm'' typedef_atomic64_t,
     Field ''data_vm'' (scalar 8),
     Field ''exec_vm'' (scalar 8),
     Field ''stack_vm'' (scalar 8),
     Field ''def_flags'' (scalar 8),
     Field ''arg_lock'' typedef_spinlock_t,
     Field ''start_code'' (scalar 8),
     Field ''end_code'' (scalar 8),
     Field ''start_data'' (scalar 8),
     Field ''end_data'' (scalar 8),
     Field ''start_brk'' (scalar 8),
     Field ''brk'' (scalar 8),
     Field ''start_stack'' (scalar 8),
     Field ''arg_start'' (scalar 8),
     Field ''arg_end'' (scalar 8),
     Field ''env_start'' (scalar 8),
     Field ''env_end'' (scalar 8),
     Field ''saved_auxv'' (array_of 46 (scalar 8)),
     Field ''rss_stat'' struct_mm_rss_stat,
     Field ''binfmt'' pointer,
     Field ''context'' typedef_mm_context_t,
     Field ''flags'' (scalar 8),
     Field ''core_state'' pointer,
     Field ''ioctx_lock'' typedef_spinlock_t,
     Field ''ioctx_table'' pointer,
     Field ''owner'' pointer,
     Field ''user_ns'' pointer,
     Field ''exe_file'' pointer,
     Field ''notifier_subscriptions'' pointer,
     Field ''numa_next_scan'' (scalar 8),
     Field ''numa_scan_offset'' (scalar 8),
     Field ''numa_scan_seq'' (scalar 4),
     Field ''tlb_flush_pending'' typedef_atomic_t,
     Field ''uprobes_state'' struct_uprobes_state,
     Field ''hugetlb_usage'' typedef_atomic_long_t,
     Field ''async_put_work'' struct_work_struct,
     Field ''pasid'' typedef_kernel_u32]),
     Field ''cpu_bitmap'' (array_of 0 (scalar 8))]"

lemma struct_mm_struct_size [simp]: "t_size struct_mm_struct = 928" "t_align struct_mm_struct = 8"
  by (simp_all add: struct_mm_struct_def layout_simps)

lemma struct_mm_struct_sound [simp]: "sound_type struct_mm_struct"
  by (simp add: struct_mm_struct_def)

definition struct_hlist_node :: ctype where
  "struct_hlist_node =
   struct_of
    [Field ''next'' pointer,
     Field ''pprev'' pointer]"

lemma struct_hlist_node_size [simp]: "t_size struct_hlist_node = 16" "t_align struct_hlist_node = 8"
  by (simp_all add: struct_hlist_node_def layout_simps)

lemma struct_hlist_node_sound [simp]: "sound_type struct_hlist_node"
  by (simp add: struct_hlist_node_def)

definition struct_vfsmount :: ctype where
  "struct_vfsmount =
   struct_of
    [Field ''mnt_root'' pointer,
     Field ''mnt_sb'' pointer,
     Field ''mnt_flags'' (scalar 4)]"

lemma struct_vfsmount_size [simp]: "t_size struct_vfsmount = 24" "t_align struct_vfsmount = 8"
  by (simp_all add: struct_vfsmount_def layout_simps)

lemma struct_vfsmount_sound [simp]: "sound_type struct_vfsmount"
  by (simp add: struct_vfsmount_def)

definition struct_llist_node :: ctype where
  "struct_llist_node =
   struct_of
    [Field ''next'' pointer]"

lemma struct_llist_node_size [simp]: "t_size struct_llist_node = 8" "t_align struct_llist_node = 8"
  by (simp_all add: struct_llist_node_def layout_simps)

lemma struct_llist_node_sound [simp]: "sound_type struct_llist_node"
  by (simp add: struct_llist_node_def)

definition struct_mount :: ctype where
  "struct_mount =
   struct_of
    [Field ''mnt_hash'' struct_hlist_node,
     Field ''mnt_parent'' pointer,
     Field ''mnt_mountpoint'' pointer,
     Field ''mnt'' struct_vfsmount,
     Anon (union_of [Field ''mnt_rcu'' struct_callback_head,
     Field ''mnt_llist'' struct_llist_node]),
     Field ''mnt_pcp'' pointer,
     Field ''mnt_mounts'' struct_list_head,
     Field ''mnt_child'' struct_list_head,
     Field ''mnt_instance'' struct_list_head,
     Field ''mnt_devname'' pointer,
     Field ''mnt_list'' struct_list_head,
     Field ''mnt_expire'' struct_list_head,
     Field ''mnt_share'' struct_list_head,
     Field ''mnt_slave_list'' struct_list_head,
     Field ''mnt_slave'' struct_list_head,
     Field ''mnt_master'' pointer,
     Field ''mnt_ns'' pointer,
     Field ''mnt_mp'' pointer,
     Anon (union_of [Field ''mnt_mp_list'' struct_hlist_node,
     Field ''mnt_umount'' struct_hlist_node]),
     Field ''mnt_umounting'' struct_list_head,
     Field ''mnt_fsnotify_marks'' pointer,
     Field ''mnt_fsnotify_mask'' typedef_u32,
     Field ''mnt_id'' (scalar 4),
     Field ''mnt_group_id'' (scalar 4),
     Field ''mnt_expiry_mark'' (scalar 4),
     Field ''mnt_pins'' struct_hlist_head,
     Field ''mnt_stuck_children'' struct_hlist_head]"

lemma struct_mount_size [simp]: "t_size struct_mount = 312" "t_align struct_mount = 8"
  by (simp_all add: struct_mount_def layout_simps)

lemma struct_mount_sound [simp]: "sound_type struct_mount"
  by (simp add: struct_mount_def)

definition typedef_mm_segment_t :: ctype where
  "typedef_mm_segment_t = scalar 8"

lemma typedef_mm_segment_t_size [simp]: "t_size typedef_mm_segment_t = 8" "t_align typedef_mm_segment_t = 8"
  by (simp_all add: typedef_mm_segment_t_def layout_simps)

lemma typedef_mm_segment_t_sound [simp]: "sound_type typedef_mm_segment_t"
  by (simp add: typedef_mm_segment_t_def)

definition struct_thread_info :: ctype where
  "struct_thread_info =
   struct_of
    [Field ''flags'' (scalar 8),
     Field ''addr_limit'' typedef_mm_segment_t,
     Field ''ttbr0'' typedef_kernel_u64,
     Anon (union_of [Field ''preempt_count'' typedef_kernel_u64,
     Field ''preempt'' (struct_of [Field ''count'' typedef_kernel_u32,
     Field ''need_resched'' typedef_kernel_u32])])]"

lemma struct_thread_info_size [simp]: "t_size struct_thread_info = 32" "t_align struct_thread_info = 8"
  by (simp_all add: struct_thread_info_def layout_simps)

lemma struct_thread_info_sound [simp]: "sound_type struct_thread_info"
  by (simp add: struct_thread_info_def)

definition struct_call_single_node :: ctype where
  "struct_call_single_node =
   struct_of
    [Field ''llist'' struct_llist_node,
     Anon (union_of [Field ''u_flags'' (scalar 4),
     Field ''a_flags'' typedef_atomic_t]),
     Field ''src'' typedef_kernel_u16,
     Field ''dst'' typedef_kernel_u16]"

lemma struct_call_single_node_size [simp]: "t_size struct_call_single_node = 16" "t_align struct_call_single_node = 8"
  by (simp_all add: struct_call_single_node_def layout_simps)

lemma struct_call_single_node_sound [simp]: "sound_type struct_call_single_node"
  by (simp add: struct_call_single_node_def)

definition struct_load_weight :: ctype where
  "struct_load_weight =
   struct_of
    [Field ''weight'' (scalar 8),
     Field ''inv_weight'' typedef_kernel_u32]"

lemma struct_load_weight_size [simp]: "t_size struct_load_weight = 16" "t_align struct_load_weight = 8"
  by (simp_all add: struct_load_weight_def layout_simps)

lemma struct_load_weight_sound [simp]: "sound_type struct_load_weight"
  by (simp add: struct_load_weight_def)

definition struct_sched_statistics :: ctype where
  "struct_sched_statistics =
   struct_of
    [Field ''wait_start'' typedef_kernel_u64,
     Field ''wait_max'' typedef_kernel_u64,
     Field ''wait_count'' typedef_kernel_u64,
     Field ''wait_sum'' typedef_kernel_u64,
     Field ''iowait_count'' typedef_kernel_u64,
     Field ''iowait_sum'' typedef_kernel_u64,
     Field ''sleep_start'' typedef_kernel_u64,
     Field ''sleep_max'' typedef_kernel_u64,
     Field ''sum_sleep_runtime'' typedef_kernel_s64,
     Field ''block_start'' typedef_kernel_u64,
     Field ''block_max'' typedef_kernel_u64,
     Field ''exec_max'' typedef_kernel_u64,
     Field ''slice_max'' typedef_kernel_u64,
     Field ''nr_migrations_cold'' typedef_kernel_u64,
     Field ''nr_failed_migrations_affine'' typedef_kernel_u64,
     Field ''nr_failed_migrations_running'' typedef_kernel_u64,
     Field ''nr_failed_migrations_hot'' typedef_kernel_u64,
     Field ''nr_forced_migrations'' typedef_kernel_u64,
     Field ''nr_wakeups'' typedef_kernel_u64,
     Field ''nr_wakeups_sync'' typedef_kernel_u64,
     Field ''nr_wakeups_migrate'' typedef_kernel_u64,
     Field ''nr_wakeups_local'' typedef_kernel_u64,
     Field ''nr_wakeups_remote'' typedef_kernel_u64,
     Field ''nr_wakeups_affine'' typedef_kernel_u64,
     Field ''nr_wakeups_affine_attempts'' typedef_kernel_u64,
     Field ''nr_wakeups_passive'' typedef_kernel_u64,
     Field ''nr_wakeups_idle'' typedef_kernel_u64]"

lemma struct_sched_statistics_size [simp]: "t_size struct_sched_statistics = 216" "t_align struct_sched_statistics = 8"
  by (simp_all add: struct_sched_statistics_def layout_simps)

lemma struct_sched_statistics_sound [simp]: "sound_type struct_sched_statistics"
  by (simp add: struct_sched_statistics_def)

definition struct_util_est :: ctype where
  "struct_util_est =
   struct_of
    [Field ''enqueued'' (scalar 4),
     Field ''ewma'' (scalar 4)]"

lemma struct_util_est_size [simp]: "t_size struct_util_est = 8" "t_align struct_util_est = 4"
  by (simp_all add: struct_util_est_def layout_simps)

lemma struct_util_est_sound [simp]: "sound_type struct_util_est"
  by (simp add: struct_util_est_def)

definition struct_sched_avg :: ctype where
  "struct_sched_avg =
   struct_of
    [Field ''last_update_time'' typedef_kernel_u64,
     Field ''load_sum'' typedef_kernel_u64,
     Field ''runnable_sum'' typedef_kernel_u64,
     Field ''util_sum'' typedef_kernel_u32,
     Field ''period_contrib'' typedef_kernel_u32,
     Field ''load_avg'' (scalar 8),
     Field ''runnable_avg'' (scalar 8),
     Field ''util_avg'' (scalar 8),
     Field ''util_est'' struct_util_est]"

lemma struct_sched_avg_size [simp]: "t_size struct_sched_avg = 64" "t_align struct_sched_avg = 8"
  by (simp_all add: struct_sched_avg_def layout_simps)

lemma struct_sched_avg_sound [simp]: "sound_type struct_sched_avg"
  by (simp add: struct_sched_avg_def)

definition struct_sched_entity :: ctype where
  "struct_sched_entity =
   struct_of
    [Field ''load'' struct_load_weight,
     Field ''run_node'' struct_rb_node,
     Field ''group_node'' struct_list_head,
     Field ''on_rq'' (scalar 4),
     Field ''exec_start'' typedef_kernel_u64,
     Field ''sum_exec_runtime'' typedef_kernel_u64,
     Field ''vruntime'' typedef_kernel_u64,
     Field ''prev_sum_exec_runtime'' typedef_kernel_u64,
     Field ''nr_migrations'' typedef_kernel_u64,
     Field ''statistics'' struct_sched_statistics,
     Field ''depth'' (scalar 4),
     Field ''parent'' pointer,
     Field ''cfs_rq'' pointer,
     Field ''my_q'' pointer,
     Field ''runnable_weight'' (scalar 8),
     Bits '''' 8 64,
     Bits '''' 8 64,
     Bits '''' 8 64,
     Field ''avg'' struct_sched_avg]"

lemma struct_sched_entity_size [simp]: "t_size struct_sched_entity = 448" "t_align struct_sched_entity = 8"
  by (simp_all add: struct_sched_entity_def layout_simps)

lemma struct_sched_entity_sound [simp]: "sound_type struct_sched_entity"
  by (simp add: struct_sched_entity_def)

definition struct_sched_rt_entity :: ctype where
  "struct_sched_rt_entity =
   struct_of
    [Field ''run_list'' struct_list_head,
     Field ''timeout'' (scalar 8),
     Field ''watchdog_stamp'' (scalar 8),
     Field ''time_slice'' (scalar 4),
     Field ''on_rq'' (scalar 2),
     Field ''on_list'' (scalar 2),
     Field ''back'' pointer]"

lemma struct_sched_rt_entity_size [simp]: "t_size struct_sched_rt_entity = 48" "t_align struct_sched_rt_entity = 8"
  by (simp_all add: struct_sched_rt_entity_def layout_simps)

lemma struct_sched_rt_entity_sound [simp]: "sound_type struct_sched_rt_entity"
  by (simp add: struct_sched_rt_entity_def)

definition typedef_ktime_t :: ctype where
  "typedef_ktime_t = typedef_kernel_s64"

lemma typedef_ktime_t_size [simp]: "t_size typedef_ktime_t = 8" "t_align typedef_ktime_t = 8"
  by (simp_all add: typedef_ktime_t_def layout_simps)

lemma typedef_ktime_t_sound [simp]: "sound_type typedef_ktime_t"
  by (simp add: typedef_ktime_t_def)

definition struct_timerqueue_node :: ctype where
  "struct_timerqueue_node =
   struct_of
    [Field ''node'' struct_rb_node,
     Field ''expires'' typedef_ktime_t]"

lemma struct_timerqueue_node_size [simp]: "t_size struct_timerqueue_node = 32" "t_align struct_timerqueue_node = 8"
  by (simp_all add: struct_timerqueue_node_def layout_simps)

lemma struct_timerqueue_node_sound [simp]: "sound_type struct_timerqueue_node"
  by (simp add: struct_timerqueue_node_def)

definition struct_hrtimer :: ctype where
  "struct_hrtimer =
   struct_of
    [Field ''node'' struct_timerqueue_node,
     Field ''_softexpires'' typedef_ktime_t,
     Field ''function'' pointer,
     Field ''base'' pointer,
     Field ''state'' typedef_kernel_u8,
     Field ''is_rel'' typedef_kernel_u8,
     Field ''is_soft'' typedef_kernel_u8,
     Field ''is_hard'' typedef_kernel_u8]"

lemma struct_hrtimer_size [simp]: "t_size struct_hrtimer = 64" "t_align struct_hrtimer = 8"
  by (simp_all add: struct_hrtimer_def layout_simps)

lemma struct_hrtimer_sound [simp]: "sound_type struct_hrtimer"
  by (simp add: struct_hrtimer_def)

definition struct_sched_dl_entity :: ctype where
  "struct_sched_dl_entity =
   struct_of
    [Field ''rb_node'' struct_rb_node,
     Field ''dl_runtime'' typedef_kernel_u64,
     Field ''dl_deadline'' typedef_kernel_u64,
     Field ''dl_period'' typedef_kernel_u64,
     Field ''dl_bw'' typedef_kernel_u64,
     Field ''dl_density'' typedef_kernel_u64,
     Field ''runtime'' typedef_kernel_s64,
     Field ''deadline'' typedef_kernel_u64,
     Field ''flags'' (scalar 4),
     Bits ''dl_throttled'' 4 1,
     Bits ''dl_yielded'' 4 1,
     Bits ''dl_non_contending'' 4 1,
     Bits ''dl_overrun'' 4 1,
     Field ''dl_timer'' struct_hrtimer,
     Field ''inactive_timer'' struct_hrtimer,
     Field ''pi_se'' pointer]"

lemma struct_sched_dl_entity_size [simp]: "t_size struct_sched_dl_entity = 224" "t_align struct_sched_dl_entity = 8"
  by (simp_all add: struct_sched_dl_entity_def layout_simps)

lemma struct_sched_dl_entity_sound [simp]: "sound_type struct_sched_dl_entity"
  by (simp add: struct_sched_dl_entity_def)

definition struct_uclamp_se :: ctype where
  "struct_uclamp_se =
   struct_of
    [Bits ''value'' 4 11,
     Bits ''bucket_id'' 4 3,
     Bits ''active'' 4 1,
     Bits ''user_defined'' 4 1]"

lemma struct_uclamp_se_size [simp]: "t_size struct_uclamp_se = 4" "t_align struct_uclamp_se = 4"
  by (simp_all add: struct_uclamp_se_def layout_simps)

lemma struct_uclamp_se_sound [simp]: "sound_type struct_uclamp_se"
  by (simp add: struct_uclamp_se_def)

definition struct_cpumask :: ctype where
  "struct_cpumask =
   struct_of
    [Field ''bits'' (array_of 2 (scalar 8))]"

lemma struct_cpumask_size [simp]: "t_size struct_cpumask = 16" "t_align struct_cpumask = 8"
  by (simp_all add: struct_cpumask_def layout_simps)

lemma struct_cpumask_sound [simp]: "sound_type struct_cpumask"
  by (simp add: struct_cpumask_def)

definition typedef_cpumask_t :: ctype where
  "typedef_cpumask_t = struct_cpumask"

lemma typedef_cpumask_t_size [simp]: "t_size typedef_cpumask_t = 16" "t_align typedef_cpumask_t = 8"
  by (simp_all add: typedef_cpumask_t_def layout_simps)

lemma typedef_cpumask_t_sound [simp]: "sound_type typedef_cpumask_t"
  by (simp add: typedef_cpumask_t_def)

definition union_rcu_special :: ctype where
  "union_rcu_special =
   union_of
    [Field ''b'' (struct_of [Field ''blocked'' typedef_kernel_u8,
     Field ''need_qs'' typedef_kernel_u8,
     Field ''exp_hint'' typedef_kernel_u8,
     Field ''need_mb'' typedef_kernel_u8]),
     Field ''s'' typedef_kernel_u32]"

lemma union_rcu_special_size [simp]: "t_size union_rcu_special = 4" "t_align union_rcu_special = 4"
  by (simp_all add: union_rcu_special_def layout_simps)

lemma union_rcu_special_sound [simp]: "sound_type union_rcu_special"
  by (simp add: union_rcu_special_def)

definition struct_sched_info :: ctype where
  "struct_sched_info =
   struct_of
    [Field ''pcount'' (scalar 8),
     Field ''run_delay'' (scalar 8),
     Field ''last_arrival'' (scalar 8),
     Field ''last_queued'' (scalar 8)]"

lemma struct_sched_info_size [simp]: "t_size struct_sched_info = 32" "t_align struct_sched_info = 8"
  by (simp_all add: struct_sched_info_def layout_simps)

lemma struct_sched_info_sound [simp]: "sound_type struct_sched_info"
  by (simp add: struct_sched_info_def)

definition struct_plist_node :: ctype where
  "struct_plist_node =
   struct_of
    [Field ''prio'' (scalar 4),
     Field ''prio_list'' struct_list_head,
     Field ''node_list'' struct_list_head]"

lemma struct_plist_node_size [simp]: "t_size struct_plist_node = 40" "t_align struct_plist_node = 8"
  by (simp_all add: struct_plist_node_def layout_simps)

lemma struct_plist_node_sound [simp]: "sound_type struct_plist_node"
  by (simp add: struct_plist_node_def)

definition struct_vmacache :: ctype where
  "struct_vmacache =
   struct_of
    [Field ''seqnum'' typedef_kernel_u64,
     Field ''vmas'' (array_of 4 pointer)]"

lemma struct_vmacache_size [simp]: "t_size struct_vmacache = 40" "t_align struct_vmacache = 8"
  by (simp_all add: struct_vmacache_def layout_simps)

lemma struct_vmacache_sound [simp]: "sound_type struct_vmacache"
  by (simp add: struct_vmacache_def)

definition struct_task_rss_stat :: ctype where
  "struct_task_rss_stat =
   struct_of
    [Field ''events'' (scalar 4),
     Field ''count'' (array_of 4 (scalar 4))]"

lemma struct_task_rss_stat_size [simp]: "t_size struct_task_rss_stat = 20" "t_align struct_task_rss_stat = 4"
  by (simp_all add: struct_task_rss_stat_def layout_simps)

lemma struct_task_rss_stat_sound [simp]: "sound_type struct_task_rss_stat"
  by (simp add: struct_task_rss_stat_def)

definition typedef_kernel_clockid_t :: ctype where
  "typedef_kernel_clockid_t = scalar 4"

lemma typedef_kernel_clockid_t_size [simp]: "t_size typedef_kernel_clockid_t = 4" "t_align typedef_kernel_clockid_t = 4"
  by (simp_all add: typedef_kernel_clockid_t_def layout_simps)

lemma typedef_kernel_clockid_t_sound [simp]: "sound_type typedef_kernel_clockid_t"
  by (simp add: typedef_kernel_clockid_t_def)

definition typedef_clockid_t :: ctype where
  "typedef_clockid_t = typedef_kernel_clockid_t"

lemma typedef_clockid_t_size [simp]: "t_size typedef_clockid_t = 4" "t_align typedef_clockid_t = 4"
  by (simp_all add: typedef_clockid_t_def layout_simps)

lemma typedef_clockid_t_sound [simp]: "sound_type typedef_clockid_t"
  by (simp add: typedef_clockid_t_def)

definition enum_timespec_type_values :: "(string \<times> int) list" where
  "enum_timespec_type_values =
    [(''TT_NONE'', 0),
     (''TT_NATIVE'', 1),
     (''TT_COMPAT'', 2)]"

definition enum_timespec_type :: ctype where
  "enum_timespec_type = scalar 4"

lemma enum_timespec_type_size [simp]: "t_size enum_timespec_type = 4" "t_align enum_timespec_type = 4"
  by (simp_all add: enum_timespec_type_def layout_simps)

lemma enum_timespec_type_sound [simp]: "sound_type enum_timespec_type"
  by (simp add: enum_timespec_type_def)

definition struct_restart_block :: ctype where
  "struct_restart_block =
   struct_of
    [Field ''fn'' pointer,
     Anon (union_of [Field ''futex'' (struct_of [Field ''uaddr'' pointer,
     Field ''val'' typedef_kernel_u32,
     Field ''flags'' typedef_kernel_u32,
     Field ''bitset'' typedef_kernel_u32,
     Field ''time'' typedef_kernel_u64,
     Field ''uaddr2'' pointer]),
     Field ''nanosleep'' (struct_of [Field ''clockid'' typedef_clockid_t,
     Field ''type'' enum_timespec_type,
     Anon (union_of [Field ''rmtp'' pointer,
     Field ''compat_rmtp'' pointer]),
     Field ''expires'' typedef_kernel_u64]),
     Field ''poll'' (struct_of [Field ''ufds'' pointer,
     Field ''nfds'' (scalar 4),
     Field ''has_timeout'' (scalar 4),
     Field ''tv_sec'' (scalar 8),
     Field ''tv_nsec'' (scalar 8)])])]"

lemma struct_restart_block_size [simp]: "t_size struct_restart_block = 48" "t_align struct_restart_block = 8"
  by (simp_all add: struct_restart_block_def layout_simps)

lemma struct_restart_block_sound [simp]: "sound_type struct_restart_block"
  by (simp add: struct_restart_block_def)

definition typedef_kernel_pid_t :: ctype where
  "typedef_kernel_pid_t = scalar 4"

lemma typedef_kernel_pid_t_size [simp]: "t_size typedef_kernel_pid_t = 4" "t_align typedef_kernel_pid_t = 4"
  by (simp_all add: typedef_kernel_pid_t_def layout_simps)

lemma typedef_kernel_pid_t_sound [simp]: "sound_type typedef_kernel_pid_t"
  by (simp add: typedef_kernel_pid_t_def)

definition typedef_pid_t :: ctype where
  "typedef_pid_t = typedef_kernel_pid_t"

lemma typedef_pid_t_size [simp]: "t_size typedef_pid_t = 4" "t_align typedef_pid_t = 4"
  by (simp_all add: typedef_pid_t_def layout_simps)

lemma typedef_pid_t_sound [simp]: "sound_type typedef_pid_t"
  by (simp add: typedef_pid_t_def)

definition struct_prev_cputime :: ctype where
  "struct_prev_cputime =
   struct_of
    [Field ''utime'' typedef_kernel_u64,
     Field ''stime'' typedef_kernel_u64,
     Field ''lock'' typedef_raw_spinlock_t]"

lemma struct_prev_cputime_size [simp]: "t_size struct_prev_cputime = 24" "t_align struct_prev_cputime = 8"
  by (simp_all add: struct_prev_cputime_def layout_simps)

lemma struct_prev_cputime_sound [simp]: "sound_type struct_prev_cputime"
  by (simp add: struct_prev_cputime_def)

definition struct_rb_root_cached :: ctype where
  "struct_rb_root_cached =
   struct_of
    [Field ''rb_root'' struct_rb_root,
     Field ''rb_leftmost'' pointer]"

lemma struct_rb_root_cached_size [simp]: "t_size struct_rb_root_cached = 16" "t_align struct_rb_root_cached = 8"
  by (simp_all add: struct_rb_root_cached_def layout_simps)

lemma struct_rb_root_cached_sound [simp]: "sound_type struct_rb_root_cached"
  by (simp add: struct_rb_root_cached_def)

definition struct_timerqueue_head :: ctype where
  "struct_timerqueue_head =
   struct_of
    [Field ''rb_root'' struct_rb_root_cached]"

lemma struct_timerqueue_head_size [simp]: "t_size struct_timerqueue_head = 16" "t_align struct_timerqueue_head = 8"
  by (simp_all add: struct_timerqueue_head_def layout_simps)

lemma struct_timerqueue_head_sound [simp]: "sound_type struct_timerqueue_head"
  by (simp add: struct_timerqueue_head_def)

definition struct_posix_cputimer_base :: ctype where
  "struct_posix_cputimer_base =
   struct_of
    [Field ''nextevt'' typedef_kernel_u64,
     Field ''tqhead'' struct_timerqueue_head]"

lemma struct_posix_cputimer_base_size [simp]: "t_size struct_posix_cputimer_base = 24" "t_align struct_posix_cputimer_base = 8"
  by (simp_all add: struct_posix_cputimer_base_def layout_simps)

lemma struct_posix_cputimer_base_sound [simp]: "sound_type struct_posix_cputimer_base"
  by (simp add: struct_posix_cputimer_base_def)

definition struct_posix_cputimers :: ctype where
  "struct_posix_cputimers =
   struct_of
    [Field ''bases'' (array_of 3 struct_posix_cputimer_base),
     Field ''timers_active'' (scalar 4),
     Field ''expiry_active'' (scalar 4)]"

lemma struct_posix_cputimers_size [simp]: "t_size struct_posix_cputimers = 80" "t_align struct_posix_cputimers = 8"
  by (simp_all add: struct_posix_cputimers_def layout_simps)

lemma struct_posix_cputimers_sound [simp]: "sound_type struct_posix_cputimers"
  by (simp add: struct_posix_cputimers_def)

definition struct_sysv_sem :: ctype where
  "struct_sysv_sem =
   struct_of
    [Field ''undo_list'' pointer]"

lemma struct_sysv_sem_size [simp]: "t_size struct_sysv_sem = 8" "t_align struct_sysv_sem = 8"
  by (simp_all add: struct_sysv_sem_def layout_simps)

lemma struct_sysv_sem_sound [simp]: "sound_type struct_sysv_sem"
  by (simp add: struct_sysv_sem_def)

definition struct_sysv_shm :: ctype where
  "struct_sysv_shm =
   struct_of
    [Field ''shm_clist'' struct_list_head]"

lemma struct_sysv_shm_size [simp]: "t_size struct_sysv_shm = 16" "t_align struct_sysv_shm = 8"
  by (simp_all add: struct_sysv_shm_def layout_simps)

lemma struct_sysv_shm_sound [simp]: "sound_type struct_sysv_shm"
  by (simp add: struct_sysv_shm_def)

definition typedef_sigset_t :: ctype where
  "typedef_sigset_t =
   struct_of
    [Field ''sig'' (array_of 1 (scalar 8))]"

lemma typedef_sigset_t_size [simp]: "t_size typedef_sigset_t = 8" "t_align typedef_sigset_t = 8"
  by (simp_all add: typedef_sigset_t_def layout_simps)

lemma typedef_sigset_t_sound [simp]: "sound_type typedef_sigset_t"
  by (simp add: typedef_sigset_t_def)

definition struct_sigpending :: ctype where
  "struct_sigpending =
   struct_of
    [Field ''list'' struct_list_head,
     Field ''signal'' typedef_sigset_t]"

lemma struct_sigpending_size [simp]: "t_size struct_sigpending = 24" "t_align struct_sigpending = 8"
  by (simp_all add: struct_sigpending_def layout_simps)

lemma struct_sigpending_sound [simp]: "sound_type struct_sigpending"
  by (simp add: struct_sigpending_def)

definition typedef_kernel_ulong_t :: ctype where
  "typedef_kernel_ulong_t = scalar 8"

lemma typedef_kernel_ulong_t_size [simp]: "t_size typedef_kernel_ulong_t = 8" "t_align typedef_kernel_ulong_t = 8"
  by (simp_all add: typedef_kernel_ulong_t_def layout_simps)

lemma typedef_kernel_ulong_t_sound [simp]: "sound_type typedef_kernel_ulong_t"
  by (simp add: typedef_kernel_ulong_t_def)

definition typedef_kernel_size_t :: ctype where
  "typedef_kernel_size_t = typedef_kernel_ulong_t"

lemma typedef_kernel_size_t_size [simp]: "t_size typedef_kernel_size_t = 8" "t_align typedef_kernel_size_t = 8"
  by (simp_all add: typedef_kernel_size_t_def layout_simps)

lemma typedef_kernel_size_t_sound [simp]: "sound_type typedef_kernel_size_t"
  by (simp add: typedef_kernel_size_t_def)

definition typedef_size_t :: ctype where
  "typedef_size_t = typedef_kernel_size_t"

lemma typedef_size_t_size [simp]: "t_size typedef_size_t = 8" "t_align typedef_size_t = 8"
  by (simp_all add: typedef_size_t_def layout_simps)

lemma typedef_size_t_sound [simp]: "sound_type typedef_size_t"
  by (simp add: typedef_size_t_def)

definition typedef_kernel_uid32_t :: ctype where
  "typedef_kernel_uid32_t = scalar 4"

lemma typedef_kernel_uid32_t_size [simp]: "t_size typedef_kernel_uid32_t = 4" "t_align typedef_kernel_uid32_t = 4"
  by (simp_all add: typedef_kernel_uid32_t_def layout_simps)

lemma typedef_kernel_uid32_t_sound [simp]: "sound_type typedef_kernel_uid32_t"
  by (simp add: typedef_kernel_uid32_t_def)

definition typedef_uid_t :: ctype where
  "typedef_uid_t = typedef_kernel_uid32_t"

lemma typedef_uid_t_size [simp]: "t_size typedef_uid_t = 4" "t_align typedef_uid_t = 4"
  by (simp_all add: typedef_uid_t_def layout_simps)

lemma typedef_uid_t_sound [simp]: "sound_type typedef_uid_t"
  by (simp add: typedef_uid_t_def)

definition typedef_kuid_t :: ctype where
  "typedef_kuid_t =
   struct_of
    [Field ''val'' typedef_uid_t]"

lemma typedef_kuid_t_size [simp]: "t_size typedef_kuid_t = 4" "t_align typedef_kuid_t = 4"
  by (simp_all add: typedef_kuid_t_def layout_simps)

lemma typedef_kuid_t_sound [simp]: "sound_type typedef_kuid_t"
  by (simp add: typedef_kuid_t_def)

definition struct_seccomp :: ctype where
  "struct_seccomp =
   struct_of
    [Field ''mode'' (scalar 4),
     Field ''filter_count'' typedef_atomic_t,
     Field ''filter'' pointer]"

lemma struct_seccomp_size [simp]: "t_size struct_seccomp = 16" "t_align struct_seccomp = 8"
  by (simp_all add: struct_seccomp_def layout_simps)

lemma struct_seccomp_sound [simp]: "sound_type struct_seccomp"
  by (simp add: struct_seccomp_def)

definition struct_wake_q_node :: ctype where
  "struct_wake_q_node =
   struct_of
    [Field ''next'' pointer]"

lemma struct_wake_q_node_size [simp]: "t_size struct_wake_q_node = 8" "t_align struct_wake_q_node = 8"
  by (simp_all add: struct_wake_q_node_def layout_simps)

lemma struct_wake_q_node_sound [simp]: "sound_type struct_wake_q_node"
  by (simp add: struct_wake_q_node_def)

definition struct_task_io_accounting :: ctype where
  "struct_task_io_accounting =
   struct_of
    [Field ''rchar'' typedef_kernel_u64,
     Field ''wchar'' typedef_kernel_u64,
     Field ''syscr'' typedef_kernel_u64,
     Field ''syscw'' typedef_kernel_u64,
     Field ''read_bytes'' typedef_kernel_u64,
     Field ''write_bytes'' typedef_kernel_u64,
     Field ''cancelled_write_bytes'' typedef_kernel_u64]"

lemma struct_task_io_accounting_size [simp]: "t_size struct_task_io_accounting = 56" "t_align struct_task_io_accounting = 8"
  by (simp_all add: struct_task_io_accounting_def layout_simps)

lemma struct_task_io_accounting_sound [simp]: "sound_type struct_task_io_accounting"
  by (simp add: struct_task_io_accounting_def)

definition typedef_nodemask_t :: ctype where
  "typedef_nodemask_t =
   struct_of
    [Field ''bits'' (array_of 2 (scalar 8))]"

lemma typedef_nodemask_t_size [simp]: "t_size typedef_nodemask_t = 16" "t_align typedef_nodemask_t = 8"
  by (simp_all add: typedef_nodemask_t_def layout_simps)

lemma typedef_nodemask_t_sound [simp]: "sound_type typedef_nodemask_t"
  by (simp add: typedef_nodemask_t_def)

definition struct_seqcount_spinlock :: ctype where
  "struct_seqcount_spinlock =
   struct_of
    [Field ''seqcount'' typedef_seqcount_t]"

lemma struct_seqcount_spinlock_size [simp]: "t_size struct_seqcount_spinlock = 4" "t_align struct_seqcount_spinlock = 4"
  by (simp_all add: struct_seqcount_spinlock_def layout_simps)

lemma struct_seqcount_spinlock_sound [simp]: "sound_type struct_seqcount_spinlock"
  by (simp add: struct_seqcount_spinlock_def)

definition typedef_seqcount_spinlock_t :: ctype where
  "typedef_seqcount_spinlock_t = struct_seqcount_spinlock"

lemma typedef_seqcount_spinlock_t_size [simp]: "t_size typedef_seqcount_spinlock_t = 4" "t_align typedef_seqcount_spinlock_t = 4"
  by (simp_all add: typedef_seqcount_spinlock_t_def layout_simps)

lemma typedef_seqcount_spinlock_t_sound [simp]: "sound_type typedef_seqcount_spinlock_t"
  by (simp add: typedef_seqcount_spinlock_t_def)

definition struct_mutex :: ctype where
  "struct_mutex =
   struct_of
    [Field ''owner'' typedef_atomic_long_t,
     Field ''wait_lock'' typedef_spinlock_t,
     Field ''osq'' struct_optimistic_spin_queue,
     Field ''wait_list'' struct_list_head]"

lemma struct_mutex_size [simp]: "t_size struct_mutex = 32" "t_align struct_mutex = 8"
  by (simp_all add: struct_mutex_def layout_simps)

lemma struct_mutex_sound [simp]: "sound_type struct_mutex"
  by (simp add: struct_mutex_def)

definition struct_tlbflush_unmap_batch :: ctype where
  "struct_tlbflush_unmap_batch = struct_of []"

lemma struct_tlbflush_unmap_batch_size [simp]: "t_size struct_tlbflush_unmap_batch = 0" "t_align struct_tlbflush_unmap_batch = 1"
  by (simp_all add: struct_tlbflush_unmap_batch_def layout_simps)

lemma struct_tlbflush_unmap_batch_sound [simp]: "sound_type struct_tlbflush_unmap_batch"
  by (simp add: struct_tlbflush_unmap_batch_def)

definition struct_page_frag :: ctype where
  "struct_page_frag =
   struct_of
    [Field ''page'' pointer,
     Field ''offset'' typedef_u32,
     Field ''size'' typedef_u32]"

lemma struct_page_frag_size [simp]: "t_size struct_page_frag = 16" "t_align struct_page_frag = 8"
  by (simp_all add: struct_page_frag_def layout_simps)

lemma struct_page_frag_sound [simp]: "sound_type struct_page_frag"
  by (simp add: struct_page_frag_def)

definition struct_latency_record :: ctype where
  "struct_latency_record =
   struct_of
    [Field ''backtrace'' (array_of 12 (scalar 8)),
     Field ''count'' (scalar 4),
     Field ''time'' (scalar 8),
     Field ''max'' (scalar 8)]"

lemma struct_latency_record_size [simp]: "t_size struct_latency_record = 120" "t_align struct_latency_record = 8"
  by (simp_all add: struct_latency_record_def layout_simps)

lemma struct_latency_record_sound [simp]: "sound_type struct_latency_record"
  by (simp add: struct_latency_record_def)

definition typedef_gfp_t :: ctype where
  "typedef_gfp_t = scalar 4"

lemma typedef_gfp_t_size [simp]: "t_size typedef_gfp_t = 4" "t_align typedef_gfp_t = 4"
  by (simp_all add: typedef_gfp_t_def layout_simps)

lemma typedef_gfp_t_sound [simp]: "sound_type typedef_gfp_t"
  by (simp add: typedef_gfp_t_def)

definition struct_cpu_context :: ctype where
  "struct_cpu_context =
   struct_of
    [Field ''x19'' (scalar 8),
     Field ''x20'' (scalar 8),
     Field ''x21'' (scalar 8),
     Field ''x22'' (scalar 8),
     Field ''x23'' (scalar 8),
     Field ''x24'' (scalar 8),
     Field ''x25'' (scalar 8),
     Field ''x26'' (scalar 8),
     Field ''x27'' (scalar 8),
     Field ''x28'' (scalar 8),
     Field ''fp'' (scalar 8),
     Field ''sp'' (scalar 8),
     Field ''pc'' (scalar 8)]"

lemma struct_cpu_context_size [simp]: "t_size struct_cpu_context = 104" "t_align struct_cpu_context = 8"
  by (simp_all add: struct_cpu_context_def layout_simps)

lemma struct_cpu_context_sound [simp]: "sound_type struct_cpu_context"
  by (simp add: struct_cpu_context_def)

definition struct_user_fpsimd_state :: ctype where
  "struct_user_fpsimd_state =
   struct_of
    [Field ''vregs'' (array_of 32 (scalar 16)),
     Field ''fpsr'' typedef_u32,
     Field ''fpcr'' typedef_u32,
     Field ''__reserved'' (array_of 2 typedef_u32)]"

lemma struct_user_fpsimd_state_size [simp]: "t_size struct_user_fpsimd_state = 528" "t_align struct_user_fpsimd_state = 16"
  by (simp_all add: struct_user_fpsimd_state_def layout_simps)

lemma struct_user_fpsimd_state_sound [simp]: "sound_type struct_user_fpsimd_state"
  by (simp add: struct_user_fpsimd_state_def)

definition struct_debug_info :: ctype where
  "struct_debug_info =
   struct_of
    [Field ''suspended_step'' (scalar 4),
     Field ''bps_disabled'' (scalar 4),
     Field ''wps_disabled'' (scalar 4),
     Field ''hbp_break'' (array_of 16 pointer),
     Field ''hbp_watch'' (array_of 16 pointer)]"

lemma struct_debug_info_size [simp]: "t_size struct_debug_info = 272" "t_align struct_debug_info = 8"
  by (simp_all add: struct_debug_info_def layout_simps)

lemma struct_debug_info_sound [simp]: "sound_type struct_debug_info"
  by (simp add: struct_debug_info_def)

definition struct_ptrauth_key :: ctype where
  "struct_ptrauth_key =
   struct_of
    [Field ''lo'' (scalar 8),
     Field ''hi'' (scalar 8)]"

lemma struct_ptrauth_key_size [simp]: "t_size struct_ptrauth_key = 16" "t_align struct_ptrauth_key = 8"
  by (simp_all add: struct_ptrauth_key_def layout_simps)

lemma struct_ptrauth_key_sound [simp]: "sound_type struct_ptrauth_key"
  by (simp add: struct_ptrauth_key_def)

definition struct_ptrauth_keys_user :: ctype where
  "struct_ptrauth_keys_user =
   struct_of
    [Field ''apia'' struct_ptrauth_key,
     Field ''apib'' struct_ptrauth_key,
     Field ''apda'' struct_ptrauth_key,
     Field ''apdb'' struct_ptrauth_key,
     Field ''apga'' struct_ptrauth_key]"

lemma struct_ptrauth_keys_user_size [simp]: "t_size struct_ptrauth_keys_user = 80" "t_align struct_ptrauth_keys_user = 8"
  by (simp_all add: struct_ptrauth_keys_user_def layout_simps)

lemma struct_ptrauth_keys_user_sound [simp]: "sound_type struct_ptrauth_keys_user"
  by (simp add: struct_ptrauth_keys_user_def)

definition struct_ptrauth_keys_kernel :: ctype where
  "struct_ptrauth_keys_kernel =
   struct_of
    [Field ''apia'' struct_ptrauth_key]"

lemma struct_ptrauth_keys_kernel_size [simp]: "t_size struct_ptrauth_keys_kernel = 16" "t_align struct_ptrauth_keys_kernel = 8"
  by (simp_all add: struct_ptrauth_keys_kernel_def layout_simps)

lemma struct_ptrauth_keys_kernel_sound [simp]: "sound_type struct_ptrauth_keys_kernel"
  by (simp add: struct_ptrauth_keys_kernel_def)

definition struct_thread_struct :: ctype where
  "struct_thread_struct =
   struct_of
    [Field ''cpu_context'' struct_cpu_context,
     Bits '''' 8 64,
     Field ''uw'' (struct_of [Field ''tp_value'' (scalar 8),
     Field ''tp2_value'' (scalar 8),
     Field ''fpsimd_state'' struct_user_fpsimd_state]),
     Field ''fpsimd_cpu'' (scalar 4),
     Field ''sve_state'' pointer,
     Field ''sve_vl'' (scalar 4),
     Field ''sve_vl_onexec'' (scalar 4),
     Field ''fault_address'' (scalar 8),
     Field ''fault_code'' (scalar 8),
     Field ''debug'' struct_debug_info,
     Field ''keys_user'' struct_ptrauth_keys_user,
     Field ''keys_kernel'' struct_ptrauth_keys_kernel,
     Field ''sctlr_tcf0'' typedef_kernel_u64,
     Field ''gcr_user_incl'' typedef_kernel_u64,
     Bits '''' 8 64]"

lemma struct_thread_struct_size [simp]: "t_size struct_thread_struct = 1088" "t_align struct_thread_struct = 16"
  by (simp_all add: struct_thread_struct_def layout_simps)

lemma struct_thread_struct_sound [simp]: "sound_type struct_thread_struct"
  by (simp add: struct_thread_struct_def)

definition struct_task_struct_members_1 :: "member list" where
  "struct_task_struct_members_1 =
    [Field ''thread_info'' struct_thread_info,
     Field ''state'' (scalar 8),
     Field ''stack'' pointer,
     Field ''usage'' typedef_refcount_t,
     Field ''flags'' (scalar 4),
     Field ''ptrace'' (scalar 4),
     Field ''on_cpu'' (scalar 4),
     Field ''wake_entry'' struct_call_single_node,
     Field ''cpu'' (scalar 4),
     Field ''wakee_flips'' (scalar 4),
     Field ''wakee_flip_decay_ts'' (scalar 8),
     Field ''last_wakee'' pointer,
     Field ''recent_used_cpu'' (scalar 4),
     Field ''wake_cpu'' (scalar 4),
     Field ''on_rq'' (scalar 4),
     Field ''prio'' (scalar 4),
     Field ''static_prio'' (scalar 4),
     Field ''normal_prio'' (scalar 4),
     Field ''rt_priority'' (scalar 4),
     Field ''sched_class'' pointer,
     Bits '''' 8 64,
     Bits '''' 8 64,
     Bits '''' 8 64,
     Bits '''' 8 64,
     Bits '''' 8 64,
     Bits '''' 8 64,
     Field ''se'' struct_sched_entity,
     Field ''rt'' struct_sched_rt_entity,
     Field ''sched_task_group'' pointer,
     Field ''dl'' struct_sched_dl_entity,
     Field ''uclamp_req'' (array_of 2 struct_uclamp_se),
     Field ''uclamp'' (array_of 2 struct_uclamp_se),
     Field ''preempt_notifiers'' struct_hlist_head,
     Field ''btrace_seq'' (scalar 4),
     Field ''policy'' (scalar 4),
     Field ''nr_cpus_allowed'' (scalar 4),
     Field ''cpus_ptr'' pointer,
     Field ''cpus_mask'' typedef_cpumask_t,
     Field ''rcu_tasks_nvcsw'' (scalar 8),
     Field ''rcu_tasks_holdout'' typedef_kernel_u8,
     Field ''rcu_tasks_idx'' typedef_kernel_u8,
     Field ''rcu_tasks_idle_cpu'' (scalar 4),
     Field ''rcu_tasks_holdout_list'' struct_list_head,
     Field ''trc_reader_nesting'' (scalar 4),
     Field ''trc_ipi_to_cpu'' (scalar 4),
     Field ''trc_reader_special'' union_rcu_special,
     Field ''trc_reader_checked'' (scalar 1),
     Field ''trc_holdout_list'' struct_list_head,
     Field ''sched_info'' struct_sched_info,
     Field ''tasks'' struct_list_head,
     Field ''pushable_tasks'' struct_plist_node,
     Field ''pushable_dl_tasks'' struct_rb_node,
     Field ''mm'' pointer,
     Field ''active_mm'' pointer,
     Field ''vmacache'' struct_vmacache,
     Field ''rss_stat'' struct_task_rss_stat,
     Field ''exit_state'' (scalar 4),
     Field ''exit_code'' (scalar 4),
     Field ''exit_signal'' (scalar 4),
     Field ''pdeath_signal'' (scalar 4),
     Field ''jobctl'' (scalar 8),
     Field ''personality'' (scalar 4),
     Bits ''sched_reset_on_fork'' 4 1,
     Bits ''sched_contributes_to_load'' 4 1,
     Bits ''sched_migrated'' 4 1,
     Bits ''sched_psi_wake_requeue'' 4 1,
     Bits '''' 4 28,
     Bits ''sched_remote_wakeup'' 4 1,
     Bits ''in_execve'' 4 1,
     Bits ''in_iowait'' 4 1,
     Bits ''in_user_fault'' 4 1,
     Bits ''no_cgroup_migration'' 4 1,
     Bits ''frozen'' 4 1,
     Bits ''use_memdelay'' 4 1,
     Bits ''in_memstall'' 4 1,
     Field ''atomic_flags'' (scalar 8),
     Field ''restart_block'' struct_restart_block,
     Field ''pid'' typedef_pid_t,
     Field ''tgid'' typedef_pid_t,
     Field ''stack_canary'' (scalar 8),
     Field ''real_parent'' pointer,
     Field ''parent'' pointer,
     Field ''children'' struct_list_head,
     Field ''sibling'' struct_list_head,
     Field ''group_leader'' pointer,
     Field ''ptraced'' struct_list_head,
     Field ''ptrace_entry'' struct_list_head,
     Field ''thread_pid'' pointer,
     Field ''pid_links'' (array_of 4 struct_hlist_node),
     Field ''thread_group'' struct_list_head,
     Field ''thread_node'' struct_list_head,
     Field ''vfork_done'' pointer,
     Field ''set_child_tid'' pointer,
     Field ''clear_child_tid'' pointer,
     Field ''utime'' typedef_kernel_u64,
     Field ''stime'' typedef_kernel_u64,
     Field ''gtime'' typedef_kernel_u64,
     Field ''prev_cputime'' struct_prev_cputime,
     Field ''nvcsw'' (scalar 8),
     Field ''nivcsw'' (scalar 8),
     Field ''start_time'' typedef_kernel_u64,
     Field ''start_boottime'' typedef_kernel_u64,
     Field ''min_flt'' (scalar 8),
     Field ''maj_flt'' (scalar 8),
     Field ''posix_cputimers'' struct_posix_cputimers,
     Field ''ptracer_cred'' pointer,
     Field ''real_cred'' pointer,
     Field ''cred'' pointer,
     Field ''cached_requested_key'' pointer,
     Field ''comm'' (array_of 16 (scalar 1)),
     Field ''nameidata'' pointer,
     Field ''sysvsem'' struct_sysv_sem,
     Field ''sysvshm'' struct_sysv_shm,
     Field ''last_switch_count'' (scalar 8),
     Field ''last_switch_time'' (scalar 8),
     Field ''fs'' pointer,
     Field ''files'' pointer,
     Field ''io_uring'' pointer]"

definition struct_task_struct_members_2 :: "member list" where
  "struct_task_struct_members_2 =
    [Field ''nsproxy'' pointer,
     Field ''signal'' pointer,
     Field ''sighand'' pointer,
     Field ''blocked'' typedef_sigset_t,
     Field ''real_blocked'' typedef_sigset_t,
     Field ''saved_sigmask'' typedef_sigset_t,
     Field ''pending'' struct_sigpending,
     Field ''sas_ss_sp'' (scalar 8),
     Field ''sas_ss_size'' typedef_size_t,
     Field ''sas_ss_flags'' (scalar 4),
     Field ''task_works'' pointer,
     Field ''audit_context'' pointer,
     Field ''loginuid'' typedef_kuid_t,
     Field ''sessionid'' (scalar 4),
     Field ''seccomp'' struct_seccomp,
     Field ''parent_exec_id'' typedef_kernel_u64,
     Field ''self_exec_id'' typedef_kernel_u64,
     Field ''alloc_lock'' typedef_spinlock_t,
     Field ''pi_lock'' typedef_raw_spinlock_t,
     Field ''wake_q'' struct_wake_q_node,
     Field ''pi_waiters'' struct_rb_root_cached,
     Field ''pi_top_task'' pointer,
     Field ''pi_blocked_on'' pointer,
     Field ''journal_info'' pointer,
     Field ''bio_list'' pointer,
     Field ''plug'' pointer,
     Field ''reclaim_state'' pointer,
     Field ''backing_dev_info'' pointer,
     Field ''io_context'' pointer,
     Field ''capture_control'' pointer,
     Field ''ptrace_message'' (scalar 8),
     Field ''last_siginfo'' pointer,
     Field ''ioac'' struct_task_io_accounting,
     Field ''psi_flags'' (scalar 4),
     Field ''acct_rss_mem1'' typedef_kernel_u64,
     Field ''acct_vm_mem1'' typedef_kernel_u64,
     Field ''acct_timexpd'' typedef_kernel_u64,
     Field ''mems_allowed'' typedef_nodemask_t,
     Field ''mems_allowed_seq'' typedef_seqcount_spinlock_t,
     Field ''cpuset_mem_spread_rotor'' (scalar 4),
     Field ''cpuset_slab_spread_rotor'' (scalar 4),
     Field ''cgroups'' pointer,
     Field ''cg_list'' struct_list_head,
     Field ''robust_list'' pointer,
     Field ''compat_robust_list'' pointer,
     Field ''pi_state_list'' struct_list_head,
     Field ''pi_state_cache'' pointer,
     Field ''futex_exit_mutex'' struct_mutex,
     Field ''futex_state'' (scalar 4),
     Field ''perf_event_ctxp'' (array_of 2 pointer),
     Field ''perf_event_mutex'' struct_mutex,
     Field ''perf_event_list'' struct_list_head,
     Field ''mempolicy'' pointer,
     Field ''il_prev'' (scalar 2),
     Field ''pref_node_fork'' (scalar 2),
     Field ''numa_scan_seq'' (scalar 4),
     Field ''numa_scan_period'' (scalar 4),
     Field ''numa_scan_period_max'' (scalar 4),
     Field ''numa_preferred_nid'' (scalar 4),
     Field ''numa_migrate_retry'' (scalar 8),
     Field ''node_stamp'' typedef_kernel_u64,
     Field ''last_task_numa_placement'' typedef_kernel_u64,
     Field ''last_sum_exec_runtime'' typedef_kernel_u64,
     Field ''numa_work'' struct_callback_head,
     Field ''numa_group'' pointer,
     Field ''numa_faults'' pointer,
     Field ''total_numa_faults'' (scalar 8),
     Field ''numa_faults_locality'' (array_of 3 (scalar 8)),
     Field ''numa_pages_migrated'' (scalar 8),
     Field ''rseq'' pointer,
     Field ''rseq_sig'' typedef_kernel_u32,
     Field ''rseq_event_mask'' (scalar 8),
     Field ''tlb_ubc'' struct_tlbflush_unmap_batch,
     Anon (union_of [Field ''rcu_users'' typedef_refcount_t,
     Field ''rcu'' struct_callback_head]),
     Field ''splice_pipe'' pointer,
     Field ''task_frag'' struct_page_frag,
     Field ''delays'' pointer,
     Field ''nr_dirtied'' (scalar 4),
     Field ''nr_dirtied_pause'' (scalar 4),
     Field ''dirty_paused_when'' (scalar 8),
     Field ''latency_record_count'' (scalar 4),
     Field ''latency_record'' (array_of 32 struct_latency_record),
     Field ''timer_slack_ns'' typedef_kernel_u64,
     Field ''default_timer_slack_ns'' typedef_kernel_u64,
     Field ''curr_ret_stack'' (scalar 4),
     Field ''curr_ret_depth'' (scalar 4),
     Field ''ret_stack'' pointer,
     Field ''ftrace_timestamp'' (scalar 8),
     Field ''trace_overrun'' typedef_atomic_t,
     Field ''tracing_graph_pause'' typedef_atomic_t,
     Field ''trace'' (scalar 8),
     Field ''trace_recursion'' (scalar 8),
     Field ''memcg_in_oom'' pointer,
     Field ''memcg_oom_gfp_mask'' typedef_gfp_t,
     Field ''memcg_oom_order'' (scalar 4),
     Field ''memcg_nr_pages_over_high'' (scalar 4),
     Field ''active_memcg'' pointer,
     Field ''throttle_queue'' pointer,
     Field ''utask'' pointer,
     Field ''sequential_io'' (scalar 4),
     Field ''sequential_io_avg'' (scalar 4),
     Field ''pagefault_disabled'' (scalar 4),
     Field ''oom_reaper_list'' pointer,
     Field ''stack_vm_area'' pointer,
     Field ''stack_refcount'' typedef_refcount_t,
     Field ''security'' pointer,
     Field ''thread'' struct_thread_struct]"

definition struct_task_struct :: ctype where
  "struct_task_struct = struct_of (struct_task_struct_members_1 @ struct_task_struct_members_2)"

lemma struct_task_struct_size [simp]: "t_size struct_task_struct = 7744" "t_align struct_task_struct = 16"
  by (simp_all add: struct_task_struct_def struct_task_struct_members_1_def struct_task_struct_members_2_def layout_simps)

lemma struct_task_struct_sound [simp]: "sound_type struct_task_struct"
  by (simp add: struct_task_struct_def struct_task_struct_members_1_def struct_task_struct_members_2_def)

definition struct_kref :: ctype where
  "struct_kref =
   struct_of
    [Field ''refcount'' typedef_refcount_t]"

lemma struct_kref_size [simp]: "t_size struct_kref = 4" "t_align struct_kref = 4"
  by (simp_all add: struct_kref_def layout_simps)

lemma struct_kref_sound [simp]: "sound_type struct_kref"
  by (simp add: struct_kref_def)

definition struct_xarray :: ctype where
  "struct_xarray =
   struct_of
    [Field ''xa_lock'' typedef_spinlock_t,
     Field ''xa_flags'' typedef_gfp_t,
     Field ''xa_head'' pointer]"

lemma struct_xarray_size [simp]: "t_size struct_xarray = 16" "t_align struct_xarray = 8"
  by (simp_all add: struct_xarray_def layout_simps)

lemma struct_xarray_sound [simp]: "sound_type struct_xarray"
  by (simp add: struct_xarray_def)

definition struct_idr :: ctype where
  "struct_idr =
   struct_of
    [Field ''idr_rt'' struct_xarray,
     Field ''idr_base'' (scalar 4),
     Field ''idr_next'' (scalar 4)]"

lemma struct_idr_size [simp]: "t_size struct_idr = 24" "t_align struct_idr = 8"
  by (simp_all add: struct_idr_def layout_simps)

lemma struct_idr_sound [simp]: "sound_type struct_idr"
  by (simp add: struct_idr_def)

definition struct_ns_common :: ctype where
  "struct_ns_common =
   struct_of
    [Field ''stashed'' typedef_atomic_long_t,
     Field ''ops'' pointer,
     Field ''inum'' (scalar 4)]"

lemma struct_ns_common_size [simp]: "t_size struct_ns_common = 24" "t_align struct_ns_common = 8"
  by (simp_all add: struct_ns_common_def layout_simps)

lemma struct_ns_common_sound [simp]: "sound_type struct_ns_common"
  by (simp add: struct_ns_common_def)

definition struct_pid_namespace :: ctype where
  "struct_pid_namespace =
   struct_of
    [Field ''kref'' struct_kref,
     Field ''idr'' struct_idr,
     Field ''rcu'' struct_callback_head,
     Field ''pid_allocated'' (scalar 4),
     Field ''child_reaper'' pointer,
     Field ''pid_cachep'' pointer,
     Field ''level'' (scalar 4),
     Field ''parent'' pointer,
     Field ''bacct'' pointer,
     Field ''user_ns'' pointer,
     Field ''ucounts'' pointer,
     Field ''reboot'' (scalar 4),
     Field ''ns'' struct_ns_common]"

lemma struct_pid_namespace_size [simp]: "t_size struct_pid_namespace = 144" "t_align struct_pid_namespace = 8"
  by (simp_all add: struct_pid_namespace_def layout_simps)

lemma struct_pid_namespace_sound [simp]: "sound_type struct_pid_namespace"
  by (simp add: struct_pid_namespace_def)

definition struct_nsproxy :: ctype where
  "struct_nsproxy =
   struct_of
    [Field ''count'' typedef_atomic_t,
     Field ''uts_ns'' pointer,
     Field ''ipc_ns'' pointer,
     Field ''mnt_ns'' pointer,
     Field ''pid_ns_for_children'' pointer,
     Field ''net_ns'' pointer,
     Field ''time_ns'' pointer,
     Field ''time_ns_for_children'' pointer,
     Field ''cgroup_ns'' pointer]"

lemma struct_nsproxy_size [simp]: "t_size struct_nsproxy = 72" "t_align struct_nsproxy = 8"
  by (simp_all add: struct_nsproxy_def layout_simps)

lemma struct_nsproxy_sound [simp]: "sound_type struct_nsproxy"
  by (simp add: struct_nsproxy_def)

definition typedef_kernel_gid32_t :: ctype where
  "typedef_kernel_gid32_t = scalar 4"

lemma typedef_kernel_gid32_t_size [simp]: "t_size typedef_kernel_gid32_t = 4" "t_align typedef_kernel_gid32_t = 4"
  by (simp_all add: typedef_kernel_gid32_t_def layout_simps)

lemma typedef_kernel_gid32_t_sound [simp]: "sound_type typedef_kernel_gid32_t"
  by (simp add: typedef_kernel_gid32_t_def)

definition typedef_gid_t :: ctype where
  "typedef_gid_t = typedef_kernel_gid32_t"

lemma typedef_gid_t_size [simp]: "t_size typedef_gid_t = 4" "t_align typedef_gid_t = 4"
  by (simp_all add: typedef_gid_t_def layout_simps)

lemma typedef_gid_t_sound [simp]: "sound_type typedef_gid_t"
  by (simp add: typedef_gid_t_def)

definition typedef_kgid_t :: ctype where
  "typedef_kgid_t =
   struct_of
    [Field ''val'' typedef_gid_t]"

lemma typedef_kgid_t_size [simp]: "t_size typedef_kgid_t = 4" "t_align typedef_kgid_t = 4"
  by (simp_all add: typedef_kgid_t_def layout_simps)

lemma typedef_kgid_t_sound [simp]: "sound_type typedef_kgid_t"
  by (simp add: typedef_kgid_t_def)

definition struct_kernel_cap_struct :: ctype where
  "struct_kernel_cap_struct =
   struct_of
    [Field ''cap'' (array_of 2 typedef_u32)]"

lemma struct_kernel_cap_struct_size [simp]: "t_size struct_kernel_cap_struct = 8" "t_align struct_kernel_cap_struct = 4"
  by (simp_all add: struct_kernel_cap_struct_def layout_simps)

lemma struct_kernel_cap_struct_sound [simp]: "sound_type struct_kernel_cap_struct"
  by (simp add: struct_kernel_cap_struct_def)

definition typedef_kernel_cap_t :: ctype where
  "typedef_kernel_cap_t = struct_kernel_cap_struct"

lemma typedef_kernel_cap_t_size [simp]: "t_size typedef_kernel_cap_t = 8" "t_align typedef_kernel_cap_t = 4"
  by (simp_all add: typedef_kernel_cap_t_def layout_simps)

lemma typedef_kernel_cap_t_sound [simp]: "sound_type typedef_kernel_cap_t"
  by (simp add: typedef_kernel_cap_t_def)

definition struct_cred :: ctype where
  "struct_cred =
   struct_of
    [Field ''usage'' typedef_atomic_t,
     Field ''uid'' typedef_kuid_t,
     Field ''gid'' typedef_kgid_t,
     Field ''suid'' typedef_kuid_t,
     Field ''sgid'' typedef_kgid_t,
     Field ''euid'' typedef_kuid_t,
     Field ''egid'' typedef_kgid_t,
     Field ''fsuid'' typedef_kuid_t,
     Field ''fsgid'' typedef_kgid_t,
     Field ''securebits'' (scalar 4),
     Field ''cap_inheritable'' typedef_kernel_cap_t,
     Field ''cap_permitted'' typedef_kernel_cap_t,
     Field ''cap_effective'' typedef_kernel_cap_t,
     Field ''cap_bset'' typedef_kernel_cap_t,
     Field ''cap_ambient'' typedef_kernel_cap_t,
     Field ''jit_keyring'' (scalar 1),
     Field ''session_keyring'' pointer,
     Field ''process_keyring'' pointer,
     Field ''thread_keyring'' pointer,
     Field ''request_key_auth'' pointer,
     Field ''security'' pointer,
     Field ''user'' pointer,
     Field ''user_ns'' pointer,
     Field ''group_info'' pointer,
     Anon (union_of [Field ''non_rcu'' (scalar 4),
     Field ''rcu'' struct_callback_head])]"

lemma struct_cred_size [simp]: "t_size struct_cred = 168" "t_align struct_cred = 8"
  by (simp_all add: struct_cred_def layout_simps)

lemma struct_cred_sound [simp]: "sound_type struct_cred"
  by (simp add: struct_cred_def)

definition struct_cpu_itimer :: ctype where
  "struct_cpu_itimer =
   struct_of
    [Field ''expires'' typedef_kernel_u64,
     Field ''incr'' typedef_kernel_u64]"

lemma struct_cpu_itimer_size [simp]: "t_size struct_cpu_itimer = 16" "t_align struct_cpu_itimer = 8"
  by (simp_all add: struct_cpu_itimer_def layout_simps)

lemma struct_cpu_itimer_sound [simp]: "sound_type struct_cpu_itimer"
  by (simp add: struct_cpu_itimer_def)

definition struct_task_cputime_atomic :: ctype where
  "struct_task_cputime_atomic =
   struct_of
    [Field ''utime'' typedef_atomic64_t,
     Field ''stime'' typedef_atomic64_t,
     Field ''sum_exec_runtime'' typedef_atomic64_t]"

lemma struct_task_cputime_atomic_size [simp]: "t_size struct_task_cputime_atomic = 24" "t_align struct_task_cputime_atomic = 8"
  by (simp_all add: struct_task_cputime_atomic_def layout_simps)

lemma struct_task_cputime_atomic_sound [simp]: "sound_type struct_task_cputime_atomic"
  by (simp add: struct_task_cputime_atomic_def)

definition struct_thread_group_cputimer :: ctype where
  "struct_thread_group_cputimer =
   struct_of
    [Field ''cputime_atomic'' struct_task_cputime_atomic]"

lemma struct_thread_group_cputimer_size [simp]: "t_size struct_thread_group_cputimer = 24" "t_align struct_thread_group_cputimer = 8"
  by (simp_all add: struct_thread_group_cputimer_def layout_simps)

lemma struct_thread_group_cputimer_sound [simp]: "sound_type struct_thread_group_cputimer"
  by (simp add: struct_thread_group_cputimer_def)

definition typedef_seqlock_t :: ctype where
  "typedef_seqlock_t =
   struct_of
    [Field ''seqcount'' typedef_seqcount_spinlock_t,
     Field ''lock'' typedef_spinlock_t]"

lemma typedef_seqlock_t_size [simp]: "t_size typedef_seqlock_t = 8" "t_align typedef_seqlock_t = 4"
  by (simp_all add: typedef_seqlock_t_def layout_simps)

lemma typedef_seqlock_t_sound [simp]: "sound_type typedef_seqlock_t"
  by (simp add: typedef_seqlock_t_def)

definition struct_rlimit :: ctype where
  "struct_rlimit =
   struct_of
    [Field ''rlim_cur'' typedef_kernel_ulong_t,
     Field ''rlim_max'' typedef_kernel_ulong_t]"

lemma struct_rlimit_size [simp]: "t_size struct_rlimit = 16" "t_align struct_rlimit = 8"
  by (simp_all add: struct_rlimit_def layout_simps)

lemma struct_rlimit_sound [simp]: "sound_type struct_rlimit"
  by (simp add: struct_rlimit_def)

definition struct_pacct_struct :: ctype where
  "struct_pacct_struct =
   struct_of
    [Field ''ac_flag'' (scalar 4),
     Field ''ac_exitcode'' (scalar 8),
     Field ''ac_mem'' (scalar 8),
     Field ''ac_utime'' typedef_kernel_u64,
     Field ''ac_stime'' typedef_kernel_u64,
     Field ''ac_minflt'' (scalar 8),
     Field ''ac_majflt'' (scalar 8)]"

lemma struct_pacct_struct_size [simp]: "t_size struct_pacct_struct = 56" "t_align struct_pacct_struct = 8"
  by (simp_all add: struct_pacct_struct_def layout_simps)

lemma struct_pacct_struct_sound [simp]: "sound_type struct_pacct_struct"
  by (simp add: struct_pacct_struct_def)

definition struct_signal_struct :: ctype where
  "struct_signal_struct =
   struct_of
    [Field ''sigcnt'' typedef_refcount_t,
     Field ''live'' typedef_atomic_t,
     Field ''nr_threads'' (scalar 4),
     Field ''thread_head'' struct_list_head,
     Field ''wait_chldexit'' typedef_wait_queue_head_t,
     Field ''curr_target'' pointer,
     Field ''shared_pending'' struct_sigpending,
     Field ''multiprocess'' struct_hlist_head,
     Field ''group_exit_code'' (scalar 4),
     Field ''notify_count'' (scalar 4),
     Field ''group_exit_task'' pointer,
     Field ''group_stop_count'' (scalar 4),
     Field ''flags'' (scalar 4),
     Bits ''is_child_subreaper'' 4 1,
     Bits ''has_child_subreaper'' 4 1,
     Field ''posix_timer_id'' (scalar 4),
     Field ''posix_timers'' struct_list_head,
     Field ''real_timer'' struct_hrtimer,
     Field ''it_real_incr'' typedef_ktime_t,
     Field ''it'' (array_of 2 struct_cpu_itimer),
     Field ''cputimer'' struct_thread_group_cputimer,
     Field ''posix_cputimers'' struct_posix_cputimers,
     Field ''pids'' (array_of 4 pointer),
     Field ''tty_old_pgrp'' pointer,
     Field ''leader'' (scalar 4),
     Field ''tty'' pointer,
     Field ''autogroup'' pointer,
     Field ''stats_lock'' typedef_seqlock_t,
     Field ''utime'' typedef_kernel_u64,
     Field ''stime'' typedef_kernel_u64,
     Field ''cutime'' typedef_kernel_u64,
     Field ''cstime'' typedef_kernel_u64,
     Field ''gtime'' typedef_kernel_u64,
     Field ''cgtime'' typedef_kernel_u64,
     Field ''prev_cputime'' struct_prev_cputime,
     Field ''nvcsw'' (scalar 8),
     Field ''nivcsw'' (scalar 8),
     Field ''cnvcsw'' (scalar 8),
     Field ''cnivcsw'' (scalar 8),
     Field ''min_flt'' (scalar 8),
     Field ''maj_flt'' (scalar 8),
     Field ''cmin_flt'' (scalar 8),
     Field ''cmaj_flt'' (scalar 8),
     Field ''inblock'' (scalar 8),
     Field ''oublock'' (scalar 8),
     Field ''cinblock'' (scalar 8),
     Field ''coublock'' (scalar 8),
     Field ''maxrss'' (scalar 8),
     Field ''cmaxrss'' (scalar 8),
     Field ''ioac'' struct_task_io_accounting,
     Field ''sum_sched_runtime'' (scalar 8),
     Field ''rlim'' (array_of 16 struct_rlimit),
     Field ''pacct'' struct_pacct_struct,
     Field ''stats'' pointer,
     Field ''audit_tty'' (scalar 4),
     Field ''tty_audit_buf'' pointer,
     Field ''oom_flag_origin'' (scalar 1),
     Field ''oom_score_adj'' (scalar 2),
     Field ''oom_score_adj_min'' (scalar 2),
     Field ''oom_mm'' pointer,
     Field ''cred_guard_mutex'' struct_mutex,
     Field ''exec_update_lock'' struct_rw_semaphore]"

lemma struct_signal_struct_size [simp]: "t_size struct_signal_struct = 1096" "t_align struct_signal_struct = 8"
  by (simp_all add: struct_signal_struct_def layout_simps)

lemma struct_signal_struct_sound [simp]: "sound_type struct_signal_struct"
  by (simp add: struct_signal_struct_def)

definition typedef_sighandler_t :: ctype where
  "typedef_sighandler_t = pointer"

lemma typedef_sighandler_t_size [simp]: "t_size typedef_sighandler_t = 8" "t_align typedef_sighandler_t = 8"
  by (simp_all add: typedef_sighandler_t_def layout_simps)

lemma typedef_sighandler_t_sound [simp]: "sound_type typedef_sighandler_t"
  by (simp add: typedef_sighandler_t_def)

definition typedef_sigrestore_t :: ctype where
  "typedef_sigrestore_t = pointer"

lemma typedef_sigrestore_t_size [simp]: "t_size typedef_sigrestore_t = 8" "t_align typedef_sigrestore_t = 8"
  by (simp_all add: typedef_sigrestore_t_def layout_simps)

lemma typedef_sigrestore_t_sound [simp]: "sound_type typedef_sigrestore_t"
  by (simp add: typedef_sigrestore_t_def)

definition struct_sigaction :: ctype where
  "struct_sigaction =
   struct_of
    [Field ''sa_handler'' typedef_sighandler_t,
     Field ''sa_flags'' (scalar 8),
     Field ''sa_restorer'' typedef_sigrestore_t,
     Field ''sa_mask'' typedef_sigset_t]"

lemma struct_sigaction_size [simp]: "t_size struct_sigaction = 32" "t_align struct_sigaction = 8"
  by (simp_all add: struct_sigaction_def layout_simps)

lemma struct_sigaction_sound [simp]: "sound_type struct_sigaction"
  by (simp add: struct_sigaction_def)

definition struct_k_sigaction :: ctype where
  "struct_k_sigaction =
   struct_of
    [Field ''sa'' struct_sigaction]"

lemma struct_k_sigaction_size [simp]: "t_size struct_k_sigaction = 32" "t_align struct_k_sigaction = 8"
  by (simp_all add: struct_k_sigaction_def layout_simps)

lemma struct_k_sigaction_sound [simp]: "sound_type struct_k_sigaction"
  by (simp add: struct_k_sigaction_def)

definition struct_sighand_struct :: ctype where
  "struct_sighand_struct =
   struct_of
    [Field ''siglock'' typedef_spinlock_t,
     Field ''count'' typedef_refcount_t,
     Field ''signalfd_wqh'' typedef_wait_queue_head_t,
     Field ''action'' (array_of 64 struct_k_sigaction)]"

lemma struct_sighand_struct_size [simp]: "t_size struct_sighand_struct = 2080" "t_align struct_sighand_struct = 8"
  by (simp_all add: struct_sighand_struct_def layout_simps)

lemma struct_sighand_struct_sound [simp]: "sound_type struct_sighand_struct"
  by (simp add: struct_sighand_struct_def)

definition struct_path :: ctype where
  "struct_path =
   struct_of
    [Field ''mnt'' pointer,
     Field ''dentry'' pointer]"

lemma struct_path_size [simp]: "t_size struct_path = 16" "t_align struct_path = 8"
  by (simp_all add: struct_path_def layout_simps)

lemma struct_path_sound [simp]: "sound_type struct_path"
  by (simp add: struct_path_def)

definition enum_rw_hint_values :: "(string \<times> int) list" where
  "enum_rw_hint_values =
    [(''WRITE_LIFE_NOT_SET'', 0),
     (''WRITE_LIFE_NONE'', 1),
     (''WRITE_LIFE_SHORT'', 2),
     (''WRITE_LIFE_MEDIUM'', 3),
     (''WRITE_LIFE_LONG'', 4),
     (''WRITE_LIFE_EXTREME'', 5)]"

definition enum_rw_hint :: ctype where
  "enum_rw_hint = scalar 4"

lemma enum_rw_hint_size [simp]: "t_size enum_rw_hint = 4" "t_align enum_rw_hint = 4"
  by (simp_all add: enum_rw_hint_def layout_simps)

lemma enum_rw_hint_sound [simp]: "sound_type enum_rw_hint"
  by (simp add: enum_rw_hint_def)

definition typedef_fmode_t :: ctype where
  "typedef_fmode_t = scalar 4"

lemma typedef_fmode_t_size [simp]: "t_size typedef_fmode_t = 4" "t_align typedef_fmode_t = 4"
  by (simp_all add: typedef_fmode_t_def layout_simps)

lemma typedef_fmode_t_sound [simp]: "sound_type typedef_fmode_t"
  by (simp add: typedef_fmode_t_def)

definition typedef_kernel_loff_t :: ctype where
  "typedef_kernel_loff_t = scalar 8"

lemma typedef_kernel_loff_t_size [simp]: "t_size typedef_kernel_loff_t = 8" "t_align typedef_kernel_loff_t = 8"
  by (simp_all add: typedef_kernel_loff_t_def layout_simps)

lemma typedef_kernel_loff_t_sound [simp]: "sound_type typedef_kernel_loff_t"
  by (simp add: typedef_kernel_loff_t_def)

definition typedef_loff_t :: ctype where
  "typedef_loff_t = typedef_kernel_loff_t"

lemma typedef_loff_t_size [simp]: "t_size typedef_loff_t = 8" "t_align typedef_loff_t = 8"
  by (simp_all add: typedef_loff_t_def layout_simps)

lemma typedef_loff_t_sound [simp]: "sound_type typedef_loff_t"
  by (simp add: typedef_loff_t_def)

definition struct_qrwlock :: ctype where
  "struct_qrwlock =
   struct_of
    [Anon (union_of [Field ''cnts'' typedef_atomic_t,
     Anon (struct_of [Field ''wlocked'' typedef_kernel_u8,
     Field ''__lstate'' (array_of 3 typedef_kernel_u8)])]),
     Field ''wait_lock'' typedef_arch_spinlock_t]"

lemma struct_qrwlock_size [simp]: "t_size struct_qrwlock = 8" "t_align struct_qrwlock = 4"
  by (simp_all add: struct_qrwlock_def layout_simps)

lemma struct_qrwlock_sound [simp]: "sound_type struct_qrwlock"
  by (simp add: struct_qrwlock_def)

definition typedef_arch_rwlock_t :: ctype where
  "typedef_arch_rwlock_t = struct_qrwlock"

lemma typedef_arch_rwlock_t_size [simp]: "t_size typedef_arch_rwlock_t = 8" "t_align typedef_arch_rwlock_t = 4"
  by (simp_all add: typedef_arch_rwlock_t_def layout_simps)

lemma typedef_arch_rwlock_t_sound [simp]: "sound_type typedef_arch_rwlock_t"
  by (simp add: typedef_arch_rwlock_t_def)

definition typedef_rwlock_t :: ctype where
  "typedef_rwlock_t =
   struct_of
    [Field ''raw_lock'' typedef_arch_rwlock_t]"

lemma typedef_rwlock_t_size [simp]: "t_size typedef_rwlock_t = 8" "t_align typedef_rwlock_t = 4"
  by (simp_all add: typedef_rwlock_t_def layout_simps)

lemma typedef_rwlock_t_sound [simp]: "sound_type typedef_rwlock_t"
  by (simp add: typedef_rwlock_t_def)

definition enum_pid_type_values :: "(string \<times> int) list" where
  "enum_pid_type_values =
    [(''PIDTYPE_PID'', 0),
     (''PIDTYPE_TGID'', 1),
     (''PIDTYPE_PGID'', 2),
     (''PIDTYPE_SID'', 3),
     (''PIDTYPE_MAX'', 4)]"

definition enum_pid_type :: ctype where
  "enum_pid_type = scalar 4"

lemma enum_pid_type_size [simp]: "t_size enum_pid_type = 4" "t_align enum_pid_type = 4"
  by (simp_all add: enum_pid_type_def layout_simps)

lemma enum_pid_type_sound [simp]: "sound_type enum_pid_type"
  by (simp add: enum_pid_type_def)

definition struct_fown_struct :: ctype where
  "struct_fown_struct =
   struct_of
    [Field ''lock'' typedef_rwlock_t,
     Field ''pid'' pointer,
     Field ''pid_type'' enum_pid_type,
     Field ''uid'' typedef_kuid_t,
     Field ''euid'' typedef_kuid_t,
     Field ''signum'' (scalar 4)]"

lemma struct_fown_struct_size [simp]: "t_size struct_fown_struct = 32" "t_align struct_fown_struct = 8"
  by (simp_all add: struct_fown_struct_def layout_simps)

lemma struct_fown_struct_sound [simp]: "sound_type struct_fown_struct"
  by (simp add: struct_fown_struct_def)

definition struct_file_ra_state :: ctype where
  "struct_file_ra_state =
   struct_of
    [Field ''start'' (scalar 8),
     Field ''size'' (scalar 4),
     Field ''async_size'' (scalar 4),
     Field ''ra_pages'' (scalar 4),
     Field ''mmap_miss'' (scalar 4),
     Field ''prev_pos'' typedef_loff_t]"

lemma struct_file_ra_state_size [simp]: "t_size struct_file_ra_state = 32" "t_align struct_file_ra_state = 8"
  by (simp_all add: struct_file_ra_state_def layout_simps)

lemma struct_file_ra_state_sound [simp]: "sound_type struct_file_ra_state"
  by (simp add: struct_file_ra_state_def)

definition typedef_errseq_t :: ctype where
  "typedef_errseq_t = typedef_kernel_u32"

lemma typedef_errseq_t_size [simp]: "t_size typedef_errseq_t = 4" "t_align typedef_errseq_t = 4"
  by (simp_all add: typedef_errseq_t_def layout_simps)

lemma typedef_errseq_t_sound [simp]: "sound_type typedef_errseq_t"
  by (simp add: typedef_errseq_t_def)

definition struct_file :: ctype where
  "struct_file =
   struct_of
    [Field ''f_u'' (union_of [Field ''fu_llist'' struct_llist_node,
     Field ''fu_rcuhead'' struct_callback_head]),
     Field ''f_path'' struct_path,
     Field ''f_inode'' pointer,
     Field ''f_op'' pointer,
     Field ''f_lock'' typedef_spinlock_t,
     Field ''f_write_hint'' enum_rw_hint,
     Field ''f_count'' typedef_atomic_long_t,
     Field ''f_flags'' (scalar 4),
     Field ''f_mode'' typedef_fmode_t,
     Field ''f_pos_lock'' struct_mutex,
     Field ''f_pos'' typedef_loff_t,
     Field ''f_owner'' struct_fown_struct,
     Field ''f_cred'' pointer,
     Field ''f_ra'' struct_file_ra_state,
     Field ''f_version'' typedef_kernel_u64,
     Field ''f_security'' pointer,
     Field ''private_data'' pointer,
     Field ''f_ep_links'' struct_list_head,
     Field ''f_tfile_llink'' struct_list_head,
     Field ''f_mapping'' pointer,
     Field ''f_wb_err'' typedef_errseq_t,
     Field ''f_sb_err'' typedef_errseq_t]"

lemma struct_file_size [simp]: "t_size struct_file = 256" "t_align struct_file = 8"
  by (simp_all add: struct_file_def layout_simps)

lemma struct_file_sound [simp]: "sound_type struct_file"
  by (simp add: struct_file_def)

definition struct_hlist_bl_node :: ctype where
  "struct_hlist_bl_node =
   struct_of
    [Field ''next'' pointer,
     Field ''pprev'' pointer]"

lemma struct_hlist_bl_node_size [simp]: "t_size struct_hlist_bl_node = 16" "t_align struct_hlist_bl_node = 8"
  by (simp_all add: struct_hlist_bl_node_def layout_simps)

lemma struct_hlist_bl_node_sound [simp]: "sound_type struct_hlist_bl_node"
  by (simp add: struct_hlist_bl_node_def)

definition struct_qstr :: ctype where
  "struct_qstr =
   struct_of
    [Anon (union_of [Anon (struct_of [Field ''hash'' typedef_kernel_u32,
     Field ''len'' typedef_kernel_u32]),
     Field ''hash_len'' typedef_kernel_u64]),
     Field ''name'' pointer]"

lemma struct_qstr_size [simp]: "t_size struct_qstr = 16" "t_align struct_qstr = 8"
  by (simp_all add: struct_qstr_def layout_simps)

lemma struct_qstr_sound [simp]: "sound_type struct_qstr"
  by (simp add: struct_qstr_def)

definition struct_lockref :: ctype where
  "struct_lockref =
   struct_of
    [Anon (union_of [Field ''lock_count'' typedef_u64,
     Anon (struct_of [Field ''lock'' typedef_spinlock_t,
     Field ''count'' (scalar 4)])])]"

lemma struct_lockref_size [simp]: "t_size struct_lockref = 8" "t_align struct_lockref = 8"
  by (simp_all add: struct_lockref_def layout_simps)

lemma struct_lockref_sound [simp]: "sound_type struct_lockref"
  by (simp add: struct_lockref_def)

definition struct_dentry :: ctype where
  "struct_dentry =
   struct_of
    [Field ''d_flags'' (scalar 4),
     Field ''d_seq'' typedef_seqcount_spinlock_t,
     Field ''d_hash'' struct_hlist_bl_node,
     Field ''d_parent'' pointer,
     Field ''d_name'' struct_qstr,
     Field ''d_inode'' pointer,
     Field ''d_iname'' (array_of 32 (scalar 1)),
     Field ''d_lockref'' struct_lockref,
     Field ''d_op'' pointer,
     Field ''d_sb'' pointer,
     Field ''d_time'' (scalar 8),
     Field ''d_fsdata'' pointer,
     Anon (union_of [Field ''d_lru'' struct_list_head,
     Field ''d_wait'' pointer]),
     Field ''d_child'' struct_list_head,
     Field ''d_subdirs'' struct_list_head,
     Field ''d_u'' (union_of [Field ''d_alias'' struct_hlist_node,
     Field ''d_in_lookup_hash'' struct_hlist_bl_node,
     Field ''d_rcu'' struct_callback_head])]"

lemma struct_dentry_size [simp]: "t_size struct_dentry = 192" "t_align struct_dentry = 8"
  by (simp_all add: struct_dentry_def layout_simps)

lemma struct_dentry_sound [simp]: "sound_type struct_dentry"
  by (simp add: struct_dentry_def)

definition typedef_kernel_dev_t :: ctype where
  "typedef_kernel_dev_t = typedef_kernel_u32"

lemma typedef_kernel_dev_t_size [simp]: "t_size typedef_kernel_dev_t = 4" "t_align typedef_kernel_dev_t = 4"
  by (simp_all add: typedef_kernel_dev_t_def layout_simps)

lemma typedef_kernel_dev_t_sound [simp]: "sound_type typedef_kernel_dev_t"
  by (simp add: typedef_kernel_dev_t_def)

definition typedef_dev_t :: ctype where
  "typedef_dev_t = typedef_kernel_dev_t"

lemma typedef_dev_t_size [simp]: "t_size typedef_dev_t = 4" "t_align typedef_dev_t = 4"
  by (simp_all add: typedef_dev_t_def layout_simps)

lemma typedef_dev_t_sound [simp]: "sound_type typedef_dev_t"
  by (simp add: typedef_dev_t_def)

definition struct_hlist_bl_head :: ctype where
  "struct_hlist_bl_head =
   struct_of
    [Field ''first'' pointer]"

lemma struct_hlist_bl_head_size [simp]: "t_size struct_hlist_bl_head = 8" "t_align struct_hlist_bl_head = 8"
  by (simp_all add: struct_hlist_bl_head_def layout_simps)

lemma struct_hlist_bl_head_sound [simp]: "sound_type struct_hlist_bl_head"
  by (simp add: struct_hlist_bl_head_def)

definition typedef_qsize_t :: ctype where
  "typedef_qsize_t = scalar 8"

lemma typedef_qsize_t_size [simp]: "t_size typedef_qsize_t = 8" "t_align typedef_qsize_t = 8"
  by (simp_all add: typedef_qsize_t_def layout_simps)

lemma typedef_qsize_t_sound [simp]: "sound_type typedef_qsize_t"
  by (simp add: typedef_qsize_t_def)

definition struct_mem_dqinfo :: ctype where
  "struct_mem_dqinfo =
   struct_of
    [Field ''dqi_format'' pointer,
     Field ''dqi_fmt_id'' (scalar 4),
     Field ''dqi_dirty_list'' struct_list_head,
     Field ''dqi_flags'' (scalar 8),
     Field ''dqi_bgrace'' (scalar 4),
     Field ''dqi_igrace'' (scalar 4),
     Field ''dqi_max_spc_limit'' typedef_qsize_t,
     Field ''dqi_max_ino_limit'' typedef_qsize_t,
     Field ''dqi_priv'' pointer]"

lemma struct_mem_dqinfo_size [simp]: "t_size struct_mem_dqinfo = 72" "t_align struct_mem_dqinfo = 8"
  by (simp_all add: struct_mem_dqinfo_def layout_simps)

lemma struct_mem_dqinfo_sound [simp]: "sound_type struct_mem_dqinfo"
  by (simp add: struct_mem_dqinfo_def)

definition struct_quota_info :: ctype where
  "struct_quota_info =
   struct_of
    [Field ''flags'' (scalar 4),
     Field ''dqio_sem'' struct_rw_semaphore,
     Field ''files'' (array_of 3 pointer),
     Field ''info'' (array_of 3 struct_mem_dqinfo),
     Field ''ops'' (array_of 3 pointer)]"

lemma struct_quota_info_size [simp]: "t_size struct_quota_info = 312" "t_align struct_quota_info = 8"
  by (simp_all add: struct_quota_info_def layout_simps)

lemma struct_quota_info_sound [simp]: "sound_type struct_quota_info"
  by (simp add: struct_quota_info_def)

definition struct_rcu_sync :: ctype where
  "struct_rcu_sync =
   struct_of
    [Field ''gp_state'' (scalar 4),
     Field ''gp_count'' (scalar 4),
     Field ''gp_wait'' typedef_wait_queue_head_t,
     Field ''cb_head'' struct_callback_head]"

lemma struct_rcu_sync_size [simp]: "t_size struct_rcu_sync = 48" "t_align struct_rcu_sync = 8"
  by (simp_all add: struct_rcu_sync_def layout_simps)

lemma struct_rcu_sync_sound [simp]: "sound_type struct_rcu_sync"
  by (simp add: struct_rcu_sync_def)

definition struct_rcuwait :: ctype where
  "struct_rcuwait =
   struct_of
    [Field ''task'' pointer]"

lemma struct_rcuwait_size [simp]: "t_size struct_rcuwait = 8" "t_align struct_rcuwait = 8"
  by (simp_all add: struct_rcuwait_def layout_simps)

lemma struct_rcuwait_sound [simp]: "sound_type struct_rcuwait"
  by (simp add: struct_rcuwait_def)

definition struct_percpu_rw_semaphore :: ctype where
  "struct_percpu_rw_semaphore =
   struct_of
    [Field ''rss'' struct_rcu_sync,
     Field ''read_count'' pointer,
     Field ''writer'' struct_rcuwait,
     Field ''waiters'' typedef_wait_queue_head_t,
     Field ''block'' typedef_atomic_t]"

lemma struct_percpu_rw_semaphore_size [simp]: "t_size struct_percpu_rw_semaphore = 96" "t_align struct_percpu_rw_semaphore = 8"
  by (simp_all add: struct_percpu_rw_semaphore_def layout_simps)

lemma struct_percpu_rw_semaphore_sound [simp]: "sound_type struct_percpu_rw_semaphore"
  by (simp add: struct_percpu_rw_semaphore_def)

definition struct_sb_writers :: ctype where
  "struct_sb_writers =
   struct_of
    [Field ''frozen'' (scalar 4),
     Field ''wait_unfrozen'' typedef_wait_queue_head_t,
     Field ''rw_sem'' (array_of 3 struct_percpu_rw_semaphore)]"

lemma struct_sb_writers_size [simp]: "t_size struct_sb_writers = 320" "t_align struct_sb_writers = 8"
  by (simp_all add: struct_sb_writers_def layout_simps)

lemma struct_sb_writers_sound [simp]: "sound_type struct_sb_writers"
  by (simp add: struct_sb_writers_def)

definition typedef_time64_t :: ctype where
  "typedef_time64_t = typedef_s64"

lemma typedef_time64_t_size [simp]: "t_size typedef_time64_t = 8" "t_align typedef_time64_t = 8"
  by (simp_all add: typedef_time64_t_def layout_simps)

lemma typedef_time64_t_sound [simp]: "sound_type typedef_time64_t"
  by (simp add: typedef_time64_t_def)

definition typedef_uuid_t :: ctype where
  "typedef_uuid_t =
   struct_of
    [Field ''b'' (array_of 16 typedef_u8)]"

lemma typedef_uuid_t_size [simp]: "t_size typedef_uuid_t = 16" "t_align typedef_uuid_t = 1"
  by (simp_all add: typedef_uuid_t_def layout_simps)

lemma typedef_uuid_t_sound [simp]: "sound_type typedef_uuid_t"
  by (simp add: typedef_uuid_t_def)

definition struct_shrinker :: ctype where
  "struct_shrinker =
   struct_of
    [Field ''count_objects'' pointer,
     Field ''scan_objects'' pointer,
     Field ''batch'' (scalar 8),
     Field ''seeks'' (scalar 4),
     Field ''flags'' (scalar 4),
     Field ''list'' struct_list_head,
     Field ''id'' (scalar 4),
     Field ''nr_deferred'' pointer]"

lemma struct_shrinker_size [simp]: "t_size struct_shrinker = 64" "t_align struct_shrinker = 8"
  by (simp_all add: struct_shrinker_def layout_simps)

lemma struct_shrinker_sound [simp]: "sound_type struct_shrinker"
  by (simp add: struct_shrinker_def)

definition struct_list_lru :: ctype where
  "struct_list_lru =
   struct_of
    [Field ''node'' pointer,
     Field ''list'' struct_list_head,
     Field ''shrinker_id'' (scalar 4),
     Field ''memcg_aware'' (scalar 1)]"

lemma struct_list_lru_size [simp]: "t_size struct_list_lru = 32" "t_align struct_list_lru = 8"
  by (simp_all add: struct_list_lru_def layout_simps)

lemma struct_list_lru_sound [simp]: "sound_type struct_list_lru"
  by (simp add: struct_list_lru_def)

definition struct_super_block :: ctype where
  "struct_super_block =
   struct_of
    [Field ''s_list'' struct_list_head,
     Field ''s_dev'' typedef_dev_t,
     Field ''s_blocksize_bits'' (scalar 1),
     Field ''s_blocksize'' (scalar 8),
     Field ''s_maxbytes'' typedef_loff_t,
     Field ''s_type'' pointer,
     Field ''s_op'' pointer,
     Field ''dq_op'' pointer,
     Field ''s_qcop'' pointer,
     Field ''s_export_op'' pointer,
     Field ''s_flags'' (scalar 8),
     Field ''s_iflags'' (scalar 8),
     Field ''s_magic'' (scalar 8),
     Field ''s_root'' pointer,
     Field ''s_umount'' struct_rw_semaphore,
     Field ''s_count'' (scalar 4),
     Field ''s_active'' typedef_atomic_t,
     Field ''s_security'' pointer,
     Field ''s_xattr'' pointer,
     Field ''s_cop'' pointer,
     Field ''s_master_keys'' pointer,
     Field ''s_vop'' pointer,
     Field ''s_encoding'' pointer,
     Field ''s_encoding_flags'' typedef_u16,
     Field ''s_roots'' struct_hlist_bl_head,
     Field ''s_mounts'' struct_list_head,
     Field ''s_bdev'' pointer,
     Field ''s_bdi'' pointer,
     Field ''s_mtd'' pointer,
     Field ''s_instances'' struct_hlist_node,
     Field ''s_quota_types'' (scalar 4),
     Field ''s_dquot'' struct_quota_info,
     Field ''s_writers'' struct_sb_writers,
     Field ''s_fs_info'' pointer,
     Field ''s_time_gran'' typedef_kernel_u32,
     Field ''s_time_min'' typedef_time64_t,
     Field ''s_time_max'' typedef_time64_t,
     Field ''s_fsnotify_mask'' typedef_u32,
     Field ''s_fsnotify_marks'' pointer,
     Field ''s_id'' (array_of 32 (scalar 1)),
     Field ''s_uuid'' typedef_uuid_t,
     Field ''s_max_links'' (scalar 4),
     Field ''s_mode'' typedef_fmode_t,
     Field ''s_vfs_rename_mutex'' struct_mutex,
     Field ''s_subtype'' pointer,
     Field ''s_d_op'' pointer,
     Field ''cleancache_poolid'' (scalar 4),
     Field ''s_shrink'' struct_shrinker,
     Field ''s_remove_count'' typedef_atomic_long_t,
     Field ''s_fsnotify_inode_refs'' typedef_atomic_long_t,
     Field ''s_readonly_remount'' (scalar 4),
     Field ''s_wb_err'' typedef_errseq_t,
     Field ''s_dio_done_wq'' pointer,
     Field ''s_pins'' struct_hlist_head,
     Field ''s_user_ns'' pointer,
     Field ''s_dentry_lru'' struct_list_lru,
     Field ''s_inode_lru'' struct_list_lru,
     Field ''rcu'' struct_callback_head,
     Field ''destroy_work'' struct_work_struct,
     Field ''s_sync_lock'' struct_mutex,
     Field ''s_stack_depth'' (scalar 4),
     Bits '''' 4 32,
     Field ''s_inode_list_lock'' typedef_spinlock_t,
     Field ''s_inodes'' struct_list_head,
     Field ''s_inode_wblist_lock'' typedef_spinlock_t,
     Field ''s_inodes_wb'' struct_list_head,
     Bits '''' 8 64,
     Bits '''' 8 64]"

lemma struct_super_block_size [simp]: "t_size struct_super_block = 1408" "t_align struct_super_block = 8"
  by (simp_all add: struct_super_block_def layout_simps)

lemma struct_super_block_sound [simp]: "sound_type struct_super_block"
  by (simp add: struct_super_block_def)

definition struct_mnt_namespace :: ctype where
  "struct_mnt_namespace =
   struct_of
    [Field ''count'' typedef_atomic_t,
     Field ''ns'' struct_ns_common,
     Field ''root'' pointer,
     Field ''list'' struct_list_head,
     Field ''ns_lock'' typedef_spinlock_t,
     Field ''user_ns'' pointer,
     Field ''ucounts'' pointer,
     Field ''seq'' typedef_kernel_u64,
     Field ''poll'' typedef_wait_queue_head_t,
     Field ''event'' typedef_kernel_u64,
     Field ''mounts'' (scalar 4),
     Field ''pending_mounts'' (scalar 4)]"

lemma struct_mnt_namespace_size [simp]: "t_size struct_mnt_namespace = 128" "t_align struct_mnt_namespace = 8"
  by (simp_all add: struct_mnt_namespace_def layout_simps)

lemma struct_mnt_namespace_sound [simp]: "sound_type struct_mnt_namespace"
  by (simp add: struct_mnt_namespace_def)

definition struct_fs_struct :: ctype where
  "struct_fs_struct =
   struct_of
    [Field ''users'' (scalar 4),
     Field ''lock'' typedef_spinlock_t,
     Field ''seq'' typedef_seqcount_spinlock_t,
     Field ''umask'' (scalar 4),
     Field ''in_exec'' (scalar 4),
     Field ''root'' struct_path,
     Field ''pwd'' struct_path]"

lemma struct_fs_struct_size [simp]: "t_size struct_fs_struct = 56" "t_align struct_fs_struct = 8"
  by (simp_all add: struct_fs_struct_def layout_simps)

lemma struct_fs_struct_sound [simp]: "sound_type struct_fs_struct"
  by (simp add: struct_fs_struct_def)

definition struct_fdtable :: ctype where
  "struct_fdtable =
   struct_of
    [Field ''max_fds'' (scalar 4),
     Field ''fd'' pointer,
     Field ''close_on_exec'' pointer,
     Field ''open_fds'' pointer,
     Field ''full_fds_bits'' pointer,
     Field ''rcu'' struct_callback_head]"

lemma struct_fdtable_size [simp]: "t_size struct_fdtable = 56" "t_align struct_fdtable = 8"
  by (simp_all add: struct_fdtable_def layout_simps)

lemma struct_fdtable_sound [simp]: "sound_type struct_fdtable"
  by (simp add: struct_fdtable_def)

definition struct_files_struct :: ctype where
  "struct_files_struct =
   struct_of
    [Field ''count'' typedef_atomic_t,
     Field ''resize_in_progress'' (scalar 1),
     Field ''resize_wait'' typedef_wait_queue_head_t,
     Field ''fdt'' pointer,
     Field ''fdtab'' struct_fdtable,
     Bits '''' 8 64,
     Bits '''' 8 64,
     Bits '''' 8 64,
     Bits '''' 8 64,
     Field ''file_lock'' typedef_spinlock_t,
     Field ''next_fd'' (scalar 4),
     Field ''close_on_exec_init'' (array_of 1 (scalar 8)),
     Field ''open_fds_init'' (array_of 1 (scalar 8)),
     Field ''full_fds_bits_init'' (array_of 1 (scalar 8)),
     Field ''fd_array'' (array_of 64 pointer),
     Bits '''' 8 64,
     Bits '''' 8 64,
     Bits '''' 8 64,
     Bits '''' 8 64]"

lemma struct_files_struct_size [simp]: "t_size struct_files_struct = 704" "t_align struct_files_struct = 8"
  by (simp_all add: struct_files_struct_def layout_simps)

lemma struct_files_struct_sound [simp]: "sound_type struct_files_struct"
  by (simp add: struct_files_struct_def)

end
