(* ===== verification/Kernel_Offsets.thy ===== *)
theory Kernel_Offsets
  imports Kernel_Types Probe
begin

text \<open>
  The kernel fields the programs read, as \<open>src/src/vmlinux_510.h\<close> lays them out: which member of which
  structure each \<open>kfield\<close> is, its offset and its size. On a kernel with this layout the relocated
  offsets of an environment (\<open>core_off\<close>) are these, \<open>header_off\<close>. \<open>field_holds\<close> says that the memory
  of the environment has a value in a field, in as many bytes as the header declares; the lemmas show
  that the accessors of \<open>common/task.h\<close>, \<open>memory.h\<close> and the register copy return exactly these values.
\<close>

subsection \<open>Fields\<close>

fun kfield_type :: "kfield \<Rightarrow> ctype" where
  "kfield_type Task_thread_pid = struct_task_struct"
| "kfield_type Task_group_leader = struct_task_struct"
| "kfield_type Task_mm = struct_task_struct"
| "kfield_type Pid_level = struct_pid"
| "kfield_type Pid_numbers = struct_pid"
| "kfield_type Upid_nr = struct_upid"
| "kfield_type Mm_arg_start = struct_mm_struct"
| "kfield_type Mm_arg_end = struct_mm_struct"
| "kfield_type Mm_env_start = struct_mm_struct"
| "kfield_type Mm_env_end = struct_mm_struct"
| "kfield_type Vma_vm_flags = struct_vm_area_struct"
| "kfield_type Vma_vm_start = struct_vm_area_struct"
| "kfield_type Vma_vm_end = struct_vm_area_struct"
| "kfield_type Mount_mnt = struct_mount"
| "kfield_type Regs_regs = struct_pt_regs"
| "kfield_type Regs_sp = struct_pt_regs"
| "kfield_type Regs_pc = struct_pt_regs"
| "kfield_type Regs_syscallno = struct_pt_regs"

fun kfield_name :: "kfield \<Rightarrow> string" where
  "kfield_name Task_thread_pid = ''thread_pid''"
| "kfield_name Task_group_leader = ''group_leader''"
| "kfield_name Task_mm = ''mm''"
| "kfield_name Pid_level = ''level''"
| "kfield_name Pid_numbers = ''numbers''"
| "kfield_name Upid_nr = ''nr''"
| "kfield_name Mm_arg_start = ''arg_start''"
| "kfield_name Mm_arg_end = ''arg_end''"
| "kfield_name Mm_env_start = ''env_start''"
| "kfield_name Mm_env_end = ''env_end''"
| "kfield_name Vma_vm_flags = ''vm_flags''"
| "kfield_name Vma_vm_start = ''vm_start''"
| "kfield_name Vma_vm_end = ''vm_end''"
| "kfield_name Mount_mnt = ''mnt''"
| "kfield_name Regs_regs = ''regs''"
| "kfield_name Regs_sp = ''sp''"
| "kfield_name Regs_pc = ''pc''"
| "kfield_name Regs_syscallno = ''syscallno''"

definition kfield_place :: "kfield \<Rightarrow> (nat \<times> nat) option" where
  "kfield_place k = member_at (kfield_type k) (kfield_name k)"

definition header_off :: "kfield \<Rightarrow> u64" where
  "header_off k = of_nat (offset_in (kfield_type k) (kfield_name k))"

lemma task_members_found:
  "find_member ''mm'' 0 struct_task_struct_members_1 = Some (8 * 1160, 64)"
  "find_member ''group_leader'' 0 struct_task_struct_members_1 = Some (8 * 1400, 64)"
  "find_member ''thread_pid'' 0 struct_task_struct_members_1 = Some (8 * 1440, 64)"
  by (simp_all add: struct_task_struct_members_1_def member_simps)

lemma mm_members_found:
  "member_at struct_mm_struct ''arg_start'' = Some (304, 8)"
  "member_at struct_mm_struct ''arg_end'' = Some (312, 8)"
  "member_at struct_mm_struct ''env_start'' = Some (320, 8)"
  "member_at struct_mm_struct ''env_end'' = Some (328, 8)"
  by (simp_all add: struct_mm_struct_def member_simps)

lemma kfield_places:
  "kfield_place Task_thread_pid = Some (1440, 8)"
  "kfield_place Task_group_leader = Some (1400, 8)"
  "kfield_place Task_mm = Some (1160, 8)"
  "kfield_place Pid_level = Some (4, 4)"
  "kfield_place Pid_numbers = Some (96, 16)"
  "kfield_place Upid_nr = Some (0, 4)"
  "kfield_place Mm_arg_start = Some (304, 8)"
  "kfield_place Mm_arg_end = Some (312, 8)"
  "kfield_place Mm_env_start = Some (320, 8)"
  "kfield_place Mm_env_end = Some (328, 8)"
  "kfield_place Vma_vm_flags = Some (80, 8)"
  "kfield_place Vma_vm_start = Some (0, 8)"
  "kfield_place Vma_vm_end = Some (8, 8)"
  "kfield_place Mount_mnt = Some (32, 24)"
  "kfield_place Regs_regs = Some (0, 248)"
  "kfield_place Regs_sp = Some (248, 8)"
  "kfield_place Regs_pc = Some (256, 8)"
  "kfield_place Regs_syscallno = Some (280, 4)"
  by (simp_all add: kfield_place_def mm_members_found)
    (simp_all add: struct_task_struct_def struct_pid_def struct_upid_def struct_vm_area_struct_def struct_mount_def
      struct_pt_regs_def find_member_append task_members_found member_simps)

lemma header_off_place: "kfield_place k = Some (o1, n) \<Longrightarrow> header_off k = of_nat o1"
  by (simp add: header_off_def kfield_place_def offset_in_def)

lemmas header_offs = kfield_places [THEN header_off_place, simplified]

lemma kfield_type_sound: "sound_type (kfield_type k)"
  by (cases k) simp_all

lemma kfield_inside: "kfield_place k = Some (o1, n) \<Longrightarrow> o1 + n \<le> t_size (kfield_type k)"
  unfolding kfield_place_def by (rule member_at_within [OF kfield_type_sound])

lemma kfield_placed: "\<forall>k. \<exists>off n. kfield_place k = Some (off, n) \<and> off + n \<le> t_size (kfield_type k)"
proof
  fix k
  obtain off n where "kfield_place k = Some (off, n)" by (cases k) (simp_all add: kfield_places)
  then show "\<exists>off n. kfield_place k = Some (off, n) \<and> off + n \<le> t_size (kfield_type k)"
    using kfield_inside by blast
qed

lemma task_members_sound: "list_all sound_member (struct_task_struct_members_1 @ struct_task_struct_members_2)"
  by (simp add: struct_task_struct_members_1_def struct_task_struct_members_2_def)

lemma upid_size: "sizeof_upid = of_nat (t_size struct_upid)"
  by (simp add: sizeof_upid_def)

subsection \<open>Reads of fields\<close>

text \<open>The memory at address \<open>a\<close> has the value \<open>v\<close> in a field of the structure there.\<close>

definition field_holds :: "kenv \<Rightarrow> kfield \<Rightarrow> u64 \<Rightarrow> 'a::len word \<Rightarrow> bool" where
  "field_holds K k a v =
     (case kfield_place k of None \<Rightarrow> False
      | Some (o1, n) \<Rightarrow> mem_probe_read K (a + of_nat o1) n = (0, le_bytes n v))"

definition header_kernel :: "kenv \<Rightarrow> bool" where
  "header_kernel K \<longleftrightarrow> helper_laws K \<and> core_off K = header_off"

lemma READ_KERN_bytes:
  fixes v :: "'a::len word"
  shows "helper_laws K \<Longrightarrow> mem_probe_read K a n = (0, le_bytes n v) \<Longrightarrow> READ_KERN K n a = (le_word (le_bytes n v) :: 'a word)"
  by (rule READ_KERN_ok)

lemma read_field_u64:
  assumes "header_kernel K" and "field_holds K k a (v :: u64)" and "kfield_place k = Some (o1, 8)"
  shows "READ_KERN K 8 (a + core_off K k) = v"
  using assms READ_KERN_bytes [of K "a + of_nat o1" 8 v] header_off_place [of k o1 8]
  by (simp add: field_holds_def header_kernel_def)

lemma read_field_u32:
  assumes "header_kernel K" and "field_holds K k a (v :: u32)" and "kfield_place k = Some (o1, 4)"
  shows "READ_KERN K 4 (a + core_off K k) = v"
  using assms READ_KERN_bytes [of K "a + of_nat o1" 4 v] header_off_place [of k o1 4]
  by (simp add: field_holds_def header_kernel_def)

text \<open>The process number in the innermost namespace: \<open>thread_pid->numbers[thread_pid->level].nr\<close>.\<close>

definition task_number_is :: "kenv \<Rightarrow> u64 \<Rightarrow> u32 \<Rightarrow> bool" where
  "task_number_is K t n \<longleftrightarrow>
     (\<exists>(p :: u64) (l :: u32). field_holds K Task_thread_pid t p \<and> field_holds K Pid_level p l \<and>
        field_holds K Upid_nr (p + header_off Pid_numbers + ucast l * of_nat (t_size struct_upid)) n)"

lemma get_task_pid_vnr_header:
  assumes "header_kernel K" and "task_number_is K t n"
  shows "get_task_pid_vnr K t = n"
proof -
  obtain p :: u64 and l :: u32 where h: "field_holds K Task_thread_pid t p" "field_holds K Pid_level p l"
      "field_holds K Upid_nr (p + header_off Pid_numbers + ucast l * of_nat (t_size struct_upid)) n"
    using assms(2) by (auto simp: task_number_is_def)
  show ?thesis
    using read_field_u64 [OF assms(1) h(1)] read_field_u32 [OF assms(1) h(2)] read_field_u32 [OF assms(1) h(3)]
      assms(1)
    by (simp add: get_task_pid_vnr_def kfield_places upid_size header_kernel_def)
qed

lemma init_program_data_numbers:
  assumes "header_kernel K" and "init_program_data K S ctx = (S', Some p)"
    and "task_number_is K (get_current_task K) n"
    and "field_holds K Task_group_leader (get_current_task K) g" and "task_number_is K g m"
  shows "tid (ev_context (pd_event p)) = n \<and> pid (ev_context (pd_event p)) = m"
  using init_program_data_context [OF assms(2)] get_task_pid_vnr_header [OF assms(1)] assms(3,5)
    read_field_u64 [OF assms(1,4)]
  by (simp add: get_task_ns_pid_def get_task_ns_tgid_def kfield_places Let_def)

lemma memory_accessors:
  fixes v :: u64
  assumes "header_kernel K"
  shows "field_holds K Task_mm a v \<Longrightarrow> get_mm_from_task K a = v"
    and "field_holds K Mm_arg_start a v \<Longrightarrow> get_arg_start_from_mm K a = v"
    and "field_holds K Mm_arg_end a v \<Longrightarrow> get_arg_end_from_mm K a = v"
    and "field_holds K Mm_env_start a v \<Longrightarrow> get_env_start_from_mm K a = v"
    and "field_holds K Mm_env_end a v \<Longrightarrow> get_env_end_from_mm K a = v"
    and "field_holds K Vma_vm_flags a v \<Longrightarrow> get_vma_flags K a = v"
    and "field_holds K Vma_vm_start a v \<Longrightarrow> get_vma_start K a = v"
    and "field_holds K Vma_vm_end a v \<Longrightarrow> get_vma_end K a = v"
  by (simp_all add: read_field_u64 [OF assms] kfield_places get_mm_from_task_def get_arg_start_from_mm_def
      get_arg_end_from_mm_def get_env_start_from_mm_def get_env_end_from_mm_def get_vma_flags_def get_vma_start_def
      get_vma_end_def)

lemma real_mount_header: "header_kernel K \<Longrightarrow> real_mount K (m + header_off Mount_mnt) = m"
  by (simp add: real_mount_def header_kernel_def)

text \<open>The registers are the first 33 words of \<open>struct pt_regs\<close>: 31 numbered ones, \<open>sp\<close> and \<open>pc\<close>.\<close>

lemma copy_pt_regs_header:
  fixes w :: "nat \<Rightarrow> u64"
  assumes "header_kernel K" and "\<And>i. i < 33 \<Longrightarrow> mem_probe_read K (a + 8 * of_nat i) 8 = (0, le_bytes 8 (w i))"
  shows "copy_pt_regs K a = \<lparr>regs = map w [0..<31], sp = w 31, pc = w 32, flag = 0\<rparr>"
proof -
  have r: "READ_KERN K 8 (a + 8 * of_nat i) = w i" if "i < 33" for i
    using READ_KERN_bytes [OF _ assms(2) [OF that]] assms(1) by (simp add: header_kernel_def)
  show ?thesis
    using r r [of 31] r [of 32] assms(1) by (simp add: copy_pt_regs_def header_kernel_def header_offs)
qed

text \<open>The memory-backed environment with the offsets of the header.\<close>

definition header_kenv :: "target_arch \<Rightarrow> module_kind \<Rightarrow> u64 \<Rightarrow> (u64 \<Rightarrow> u8 option) \<Rightarrow> kenv" where
  "header_kenv arch m i mem = (mem_kenv arch m i mem)\<lparr>core_off := header_off\<rparr>"

lemma header_kenv_ok [simp]: "header_kernel (header_kenv arch m i mem)"
  using mem_kenv_laws [of arch m i mem] by (simp add: header_kernel_def header_kenv_def helper_laws_def)

lemma header_kenv_simps [simp]:
  "mem_probe_read (header_kenv arch m i mem) = mem_read mem" "get_current_task (header_kenv arch m i mem) = 4096"
  by (simp_all add: header_kenv_def mem_kenv_def)

end
