(* ===== verification/Example_Kernel.thy ===== *)
theory Example_Kernel
  imports Example_State Kernel_Offsets
begin

text \<open>
  Concrete kernel memories laid out as the header says: one with a task whose process structure is
  one namespace down and has the number 42 there, and one whose bytes are all 1.
\<close>

text \<open>The task is at 4096, its leader is itself, its process structure is at 8192.\<close>

definition ex_task_mem :: "u64 \<Rightarrow> u8 option" where
  "ex_task_mem a =
     Some (if a = 5537 then 32 else if a = 5497 then 16 else if a = 8196 then 1 else if a = 8304 then 42 else 0)"

definition ex_task_env :: kenv where
  "ex_task_env = header_kenv TARGET_ARCH_arm64 MODULE_STACK 7 ex_task_mem"

lemma ex_task_env_header: "header_kernel ex_task_env"
  by (simp add: ex_task_env_def)

lemma ex_task_env_task: "get_current_task ex_task_env = 4096"
  by (simp add: ex_task_env_def)

lemma ex_task_reads:
  "mem_read ex_task_mem 5536 8 = (0, [0, 32, 0, 0, 0, 0, 0, 0])"
  "mem_read ex_task_mem 5496 8 = (0, [0, 16, 0, 0, 0, 0, 0, 0])"
  "mem_read ex_task_mem 8196 4 = (0, [1, 0, 0, 0])"
  "mem_read ex_task_mem 8304 4 = (0, [42, 0, 0, 0])"
  by code_simp+

lemma ex_task_bytes:
  "le_bytes 8 (8192 :: u64) = [0, 32, 0, 0, 0, 0, 0, 0]" "le_bytes 8 (4096 :: u64) = [0, 16, 0, 0, 0, 0, 0, 0]"
  "le_bytes 4 (1 :: u32) = [1, 0, 0, 0]" "le_bytes 4 (42 :: u32) = [42, 0, 0, 0]"
  by code_simp+

lemma ex_task_leader: "field_holds ex_task_env Task_group_leader 4096 (4096 :: u64)"
  by (simp add: field_holds_def kfield_places ex_task_env_def ex_task_reads ex_task_bytes)

lemma ex_task_number: "task_number_is ex_task_env 4096 42"
proof -
  have "field_holds ex_task_env Task_thread_pid 4096 (8192 :: u64)" "field_holds ex_task_env Pid_level 8192 (1 :: u32)"
    "field_holds ex_task_env Upid_nr (8192 + header_off Pid_numbers + ucast (1 :: u32) * of_nat (t_size struct_upid)) (42 :: u32)"
    by (simp_all add: field_holds_def kfield_places header_offs ex_task_env_def ex_task_reads ex_task_bytes)
  then show ?thesis unfolding task_number_is_def by blast
qed

lemma ex_task_init:
  obtains S p where "init_program_data ex_task_env (ex_maps m) ctx = (S, Some p)"
  by (simp add: init_program_data_def init_context_def Let_def ex_maps_def array_lookup_elem_def
      ex_task_env_def header_kenv_def mem_kenv_def)

definition ex_ones_env :: kenv where
  "ex_ones_env = header_kenv TARGET_ARCH_arm64 MODULE_STACK 7 (\<lambda>_. Some 1)"

lemma ex_ones_header: "header_kernel ex_ones_env"
  by (simp add: ex_ones_env_def)

lemma ex_ones_bytes: "le_bytes 8 (0x0101010101010101 :: u64) = replicate 8 1"
  by code_simp

lemma ex_ones_read: "mem_probe_read ex_ones_env a 8 = (0, le_bytes 8 (0x0101010101010101 :: u64))"
  unfolding ex_ones_bytes by (simp add: ex_ones_env_def mem_read_def Let_def map_replicate_const list_all_iff)

lemma ex_ones_holds: "kfield_place k = Some (off, 8) \<Longrightarrow> field_holds ex_ones_env k a (0x0101010101010101 :: u64)"
  by (simp add: field_holds_def ex_ones_read)

text \<open>A fork of process 7 to process 8: the two tasks are at 16 and 32, the numbers one namespace down.\<close>

definition ex_fork_mem :: "u64 \<Rightarrow> u8 option" where
  "ex_fork_mem a =
     Some (if a = 256 then 16 else if a = 264 then 32
           else if a = 16 then 64 else if a = 64 then 1 else if a = 80 then 7
           else if a = 32 then 128 else if a = 128 then 1 else if a = 144 then 8 else 0)"

definition ex_fork_env :: kenv where
  "ex_fork_env = mem_kenv TARGET_ARCH_arm64 MODULE_STACK 7 ex_fork_mem"

lemma ex_fork_reads:
  "mem_read ex_fork_mem 256 8 = (0, [16, 0, 0, 0, 0, 0, 0, 0])" "mem_read ex_fork_mem 264 8 = (0, [32, 0, 0, 0, 0, 0, 0, 0])"
  "mem_read ex_fork_mem 16 8 = (0, [64, 0, 0, 0, 0, 0, 0, 0])" "mem_read ex_fork_mem 32 8 = (0, [128, 0, 0, 0, 0, 0, 0, 0])"
  "mem_read ex_fork_mem 64 4 = (0, [1, 0, 0, 0])" "mem_read ex_fork_mem 128 4 = (0, [1, 0, 0, 0])"
  "mem_read ex_fork_mem 80 4 = (0, [7, 0, 0, 0])" "mem_read ex_fork_mem 144 4 = (0, [8, 0, 0, 0])"
  by code_simp+

lemma ex_fork_pids: "fork_pids ex_fork_env 256 = (7, 8)"
proof -
  have "raw_arg ex_fork_env 256 0 = 16" "raw_arg ex_fork_env 256 1 = 32"
    by (simp_all add: ex_fork_env_def mem_kenv_def ex_fork_reads)
  moreover have "core_off ex_fork_env f = 0" "mem_probe_read ex_fork_env = mem_read ex_fork_mem" for f
    by (simp_all add: ex_fork_env_def mem_kenv_def)
  ultimately show ?thesis
    by (simp add: fork_pids_def get_task_ns_pid_def get_task_pid_vnr_def READ_KERN_def ex_fork_reads sizeof_upid_def Let_def)
qed

text \<open>Process 8 was the second root, with process 9 as its child, before its number was used again.\<close>

definition ex_reused :: maps where
  "ex_reused = (ex_maps MODULE_STACK)\<lparr>child_parent_map := [(7, 7), (8, 8), (9, 8)]\<rparr>"

lemma ex_reused_inv: "fork_inv (child_parent_map ex_reused)" "fork_breaks 7 8 (child_parent_map ex_reused)"
  "snd (init_program_data ex_fork_env ex_reused 256) \<noteq> None"
  by (auto simp: fork_inv_def fork_breaks_def ex_reused_def bpf_map_lookup_elem_def ex_fork_env_def mem_kenv_def
    init_program_data_def init_context_def Let_def ex_maps_def array_lookup_elem_def nth_opt_def split: if_splits)

end
