(* ===== verification/Arg_Limits.thy ===== *)
theory Arg_Limits
  imports Uprobe_Args
begin

unbundle bit_operations_syntax

text \<open>
  Single arguments read by a whole program: addresses, and where the operations of an argument and
  what user space makes of them do not fit: addresses of two registers, returned strings, long
  arrays of \<open>struct iovec\<close>, arrays above 4096 bytes.
\<close>

subsection \<open>Addresses\<close>

text \<open>An address of one register and offsets is saved as its value.\<close>

lemma address_read:
  assumes K: "helper_laws K" "PTR_SIZE (build_arch K) = 8" and r: "wf_ctx_regs r"
    and a: "RegIndex a \<noteq> unat REG_ARM64_MAX" "\<not> IsRet a" "FilterIndexList a = []" "\<not> ReadMore a"
    and gs: "one_register gs" "address_ops gs = Some (ExtraOpList a)" "address_value K r gs = Some p"
    and prog: "program_at (build_module K) pa (op_list S) 0 (point_ops [a])"
    and turns: "block_turns (ExtraOpList a) < MAX_OP_COUNT (build_module K)"
    and pa: "wf_point_args (build_module K) pa" and pend: "no_pending S"
    and c: "array_lookup_elem (op_ctx_map S) i = Some c" and off: "unat (buf_off e) \<le> 32"
  shows "\<exists>st. read_args K pa r \<lparr>rs_maps = S, rs_event = e, rs_ctx = start_op_ctx v idx c\<rparr> = Some st \<and>
    appended e (rs_event st) [idx # le_bytes 8 p]"
proof -
  let ?c = "start_op_ctx v idx c"
  have mb: "match_blacklist ?c \<noteq> 1" "save_index ?c = idx" by (simp_all add: start_op_ctx_def memset_op_ctx_def)
  obtain d where d: "performs K S r (block_turns (ExtraOpList a)) (ExtraOpList a) ?c [idx # le_bytes 8 p] d" "keeps ?c d"
    using performs_address [OF K r mb(1) gs, of S] mb(2) by auto
  have ne: "ExtraOpList a \<noteq> []" using gs(1,2) by (cases gs rule: one_register.cases) (auto split: bind_splits)
  have stored: "program_at (build_module K) pa (op_list S) 0 (ExtraOpList a @ [OPC_SKIP])"
    using prog a ne by (simp add: point_ops_def GetOpList_def split: if_split_asm)
  have room: "has_room e [idx # le_bytes 8 p]" using off by (simp add: has_room_def SAVE_ROOM_def)
  from reader_runs [OF d stored turns pa pend c room] show ?thesis by metis
qed

subsection \<open>Two registers in an address\<close>

text \<open>The second register is read into the read address before it is added to it.\<close>

lemma performs_two_registers:
  assumes r: "wf_ctx_regs r" "q1 < 33" "q2 < 33" and mb: "match_blacklist c \<noteq> 1"
    and ops: "address_ops [[(False, Reg_term q1), (neg, Reg_term q2)]] = Some ops"
  obtains d where "performs K S r 6 ops c [save_index c # le_bytes 8 (if neg then 0 else 2 * ctx_regs_words r ! q2)] d"
    and "keeps c d" and "save_index d = save_index c + 1"
proof -
  let ?w = "ctx_regs_words r ! q2" and ?a = "if neg then 0 else 2 * ctx_regs_words r ! q2"
  let ?c1 = "(read_reg_ctx r q1 c)\<lparr>read_addr := ctx_regs_words r ! q1\<rparr>"
  let ?c2 = "(read_reg_ctx r q2 ?c1)\<lparr>read_addr := ?w\<rparr>"
  let ?c3 = "?c2\<lparr>read_addr := ?a\<rparr>"
  have mbs: "match_blacklist ?c1 \<noteq> 1" "match_blacklist ?c2 \<noteq> 1" "match_blacklist ?c3 \<noteq> 1"
    using mb by (simp_all add: read_reg_ctx_def)
  have p3: "performs K S r 1 [if neg then ROP OP_SUB_REG 0 else ROP OP_ADD_REG 0] ?c2 [] ?c3"
  proof (cases neg)
    case True
    then have eq: "?c3 = ?c2\<lparr>read_addr := read_addr ?c2 - reg_value ?c2\<rparr>" by (simp add: read_reg_ctx_def)
    show ?thesis unfolding eq by (simp only: True if_True performs_ctx_ops(7) [OF mbs(2)])
  next
    case False
    then have eq: "?c3 = ?c2\<lparr>read_addr := read_addr ?c2 + reg_value ?c2\<rparr>" by (simp add: read_reg_ctx_def)
    show ?thesis unfolding eq by (simp only: False if_False performs_ctx_ops(6) [OF mbs(2)])
  qed
  have p4: "performs K S r 1 [ROP OP_SAVE_ADDR 0] ?c3 [save_index ?c3 # le_bytes 8 ?a] (?c3\<lparr>save_index := save_index ?c3 + 1\<rparr>)"
    using performs_ROP [OF op_does_saves(2) [of K S r _ ?c3]] mbs(3) by simp
  have "ops = [READ_MOVE_REG q1, READ_MOVE_REG q2, if neg then ROP OP_SUB_REG 0 else ROP OP_ADD_REG 0, ROP OP_SAVE_ADDR 0]"
    using ops by (cases neg) simp_all
  with performs_Cons [OF performs_move_reg [OF r(1,2) mb]
      performs_Cons [OF performs_move_reg [OF r(1,3) mbs(1)] performs_Cons [OF p3 p4]]]
  have "performs K S r 6 ops c [save_index c # le_bytes 8 ?a] (?c3\<lparr>save_index := save_index ?c3 + 1\<rparr>)"
    by (simp add: read_reg_ctx_def)
  then show ?thesis by (rule that) (simp_all add: keeps_def read_reg_ctx_def)
qed

lemma two_registers_read:
  assumes K: "helper_laws K" and r: "wf_ctx_regs r" "q1 < 33" "q2 < 33"
    and a: "RegIndex a \<noteq> unat REG_ARM64_MAX" "\<not> IsRet a" "FilterIndexList a = []" "\<not> ReadMore a"
      "address_ops [[(False, Reg_term q1), (neg, Reg_term q2)]] = Some (ExtraOpList a)"
    and prog: "program_at (build_module K) pa (op_list S) 0 (point_ops [a])"
    and pa: "wf_point_args (build_module K) pa" and pend: "no_pending S"
    and c: "array_lookup_elem (op_ctx_map S) i = Some c" and off: "unat (buf_off e) \<le> 32"
  shows "\<exists>st. read_args K pa r \<lparr>rs_maps = S, rs_event = e, rs_ctx = start_op_ctx v idx c\<rparr> = Some st \<and>
    appended e (rs_event st) [idx # le_bytes 8 (if neg then 0 else 2 * ctx_regs_words r ! q2)]"
proof -
  let ?c = "start_op_ctx v idx c"
  have mb: "match_blacklist ?c \<noteq> 1" "save_index ?c = idx" by (simp_all add: start_op_ctx_def memset_op_ctx_def)
  obtain d where d: "performs K S r 6 (ExtraOpList a) ?c
      [idx # le_bytes 8 (if neg then 0 else 2 * ctx_regs_words r ! q2)] d" "keeps ?c d"
    using performs_two_registers [OF r mb(1) a(5), of K S] mb(2) by metis
  have ne: "ExtraOpList a \<noteq> []" using a(5) by auto
  have stored: "program_at (build_module K) pa (op_list S) 0 (ExtraOpList a @ [OPC_SKIP])"
    using prog a(1-4) ne by (simp add: point_ops_def GetOpList_def split: if_split_asm)
  have turns: "6 < MAX_OP_COUNT (build_module K)" by (cases "build_module K") simp_all
  have room: "has_room e [idx # le_bytes 8 (if neg then 0 else 2 * ctx_regs_words r ! q2)]"
    using off by (simp add: has_room_def SAVE_ROOM_def)
  from reader_runs [OF d stored turns pa pend c room] show ?thesis by metis
qed

subsection \<open>Returned strings\<close>

text \<open>The operations of a return value do not move it to the read address.\<close>

lemma returned_string_read:
  assumes K: "helper_laws K"
    and a: "RegIndex a \<noteq> unat REG_ARM64_MAX" "IsRet a" "FilterIndexList a = []" "ReadMore a" "TypeIndex a = String_arg"
    and prog: "program_at (build_module K) pa (op_list S) 0 (point_ops [a])"
    and pa: "wf_point_args (build_module K) pa" and pend: "no_pending S"
    and c: "array_lookup_elem (op_ctx_map S) i = Some c" and off: "unat (buf_off e) \<le> 32"
  shows "\<exists>st. read_args K pa r \<lparr>rs_maps = S, rs_event = e, rs_ctx = start_op_ctx v idx c\<rparr> = Some st \<and>
    appended e (rs_event st) [idx # le_bytes 8 v, payload_frame (idx + 1) (text_at K (read_addr c))]"
proof -
  let ?c = "start_op_ctx v idx c"
  let ?c1 = "?c\<lparr>reg_value := v\<rparr>" and ?c2 = "?c\<lparr>reg_value := v, save_index := idx + 1\<rparr>"
  let ?d = "?c2\<lparr>read_addr := read_addr c AND ADDR_MASK, save_index := idx + 2\<rparr>"
  have c0: "match_blacklist ?c \<noteq> 1" "save_index ?c = idx" "reg_0 ?c = v" "read_addr ?c = read_addr c"
    by (simp_all add: start_op_ctx_def memset_op_ctx_def)
  have p1: "performs K S r 1 [ROP OP_READ_RET 0] ?c [] ?c1"
    using performs_ctx_ops(4) [OF c0(1)] c0(3) by metis
  have p2: "performs K S r 1 [ROP OP_SAVE_REG 0] ?c1 [idx # le_bytes 8 v] ?c2"
    using performs_ROP [OF op_does_saves(1) [of K S r _ ?c1]] c0(1,2) by simp
  have p3: "performs K S r 1 [ROP OP_SAVE_STRING 0] ?c2 [payload_frame (idx + 1) (text_at K (read_addr c))] ?d"
    using performs_save_string [OF K, of ?c2 S r] c0 by (simp add: add.commute)
  have perf: "performs K S r 3 [ROP OP_READ_RET 0, ROP OP_SAVE_REG 0, ROP OP_SAVE_STRING 0] ?c
      [idx # le_bytes 8 v, payload_frame (idx + 1) (text_at K (read_addr c))] ?d"
    using performs_Cons [OF p1 performs_Cons [OF p2 p3]] by (simp add: numeral_3_eq_3 del: le_bytes.simps)
  have keep: "keeps ?c ?d" by (simp add: keeps_def)
  have stored: "program_at (build_module K) pa (op_list S) 0 ([ROP OP_READ_RET 0, ROP OP_SAVE_REG 0, ROP OP_SAVE_STRING 0] @ [OPC_SKIP])"
    using prog a by (simp add: point_ops_def GetOpList_def)
  have turns: "3 < MAX_OP_COUNT (build_module K)" by (cases "build_module K") simp_all
  have "length (text_at K (read_addr c)) \<le> 4096" by (simp add: text_at_def length_string_payload [OF K])
  then have room: "has_room e [idx # le_bytes 8 v, payload_frame (idx + 1) (text_at K (read_addr c))]"
    using off by (simp add: has_room_def SAVE_ROOM_def payload_frame_def)
  from reader_runs [OF perf keep stored turns pa pend c room] show ?thesis by metis
qed

subsection \<open>Long arrays of \<open>struct iovec\<close>\<close>

lemma iovec_frames_split:
  "iovec_frames K a (m + n) i = iovec_frames K a m i @ iovec_frames K (a + 16 * of_nat m) n (i + 2 * of_nat m)"
proof (induction m arbitrary: a i)
  case (Suc m)
  show ?case using Suc [of "a + 16" "i + 2"] by (simp add: algebra_simps)
qed simp

lemma iovs_readable_less: "iovs_readable K a n \<Longrightarrow> m \<le> n \<Longrightarrow> iovs_readable K a m"
proof (induction n arbitrary: a m)
  case (Suc n)
  then show ?case by (cases m) auto
qed simp

lemma iovec_rest_not_empty:
  "10 * n \<le> length (concat (iovec_frames K a n i))"
proof (induction n arbitrary: a i)
  case (Suc n)
  show ?case using Suc [of "a + 16" "i + 2"] by (simp add: payload_frame_def)
qed simp

text \<open>The reader saves as many elements as it is told to, up to 32, user space reads six.\<close>

lemma iovec_counts:
  assumes "MAX_IOV_COUNT < n" and "n \<le> unat MAX_LOOP_COUNT"
  shows "iovec_count (of_nat n) = n" and "iov_read_count (of_nat n) = MAX_IOV_COUNT"
proof -
  let ?w = "of_nat n :: u64"
  have n: "6 < n" "n \<le> 32" using assms by (simp_all add: const_simps)
  have u: "unat ?w = n" using n by (simp add: unat_of_nat take_bit_nat_eq_self)
  have uc: "unat (ucast ?w :: u8) = n" using n u by (simp add: unsigned_ucast_eq take_bit_nat_eq_self)
  have "unat (limit_break_count ?w) = n"
    using n u uc by (simp add: limit_break_count_def const_simps word_less_nat_alt not_less)
  then show "iovec_count ?w = n" using n by (simp add: iovec_count_def)
  have "uint ?w = int n" using u uint_nat [of ?w] by simp
  then have "uint ?w < 2 ^ 63" "- (2 ^ 63) \<le> uint ?w" "sint ?w = int n"
    using n signed_take_bit_int_eq_self [of 63 "uint ?w"] by (simp_all add: sint_uint)
  then show "iov_read_count ?w = MAX_IOV_COUNT" using n by (simp add: iov_read_count_def const_simps)
qed

lemma iovecs_left_unread:
  assumes K: "helper_laws K" and n: "MAX_IOV_COUNT < n" "n \<le> unat MAX_LOOP_COUNT"
    and rd: "iovs_readable K a MAX_IOV_COUNT"
  shows "\<exists>left. parse_IOVEC (concat ((i # le_bytes 8 (of_nat n :: u64)) # iovec_frames K a n (i + 1)) @ rest) =
      Some (iovecs_at K a MAX_IOV_COUNT, left @ rest) \<and> 10 * (n - MAX_IOV_COUNT) \<le> length left"
proof -
  have hdr: "read_arg 8 ((i # le_bytes 8 (of_nat n :: u64)) @ more) = Some ((i, of_nat n :: u64), more)" for more
    using reg_codec.rd_enc [of "(i, of_nat n :: u64)" more] by simp
  let ?left = "concat (iovec_frames K (a + 16 * of_nat MAX_IOV_COUNT) (n - MAX_IOV_COUNT) (i + 1 + 2 * of_nat MAX_IOV_COUNT))"
  have "iovec_frames K a n (i + 1) = iovec_frames K a MAX_IOV_COUNT (i + 1) @
      iovec_frames K (a + 16 * of_nat MAX_IOV_COUNT) (n - MAX_IOV_COUNT) (i + 1 + 2 * of_nat MAX_IOV_COUNT)"
    using iovec_frames_split [of K a MAX_IOV_COUNT "n - MAX_IOV_COUNT"] n(1) by simp
  then have "parse_IOVEC (concat ((i # le_bytes 8 (of_nat n :: u64)) # iovec_frames K a n (i + 1)) @ rest) =
      Some (iovecs_at K a MAX_IOV_COUNT, ?left @ rest)"
    using parse_iovecs_frames [OF K rd, of "i + 1" "?left @ rest"] hdr iovec_counts(2) [OF n]
    by (simp add: parse_IOVEC_def del: append_Cons)
  then show ?thesis using iovec_rest_not_empty by blast
qed

text \<open>An argument that runs, read by a program of its own.\<close>

lemma single_arg_read:
  assumes K: "helper_laws K" and r: "wf_ctx_regs r" and ok: "arg_runs K S r v a p"
    and prog: "program_at (build_module K) pa (op_list S) 0 (point_ops [a])"
    and turns: "arg_turns K r a p < MAX_OP_COUNT (build_module K)"
    and pa: "wf_point_args (build_module K) pa" and pend: "no_pending S"
    and c: "array_lookup_elem (op_ctx_map S) i = Some c" and room: "has_room e (arg_frames K r a p idx)"
  shows "\<exists>st. read_args K pa r \<lparr>rs_maps = S, rs_event = e, rs_ctx = start_op_ctx v idx c\<rparr> = Some st \<and>
    appended e (rs_event st) (arg_frames K r a p idx)"
proof -
  let ?c = "start_op_ctx v idx c"
  have c0: "match_blacklist ?c \<noteq> 1" "loop_count ?c = 0" "reg_0 ?c = v" "save_index ?c = idx"
    by (simp_all add: start_op_ctx_def memset_op_ctx_def)
  obtain d where d: "performs K S r (arg_turns K r a p) (GetOpList a) ?c (arg_frames K r a p idx) d" "keeps ?c d"
    using performs_arg [OF K r c0(1,2), of S a p] ok c0(3,4) by auto
  have stored: "program_at (build_module K) pa (op_list S) 0 (GetOpList a @ [OPC_SKIP])"
    using prog by (simp add: point_ops_def)
  from reader_runs [OF d stored turns pa pend c room] show ?thesis by metis
qed

lemma iovec_array_left_unread:
  assumes K: "helper_laws K" "build_module K = MODULE_SYSCALL"
    and r: "wf_ctx_regs r" "RegIndex a < 33" "v < 33"
    and a: "\<not> IsRet a" "ExtraOpList a = []" "FilterIndexList a = []" "ReadMore a" "TypeIndex a = Iovecs v" "parse_more a t"
    and n: "MAX_IOV_COUNT < n" "n \<le> 20" "ctx_regs_words r ! v = of_nat n"
    and rd: "iovs_readable K (ctx_regs_words r ! RegIndex a) n"
    and prog: "program_at (build_module K) pa (op_list S) 0 (point_ops [a])"
    and pa: "wf_point_args (build_module K) pa" and pend: "no_pending S"
    and c: "array_lookup_elem (op_ctx_map S) i = Some c"
    and fs_def: "fs = (idx # le_bytes 8 (ctx_regs_words r ! RegIndex a)) # ((idx + 1) # le_bytes 8 (of_nat n :: u64)) #
      iovec_frames K (ctx_regs_words r ! RegIndex a) n (idx + 2)"
    and room: "has_room e fs"
  shows "(\<exists>st. read_args K pa r \<lparr>rs_maps = S, rs_event = e, rs_ctx = start_op_ctx w idx c\<rparr> = Some st \<and>
      appended e (rs_event st) fs) \<and>
    (\<exists>left. parse_args t [a] (concat fs @ rest) =
        Some ([Iovecs_value (ctx_regs_words r ! RegIndex a) (iovecs_at K (ctx_regs_words r ! RegIndex a) MAX_IOV_COUNT)], left @ rest) \<and>
      10 * (n - MAX_IOV_COUNT) \<le> length left)"
proof -
  let ?p = "ctx_regs_words r ! RegIndex a" and ?m = "build_module K"
  have n32: "n \<le> unat MAX_LOOP_COUNT" using n(2) by (simp add: const_simps)
  note cnt = iovec_counts [OF n(1) n32]
  have "unat (of_nat n :: u64) = n" using n(2) by (simp add: unat_of_nat take_bit_nat_eq_self)
  then have n0: "(of_nat n :: u64) \<noteq> 0" using n(1) by (metis not_less0 unat_0)
  have fs: "arg_frames K r a ?p idx = fs"
    using a cnt(1) n(3) by (simp add: arg_frames_def fs_def add.commute)
  have "RegIndex a \<noteq> unat REG_ARM64_MAX" using r(2) by (simp add: const_simps)
  then have runs: "arg_runs K S r w a ?p"
    using a r n(3) n0 rd cnt(1) by (simp add: arg_runs_def arg_word_def filters_accept_def)
  have "arg_turns K r a ?p < MAX_OP_COUNT ?m"
    using a cnt(1) n(2,3) K(2) by (simp add: arg_turns_def)
  from single_arg_read [OF K(1) r(1) runs prog this pa pend c room [folded fs]]
  have read: "\<exists>st. read_args K pa r \<lparr>rs_maps = S, rs_event = e, rs_ctx = start_op_ctx w idx c\<rparr> = Some st \<and>
      appended e (rs_event st) fs" by (simp only: fs)
  have hdr: "read_arg 8 ((idx # le_bytes 8 ?p) @ more) = Some ((idx, ?p), more)" for more
    using reg_codec.rd_enc [of "(idx, ?p)" more] by simp
  obtain left where left: "parse_IOVEC (concat (((idx + 1) # le_bytes 8 (of_nat n :: u64)) # iovec_frames K ?p n (idx + 1 + 1)) @ rest) =
      Some (iovecs_at K ?p MAX_IOV_COUNT, left @ rest)" "10 * (n - MAX_IOV_COUNT) \<le> length left"
    using iovecs_left_unread [OF K(1) n(1) n32 iovs_readable_less [OF rd less_imp_le [OF n(1)]], of "idx + 1" rest] by blast
  have two: "idx + 1 + 1 = idx + 2" by simp
  have "parse_args t [a] (concat fs @ rest) = Some ([Iovecs_value ?p (iovecs_at K ?p MAX_IOV_COUNT)], left @ rest)"
    using left(1) hdr a(5,6) unfolding two fs_def by (simp add: parse_arg_def del: append_Cons)
  with read left(2) show ?thesis by blast
qed

subsection \<open>Arrays above the largest payload\<close>

lemma large_array_not_parsed:
  assumes K: "helper_laws K" and n: "4096 < n" and rd: "fst (mem_probe_read K (a AND ADDR_MASK) 4096) = 0"
  shows "type_parse (Array n) p (concat (type_frames K r (Array n) a i) @ rest) = None"
proof -
  have "clamp_len n = 4096" using n by (simp add: clamp_len_def const_simps)
  then have len: "length (bytes_at K a n) = 4096"
    using rd read_lawD(2) [OF helper_lawsD(1) [OF K] rd] by (simp add: bytes_at_def struct_payload_def)
  then have "(of_nat (length (bytes_at K a n)) :: u32) \<noteq> n" "0 < (of_nat (length (bytes_at K a n)) :: u32)"
    using n by auto
  then show ?thesis by (simp add: parse_ARRAY_def GetStructLen_def read_arg_header)
qed

end
