(* ===== verification/Turn_Limit.thy ===== *)
theory Turn_Limit
  imports Arg_Limits
begin

unbundle bit_operations_syntax

text \<open>
  The uprobe module has 64 turns for a program (\<open>MAX_OP_COUNT\<close>): an array of twenty strings (three
  turns each) is cut off before its end marker, an array of six or more \<open>struct iovec\<close> (twelve
  turns each) after the fifth element, and the reader in user space runs out of bytes.
\<close>

subsection \<open>A loop that does not end in time\<close>

text \<open>Passes of a loop that are all followed by another one.\<close>

inductive rounds ::
    "kenv \<Rightarrow> maps \<Rightarrow> ctx_regs_t \<Rightarrow> nat \<Rightarrow> op_config_t list \<Rightarrow> op_ctx_t \<Rightarrow> u8 list list \<Rightarrow> op_ctx_t \<Rightarrow> nat \<Rightarrow> bool"
  for K S r t body where
  no_round: "rounds K S r t body c [] c 0"
| next_round: "performs K S r t body c fs d \<Longrightarrow> match_blacklist d \<noteq> 1 \<Longrightarrow> loop_count d < break_count d \<Longrightarrow>
     loop_count d \<noteq> 0 \<Longrightarrow> loop_index d = loop_index c \<Longrightarrow>
     rounds K S r t body (d\<lparr>loop_count := loop_count d + 1\<rparr>) gs e n \<Longrightarrow>
     rounds K S r t body c (fs @ gs) e (Suc n)"

lemma rounds_run:
  assumes "rounds K S r t body c fs e n"
    and "at_cfg K pa st j" and "unat (loop_index c) = j"
    and "program_at (build_module K) pa (op_list S) j (body @ [FOR_BREAK])"
    and "rs_maps st = S" and "view (rs_ctx st) = view c" and "has_room (rs_event st) fs"
  shows "\<exists>st'. runs_to K pa r (n * Suc t) j st j st' \<and> reaches S st fs e st'"
  using assms
proof (induction arbitrary: st)
  case (no_round c)
  then show ?case by (auto simp: reaches_def intro: runs_to_refl)
next
  case (next_round c fs d gs e n)
  have progs: "program_at (build_module K) pa (op_list S) j body"
    "program_at (build_module K) pa (op_list S) (j + length body) [FOR_BREAK]"
    using next_round.prems(3) by (simp_all add: program_at_append)
  note room = has_room_append [OF next_round.prems(6)]
  obtain st1 where run: "runs_to K pa r t j st (j + length body) st1" and re: "reaches S st fs d st1"
    by (rule performsD [OF next_round.hyps(1) next_round.prems(1) progs(1) next_round.prems(4,5) room(1)])
  have at1: "at_cfg K pa st1 (j + length body)" using run by (simp add: runs_to_def)
  have st1: "rs_maps st1 = S" "view (rs_ctx st1) = view d" using re by (simp_all add: reaches_def)
  have fb_prog: "program_at (build_module K) pa (op_list (rs_maps st1)) (j + length body) [FOR_BREAK]"
    using progs(2) st1(1) by simp
  note fb = for_break_goes_back [OF at1 fb_prog st1(2) next_round.hyps(2-4)]
  have start: "unat (loop_index d) = j" using next_round.hyps(5) next_round.prems(2) by simp
  have re1: "reaches S st fs (d\<lparr>loop_count := loop_count d + 1\<rparr>) (for_break_state st1)"
    using reaches_trans [OF re] fb(2) st1(1) by fastforce
  then have st2: "rs_maps (for_break_state st1) = S"
    "view (rs_ctx (for_break_state st1)) = view (d\<lparr>loop_count := loop_count d + 1\<rparr>)"
    "has_room (rs_event (for_break_state st1)) gs"
    using room(2) by (simp_all add: reaches_def)
  have at2: "at_cfg K pa (for_break_state st1) j" using fb(1) start by (simp add: runs_to_def)
  obtain st' where st': "runs_to K pa r (n * Suc t) j (for_break_state st1) j st'" "reaches S (for_break_state st1) gs e st'"
    using next_round.IH [OF at2 _ next_round.prems(3) st2] start by auto
  have "runs_to K pa r (t + 1 + n * Suc t) j st j st'"
    using runs_to_trans [OF runs_to_trans [OF run fb(1)]] st'(1) start by simp
  moreover have "t + 1 + n * Suc t = Suc n * Suc t" by simp
  ultimately show ?case using reaches_trans [OF re1 st'(2)] by metis
qed

text \<open>
  The turns are used up by the operations before a loop, the operation that enters it, \<open>n\<close> passes
  and the first operations of the next pass.
\<close>

lemma cut_in_loop:
  fixes st :: rstate
  assumes head: "performs K S r t0 head c fs d" and d: "0 < break_count d" "loop_count d = 0" "match_blacklist d \<noteq> 1"
    and rds: "rounds K S r t (part @ rest) (d\<lparr>loop_count := 1, loop_index := of_nat (Suc (length head))\<rparr>) gs e n"
    and part: "performs K S r t1 part e hs f"
    and turns: "MAX_OP_COUNT (build_module K) = t0 + 1 + n * Suc t + t1"
    and prog: "program_at (build_module K) pa (op_list S) 0 (head @ FOR_BREAK # ((part @ rest) @ [FOR_BREAK]) @ stop)"
    and at: "at_cfg K pa st 0" and st: "rs_maps st = S" "view (rs_ctx st) = view c"
    and room: "has_room (rs_event st) (fs @ gs @ hs)"
  shows "\<exists>st'. read_args K pa r st = Some st' \<and> appended (rs_event st) (rs_event st') (fs @ gs @ hs)"
proof -
  let ?m = "build_module K" and ?j = "length head" and ?c = "d\<lparr>loop_count := 1, loop_index := of_nat (Suc (length head))\<rparr>"
  have progs: "program_at ?m pa (op_list S) 0 head" "program_at ?m pa (op_list S) ?j [FOR_BREAK]"
    "program_at ?m pa (op_list S) (Suc ?j) ((part @ rest) @ [FOR_BREAK])" "program_at ?m pa (op_list S) (Suc ?j) part"
    using prog by (simp_all add: program_at_append)
  obtain st1 where st1: "runs_to K pa r t0 0 st (0 + ?j) st1" "reaches S st fs d st1"
    by (rule performsD [OF head at progs(1) st has_room_append(1) [OF room]])
  have at1: "at_cfg K pa st1 ?j" and s1: "rs_maps st1 = S" "view (rs_ctx st1) = view d"
    using st1 by (simp_all add: runs_to_def reaches_def)
  have "program_at ?m pa (op_list (rs_maps st1)) ?j [FOR_BREAK]" using progs(2) s1(1) by simp
  note fb = for_break_enters [OF at1 this s1(2) d(3,1,2)]
  let ?st2 = "for_break_state st1"
  have st2: "reaches S st fs ?c ?st2" using reaches_trans [OF st1(2) fb(2) [unfolded s1(1)]] by simp
  have room2: "has_room (rs_event ?st2) (gs @ hs)" using has_room_append(2) [OF room] st2 by (simp add: reaches_def)
  have "Suc ?j < 2 ^ 32" using progs(2) MAX_OP_COUNT_le [of ?m] by simp
  then have idx: "unat (loop_index ?c) = Suc ?j" by (simp add: unat_of_nat take_bit_nat_eq_self del: of_nat_Suc)
  have "at_cfg K pa ?st2 (Suc ?j)" "rs_maps ?st2 = S" "view (rs_ctx ?st2) = view ?c"
    using fb(1) st2 by (simp_all add: runs_to_def reaches_def)
  then obtain st3 where st3: "runs_to K pa r (n * Suc t) (Suc ?j) ?st2 (Suc ?j) st3" "reaches S ?st2 gs e st3"
    using rounds_run [OF rds _ idx progs(3) _ _ has_room_append(1) [OF room2]] by blast
  have room3: "has_room (rs_event st3) hs" using has_room_append(2) [OF room2] st3(2) by (simp add: reaches_def)
  have "at_cfg K pa st3 (Suc ?j)" "rs_maps st3 = S" "view (rs_ctx st3) = view e"
    using st3 by (simp_all add: runs_to_def reaches_def)
  then obtain st4 where st4: "runs_to K pa r t1 (Suc ?j) st3 (Suc ?j + length part) st4" "reaches S st3 hs f st4"
    using performsD [OF part _ progs(4) _ _ room3] by blast
  have "runs_to K pa r (MAX_OP_COUNT ?m) 0 st (Suc ?j + length part) st4"
    using runs_to_trans [OF runs_to_trans [OF runs_to_trans [OF st1(1) [unfolded add_0] fb(1)] st3(1)] st4(1)] turns by simp
  from runs_to_limit [OF this] reaches_trans [OF st2 reaches_trans [OF st3(2) st4(2)]] show ?thesis
    by (simp add: map_ctx_def reaches_def)
qed

text \<open>The state in which a probe calls its reader.\<close>

lemma start_at:
  assumes "wf_point_args (build_module K) pa" and "no_pending S" and "array_lookup_elem (op_ctx_map S) i = Some c"
  shows "at_cfg K pa \<lparr>rs_maps = S, rs_event = e, rs_ctx = start_op_ctx v idx c\<rparr> 0"
    and "match_blacklist (start_op_ctx v idx c) \<noteq> 1" "loop_count (start_op_ctx v idx c) = 0"
    and "save_index (start_op_ctx v idx c) = idx"
proof -
  have "c \<in> set (op_ctx_map S)" using assms(3) by (auto simp: array_lookup_elem_def nth_opt_def split: if_splits)
  then show "at_cfg K pa \<lparr>rs_maps = S, rs_event = e, rs_ctx = start_op_ctx v idx c\<rparr> 0"
    using assms(1,2) by (simp add: at_cfg_def start_op_ctx_def memset_op_ctx_def no_pending_def)
qed (simp_all add: start_op_ctx_def memset_op_ctx_def)

text \<open>The turns that read an argument from its register.\<close>

lemma performs_register:
  assumes K: "helper_laws K" and r: "wf_ctx_regs r" "q < 33" and mb: "match_blacklist c \<noteq> 1"
  obtains d where "performs K S r 3 [READ_SAVE_REG q, OPC_MOVE_REG_VALUE] c [save_index c # le_bytes 8 (ctx_regs_words r ! q)] d"
    and "keeps c d" "save_index d = save_index c + 1" "read_addr d = ctx_regs_words r ! q"
proof -
  let ?a = "\<lparr>RegIndex = q, TypeIndex = Number, ExtraOpList = [], FilterIndexList = [], PointType = 0, GroupType = 0, IsRet = False\<rparr>"
  have "arg_word K r (reg_0 c) ?a (ctx_regs_words r ! q)" using r(2) by (simp add: arg_word_def)
  from performs_source [OF K r(1) mb this, of S] that show ?thesis by auto
qed

subsection \<open>Arrays of strings\<close>

fun strings_ok :: "kenv \<Rightarrow> u64 \<Rightarrow> nat \<Rightarrow> bool" where
  "strings_ok K a 0 \<longleftrightarrow> True"
| "strings_ok K a (Suc n) \<longleftrightarrow> string_elem_ok K a \<and> strings_ok K (a + 8) n"

lemma rounds_strings:
  assumes K: "helper_laws K" "fst (mem_probe_read K 0 0) = 0"
  shows "strings_ok K (read_addr c) n \<Longrightarrow> match_blacklist c \<noteq> 1 \<Longrightarrow> loop_count c \<noteq> 0 \<Longrightarrow>
    unat (loop_count c) + n \<le> unat (break_count c) \<Longrightarrow>
    \<exists>e. rounds K S r 2 string_body c (strings_frames K (read_addr c) n (save_index c)) e n \<and> match_blacklist e \<noteq> 1 \<and>
      read_addr e = read_addr c + 8 * of_nat n \<and> save_index e = save_index c + 2 * of_nat n"
proof (induction n arbitrary: c)
  case 0
  then show ?case using no_round by (intro exI [of _ c]) simp
next
  case (Suc n)
  let ?d = "string_body_ctx K c"
  let ?c = "?d\<lparr>loop_count := loop_count ?d + 1\<rparr>"
  have ok: "string_elem_ok K (read_addr c)" "strings_ok K (read_addr c + 8) n" using Suc.prems(1) by simp_all
  have d: "loop_count ?d = loop_count c" "break_count ?d = break_count c" "loop_index ?d = loop_index c"
    "read_addr ?d = read_addr c + 8" "save_index ?d = save_index c + 2" "match_blacklist ?d \<noteq> 1"
    using ok Suc.prems(2) by (simp_all add: string_body_ctx_def string_elem_ctx_def)
  have lt: "loop_count c < break_count c" using Suc.prems(4) by (simp add: word_less_nat_alt)
  have u: "unat (loop_count ?c) = Suc (unat (loop_count c))" using succ_u8 [OF lt] d(1) by simp
  then have "loop_count ?c \<noteq> 0" by (metis nat.distinct(1) unat_0)
  then obtain e where e: "rounds K S r 2 string_body ?c (strings_frames K (read_addr ?c) n (save_index ?c)) e n"
    "match_blacklist e \<noteq> 1" "read_addr e = read_addr ?c + 8 * of_nat n" "save_index e = save_index ?c + 2 * of_nat n"
    using Suc.IH [of ?c] ok(2) d u Suc.prems(4) by auto
  have "rounds K S r 2 string_body c (string_elem_frames K (read_addr c) (save_index c)
      @ strings_frames K (read_addr ?c) n (save_index ?c)) e (Suc n)"
    by (rule next_round [OF performs_string_body [OF K Suc.prems(2)] d(6) _ _ d(3) e(1)]) (use d lt Suc.prems(3) in simp_all)
  then show ?case using e(2-4) ok d by (intro exI [of _ e]) (simp add: algebra_simps)
qed

lemma strings_split:
  "strings_ok K a (m + n) \<Longrightarrow> strings_ok K a m \<and> strings_ok K (a + 8 * of_nat m) n \<and>
    strings_frames K a (m + n) i = strings_frames K a m i @ strings_frames K (a + 8 * of_nat m) n (i + 2 * of_nat m)"
proof (induction m arbitrary: a i)
  case (Suc m)
  then show ?case using Suc.IH [of "a + 8" "i + 2"] by (simp add: algebra_simps)
qed simp

lemma string_array_cut_off:
  assumes K: "helper_laws K" "fst (mem_probe_read K 0 0) = 0" "build_module K = MODULE_STACK"
    and r: "wf_ctx_regs r" "RegIndex a < 33"
    and a: "RegIndex a \<noteq> unat REG_ARM64_MAX" "\<not> IsRet a" "ExtraOpList a = []" "FilterIndexList a = []" "ReadMore a" "TypeIndex a = String_array"
    and ok: "strings_ok K (ctx_regs_words r ! RegIndex a) 20"
    and prog: "program_at (build_module K) pa (op_list S) 0 (point_ops [a])"
    and pa: "wf_point_args (build_module K) pa" and pend: "no_pending S"
    and c: "array_lookup_elem (op_ctx_map S) i = Some c"
    and fs_def: "fs = (idx # le_bytes 8 (ctx_regs_words r ! RegIndex a)) # strings_frames K (ctx_regs_words r ! RegIndex a) 20 (idx + 1)"
    and room: "has_room e fs"
  shows "\<exists>st. read_args K pa r \<lparr>rs_maps = S, rs_event = e, rs_ctx = start_op_ctx v idx c\<rparr> = Some st \<and>
    appended e (rs_event st) fs"
proof -
  let ?c = "start_op_ctx v idx c" and ?p = "ctx_regs_words r ! RegIndex a" and ?bc = "ROP OP_SET_BREAK_COUNT (ucast MAX_LOOP_COUNT)"
  let ?f = "idx # le_bytes 8 ?p" and ?head = "[READ_SAVE_REG (RegIndex a), OPC_MOVE_REG_VALUE] @ [?bc]"
  note start = start_at [OF pa pend c]
  obtain d where d: "performs K S r 3 [READ_SAVE_REG (RegIndex a), OPC_MOVE_REG_VALUE] ?c [?f] d" "keeps ?c d"
    "save_index d = idx + 1" "read_addr d = ?p"
    using performs_register [OF K(1) r start(2), of S v idx] start(4) by metis
  have d0: "match_blacklist d \<noteq> 1" "loop_count d = 0" using d(2) start(2,3) by (simp_all add: keeps_def)
  let ?d = "d\<lparr>break_count := MAX_LOOP_COUNT\<rparr>"
  have "?d = op_set_break_count ?bc d" by (simp add: op_set_break_count_def ROP_def limit_break_count_def)
  then have "performs K S r 1 [?bc] d [] ?d"
    by (simp only:) (rule performs_ROP [OF op_does_ctx_ops(10)]; use d0(1) in \<open>simp add: op_set_break_count_def\<close>)
  from performs_append [OF d(1) this] have head: "performs K S r 4 ?head ?c [?f] ?d" by simp
  let ?e = "?d\<lparr>loop_count := 1, loop_index := of_nat (Suc (length ?head))\<rparr>"
  have parts: "strings_ok K ?p 19" "strings_ok K (?p + 8 * 19) 1"
    "strings_frames K ?p 20 (idx + 1) = strings_frames K ?p 19 (idx + 1) @ strings_frames K (?p + 8 * 19) 1 (idx + 1 + 2 * 19)"
    using strings_split [of K ?p 19 1 "idx + 1"] ok by simp_all
  have "unat (1 :: u8) + 19 \<le> unat MAX_LOOP_COUNT" by (simp add: const_simps)
  then obtain g where g: "rounds K S r 2 string_body ?e (strings_frames K ?p 19 (idx + 1)) g 19" "match_blacklist g \<noteq> 1"
    "read_addr g = ?p + 8 * 19" "save_index g = idx + 1 + 2 * 19"
    using rounds_strings [OF K(1,2), of ?e 19 S r] parts(1) d(3,4) d0(1) by auto
  have last: "performs K S r 2 string_body g (strings_frames K (?p + 8 * 19) 1 (idx + 1 + 2 * 19)) (string_body_ctx K g)"
    using performs_string_body [OF K(1,2) g(2), of S r] g(3,4) parts(2) by simp
  have fs: "fs = [?f] @ strings_frames K ?p 19 (idx + 1) @ strings_frames K (?p + 8 * 19) 1 (idx + 1 + 2 * 19)"
    by (simp only: fs_def parts(3) append.simps)
  have stored: "program_at (build_module K) pa (op_list S) 0 (?head @ FOR_BREAK # ((string_body @ []) @ [FOR_BREAK]) @ [OPC_SKIP])"
    using prog a by (simp add: point_ops_def GetOpList_def)
  have bc: "0 < break_count ?d" "loop_count ?d = 0" "match_blacklist ?d \<noteq> 1" using d0 by (simp_all add: const_simps)
  have rds: "rounds K S r 2 (string_body @ []) ?e (strings_frames K ?p 19 (idx + 1)) g 19" using g(1) by simp
  have turns: "MAX_OP_COUNT (build_module K) = 4 + 1 + 19 * Suc 2 + 2" using K(3) by simp
  let ?st = "\<lparr>rs_maps = S, rs_event = e, rs_ctx = ?c\<rparr>"
  have "rs_maps ?st = S" "view (rs_ctx ?st) = view ?c" by simp_all
  from cut_in_loop [OF head bc rds last turns stored start(1) this] room show ?thesis unfolding fs by simp
qed

lemma parse_cut_string_array:
  assumes K: "helper_laws K" and null: "fst (mem_probe_read_str K 0 MAX_STRING_SIZE) < 0"
  shows "strings_ok K a n \<Longrightarrow> parse_STRING_ARRAY (n + Suc m) (concat (strings_frames K a n i)) = None"
proof (induction n arbitrary: a i)
  case 0
  then show ?case by (simp add: read_arg_def)
next
  case (Suc n)
  let ?e = "array_elem K a" and ?p = "string_payload K (array_elem K a AND ADDR_MASK)"
  have ok: "string_elem_ok K a" using Suc.prems by simp
  have addr: "read_arg 8 ((i # le_bytes 8 ?e) @ more) = Some ((i, ?e), more)" for more
    using reg_codec.rd_enc [of "(i, ?e)" more] by simp
  have len: "length ?p \<le> 4096" by (rule length_string_payload [OF K])
  then have "unat (of_nat (length ?p) :: u32) \<noteq> unat STRARR_MAGIC_LEN"
    using length_as_u32 [OF len] by (simp add: const_simps)
  then have "(of_nat (length ?p) :: u32) \<noteq> STRARR_MAGIC_LEN" by metis
  moreover have "parse_STRING_ARRAY (n + Suc m) (concat (strings_frames K (a + 8) n (i + 2))) = None"
    using Suc by simp
  ultimately show ?case
    using ok null_elem_not_ok [OF null ok] addr read_arg_header [of "i + 1" ?p] length_as_u32 [OF len]
    unfolding add_Suc parse_STRING_ARRAY.simps(2)
    by (simp add: string_elem_frames_def del: append_Cons add_Suc_right parse_STRING_ARRAY.simps)
qed

lemma cut_record_not_parsed:
  assumes K: "helper_laws K" "fst (mem_probe_read_str K 0 MAX_STRING_SIZE) < 0"
    and a: "parse_more a t" "TypeIndex a = String_array" and ok: "strings_ok K p 20"
    and fs: "fs = (i # le_bytes 8 p) # strings_frames K p 20 (i + 1)"
  shows "parse_uprobe_args t [a] (concat fs) = None"
proof -
  have "read_arg 8 ((i # le_bytes 8 p) @ more) = Some ((i, p), more)" for more
    using reg_codec.rd_enc [of "(i, p)" more] by simp
  moreover have "unat MAX_LOOP_COUNT = 20 + Suc 11" by (simp add: const_simps)
  ultimately show ?thesis
    using parse_cut_string_array [OF K ok, of 11 "i + 1"] a fs
    by (simp add: parse_arg_def del: append_Cons parse_STRING_ARRAY.simps)
qed

subsection \<open>Arrays of \<open>struct iovec\<close>\<close>

lemma rounds_iovecs:
  assumes K: "helper_laws K"
  shows "iovs_readable K (read_addr c) n \<Longrightarrow> match_blacklist c \<noteq> 1 \<Longrightarrow> loop_count c \<noteq> 0 \<Longrightarrow>
    unat (loop_count c) + n \<le> unat (break_count c) \<Longrightarrow>
    \<exists>e. rounds K S r 11 iovec_body c (iovec_frames K (read_addr c) n (save_index c)) e n \<and> match_blacklist e \<noteq> 1 \<and>
      read_addr e = read_addr c + 16 * of_nat n \<and> save_index e = save_index c + 2 * of_nat n"
proof (induction n arbitrary: c)
  case 0
  then show ?case using no_round by (intro exI [of _ c]) simp
next
  case (Suc n)
  let ?d = "iovec_body_ctx K c"
  let ?c = "?d\<lparr>loop_count := loop_count ?d + 1\<rparr>"
  have ok: "iov_readable K (read_addr c)" "iovs_readable K (read_addr c + 16) n" using Suc.prems(1) by simp_all
  have d: "loop_count ?d = loop_count c" "break_count ?d = break_count c" "loop_index ?d = loop_index c"
    "read_addr ?d = read_addr c + 16" "save_index ?d = save_index c + 2" "match_blacklist ?d \<noteq> 1"
    using Suc.prems(2) by (simp_all add: iovec_body_ctx_def iovec_elem_ctx_def Let_def)
  have lt: "loop_count c < break_count c" using Suc.prems(4) by (simp add: word_less_nat_alt)
  have u: "unat (loop_count ?c) = Suc (unat (loop_count c))" using succ_u8 [OF lt] d(1) by simp
  then have "loop_count ?c \<noteq> 0" by (metis nat.distinct(1) unat_0)
  then obtain e where e: "rounds K S r 11 iovec_body ?c (iovec_frames K (read_addr ?c) n (save_index ?c)) e n"
    "match_blacklist e \<noteq> 1" "read_addr e = read_addr ?c + 16 * of_nat n" "save_index e = save_index ?c + 2 * of_nat n"
    using Suc.IH [of ?c] ok(2) d u Suc.prems(4) by auto
  have "rounds K S r 11 iovec_body c (iovec_frames K (read_addr c) (Suc 0) (save_index c)
      @ iovec_frames K (read_addr ?c) n (save_index ?c)) e (Suc n)"
    by (rule next_round [OF performs_iovec_body [OF K Suc.prems(2) ok(1)] d(6) _ _ d(3) e(1)]) (use d lt Suc.prems(3) in simp_all)
  then show ?case using e(2-4) d by (intro exI [of _ e]) (simp add: algebra_simps)
qed

lemma many_iovecs:
  assumes "MAX_IOV_COUNT \<le> n" and "n < 2 ^ 63"
  shows "6 \<le> unat (limit_break_count (of_nat n))" and "iov_read_count (of_nat n) = MAX_IOV_COUNT"
proof -
  let ?w = "of_nat n :: u64"
  have n: "6 \<le> n" using assms(1) by (simp add: const_simps)
  have u: "unat ?w = n" using assms(2) by (simp add: unat_of_nat take_bit_nat_eq_self)
  show "6 \<le> unat (limit_break_count ?w)"
  proof (cases "?w < 32")
    case True
    then have "n < 32" using u by (simp add: word_less_nat_alt)
    then have "unat (ucast ?w :: u8) = n" using u by (simp add: unsigned_ucast_eq take_bit_nat_eq_self)
    then show ?thesis using True n by (simp add: limit_break_count_def const_simps)
  qed (simp add: limit_break_count_def const_simps)
  have "uint ?w = int n" using u uint_nat [of ?w] by simp
  moreover have "int n < int (2 ^ 63)" using assms(2) by (simp only: of_nat_less_iff)
  then have "int n < 2 ^ 63" by simp
  ultimately have "sint ?w = int n"
    using signed_take_bit_int_eq_self [of 63 "uint ?w"] by (simp add: sint_uint)
  then show "iov_read_count ?w = MAX_IOV_COUNT" using n by (simp add: iov_read_count_def const_simps)
qed

text \<open>Fewer elements than the parser wants.\<close>

lemma parse_cut_iovecs:
  assumes K: "helper_laws K"
  shows "iovs_readable K a n \<Longrightarrow> parse_iovecs (n + Suc m) (concat (iovec_frames K a n i)) = None"
proof (induction n arbitrary: a i)
  case 0
  then show ?case by (simp add: read_arg_def)
next
  case (Suc n)
  let ?b = "bytes_at K a 16"
  have "fst (mem_probe_read K (a AND ADDR_MASK) 16) = 0" using Suc.prems by (simp add: iov_readable_def)
  then have len: "length ?b = 16"
    using read_lawD(2) [OF helper_lawsD(1) [OF K]] by (simp add: bytes_at_def struct_payload_def)
  have base: "read_le 8 (?b @ bs) = Some (le_word (take 8 ?b) :: u64, drop 8 ?b @ bs)" for bs
    using len by (simp add: read_le_def)
  have lens: "read_le 8 (drop 8 ?b @ bs) = Some (le_word (drop 8 ?b) :: u64, bs)" for bs
    using len by (simp add: read_le_def)
  have "parse_iovecs (n + Suc m) (concat (iovec_frames K (a + 16) n (i + 2))) = None" using Suc by simp
  then show ?case
    unfolding add_Suc parse_iovecs.simps(2)
    by (simp add: read_arg_header base lens read_payload_bytes [OF K] Let_def del: add_Suc_right parse_iovecs.simps)
qed

lemma iovec_array_cut_off:
  assumes K: "helper_laws K" "build_module K = MODULE_STACK"
    and r: "wf_ctx_regs r" "RegIndex a < 33" "v < 33"
    and a: "\<not> IsRet a" "ExtraOpList a = []" "FilterIndexList a = []" "ReadMore a" "TypeIndex a = Iovecs v" "parse_more a t"
    and n: "MAX_IOV_COUNT \<le> n" "n < 2 ^ 63" "ctx_regs_words r ! v = of_nat n"
    and rd: "iovs_readable K (ctx_regs_words r ! RegIndex a) 5"
    and prog: "program_at (build_module K) pa (op_list S) 0 (point_ops [a])"
    and pa: "wf_point_args (build_module K) pa" and pend: "no_pending S"
    and c: "array_lookup_elem (op_ctx_map S) i = Some c"
    and fs_def: "fs = (idx # le_bytes 8 (ctx_regs_words r ! RegIndex a)) # ((idx + 1) # le_bytes 8 (of_nat n :: u64)) #
      iovec_frames K (ctx_regs_words r ! RegIndex a) 5 (idx + 2)"
    and room: "has_room e fs"
  shows "\<exists>st. read_args K pa r \<lparr>rs_maps = S, rs_event = e, rs_ctx = start_op_ctx w idx c\<rparr> = Some st \<and>
      appended e (rs_event st) fs"
    and "parse_uprobe_args t [a] (concat fs) = None"
proof -
  let ?c = "start_op_ctx w idx c" and ?p = "ctx_regs_words r ! RegIndex a" and ?w = "of_nat n :: u64"
  let ?f = "idx # le_bytes 8 ?p" and ?g = "(idx + 1) # le_bytes 8 ?w" and ?cfg = "BuildReadRegBreakCount v"
  let ?head = "[READ_SAVE_REG (RegIndex a), OPC_MOVE_REG_VALUE] @ [?cfg] @ [ROP OP_SAVE_REG 0]"
  note start = start_at [OF pa pend c]
  obtain d where d: "performs K S r 3 [READ_SAVE_REG (RegIndex a), OPC_MOVE_REG_VALUE] ?c [?f] d" "keeps ?c d"
    "save_index d = idx + 1" "read_addr d = ?p"
    using performs_register [OF K(1) r(1,2) start(2), of S w idx] start(4) by metis
  have d0: "match_blacklist d \<noteq> 1" "loop_count d = 0" using d(2) start(2,3) by (simp_all add: keeps_def)
  define d2 where "d2 = (read_reg_ctx r v d)\<lparr>break_count := limit_break_count ?w, save_index := save_index d + 1\<rparr>"
  have d2: "performs K S r 3 ([?cfg] @ [ROP OP_SAVE_REG 0]) d [?g] d2"
    "match_blacklist d2 \<noteq> 1" "loop_count d2 = 0" "break_count d2 = limit_break_count ?w" "read_addr d2 = ?p" "save_index d2 = idx + 2"
    using performs_count_register [OF r(1,3) d0(1), of K S] d(3,4) d0 n(3)
    by (simp_all add: d2_def add.assoc) (simp_all add: read_reg_ctx_def)
  from performs_append [OF d(1) d2(1)] have head: "performs K S r 6 ?head ?c [?f, ?g] d2" by simp
  let ?e = "d2\<lparr>loop_count := 1, loop_index := of_nat (Suc (length ?head))\<rparr>"
  have four: "iovs_readable K ?p 4" "iov_readable K (?p + 16 * 4)"
    "iovec_frames K ?p 5 (idx + 2) = iovec_frames K ?p 4 (idx + 2) @ iovec_frames K (?p + 16 * 4) (Suc 0) (idx + 2 + 2 * 4)"
    using rd iovec_frames_split [of K ?p 4 1 "idx + 2"] by (simp_all add: numeral_eq_Suc add.assoc)
  have lim: "unat (1 :: u8) + 4 \<le> unat (limit_break_count ?w)" using many_iovecs(1) [OF n(1,2)] by simp
  obtain g where g: "rounds K S r 11 iovec_body ?e (iovec_frames K ?p 4 (idx + 2)) g 4" "match_blacklist g \<noteq> 1"
    "read_addr g = ?p + 16 * 4" "save_index g = idx + 2 + 2 * 4"
    using rounds_iovecs [OF K(1), of ?e 4 S r] four(1) d2(2-6) lim by auto
  have last: "performs K S r 9 (ROP OP_SET_TMP_VALUE 0 # iovec_ops) g (iovec_frames K (?p + 16 * 4) (Suc 0) (idx + 2 + 2 * 4)) (iovec_elem_ctx K g)"
    using performs_iovec_elem [OF K(1) g(2), of S r] g(3,4) four(2) by simp
  have fs: "fs = [?f, ?g] @ iovec_frames K ?p 4 (idx + 2) @ iovec_frames K (?p + 16 * 4) (Suc 0) (idx + 2 + 2 * 4)"
    by (simp only: fs_def four(3) append.simps)
  have stored: "program_at (build_module K) pa (op_list S) 0
      (?head @ FOR_BREAK # (((ROP OP_SET_TMP_VALUE 0 # iovec_ops) @ [ROP OP_MOVE_TMP_VALUE 0, ROP OP_ADD_OFFSET 16]) @ [FOR_BREAK]) @ [OPC_SKIP])"
    using prog a r(2) by (simp add: point_ops_def GetOpList_def const_simps)
  have "0 < unat (limit_break_count ?w)" using lim by simp
  then have bc: "0 < break_count d2" using d2(4) by (simp add: word_less_nat_alt)
  have rds: "rounds K S r 11 ((ROP OP_SET_TMP_VALUE 0 # iovec_ops) @ [ROP OP_MOVE_TMP_VALUE 0, ROP OP_ADD_OFFSET 16]) ?e
      (iovec_frames K ?p 4 (idx + 2)) g 4" using g(1) by simp
  have turns: "MAX_OP_COUNT (build_module K) = 6 + 1 + 4 * Suc 11 + 9" using K(2) by simp
  let ?st = "\<lparr>rs_maps = S, rs_event = e, rs_ctx = ?c\<rparr>"
  have "rs_maps ?st = S" "view (rs_ctx ?st) = view ?c" by simp_all
  from cut_in_loop [OF head bc d2(3,2) rds last turns stored start(1) this] room
  show "\<exists>st. read_args K pa r ?st = Some st \<and> appended e (rs_event st) fs" unfolding fs by simp
  have word: "read_arg 8 ((j # le_bytes 8 (x :: u64)) @ bs) = Some ((j, x), bs)" for j x bs
    using reg_codec.rd_enc [of "(j, x)" bs] by simp
  have "parse_iovecs (5 + Suc 0) (concat (iovec_frames K ?p 5 (idx + 2))) = None" by (rule parse_cut_iovecs [OF K(1) rd])
  then have "parse_iovecs MAX_IOV_COUNT (concat (iovec_frames K ?p 5 (idx + 2))) = None" by (simp add: const_simps)
  then show "parse_uprobe_args t [a] (concat fs) = None"
    using word many_iovecs(2) [OF n(1,2)] a(5,6)
    by (simp add: fs_def parse_arg_def parse_IOVEC_def del: append_Cons parse_iovecs.simps iovec_frames.simps)
qed

end
