(* ===== verification/Example_Memory.thy ===== *)
theory Example_Memory
  imports Example_State Turn_Limit
begin

unbundle bit_operations_syntax

text \<open>
  A memory for the examples of typed arguments: all but the first bytes is mapped, every aligned
  word holds the address 0x1000, and the string there is empty.
\<close>

definition ex_mem :: "u64 \<Rightarrow> u8 option" where
  "ex_mem a = (if a < 8 then None else Some (if a AND 7 = 1 then 16 else 0))"

definition ex_mem_env :: "module_kind \<Rightarrow> kenv" where
  "ex_mem_env m = mem_kenv TARGET_ARCH_arm64 m 0x100000002 ex_mem"

definition ex_mem_regs :: ctx_regs_t where
  "ex_mem_regs = \<lparr>regs = [16, 0x1000, 7] @ replicate 28 0, sp = 8, pc = 9, flag = 0\<rparr>"

lemma ex_mem_env_simps [simp]:
  "helper_laws (ex_mem_env m)" "build_module (ex_mem_env m) = m" "build_arch (ex_mem_env m) = TARGET_ARCH_arm64"
  "mem_probe_read (ex_mem_env m) = mem_read ex_mem" "mem_probe_read_user (ex_mem_env m) = mem_read ex_mem"
  "mem_probe_read_str (ex_mem_env m) = mem_read_str ex_mem"
  by (simp_all add: ex_mem_env_def)

lemma ex_mem_regs [simp]: "wf_ctx_regs ex_mem_regs"
  "ctx_regs_words ex_mem_regs ! 0 = 16" "ctx_regs_words ex_mem_regs ! Suc 0 = 0x1000" "ctx_regs_words ex_mem_regs ! 2 = 7"
  by (simp_all add: wf_ctx_regs_def ex_mem_regs_def ctx_regs_words_def nth_append)

lemma ex_mem_read:
  assumes "8 \<le> a" and "unat a + n < 2 ^ 64"
  shows "fst (mem_read ex_mem a n) = 0"
proof -
  have "\<not> a + of_nat i < 8" if "i < n" for i
  proof -
    have "unat (a + of_nat i) = unat a + i"
      using assms that by (simp add: unat_word_ariths unat_of_nat)
    then show ?thesis using assms(1) by (simp add: word_less_nat_alt word_le_nat_alt)
  qed
  then show ?thesis by (simp add: mem_read_def Let_def list_all_iff ex_mem_def)
qed

lemma mem_str_numeral: "mem_str mem a (numeral k) =
    (case mem a of None \<Rightarrow> None
     | Some b \<Rightarrow> if b = 0 \<or> pred_numeral k = 0 then Some [0] else map_option ((#) b) (mem_str mem (a + 1) (pred_numeral k)))"
  by (simp add: numeral_eq_Suc)

lemma ex_mem_str [simp]: "mem_read_str ex_mem 0x1000 4096 = (1, [0])" "mem_read_str ex_mem 0 4096 = (-14, [])"
  by (simp_all add: mem_read_str_def mem_str_numeral ex_mem_def)

lemma ex_mem_read_0 [simp]: "mem_read mem a 0 = (0, [])"
  by (simp add: mem_read_def)

lemma strings_ok_numeral: "strings_ok K a (numeral k) \<longleftrightarrow> string_elem_ok K a \<and> strings_ok K (a + 8) (pred_numeral k)"
  by (simp add: numeral_eq_Suc)

lemma iovs_readable_numeral: "iovs_readable K a (numeral k) \<longleftrightarrow> iov_readable K a \<and> iovs_readable K (a + 16) (pred_numeral k)"
  by (simp add: numeral_eq_Suc)

lemma ex_read_addr: "read_addr ex_op_ctx = 0"
  by (simp add: ex_op_ctx_def)

lemma upt_8: "[0 ..< 8] = [0, 1, 2, 3, 4, 5, 6, 7 :: nat]"
  by (simp add: upt_rec)

lemma ex_mem_elem:
  assumes "list_all (\<lambda>i. ex_mem ((a AND ADDR_MASK) + of_nat i) = Some (if i = 1 then 16 else 0)) [0 ..< 8]"
  shows "array_elem (ex_mem_env m) a = 0x1000" and "string_elem_ok (ex_mem_env m) a"
proof -
  have "mem_read ex_mem (a AND ADDR_MASK) 8 = (0, [0, 16, 0, 0, 0, 0, 0, 0])"
    using assms by (simp add: mem_read_def upt_8)
  then show "array_elem (ex_mem_env m) a = 0x1000"
    by (simp add: array_elem_def read_user_u64_def overlay_def)
  then show "string_elem_ok (ex_mem_env m) a"
    by (simp add: string_elem_ok_def const_simps)
qed

lemma strings_frames_numeral: "strings_frames K a (numeral k) i =
    string_elem_frames K a i @ (if string_elem_ok K a then strings_frames K (a + 8) (pred_numeral k) (i + 2) else [])"
  by (simp add: numeral_eq_Suc)

lemma ex_mem_elems:
  "list_all (\<lambda>a. array_elem (ex_mem_env m) a = 0x1000 \<and> string_elem_ok (ex_mem_env m) a)
    [16, 24, 32, 40, 48, 56, 64, 72, 80, 88, 96, 104, 112, 120, 128, 136, 144, 152, 160, 168]"
  unfolding list.pred_inject
  by (intro conjI list.pred_inject(1)) (rule ex_mem_elem, simp add: ex_mem_def upt_8 const_simps)+

lemma ex_mem_strings: "strings_ok (ex_mem_env m) 16 20"
  "length (concat (strings_frames (ex_mem_env m) 16 20 i)) = 300"
proof -
  note elems = ex_mem_elems [of m, unfolded list.pred_inject conj_assoc]
  show "strings_ok (ex_mem_env m) 16 20" using elems by (simp add: strings_ok_numeral)
  have "length (concat (string_elem_frames (ex_mem_env m) a j)) = 15"
    if "array_elem (ex_mem_env m) a = 0x1000 \<and> string_elem_ok (ex_mem_env m) a" for a j
    using that by (simp add: string_elem_frames_def payload_frame_def string_payload_def const_simps)
  with elems show "length (concat (strings_frames (ex_mem_env m) 16 20 i)) = 300"
    by (simp add: strings_frames_numeral)
qed

text \<open>A point with the operations \<open>ops\<close>, stored under their positions.\<close>

definition ex_ops_maps :: "module_kind \<Rightarrow> op_config_t list \<Rightarrow> maps" where
  "ex_ops_maps m ops = (ex_maps m)\<lparr>op_list := zip (map of_nat [0 ..< length ops]) ops\<rparr>"

definition ex_ops_point :: "module_kind \<Rightarrow> point_args_t" where
  "ex_ops_point m = (ex_point m 0)\<lparr>op_key_list := map of_nat [0 ..< MAX_OP_COUNT m]\<rparr>"

lemma ex_ops_simps [simp]:
  "wf_point_args m (ex_ops_point m)" "no_pending (ex_ops_maps m ops)"
  "array_lookup_elem (op_ctx_map (ex_ops_maps m ops)) 0 = Some ex_op_ctx" "unat (buf_off ex_event) = 0"
  by (cases m; simp add: wf_point_args_def ex_ops_point_def ex_ops_maps_def no_pending_def ex_maps_def ex_op_ctx_def
    array_lookup_elem_def nth_opt_def ex_event_def ex_point_def)+

lemma numbered_lookup:
  assumes "j < length xs" and "length xs \<le> 2 ^ 32"
  shows "bpf_map_lookup_elem (zip (map of_nat [0 ..< length xs]) xs) (of_nat j :: u32) = Some (xs ! j)"
proof -
  have "distinct (map (of_nat :: nat \<Rightarrow> u32) [0 ..< length xs])"
    using assms(2) by (auto simp: distinct_map inj_on_def word_unat_eq_iff unat_of_nat take_bit_nat_eq_self)
  then show ?thesis
    using map_of_zip_nth [of "map (of_nat :: nat \<Rightarrow> u32) [0 ..< length xs]" xs j] assms(1)
    by (simp add: bpf_map_lookup_elem_def)
qed

lemma program_atI:
  "(\<And>j. j < length cfgs \<Longrightarrow> i + j < MAX_OP_COUNT m \<and> bpf_map_lookup_elem ops (op_key_list pa ! (i + j)) = Some (cfgs ! j)) \<Longrightarrow>
    program_at m pa ops i cfgs"
proof (induction cfgs arbitrary: i)
  case (Cons cfg cfgs)
  have "program_at m pa ops (Suc i) cfgs" using Cons.prems [of "Suc _"] by (intro Cons.IH) simp
  then show ?case using Cons.prems [of 0] by simp
qed simp

lemma ex_ops_stored:
  assumes "length ops \<le> MAX_OP_COUNT m"
  shows "program_at m (ex_ops_point m) (op_list (ex_ops_maps m ops)) 0 ops"
proof (rule program_atI)
  have small: "MAX_OP_COUNT m \<le> 2 ^ 32" by (cases m) simp_all
  fix j assume "j < length ops"
  then show "0 + j < MAX_OP_COUNT m \<and>
      bpf_map_lookup_elem (op_list (ex_ops_maps m ops)) (op_key_list (ex_ops_point m) ! (0 + j)) = Some (ops ! j)"
    using assms small numbered_lookup [of j ops] by (simp add: ex_ops_point_def ex_ops_maps_def)
qed

definition ex_arg :: "arg_type \<Rightarrow> op_config_t list \<Rightarrow> bool \<Rightarrow> bool \<Rightarrow> point_arg" where
  "ex_arg ty ops deep ret = \<lparr>RegIndex = 0, TypeIndex = ty, ExtraOpList = ops, FilterIndexList = [],
     PointType = EBPF_UPROBE_ENTER, GroupType = (if deep then EBPF_UPROBE_ENTER else 0), IsRet = ret\<rparr>"

lemma ex_arg_simps [simp]:
  "RegIndex (ex_arg ty ops deep ret) = 0" "TypeIndex (ex_arg ty ops deep ret) = ty"
  "ExtraOpList (ex_arg ty ops deep ret) = ops" "FilterIndexList (ex_arg ty ops deep ret) = []"
  "IsRet (ex_arg ty ops deep ret) = ret" "ReadMore (ex_arg ty ops deep ret) = deep"
  "parse_more (ex_arg ty ops deep ret) EBPF_UPROBE_ENTER"
  by (simp_all add: ex_arg_def ReadMore_def parse_more_def const_simps)

text \<open>
  A second memory: in every sixteen bytes the first word is the address 0x1000 and the second word is
  4, so that sixteen bytes are a \<open>struct iovec\<close> of a buffer of four bytes.
\<close>

definition ex_iov_mem :: "u64 \<Rightarrow> u8 option" where
  "ex_iov_mem a = (if a < 8 then None else Some (if a AND 15 = 1 then 16 else if a AND 15 = 8 then 4 else 0))"

definition ex_iov_env :: "module_kind \<Rightarrow> kenv" where
  "ex_iov_env m = mem_kenv TARGET_ARCH_arm64 m 0x100000002 ex_iov_mem"

lemma ex_iov_env_simps [simp]:
  "helper_laws (ex_iov_env m)" "build_module (ex_iov_env m) = m" "build_arch (ex_iov_env m) = TARGET_ARCH_arm64"
  "mem_probe_read (ex_iov_env m) = mem_read ex_iov_mem" "mem_probe_read_user (ex_iov_env m) = mem_read ex_iov_mem"
  by (simp_all add: ex_iov_env_def)

definition ex_iov_bytes :: "u64 \<Rightarrow> bool" where
  "ex_iov_bytes a \<longleftrightarrow> list_all (\<lambda>i. ex_iov_mem ((a AND ADDR_MASK) + of_nat i) =
     Some (if i = 1 then 16 else if i = 8 then 4 else 0)) [0 ..< 16]"

lemma ex_iov_elem:
  assumes "ex_iov_bytes a"
  shows "iov_readable (ex_iov_env m) a"
    and "length (payload_frame i (bytes_at (ex_iov_env m) a 16) @ payload_frame j
      (bytes_at (ex_iov_env m) (user_word (ex_iov_env m) (a AND ADDR_MASK))
        (reg_len (user_word (ex_iov_env m) ((a AND ADDR_MASK) + 8))))) \<le> 30"
proof -
  let ?K = "ex_iov_env m" and ?a = "a AND ADDR_MASK"
  let ?data = "bytes_at ?K (user_word ?K ?a) (reg_len (user_word ?K (?a + 8)))"
  have upt: "[0 ..< 16] = [0, 1, 2, 3, 4, 5, 6, 7, 8, 9, 10, 11, 12, 13, 14, 15 :: nat]" by (simp add: upt_rec)
  have rd: "fst (mem_read ex_iov_mem ?a 16) = 0" "fst (mem_read ex_iov_mem ?a 8) = 0"
    "mem_read ex_iov_mem (?a + 8) 8 = (0, [4, 0, 0, 0, 0, 0, 0, 0])"
    using assms by (simp_all add: ex_iov_bytes_def mem_read_def upt upt_8 add.assoc)
  then show "iov_readable ?K a" by (simp add: iov_readable_def)
  have "user_word ?K (?a + 8) = 4" using rd(3) by (simp add: user_word_def)
  then have "reg_len (user_word ?K (?a + 8)) = 4" by (simp add: reg_len_def const_simps)
  then have data: "length ?data \<le> 4"
    using length_bytes_at(2) [of ?K "user_word ?K ?a" 4] by auto
  have "length (bytes_at ?K a 16) \<le> 16" using length_bytes_at(2) [of ?K a 16] by auto
  from add_mono [OF this data] show "length (payload_frame i (bytes_at ?K a 16) @ payload_frame j ?data) \<le> 30"
    by (simp add: payload_frame_def)
qed

lemma ex_iovs:
  "(\<And>k. k < n \<Longrightarrow> ex_iov_bytes (a + 16 * of_nat k)) \<Longrightarrow>
    iovs_readable (ex_iov_env m) a n \<and> length (concat (iovec_frames (ex_iov_env m) a n i)) \<le> 30 * n"
proof (induction n arbitrary: a i)
  case (Suc n)
  have first: "ex_iov_bytes a" using Suc.prems [of 0] by simp
  have "ex_iov_bytes (a + 16 + 16 * of_nat k)" if "k < n" for k
    using Suc.prems [of "Suc k"] that by (simp add: add.assoc)
  then have "iovs_readable (ex_iov_env m) (a + 16) n \<and> length (concat (iovec_frames (ex_iov_env m) (a + 16) n (i + 2))) \<le> 30 * n"
    by (rule Suc.IH)
  with ex_iov_elem(1) [OF first, of m] ex_iov_elem(2) [OF first, of i m "i + 1"]
  show ?case by simp
qed simp

lemma ex_seven_iovs:
  assumes "n \<le> 7"
  shows "iovs_readable (ex_iov_env m) 16 n" "length (concat (iovec_frames (ex_iov_env m) 16 n i)) \<le> 30 * n"
proof -
  have "list_all (\<lambda>k. ex_iov_bytes (16 + 16 * of_nat k)) [0, 1, 2, 3, 4, 5, 6 :: nat]"
    by (simp add: ex_iov_bytes_def upt_rec ex_iov_mem_def const_simps)
  then have "ex_iov_bytes (16 + 16 * of_nat k)" if "k < n" for k
  proof -
    have "k \<in> set [0, 1, 2, 3, 4, 5, 6]" using that assms by auto
    with \<open>list_all _ _\<close> show ?thesis unfolding list_all_iff by blast
  qed
  from ex_iovs [OF this, of n m i] show "iovs_readable (ex_iov_env m) 16 n"
    "length (concat (iovec_frames (ex_iov_env m) 16 n i)) \<le> 30 * n" by simp_all
qed

end
