(* ===== verification/Op_Manager.thy ===== *)
theory Op_Manager
  imports Point_Args "HOL-Library.Multiset"
begin

unbundle bit_operations_syntax

text \<open>
  How user space stores programs: the manager that numbers the operations
  (\<open>OpManager\<close> of \<open>user/argtype/op_helper.go\<close>), the keys of a point (\<open>AddPointArg\<close> of
  \<open>user/config/iconfig.go\<close>, \<open>GetConfig\<close> of \<open>config_uprobe.go\<close>) and the table \<open>op_list\<close>
  (\<open>update_op_list\<close> of \<open>user/module/stack.go\<close>). Together they give a point the program
  \<open>point_ops\<close> of its arguments, which is what the facts on programs of the reader begin with.
\<close>

subsection \<open>The manager\<close>

record op_entry =
  o_name :: string
  o_index :: u32
  o_cfg :: op_config_t

definition SameAs :: "string \<Rightarrow> op_config_t \<Rightarrow> op_entry \<Rightarrow> bool" where
  "SameAs n cfg v \<longleftrightarrow> o_name v = n \<and> cfg_code (o_cfg v) = cfg_code cfg \<and> cfg_pre_code (o_cfg v) = cfg_pre_code cfg \<and>
     cfg_post_code (o_cfg v) = cfg_post_code cfg \<and> cfg_value (o_cfg v) = cfg_value cfg"

text \<open>An operation that is known keeps its index, a new one gets the next.\<close>

definition AddOp :: "string \<Rightarrow> op_config_t \<Rightarrow> op_entry list \<Rightarrow> u32 \<times> op_entry list" where
  "AddOp n cfg m =
     (case find (SameAs n cfg) m of
        Some v \<Rightarrow> (o_index v, m)
      | None \<Rightarrow> (of_nat (length m), m @ [\<lparr>o_name = n, o_index = of_nat (length m), o_cfg = cfg\<rparr>]))"

fun AddOps :: "(string \<times> op_config_t) list \<Rightarrow> op_entry list \<Rightarrow> u32 list \<times> op_entry list" where
  "AddOps [] m = ([], m)"
| "AddOps ((n, cfg) # ops) m = (let (k, m) = AddOp n cfg m; (ks, m) = AddOps ops m in (k # ks, m))"

text \<open>\<open>GetOpList\<close>: the table by index.\<close>

definition op_table :: "op_entry list \<Rightarrow> (u32 \<times> op_config_t) list" where
  "op_table m = map (\<lambda>v. (o_index v, o_cfg v)) m"

text \<open>
  The first operation registered is \<open>OPC_SKIP\<close>, and the entries are numbered from 0. The map
  \<open>op_list\<close> has 256 entries.
\<close>

definition numbered :: "op_entry list \<Rightarrow> bool" where
  "numbered m \<longleftrightarrow> map o_index m = map of_nat [0..<length m]"

definition wf_manager :: "op_entry list \<Rightarrow> bool" where
  "wf_manager m \<longleftrightarrow> numbered m \<and> m \<noteq> [] \<and> o_cfg (hd m) = OPC_SKIP"

definition registered :: "op_entry list \<Rightarrow> u32 \<Rightarrow> op_config_t \<Rightarrow> bool" where
  "registered m k cfg \<longleftrightarrow> (\<exists>v \<in> set m. o_index v = k \<and> o_cfg v = cfg)"

lemma registered_more: "registered m k cfg \<Longrightarrow> registered (m @ m') k cfg"
  by (auto simp: registered_def)

lemma SameAs_cfg: "SameAs n cfg v \<Longrightarrow> o_cfg v = cfg"
  by (simp add: SameAs_def)

lemma AddOp_registers:
  assumes "AddOp n cfg m = (k, m')"
  shows "registered m' k cfg" and "\<exists>new. m' = m @ new" and "numbered m \<Longrightarrow> numbered m'"
proof -
  show "registered m' k cfg"
    using assms SameAs_cfg by (auto simp: AddOp_def registered_def find_Some_iff split: option.splits)
  show "\<exists>new. m' = m @ new" using assms by (auto simp: AddOp_def split: option.splits)
  show "numbered m \<Longrightarrow> numbered m'" using assms by (auto simp: AddOp_def numbered_def split: option.splits)
qed

lemma AddOps_registers:
  "AddOps ops m = (ks, m') \<Longrightarrow>
    list_all2 (\<lambda>k op. registered m' k (snd op)) ks ops \<and> (\<exists>new. m' = m @ new) \<and> (numbered m \<longrightarrow> numbered m')"
proof (induction ops arbitrary: m ks)
  case (Cons op ops)
  obtain n cfg where op: "op = (n, cfg)" by fastforce
  obtain k m1 where k: "AddOp n cfg m = (k, m1)" by fastforce
  obtain ks1 where ks1: "AddOps ops m1 = (ks1, m')" and ks: "ks = k # ks1"
    using Cons.prems k op by (auto simp: Let_def split: prod.splits)
  note one = AddOp_registers [OF k]
  have rest: "list_all2 (\<lambda>k op. registered m' k (snd op)) ks1 ops" "\<exists>new. m' = m1 @ new" "numbered m1 \<longrightarrow> numbered m'"
    using Cons.IH [OF ks1] by simp_all
  then show ?case using one ks op registered_more by fastforce
qed simp

lemma wf_manager_more: "wf_manager m \<Longrightarrow> numbered (m @ m') \<Longrightarrow> wf_manager (m @ m')"
  by (simp add: wf_manager_def)

subsection \<open>The keys of a point\<close>

text \<open>The array of keys and its count; the panic comes before the array is full.\<close>

fun AddPointKeys :: "u32 list \<Rightarrow> nat \<times> u32 list \<Rightarrow> (nat \<times> u32 list) option" where
  "AddPointKeys [] (n, arr) = Some (n, arr)"
| "AddPointKeys (k # ks) (n, arr) =
     (if n < length arr \<and> n + 1 \<noteq> length arr then AddPointKeys ks (n + 1, arr[n := k]) else None)"

text \<open>\<open>AddPointArg\<close> for each argument: its operations, with their names, and then their keys.\<close>

fun AddPointArgs ::
    "(string \<times> op_config_t) list list \<Rightarrow> op_entry list \<Rightarrow> nat \<times> u32 list \<Rightarrow> ((nat \<times> u32 list) \<times> op_entry list) option" where
  "AddPointArgs [] m arr = Some (arr, m)"
| "AddPointArgs (ops # opss) m arr =
     (let (ks, m) = AddOps ops m
      in case AddPointKeys ks arr of None \<Rightarrow> None | Some arr \<Rightarrow> AddPointArgs opss m arr)"

text \<open>\<open>GetConfig\<close> and \<open>GetUretConfig\<close>; for the latter the return value is the first argument.\<close>

definition GetConfig ::
    "nat \<Rightarrow> u32 \<Rightarrow> u32 \<Rightarrow> (string \<times> op_config_t) list list \<Rightarrow> op_entry list \<Rightarrow> (point_args_t \<times> op_entry list) option" where
  "GetConfig max_count enter sig opss m =
     map_option (\<lambda>((n, arr), m). (\<lparr>enter_key = enter, point_signal = sig, op_count = of_nat n, op_key_list = arr\<rparr>, m))
       (AddPointArgs opss m (0, replicate max_count 0))"

text \<open>Keys so far, then zeros.\<close>

definition keys_array :: "nat \<Rightarrow> u32 list \<Rightarrow> nat \<times> u32 list" where
  "keys_array n ks = (length ks, ks @ replicate (n - length ks) 0)"

lemma AddPointKeys_array:
  "AddPointKeys ks (keys_array n ks0) = Some arr \<Longrightarrow> length ks0 < n \<Longrightarrow>
    arr = keys_array n (ks0 @ ks) \<and> length (ks0 @ ks) < n"
proof (induction ks arbitrary: ks0)
  case Nil
  then show ?case by (simp add: keys_array_def)
next
  case (Cons k ks)
  have room: "Suc (length ks0) < n"
    using Cons.prems by (auto simp: keys_array_def split: if_split_asm)
  have put: "(ks0 @ replicate (n - length ks0) 0)[length ks0 := k] = (ks0 @ [k]) @ replicate (n - length (ks0 @ [k])) 0"
  proof -
    have "n - length ks0 = Suc (n - Suc (length ks0))" using Cons.prems(2) by simp
    then show ?thesis by (simp add: list_update_append)
  qed
  have "AddPointKeys ks (keys_array n (ks0 @ [k])) = Some arr"
    using Cons.prems put by (simp add: keys_array_def split: if_split_asm)
  from Cons.IH [OF this] room show ?case by simp
qed

lemma AddPointArgs_keys:
  "AddPointArgs opss m (keys_array n ks0) = Some (arr, m') \<Longrightarrow> length ks0 < n \<Longrightarrow>
    \<exists>ks. arr = keys_array n (ks0 @ ks) \<and> length (ks0 @ ks) < n \<and>
      list_all2 (\<lambda>k op. registered m' k (snd op)) ks (concat opss) \<and> (\<exists>new. m' = m @ new) \<and> (numbered m \<longrightarrow> numbered m')"
proof (induction opss arbitrary: m ks0)
  case Nil
  then show ?case by auto
next
  case (Cons ops opss)
  obtain ks m1 where ks: "AddOps ops m = (ks, m1)" by fastforce
  obtain arr1 where arr1: "AddPointKeys ks (keys_array n ks0) = Some arr1"
    and rest: "AddPointArgs opss m1 arr1 = Some (arr, m')"
    using Cons.prems(1) ks by (auto split: option.splits)
  note one = AddOps_registers [OF ks] and arr1' = AddPointKeys_array [OF arr1 Cons.prems(2)]
  obtain ks' where ks': "arr = keys_array n ((ks0 @ ks) @ ks')" "length ((ks0 @ ks) @ ks') < n"
    "list_all2 (\<lambda>k op. registered m' k (snd op)) ks' (concat opss)" "\<exists>new. m' = m1 @ new" "numbered m1 \<longrightarrow> numbered m'"
    using Cons.IH [of m1 "ks0 @ ks"] rest arr1' by blast
  obtain new where new: "m' = m1 @ new" using ks'(4) by blast
  have "list_all2 (\<lambda>k op. registered m' k (snd op)) ks ops"
    using one new registered_more by (auto elim!: list_all2_mono)
  then have "list_all2 (\<lambda>k op. registered m' k (snd op)) (ks @ ks') (ops @ concat opss)"
    using ks'(3) by (rule list_all2_appendI)
  then show ?case using ks' one by (intro exI [of _ "ks @ ks'"]) auto
qed

subsection \<open>The table\<close>

lemma capacity_op_list [simp]: "capacity ''op_list'' = 256"
  by (simp add: capacity_def maps_h_def BPF_HASH_def BPF_LRU_HASH_def BPF_MAP_def BPF_ARRAY_def BPF_PERF_OUTPUT_def
    BPF_PERCPU_ARRAY_def)

text \<open>Every entry is stored, in the order the map of user space is walked; a failing update panics.\<close>

fun update_op_list :: "(u32 \<times> op_config_t) list \<Rightarrow> (u32, op_config_t) hmap \<Rightarrow> (u32, op_config_t) hmap option" where
  "update_op_list [] ops = Some ops"
| "update_op_list ((k, cfg) # kvs) ops =
     (let (err, ops) = bpf_map_update_elem (capacity ''op_list'') k cfg ops
      in if err \<noteq> 0 then None else update_op_list kvs ops)"

lemma update_op_list_all:
  "distinct (map fst kvs) \<Longrightarrow> length ops + length kvs \<le> capacity ''op_list'' \<Longrightarrow>
    \<exists>ops'. update_op_list kvs ops = Some ops' \<and>
      (\<forall>k cfg. (k, cfg) \<in> set kvs \<longrightarrow> bpf_map_lookup_elem ops' k = Some cfg) \<and>
      (\<forall>k. k \<notin> fst ` set kvs \<longrightarrow> bpf_map_lookup_elem ops' k = bpf_map_lookup_elem ops k)"
proof (induction kvs arbitrary: ops)
  case (Cons kv kvs)
  obtain k cfg where kv: "kv = (k, cfg)" by fastforce
  let ?n = "capacity ''op_list''" and ?ops = "snd (bpf_map_update_elem (capacity ''op_list'') k cfg ops)"
  have ok: "fst (bpf_map_update_elem ?n k cfg ops) = 0"
    by (rule bpf_map_update_elem_room) (use Cons.prems in simp)
  have "length ?ops \<le> Suc (length ops)" by (auto simp: bpf_map_update_elem_def length_AList_update)
  then have room: "length ?ops + length kvs \<le> ?n" using Cons.prems(2) by simp
  obtain ops' where ops': "update_op_list kvs ?ops = Some ops'"
    "\<And>k cfg. (k, cfg) \<in> set kvs \<Longrightarrow> bpf_map_lookup_elem ops' k = Some cfg"
    "\<And>k. k \<notin> fst ` set kvs \<Longrightarrow> bpf_map_lookup_elem ops' k = bpf_map_lookup_elem ?ops k"
    using Cons.IH [OF _ room] Cons.prems(1) by auto
  have "k \<notin> fst ` set kvs" using Cons.prems(1) kv by simp
  then have "bpf_map_lookup_elem ops' k = Some cfg" using ops'(3) hm.update_same [OF ok] by simp
  moreover have "bpf_map_lookup_elem ops' k' = bpf_map_lookup_elem ops k'" if "k' \<notin> fst ` set (kv # kvs)" for k'
    using that ops'(3) [of k'] kv by (simp add: hm.update_other)
  ultimately show ?case using ok ops'(1,2) kv by (auto simp: case_prod_unfold Let_def)
qed simp

lemma op_table_distinct:
  assumes "numbered m" and "length m \<le> 256"
  shows "distinct (map fst (op_table m))"
proof -
  have "inj_on (of_nat :: nat \<Rightarrow> u32) {0..<length m}"
  proof (rule inj_onI)
    fix i j assume ij: "i \<in> {0..<length m}" "j \<in> {0..<length m}" and eq: "(of_nat i :: u32) = of_nat j"
    then have "unat (of_nat i :: u32) = unat (of_nat j :: u32)" by simp
    then show "i = j" using ij assms(2) by (simp add: unat_of_nat take_bit_nat_eq_self)
  qed
  then show ?thesis using assms(1) by (simp add: op_table_def numbered_def comp_def distinct_map)
qed

subsection \<open>The program of a point\<close>

lemma program_at_keys:
  "list_all2 (\<lambda>k cfg. bpf_map_lookup_elem ops k = Some cfg) ks cfgs \<Longrightarrow>
    take (length ks) (drop i (op_key_list pa)) = ks \<Longrightarrow> i + length ks \<le> MAX_OP_COUNT m \<Longrightarrow> program_at m pa ops i cfgs"
proof (induction ks arbitrary: cfgs i)
  case (Cons k ks)
  then obtain cfg cfgs' where c: "cfgs = cfg # cfgs'" "bpf_map_lookup_elem ops k = Some cfg"
    "list_all2 (\<lambda>k cfg. bpf_map_lookup_elem ops k = Some cfg) ks cfgs'" by (auto simp: list_all2_Cons1)
  have "drop i (op_key_list pa) \<noteq> []" using Cons.prems(2) by auto
  then have d: "drop i (op_key_list pa) = op_key_list pa ! i # drop (Suc i) (op_key_list pa)"
    by (metis Cons_nth_drop_Suc drop_eq_Nil not_le)
  have k: "op_key_list pa ! i = k" and "take (length ks) (drop (Suc i) (op_key_list pa)) = ks"
    using Cons.prems(2) d by simp_all
  then show ?case using Cons.IH [OF c(3)] Cons.prems(3) c(1,2) by simp
qed simp

lemma configured_point:
  assumes m: "wf_manager m" and cfg: "GetConfig (MAX_OP_COUNT md) enter sig opss m = Some (pa, m')"
    and opss: "map (map snd) opss = map GetOpList params"
    and later: "numbered (m' @ new)" "length (m' @ new) \<le> capacity ''op_list''"
    and order: "mset kvs = mset (op_table (m' @ new))"
  obtains ops where "update_op_list kvs [] = Some ops" and "program_at md pa ops 0 (point_ops params)"
    and "wf_point_args md pa" and "enter_key pa = enter"
proof -
  let ?M = "MAX_OP_COUNT md" and ?m = "m' @ new"
  have pos: "0 < ?M" by (cases md) simp_all
  obtain n arr where a: "AddPointArgs opss m (keys_array ?M []) = Some ((n, arr), m')"
    and pa: "pa = \<lparr>enter_key = enter, point_signal = sig, op_count = of_nat n, op_key_list = arr\<rparr>"
    using cfg by (auto simp: GetConfig_def keys_array_def)
  obtain ks where ks: "(n, arr) = keys_array ?M ks" "length ks < ?M"
    "list_all2 (\<lambda>k op. registered m' k (snd op)) ks (concat opss)" "\<exists>new. m' = m @ new"
    using AddPointArgs_keys [OF a] pos by auto
  have arr: "arr = ks @ replicate (?M - length ks) 0" using ks(1) by (simp add: keys_array_def)
  have same: "set kvs = set (op_table ?m)" "length kvs = length (op_table ?m)" "distinct (map fst kvs)"
    using mset_eq_setD [OF order] mset_eq_length [OF order] op_table_distinct [OF later(1)] later(2)
      mset_eq_imp_distinct_iff [of "map fst kvs" "map fst (op_table ?m)"] order by simp_all
  obtain ops where ops: "update_op_list kvs [] = Some ops"
    "\<And>k cfg. (k, cfg) \<in> set kvs \<Longrightarrow> bpf_map_lookup_elem ops k = Some cfg"
    using update_op_list_all [OF same(3), of "[]"] same(2) later(2) by (auto simp: op_table_def)
  have found: "bpf_map_lookup_elem ops k = Some cfg" if "registered ?m k cfg" for k cfg
    using that ops(2) same(1) by (auto simp: registered_def op_table_def)
  obtain m0 where "m' = m @ m0" using ks(4) by blast
  then have "registered ?m 0 OPC_SKIP"
    using m by (cases m) (auto simp: wf_manager_def numbered_def registered_def upt_conv_Cons simp del: upt_Suc)
  then have skip: "bpf_map_lookup_elem ops 0 = Some OPC_SKIP" by (rule found)
  have "list_all2 (\<lambda>k cfg. bpf_map_lookup_elem ops k = Some cfg) ks (map snd (concat opss))"
    unfolding list_all2_map2 using ks(3) found registered_more by (auto elim!: list_all2_mono)
  moreover have "map snd (concat opss) = concat (map GetOpList params)" using opss by (simp add: map_concat)
  ultimately have all: "list_all2 (\<lambda>k cfg. bpf_map_lookup_elem ops k = Some cfg) (ks @ [0]) (point_ops params)"
    using skip by (simp add: point_ops_def list_all2_appendI)
  have "?M - length ks = Suc (?M - Suc (length ks))" using ks(2) by simp
  then have "take (length (ks @ [0])) (drop 0 (op_key_list pa)) = ks @ [0]" by (simp add: pa arr)
  then have "program_at md pa ops 0 (point_ops params)"
    by (intro program_at_keys [OF all]) (use ks(2) in simp_all)
  moreover have "wf_point_args md pa" using ks(2) by (simp add: wf_point_args_def pa arr)
  ultimately show ?thesis using that ops(1) pa by simp
qed

end
