(* ===== verification/Nested_Calls.thy ===== *)
theory Nested_Calls
  imports Thread_Isolation
begin

unbundle bit_operations_syntax

text \<open>
  Nested calls of one function on one thread. The entry probe keeps one snapshot per point and thread,
  and the return probe, or the probe at a configured exit, uses it up: of any run of entries, returns
  and exits, only those that follow an entry at once can be reported. The returns of a recursion are
  reported at most once.
\<close>

subsection \<open>A probe that reads with a kept snapshot\<close>

definition kept :: "maps \<Rightarrow> u32 \<Rightarrow> u32 \<Rightarrow> nat" where
  "kept S e t = (if snapshot S e t = None then 0 else 1)"

text \<open>A report costs the snapshot.\<close>

definition pays :: "u32 \<Rightarrow> u32 \<Rightarrow> maps \<Rightarrow> maps \<Rightarrow> bool" where
  "pays e t S S' \<longleftrightarrow> length (perf_events S') + kept S' e t \<le> length (perf_events S) + kept S e t"

lemma pays_silent: "silent S S' \<Longrightarrow> ctx_regs_map S' = ctx_regs_map S \<Longrightarrow> pays e t S S'"
  by (simp add: pays_def silent_def kept_def snapshot_def)

lemma submitted_length: "submitted K c i hdr idx S S' \<Longrightarrow> length (perf_events S') \<le> Suc (length (perf_events S))"
  by (auto simp: submitted_def)

lemma pays_used:
  assumes "snapshot S e t \<noteq> None" and "snapshot S' e t = None" and "length (perf_events S') \<le> Suc (length (perf_events S))"
  shows "pays e t S S'"
  using assms by (auto simp: pays_def kept_def)

lemma init_pays: "init_program_data K S0 ctx = (S, q) \<Longrightarrow> pays e t S0 S"
  using silent_init [of S0 K ctx] init_program_data_other [of K S0 ctx] by (intro pays_silent) simp_all

text \<open>A program only adds records.\<close>

lemma outcome_grows: "stack_outcome K S ctx key i S' \<Longrightarrow> length (perf_events S) \<le> length (perf_events S')"
  by (auto simp: stack_outcome_def traced_record_def silent_def submitted_def)

lemma probe_grows:
  "helper_laws K \<Longrightarrow> wf_maps (build_module K) S \<Longrightarrow> probe_stack_warp K S ctx key = Some S' \<Longrightarrow>
    length (perf_events S) \<le> length (perf_events S')"
  using probe_stack_warp_outcome [of K S ctx key] outcome_grows by auto

lemma uretprobe_grows:
  "helper_laws K \<Longrightarrow> wf_maps (build_module K) S \<Longrightarrow> uretprobe_stack_warp K S ctx key = Some S' \<Longrightarrow>
    length (perf_events S) \<le> length (perf_events S')"
  using uretprobe_stack_warp_outcome [of K S ctx key] outcome_grows by auto

lemma init_keeps:
  assumes "init_program_data K S0 ctx = (S, q)"
  shows "uprobe_point_args S = uprobe_point_args S0" "uretprobe_point_args S = uretprobe_point_args S0"
    "common_filter S = common_filter S0" "snapshot S = snapshot S0"
  using init_program_data_other [of K S0 ctx] assms by (simp_all add: snapshot_def fun_eq_iff)

text \<open>The return probe of a point that names an entry.\<close>

lemma uretprobe_pays:
  assumes K: "helper_laws K" and S0: "wf_maps (build_module K) S0" and ek: "ek \<noteq> 0"
    and pt: "\<And>pa. bpf_map_lookup_elem (uretprobe_point_args S0) key = Some pa \<Longrightarrow> enter_key pa = ek"
    and run: "uretprobe_stack_warp K S0 ctx key = Some S'"
  shows "pays (UPROBE_ENTER + ek) (cur_tid K) S0 S'"
proof -
  let ?e = "UPROBE_ENTER + ek" and ?t = "cur_tid K"
  obtain S q where ini: "init_program_data K S0 ctx = (S, q)" by fastforce
  note other = init_keeps [OF ini]
  show ?thesis
  proof (cases "\<exists>p pa f S1 saved. q = Some p \<and> should_trace S p \<and>
      bpf_map_lookup_elem (uretprobe_point_args S0) key = Some pa \<and>
      bpf_map_lookup_elem (common_filter S0) 0 = Some f \<and> uretprobe_stack_regs K S pa ctx = Some (S1, saved)")
    case False
    then have "S' = S"
      using run other by (auto simp: uretprobe_stack_warp_def ini split: option.splits if_splits)
    then show ?thesis using init_pays [OF ini] by simp
  next
    case True
    then obtain p pa f S1 saved where q: "q = Some p" "should_trace S p"
      and pa: "bpf_map_lookup_elem (uretprobe_point_args S0) key = Some pa"
      and f: "bpf_map_lookup_elem (common_filter S0) 0 = Some f"
      and regs: "uretprobe_stack_regs K S pa ctx = Some (S1, saved)" by blast
    have had: "snapshot S0 ?e ?t \<noteq> None" and used: "snapshot S1 ?e ?t = None"
      using regs ek pt [OF pa] load_regs_status [of K S zero_ctx_regs ?e] other(4)
      by (auto simp: uretprobe_stack_regs_def case_prod_unfold Let_def snapshot_del split: if_splits)
    have "snapshot S' ?e ?t = None"
      using used uretprobe_stack_warp_snapshots [OF K S0 ini [unfolded q] q(2) pa f regs run] by (simp add: snapshot_def)
    moreover have "length (perf_events S') \<le> Suc (length (perf_events S0))"
      using uretprobe_stack_warp_outcome [OF K S0, of ctx key] run
      by (auto simp: stack_outcome_def traced_record_def silent_def dest: submitted_length)
    ultimately show ?thesis using had by (intro pays_used)
  qed
qed

text \<open>The probe at another point that names the entry: the exit of a function at a configured offset.\<close>

lemma exit_point_pays:
  assumes K: "helper_laws K" and S0: "wf_maps (build_module K) S0" and ek: "ek \<noteq> 0" "ek \<noteq> key + 1"
    and pt: "\<And>pa. bpf_map_lookup_elem (uprobe_point_args S0) key = Some pa \<Longrightarrow> enter_key pa = ek"
    and run: "probe_stack_warp K S0 ctx key = Some S'"
  shows "pays (UPROBE_ENTER + ek) (cur_tid K) S0 S'"
proof -
  let ?e = "UPROBE_ENTER + ek" and ?t = "cur_tid K"
  obtain S q where ini: "init_program_data K S0 ctx = (S, q)" by fastforce
  note other = init_keeps [OF ini]
  show ?thesis
  proof (cases "\<exists>p pa f S1 saved. q = Some p \<and> should_trace S p \<and>
      bpf_map_lookup_elem (uprobe_point_args S0) key = Some pa \<and> bpf_map_lookup_elem (common_filter S0) 0 = Some f \<and>
      probe_stack_regs K S pa key (copy_pt_regs K ctx) = Some (S1, saved)")
    case False
    then have "S' = S"
      using run other by (auto simp: probe_stack_warp_def ini split: option.splits if_splits)
    then show ?thesis using init_pays [OF ini] by simp
  next
    case True
    then obtain p pa f S1 saved where q: "q = Some p" "should_trace S p"
      and pa: "bpf_map_lookup_elem (uprobe_point_args S0) key = Some pa"
      and f: "bpf_map_lookup_elem (common_filter S0) 0 = Some f"
      and regs: "probe_stack_regs K S pa key (copy_pt_regs K ctx) = Some (S1, saved)" by blast
    have had: "snapshot S0 ?e ?t \<noteq> None" and used: "snapshot S1 ?e ?t = None"
      using regs ek pt [OF pa] load_regs_status [of K S "copy_pt_regs K ctx" ?e] other(4)
      by (auto simp: probe_stack_regs_def case_prod_unfold Let_def snapshot_del split: if_splits)
    have "snapshot S' ?e ?t = None"
      using used probe_stack_warp_snapshots [OF K S0 ini [unfolded q] q(2) pa f regs run] by (simp add: snapshot_def)
    moreover have "length (perf_events S') \<le> Suc (length (perf_events S0))"
      using probe_stack_warp_outcome [OF K S0, of ctx key] run
      by (auto simp: stack_outcome_def traced_record_def silent_def dest: submitted_length)
    ultimately show ?thesis using had by (intro pays_used)
  qed
qed

subsection \<open>Runs of calls\<close>

datatype call_event = Fun_entered | Fun_returned | Fun_exited

text \<open>
  What thread \<open>t\<close> does at the point \<open>key\<close>, the last event first, with the programs of other threads
  between; \<open>n\<close> counts the records of returns and exits.
\<close>

inductive call_run :: "module_kind \<Rightarrow> u32 \<Rightarrow> u32 \<Rightarrow> maps \<Rightarrow> call_event list \<Rightarrow> nat \<Rightarrow> maps \<Rightarrow> bool"
  for m t key S where
  call_start: "call_run m t key S [] 0 S"
| call_entered: "call_run m t key S h n S1 \<Longrightarrow> helper_laws K \<Longrightarrow> build_module K = m \<Longrightarrow> cur_tid K = t \<Longrightarrow>
    probe_stack_warp K S1 ctx key = Some S2 \<Longrightarrow> call_run m t key S (Fun_entered # h) n S2"
| call_returned: "call_run m t key S h n S1 \<Longrightarrow> helper_laws K \<Longrightarrow> build_module K = m \<Longrightarrow> cur_tid K = t \<Longrightarrow>
    uretprobe_stack_warp K S1 ctx key = Some S2 \<Longrightarrow>
    call_run m t key S (Fun_returned # h) (n + (length (perf_events S2) - length (perf_events S1))) S2"
| call_exited: "call_run m t key S h n S1 \<Longrightarrow> helper_laws K \<Longrightarrow> build_module K = m \<Longrightarrow> cur_tid K = t \<Longrightarrow>
    key' \<noteq> key \<Longrightarrow> (\<forall>pa. bpf_map_lookup_elem (uprobe_point_args S) key' = Some pa \<longrightarrow> enter_key pa = key + 1) \<Longrightarrow>
    probe_stack_warp K S1 ctx key' = Some S2 \<Longrightarrow>
    call_run m t key S (Fun_exited # h) (n + (length (perf_events S2) - length (perf_events S1))) S2"
| call_foreign: "call_run m t key S h n S1 \<Longrightarrow> helper_laws K \<Longrightarrow> build_module K = m \<Longrightarrow> cur_tid K \<noteq> t \<Longrightarrow>
    program_step K S1 S2 \<Longrightarrow> call_run m t key S h n S2"

text \<open>The events that follow an entry at once.\<close>

definition entered :: "call_event list \<Rightarrow> nat" where
  "entered h = (case h of Fun_entered # _ \<Rightarrow> 1 | _ \<Rightarrow> 0)"

fun reportable :: "call_event list \<Rightarrow> nat" where
  "reportable [] = 0"
| "reportable (Fun_entered # h) = reportable h"
| "reportable (c # h) = reportable h + entered h"

lemma call_run_bound:
  assumes "call_run m t key S h n S'" and S: "wf_maps m S" and key: "key + 1 \<noteq> 0"
    and pt: "\<And>pa. bpf_map_lookup_elem (uretprobe_point_args S) key = Some pa \<Longrightarrow> enter_key pa = key + 1"
    and none: "snapshot S (UPROBE_ENTER + (key + 1)) t = None"
  shows "wf_maps m S' \<and> config_tables S' = config_tables S \<and> n \<le> reportable h \<and>
    n + kept S' (UPROBE_ENTER + (key + 1)) t \<le> reportable h + entered h"
  using assms(1)
proof induction
  case call_start
  then show ?case using S none by (simp add: kept_def)
next
  case (call_entered h n S1 K ctx S2)
  have K: "helper_laws K" "wf_maps (build_module K) S1" using call_entered by simp_all
  have "program_step K S1 S2" by (rule program_step.probe [OF call_entered.hyps(5)])
  then have "wf_maps m S2" "config_tables S2 = config_tables S1"
    using program_step_wf [OF K(1) _ K(2)] program_step_frame [OF K(1)] call_entered.hyps(3) by (auto simp: program_frame_def)
  then show ?case using call_entered.IH by (simp add: entered_def kept_def)
next
  case (call_returned h n S1 K ctx S2)
  have K: "helper_laws K" "wf_maps (build_module K) S1" using call_returned by simp_all
  have "program_step K S1 S2" by (rule program_step.uretprobe [OF call_returned.hyps(5)])
  then have "wf_maps m S2" "config_tables S2 = config_tables S1"
    using program_step_wf [OF K(1) _ K(2)] program_step_frame [OF K(1)] call_returned.hyps(3) by (auto simp: program_frame_def)
  moreover have "uretprobe_point_args S1 = uretprobe_point_args S" using call_returned.IH config_tablesD(3) by blast
  then have "pays (UPROBE_ENTER + (key + 1)) t S1 S2"
    using uretprobe_pays [OF K key pt call_returned.hyps(5)] call_returned.hyps(4) by simp
  ultimately show ?case
    using call_returned.IH uretprobe_grows [OF K call_returned.hyps(5)] by (auto simp: pays_def entered_def)
next
  case (call_exited h n S1 K key' ctx S2)
  have K: "helper_laws K" "wf_maps (build_module K) S1" using call_exited by simp_all
  have "program_step K S1 S2" by (rule program_step.probe [OF call_exited.hyps(7)])
  then have "wf_maps m S2" "config_tables S2 = config_tables S1"
    using program_step_wf [OF K(1) _ K(2)] program_step_frame [OF K(1)] call_exited.hyps(3) by (auto simp: program_frame_def)
  moreover have "uprobe_point_args S1 = uprobe_point_args S" using call_exited.IH by (simp add: config_tables_def)
  then have "pays (UPROBE_ENTER + (key + 1)) t S1 S2"
    using exit_point_pays [OF K key _ _ call_exited.hyps(7)] call_exited.hyps(4-6) by simp
  ultimately show ?case
    using call_exited.IH probe_grows [OF K call_exited.hyps(7)] by (auto simp: pays_def entered_def)
next
  case (call_foreign h n S1 K S2)
  have K: "helper_laws K" "wf_maps (build_module K) S1" using call_foreign by simp_all
  have "wf_maps m S2" "config_tables S2 = config_tables S1" "\<And>e. snapshot S2 e t = snapshot S1 e t"
    using program_step_wf [OF K(1) call_foreign.hyps(5) K(2)] program_step_frame [OF K(1) call_foreign.hyps(5)]
      call_foreign.hyps(3,4) by (auto simp: program_frame_def)
  then show ?case using call_foreign.IH by (simp add: kept_def)
qed

text \<open>A recursion of any depth.\<close>

lemma entered_returns: "entered (replicate d Fun_returned @ replicate k Fun_entered) = (if d = 0 \<and> k \<noteq> 0 then 1 else 0)"
  by (cases d; cases k) (simp_all add: entered_def)

lemma reportable_entries: "reportable (replicate k Fun_entered) = 0"
  by (induction k) simp_all

lemma reportable_recursion: "reportable (replicate d Fun_returned @ replicate k Fun_entered) \<le> 1"
proof -
  have "reportable (replicate d Fun_returned @ replicate k Fun_entered) = (if d \<noteq> 0 \<and> k \<noteq> 0 then 1 else 0)"
    by (induction d) (simp_all add: reportable_entries entered_returns)
  then show ?thesis by simp
qed

end
