(* ===== verification/Hook_Points.thy ===== *)
theory Hook_Points
  imports Op_Manager Nested_Calls
begin

unbundle bit_operations_syntax

text \<open>
  The hook points of user space, \<open>UprobeArgs\<close> of \<open>user/config/config_uprobe.go\<close>: the last part of
  \<open>Parse_HookPoint\<close> (\<open>config_module.go\<close>), which adds a point for every exit offset and marks the
  points whose registers are kept, and the tables made from them (\<open>update_stack_config\<close> and
  \<open>update_uretprobe_stack_config\<close> of \<open>user/module/stack.go\<close>). The facts say which keys the programs of
  \<open>src/src/stack.c\<close> find there, and when there is no program for a point. The points are those of a
  configuration in which none is bound to a system call (\<open>GetSyscall\<close> would take such a point out).
\<close>

subsection \<open>Points\<close>

record uprobe_point =
  PointIndex :: nat
  EnterKey :: u32
  PointOffset :: u64
  PointArgs :: "point_arg list"
  RetArg :: "point_arg option"
  ExitOffset :: u64
  KillSignal :: u32
  EnableUretprobe :: bool

text \<open>The entry is marked, and the exit point names it; its return value and exit are not set.\<close>

definition GetExitPoint :: "nat \<Rightarrow> uprobe_point \<Rightarrow> uprobe_point \<times> uprobe_point" where
  "GetExitPoint i p =
     (let p = p\<lparr>EnterKey := of_nat (PointIndex p + 1)\<rparr>
      in (p, \<lparr>PointIndex = i, EnterKey = EnterKey p, PointOffset = ExitOffset p, PointArgs = PointArgs p, RetArg = None,
              ExitOffset = 0, KillSignal = KillSignal p, EnableUretprobe = False\<rparr>))"

definition finish_point :: "uprobe_point list \<Rightarrow> nat \<Rightarrow> uprobe_point list" where
  "finish_point ps i =
     (let ps = (if ExitOffset (ps ! i) \<noteq> 0
                then let (p, q) = GetExitPoint (length ps) (ps ! i) in ps[i := p] @ [q] else ps)
      in if EnableUretprobe (ps ! i) then ps[i := (ps ! i)\<lparr>EnterKey := of_nat (PointIndex (ps ! i) + 1)\<rparr>] else ps)"

definition finish_points :: "uprobe_point list \<Rightarrow> uprobe_point list" where
  "finish_points ps = foldl finish_point ps [0..<length ps]"

text \<open>\<open>Parse_HookPoint\<close> takes at most six points, numbered from 0, with no key yet.\<close>

definition parsed_points :: "uprobe_point list \<Rightarrow> bool" where
  "parsed_points ps \<longleftrightarrow> length ps \<le> 6 \<and>
     (\<forall>i < length ps. PointIndex (ps ! i) = i \<and> EnterKey (ps ! i) = 0)"

subsection \<open>After the loop\<close>

text \<open>A point after \<open>i\<close> rounds: the first \<open>i\<close> are marked, those from \<open>n\<close> on are exits.\<close>

definition marks :: "uprobe_point \<Rightarrow> bool" where
  "marks p \<longleftrightarrow> ExitOffset p \<noteq> 0 \<or> EnableUretprobe p"

definition finished_to :: "uprobe_point list \<Rightarrow> nat \<Rightarrow> uprobe_point list \<Rightarrow> bool" where
  "finished_to ps i qs \<longleftrightarrow>
     length qs = length ps + length (filter (\<lambda>p. ExitOffset p \<noteq> 0) (take i ps)) \<and>
     (\<forall>j < length ps. qs ! j = (ps ! j)\<lparr>EnterKey := (if j < i \<and> marks (ps ! j) then of_nat (j + 1) else 0)\<rparr>) \<and>
     (\<forall>j. length ps \<le> j \<longrightarrow> j < length qs \<longrightarrow> PointIndex (qs ! j) = j \<and> \<not> EnableUretprobe (qs ! j) \<and>
        (\<exists>k < i. ExitOffset (ps ! k) \<noteq> 0 \<and> EnterKey (qs ! j) = of_nat (k + 1) \<and> PointOffset (qs ! j) = ExitOffset (ps ! k) \<and>
           PointArgs (qs ! j) = PointArgs (ps ! k)))"

lemma finished_start: "parsed_points ps \<Longrightarrow> finished_to ps 0 ps"
  by (simp add: finished_to_def parsed_points_def)

lemma finished_step:
  assumes ps: "parsed_points ps" and i: "i < length ps" and qs: "finished_to ps i qs"
  shows "finished_to ps (Suc i) (finish_point qs i)"
proof -
  have len: "length ps \<le> length qs" and qi: "qs ! i = ps ! i"
    using qs i ps by (auto simp: finished_to_def parsed_points_def)
  have idx: "PointIndex (ps ! i) = i" using ps i by (simp add: parsed_points_def)
  have take: "take (Suc i) ps = take i ps @ [ps ! i]" using i by (rule take_Suc_conv_app_nth)
  have li: "i < length qs" using i len by simp
  show ?thesis
  proof (cases "ExitOffset (ps ! i) = 0")
    case True
    then show ?thesis
      using qs i li qi idx by (auto simp: finish_point_def finished_to_def take marks_def nth_list_update less_Suc_eq)
  next
    case False
    define q where "q = snd (GetExitPoint (length qs) (ps ! i))"
    let ?p = "(ps ! i)\<lparr>EnterKey := of_nat (i + 1)\<rparr>"
    have res: "finish_point qs i = qs[i := ?p] @ [q]"
      using False li by (simp add: finish_point_def qi GetExitPoint_def Let_def q_def idx nth_append list_update_append)
    have q: "PointIndex q = length qs" "\<not> EnableUretprobe q" "EnterKey q = of_nat (i + 1)"
      "PointOffset q = ExitOffset (ps ! i)" "PointArgs q = PointArgs (ps ! i)"
      by (simp_all add: q_def GetExitPoint_def Let_def idx)
    show ?thesis
      unfolding finished_to_def
    proof (intro conjI allI impI)
      show "length (finish_point qs i) = length ps + length (filter (\<lambda>p. ExitOffset p \<noteq> 0) (take (Suc i) ps))"
        using qs False by (simp add: res finished_to_def take)
    next
      fix j assume j: "j < length ps"
      then show "finish_point qs i ! j = (ps ! j)\<lparr>EnterKey := (if j < Suc i \<and> marks (ps ! j) then of_nat (j + 1) else 0)\<rparr>"
      proof (cases "j = i")
        case True
        then show ?thesis using li False by (simp add: res nth_append marks_def)
      next
        case neq: False
        then have "finish_point qs i ! j = qs ! j" using j len by (simp add: res nth_append)
        then show ?thesis using qs j neq by (simp add: finished_to_def less_Suc_eq)
      qed
    next
      fix j assume j: "length ps \<le> j" "j < length (finish_point qs i)"
      consider "j < length qs" | "j = length qs" using j(2) by (auto simp: res less_Suc_eq)
      then have "finish_point qs i ! j = (if j = length qs then q else qs ! j)"
        using i j(1) by cases (simp_all add: res nth_append)
      then show "PointIndex (finish_point qs i ! j) = j" "\<not> EnableUretprobe (finish_point qs i ! j)"
        "\<exists>k < Suc i. ExitOffset (ps ! k) \<noteq> 0 \<and> EnterKey (finish_point qs i ! j) = of_nat (k + 1) \<and>
          PointOffset (finish_point qs i ! j) = ExitOffset (ps ! k) \<and> PointArgs (finish_point qs i ! j) = PointArgs (ps ! k)"
        using q False j qs by (auto simp: finished_to_def res less_Suc_eq)
    qed
  qed
qed

lemma finish_points_finished:
  assumes "parsed_points ps"
  shows "finished_to ps (length ps) (finish_points ps)"
proof -
  have "i \<le> length ps \<Longrightarrow> finished_to ps i (foldl finish_point ps [0..<i])" for i
  proof (induction i)
    case 0
    then show ?case by (simp add: finished_start [OF assms])
  next
    case (Suc i)
    then show ?case using finished_step [OF assms, of i] by simp
  qed
  then show ?thesis by (simp add: finish_points_def)
qed

text \<open>
  So a key is 0, the point's own (its registers are kept), or that of another point that keeps its
  registers; only the points of the configuration have return probes.
\<close>

lemma finished_keys:
  assumes ps: "parsed_points ps" and j: "j < length (finish_points ps)"
  shows "PointIndex (finish_points ps ! j) = j"
    and "EnableUretprobe (finish_points ps ! j) \<Longrightarrow> EnterKey (finish_points ps ! j) = of_nat (j + 1)"
    and "EnterKey (finish_points ps ! j) \<in> {0, of_nat (j + 1)} \<or>
      (\<exists>k < length ps. k \<noteq> j \<and> EnterKey (finish_points ps ! j) = of_nat (k + 1) \<and>
        EnterKey (finish_points ps ! k) = of_nat (k + 1))"
proof -
  let ?qs = "finish_points ps"
  note f = finish_points_finished [OF ps, unfolded finished_to_def]
  have own: "?qs ! k = (ps ! k)\<lparr>EnterKey := (if marks (ps ! k) then of_nat (k + 1) else 0)\<rparr>" if "k < length ps" for k
    using f that by simp
  have idx: "k < length ps \<Longrightarrow> PointIndex (ps ! k) = k" for k using ps by (simp add: parsed_points_def)
  show "PointIndex (?qs ! j) = j" using f own idx j by (cases "j < length ps") simp_all
  show "EnableUretprobe (?qs ! j) \<Longrightarrow> EnterKey (?qs ! j) = of_nat (j + 1)"
    using f own j by (cases "j < length ps") (auto simp: marks_def)
  show "EnterKey (?qs ! j) \<in> {0, of_nat (j + 1)} \<or>
      (\<exists>k < length ps. k \<noteq> j \<and> EnterKey (?qs ! j) = of_nat (k + 1) \<and> EnterKey (?qs ! k) = of_nat (k + 1))"
  proof (cases "j < length ps")
    case True
    then show ?thesis using own by simp
  next
    case False
    then obtain k where k: "k < length ps" "ExitOffset (ps ! k) \<noteq> 0" "EnterKey (?qs ! j) = of_nat (k + 1)"
      using f j by (meson not_less)
    then have "EnterKey (?qs ! k) = of_nat (k + 1)" using own by (simp add: marks_def)
    then show ?thesis using k False by auto
  qed
qed

text \<open>There are as many points more as exit offsets.\<close>

lemma length_finish_points:
  "parsed_points ps \<Longrightarrow> length (finish_points ps) = length ps + length (filter (\<lambda>p. ExitOffset p \<noteq> 0) ps)"
  using finish_points_finished by (simp add: finished_to_def)

subsection \<open>The tables of points\<close>

text \<open>
  \<open>configs\<close> are the results of \<open>GetConfig\<close> for the points in their order, \<open>uret_configs\<close> those of
  \<open>GetUretConfig\<close>; the name of a failing update is the panic.
\<close>

fun update_points :: "string \<Rightarrow> (nat \<times> point_args_t) list \<Rightarrow> (u32, point_args_t) hmap \<Rightarrow> (u32, point_args_t) hmap option" where
  "update_points n [] t = Some t"
| "update_points n ((i, pa) # xs) t =
     (let (err, t) = bpf_map_update_elem (capacity n) (of_nat i) pa t in if err \<noteq> 0 then None else update_points n xs t)"

definition update_stack_config ::
    "uprobe_point list \<Rightarrow> point_args_t list \<Rightarrow> (u32, point_args_t) hmap \<Rightarrow> (u32, point_args_t) hmap option" where
  "update_stack_config qs configs = update_points ''uprobe_point_args'' (zip (map PointIndex qs) configs)"

definition update_uretprobe_stack_config ::
    "uprobe_point list \<Rightarrow> point_args_t list \<Rightarrow> (u32, point_args_t) hmap \<Rightarrow> (u32, point_args_t) hmap option" where
  "update_uretprobe_stack_config qs uret_configs =
     update_points ''uretprobe_point_args'' (map snd (filter (EnableUretprobe \<circ> fst)
       (zip qs (zip (map PointIndex qs) uret_configs))))"

lemma update_points_lookup:
  "update_points n xs t = Some t' \<Longrightarrow> distinct (map (of_nat \<circ> fst) xs :: u32 list) \<Longrightarrow>
    (\<forall>(i, pa) \<in> set xs. bpf_map_lookup_elem t' (of_nat i) = Some pa) \<and>
    (\<forall>k. k \<notin> (of_nat \<circ> fst) ` set xs \<longrightarrow> bpf_map_lookup_elem t' k = bpf_map_lookup_elem t k)"
proof (induction xs arbitrary: t)
  case (Cons x xs)
  obtain i pa where x: "x = (i, pa)" by fastforce
  let ?t = "snd (bpf_map_update_elem (capacity n) (of_nat i) pa t)"
  have ok: "fst (bpf_map_update_elem (capacity n) (of_nat i) pa t) = 0" and rest: "update_points n xs ?t = Some t'"
    using Cons.prems(1) x by (auto simp: case_prod_unfold Let_def split: if_split_asm)
  have new: "(of_nat i :: u32) \<notin> (of_nat \<circ> fst) ` set xs" using Cons.prems(2) x by simp
  have IH: "\<forall>(i, pa) \<in> set xs. bpf_map_lookup_elem t' (of_nat i) = Some pa"
    "\<And>k. k \<notin> (of_nat \<circ> fst) ` set xs \<Longrightarrow> bpf_map_lookup_elem t' k = bpf_map_lookup_elem ?t k"
    using Cons.IH [OF rest] Cons.prems(2) by simp_all
  have "bpf_map_lookup_elem t' (of_nat i) = Some pa" using IH(2) [OF new] hm.update_same [OF ok] by simp
  moreover have "bpf_map_lookup_elem t' k = bpf_map_lookup_elem t k" if "k \<notin> (of_nat \<circ> fst) ` set (x # xs)" for k
    using that IH(2) [of k] x by (simp add: hm.update_other)
  ultimately show ?case using IH(1) x by simp
qed simp

lemma few_points:
  assumes "parsed_points ps"
  shows "length (finish_points ps) \<le> 12"
proof -
  have "length ps \<le> 6" using assms by (simp add: parsed_points_def)
  then show ?thesis
    using length_finish_points [OF assms] length_filter_le [of "\<lambda>p. ExitOffset p \<noteq> 0" ps] by linarith
qed

lemma point_numbers:
  assumes "parsed_points ps"
  shows "map PointIndex (finish_points ps) = [0..<length (finish_points ps)]"
  using finished_keys(1) [OF assms] by (intro nth_equalityI) simp_all

lemma small_of_nat: "i < 12 \<Longrightarrow> j < 12 \<Longrightarrow> (of_nat i :: u32) = of_nat j \<longleftrightarrow> i = j"
proof -
  assume "i < 12" "j < 12"
  then have "unat (of_nat i :: u32) = i" "unat (of_nat j :: u32) = j" by (simp_all add: unat_of_nat take_bit_nat_eq_self)
  then show ?thesis by metis
qed

lemma distinct_small: "distinct is' \<Longrightarrow> \<forall>i \<in> set is'. i < 12 \<Longrightarrow> distinct (map of_nat is' :: u32 list)"
  by (simp add: distinct_map inj_on_def small_of_nat)

text \<open>What the programs find under the key of a point.\<close>

lemma stack_table:
  assumes ps: "parsed_points ps" and qs: "qs = finish_points ps" and len: "length configs = length qs"
    and t: "update_stack_config qs configs [] = Some t" and j: "j < length qs"
  shows "bpf_map_lookup_elem t (of_nat j) = Some (configs ! j)"
proof -
  let ?xs = "zip (map PointIndex qs) configs"
  have idx: "map PointIndex qs = [0..<length qs]" using point_numbers [OF ps] qs by simp
  have "map fst ?xs = [0..<length qs]" using idx len by simp
  then have "distinct (map of_nat (map fst ?xs) :: u32 list)" using few_points [OF ps] qs by (intro distinct_small) auto
  then have d: "distinct (map (of_nat \<circ> fst) ?xs :: u32 list)" by simp
  have "(j, configs ! j) \<in> set ?xs" using j len idx by (auto simp: set_zip intro!: exI [of _ j])
  then show ?thesis using update_points_lookup [OF t [unfolded update_stack_config_def] d] by auto
qed

lemma uretprobe_table:
  assumes ps: "parsed_points ps" and qs: "qs = finish_points ps" and len: "length configs = length qs"
    and u: "update_uretprobe_stack_config qs configs [] = Some u"
    and found: "bpf_map_lookup_elem u k = Some pa"
  shows "\<exists>j < length qs. k = of_nat j \<and> EnableUretprobe (qs ! j) \<and> pa = configs ! j"
proof -
  let ?ys = "filter (EnableUretprobe \<circ> fst) (zip qs (zip (map PointIndex qs) configs))"
  have idx: "map PointIndex qs = [0..<length qs]" using point_numbers [OF ps] qs by simp
  have mem: "\<exists>j < length qs. i = j \<and> EnableUretprobe (qs ! j) \<and> pa' = configs ! j"
    if "(i, pa') \<in> set (map snd ?ys)" for i pa'
    using that len idx by (auto simp: set_zip)
  have "map (fst \<circ> snd) (zip qs (zip (map PointIndex qs) configs)) = [0..<length qs]"
    using idx len by (simp flip: map_map)
  then have "distinct (map (fst \<circ> snd) (zip qs (zip (map PointIndex qs) configs)))" by simp
  then have "distinct (map fst (map snd ?ys))" by (simp add: distinct_map_filter)
  moreover have "\<forall>i \<in> set (map fst (map snd ?ys)). i < 12"
  proof
    fix i assume "i \<in> set (map fst (map snd ?ys))"
    then obtain pa' where "(i, pa') \<in> set (map snd ?ys)" unfolding set_map [of fst] by (metis imageE prod.collapse)
    then show "i < 12" using mem few_points [OF ps] qs by fastforce
  qed
  ultimately have "distinct (map of_nat (map fst (map snd ?ys)) :: u32 list)" by (rule distinct_small)
  then have "distinct (map (of_nat \<circ> fst) (map snd ?ys) :: u32 list)" by (simp only: map_map comp_assoc)
  note upd = update_points_lookup [OF u [unfolded update_uretprobe_stack_config_def] this]
  have "k \<in> (of_nat \<circ> fst) ` set (map snd ?ys)"
  proof (rule ccontr)
    assume "k \<notin> (of_nat \<circ> fst) ` set (map snd ?ys)"
    then have "bpf_map_lookup_elem u k = bpf_map_lookup_elem [] k" using upd by blast
    then show False using found by (simp add: bpf_map_lookup_elem_def)
  qed
  then obtain x where x: "x \<in> set (map snd ?ys)" "k = of_nat (fst x)"
    unfolding image_comp [symmetric] image_iff bex_simps by blast
  have i: "(fst x, snd x) \<in> set (map snd ?ys)" using x(1) by (simp only: prod.collapse)
  then have "bpf_map_lookup_elem u k = Some (snd x)" using upd x by blast
  then show ?thesis using mem [OF i] x(2) found by auto
qed

lemma hook_tables:
  assumes ps: "parsed_points ps" and qs: "qs = finish_points ps"
    and configs: "list_all2 (\<lambda>q pa. enter_key pa = EnterKey q) qs configs" "list_all2 (\<lambda>q pa. enter_key pa = EnterKey q) qs uret_configs"
    and t: "update_stack_config qs configs [] = Some t" and u: "update_uretprobe_stack_config qs uret_configs [] = Some u"
    and j: "j < length qs"
  shows "\<exists>pa. bpf_map_lookup_elem t (of_nat j) = Some pa \<and>
      (enter_key pa \<in> {0, of_nat j + 1} \<or>
       (\<exists>k pa'. k \<noteq> j \<and> enter_key pa = of_nat k + 1 \<and> bpf_map_lookup_elem t (of_nat k) = Some pa' \<and> enter_key pa' = of_nat k + 1))"
    and "bpf_map_lookup_elem u (of_nat j) = Some pa \<Longrightarrow>
      enter_key pa = of_nat j + 1 \<and> (\<exists>pa'. bpf_map_lookup_elem t (of_nat j) = Some pa' \<and> enter_key pa' = enter_key pa)"
proof -
  have len: "length configs = length qs" "length uret_configs = length qs"
    using list_all2_lengthD [OF configs(1)] list_all2_lengthD [OF configs(2)] by simp_all
  have key: "enter_key (configs ! i) = EnterKey (qs ! i)" "enter_key (uret_configs ! i) = EnterKey (qs ! i)" if "i < length qs" for i
    using configs that by (simp_all add: list_all2_conv_all_nth)
  note found = stack_table [OF ps qs len(1) t]
  have small: "length ps \<le> length qs" using length_finish_points [OF ps] qs by simp
  show "\<exists>pa. bpf_map_lookup_elem t (of_nat j) = Some pa \<and>
      (enter_key pa \<in> {0, of_nat j + 1} \<or>
       (\<exists>k pa'. k \<noteq> j \<and> enter_key pa = of_nat k + 1 \<and> bpf_map_lookup_elem t (of_nat k) = Some pa' \<and> enter_key pa' = of_nat k + 1))"
    using finished_keys(3) [OF ps j [unfolded qs]]
  proof
    assume "EnterKey (finish_points ps ! j) \<in> {0, of_nat (j + 1)}"
    then show ?thesis using found [OF j] key [OF j] qs by (auto simp: add.commute)
  next
    assume "\<exists>k < length ps. k \<noteq> j \<and> EnterKey (finish_points ps ! j) = of_nat (k + 1) \<and> EnterKey (finish_points ps ! k) = of_nat (k + 1)"
    then obtain k where "k < length ps" and k': "k \<noteq> j" "EnterKey (qs ! j) = of_nat (k + 1)" "EnterKey (qs ! k) = of_nat (k + 1)"
      using qs by blast
    with small have k: "k < length qs" "k \<noteq> j" "EnterKey (qs ! j) = of_nat (k + 1)" "EnterKey (qs ! k) = of_nat (k + 1)"
      by simp_all
    then show ?thesis using found [OF j] found [OF k(1)] key [OF j] key [OF k(1)]
      by (intro exI [of _ "configs ! j"] conjI disjI2 exI [of _ k] exI [of _ "configs ! k"]) (simp_all add: add.commute)
  qed
  assume pa: "bpf_map_lookup_elem u (of_nat j) = Some pa"
  obtain i where i: "i < length qs" "(of_nat j :: u32) = of_nat i" "EnableUretprobe (qs ! i)" "pa = uret_configs ! i"
    using uretprobe_table [OF ps qs len(2) u pa] by blast
  then have "i = j" using small_of_nat [of j i] few_points [OF ps] qs j by simp
  then show "enter_key pa = of_nat j + 1 \<and> (\<exists>pa'. bpf_map_lookup_elem t (of_nat j) = Some pa' \<and> enter_key pa' = enter_key pa)"
  proof -
    have "EnableUretprobe (qs ! j)" and p: "pa = uret_configs ! j" using i(3,4) \<open>i = j\<close> by simp_all
    then have "EnterKey (qs ! j) = of_nat (j + 1)" unfolding qs by (intro finished_keys(2) [OF ps j [unfolded qs]])
    then have "EnterKey (qs ! j) = of_nat j + 1" by simp
    then show ?thesis using found [OF j] key [OF j] p by simp
  qed
qed

subsection \<open>Too many points\<close>

text \<open>
  There are six programs, and six entries in the tables. With six points in the configuration, as many
  as \<open>Parse_HookPoint\<close> takes, an exit offset gives a seventh, and the table cannot be filled.
\<close>

lemma capacity_point_args [simp]: "capacity ''uprobe_point_args'' = 6" "capacity ''uretprobe_point_args'' = 6"
  by (simp_all add: capacity_def maps_h_def BPF_HASH_def BPF_LRU_HASH_def BPF_MAP_def BPF_ARRAY_def BPF_PERF_OUTPUT_def
    BPF_PERCPU_ARRAY_def)

lemma update_points_room:
  "update_points n xs t = Some t' \<Longrightarrow> distinct (map (of_nat \<circ> fst) xs :: u32 list) \<Longrightarrow>
    (\<forall>k \<in> set (map (of_nat \<circ> fst) xs). map_of t k = None) \<Longrightarrow> length t \<le> capacity n \<Longrightarrow>
    length t + length xs \<le> capacity n"
proof (induction xs arbitrary: t)
  case (Cons x xs)
  obtain i pa where x: "x = (i, pa)" by fastforce
  let ?t = "snd (bpf_map_update_elem (capacity n) (of_nat i) pa t)"
  have fresh: "map_of t (of_nat i) = None" using Cons.prems(3) x by simp
  have ok: "fst (bpf_map_update_elem (capacity n) (of_nat i) pa t) = 0" and rest: "update_points n xs ?t = Some t'"
    using Cons.prems(1) x by (auto simp: case_prod_unfold Let_def split: if_split_asm)
  have new: "(of_nat i :: u32) \<notin> set (map (of_nat \<circ> fst) xs)" using Cons.prems(2) x by simp
  have t: "length t < capacity n" "?t = AList.update (of_nat i) pa t"
    using ok fresh by (simp_all add: bpf_map_update_elem_def const_simps split: if_split_asm)
  have "\<forall>k \<in> set (map (of_nat \<circ> fst) xs). map_of ?t k = None"
  proof
    fix k :: u32
    assume k: "k \<in> set (map (of_nat \<circ> fst) xs)"
    then have "k \<noteq> of_nat i" using new by blast
    then show "map_of ?t k = None" using k Cons.prems(3) t(2) by (auto simp: update_conv')
  qed
  from Cons.IH [OF rest _ this] show ?case
    using Cons.prems(2) t fresh by (simp add: length_AList_update)
qed simp

lemma exit_point_beyond_programs:
  assumes ps: "parsed_points ps" and six: "length ps = 6" and exit: "\<exists>p \<in> set ps. ExitOffset p \<noteq> 0"
    and len: "length configs = length (finish_points ps)"
  shows "nth_opt stack_point_keys (PointIndex (finish_points ps ! 6)) = None"
    and "update_stack_config (finish_points ps) configs [] = None"
proof -
  have "filter (\<lambda>p. ExitOffset p \<noteq> 0) ps \<noteq> []" using exit by (auto simp: filter_empty_conv)
  then have more: "6 < length (finish_points ps)" using length_finish_points [OF ps] six by simp
  show "nth_opt stack_point_keys (PointIndex (finish_points ps ! 6)) = None"
    using finished_keys(1) [OF ps more] by (simp add: stack_point_keys_def)
  let ?xs = "zip (map PointIndex (finish_points ps)) configs"
  have "map fst ?xs = [0..<length (finish_points ps)]" using point_numbers [OF ps] len by simp
  then have "distinct (map of_nat (map fst ?xs) :: u32 list)" using few_points [OF ps] by (intro distinct_small) auto
  then have d: "distinct (map (of_nat \<circ> fst) ?xs :: u32 list)" by simp
  show "update_stack_config (finish_points ps) configs [] = None"
  proof (rule ccontr)
    assume "update_stack_config (finish_points ps) configs [] \<noteq> None"
    then obtain t where "update_points ''uprobe_point_args'' ?xs [] = Some t" by (auto simp: update_stack_config_def)
    from update_points_room [OF this d] show False using more len by simp
  qed
qed

subsection \<open>From the configuration to the record\<close>

text \<open>
  The arguments of a configured point are those that user space reads back: the operations stored
  by \<open>GetConfig\<close> and \<open>update_op_list\<close> are the program that \<open>uprobe_args\<close> asks for.
\<close>

lemma configured_arg_program:
  assumes "wf_manager m" and "GetConfig (MAX_OP_COUNT (build_module K)) enter sig opss m = Some (pa, m')"
    and "map (map snd) opss = map GetOpList params"
    and "numbered (m' @ new)" and "length (m' @ new) \<le> capacity ''op_list''"
    and "mset kvs = mset (op_table (m' @ new))" and "update_op_list kvs [] = Some (op_list S0)"
    and "list_all2 (arg_ok K S0 r v) params ps"
    and "sum_list (map2 (arg_turns K r) params ps) < MAX_OP_COUNT (build_module K)"
    and "length (concat (args_frames K r params ps 0)) \<le> ARGS_ROOM"
  shows "arg_program K S0 pa r v params ps" and "enter_key pa = enter"
proof -
  obtain ops where "update_op_list kvs [] = Some ops" "program_at (build_module K) pa ops 0 (point_ops params)"
    "enter_key pa = enter"
    by (rule configured_point [OF assms(1-6)])
  then show "arg_program K S0 pa r v params ps" "enter_key pa = enter"
    using assms(7-10) by (simp_all add: arg_program_def)
qed

end
