(* ===== verification/Point_Config.thy ===== *)
theory Point_Config
  imports Point_Args
begin

text \<open>
  How user space makes the arguments of a point: from the words of the command line
  (\<open>ParseArgType\<close> and \<open>Parse_HookPoint\<close> of \<open>user/config/config_module.go\<close>) and from a file
  (\<open>GetPointArg\<close> of \<open>config_file.go\<close>, \<open>UpdateSyscallPoint\<close> and \<open>Parse_FileConfig\<close> of
  \<open>config_module.go\<close>). What an argument points to is saved if its two types agree (\<open>ReadMore\<close>), and is
  parsed if its type is that of the event; the facts say where these are the same
  (\<open>parsed_as\<close>), as the facts on records ask, and where they are not.
\<close>

subsection \<open>New arguments\<close>

text \<open>The default type is \<open>POINTER\<close>, whose value is the register.\<close>

definition NewUprobePointArg :: "nat \<Rightarrow> point_arg" where
  "NewUprobePointArg q = \<lparr>RegIndex = q, TypeIndex = Number, ExtraOpList = [], FilterIndexList = [],
     PointType = EBPF_UPROBE_ENTER, GroupType = 0, IsRet = False\<rparr>"

definition NewSyscallPointArg :: "nat \<Rightarrow> u32 \<Rightarrow> point_arg" where
  "NewSyscallPointArg q point_type = \<lparr>RegIndex = q, TypeIndex = Number, ExtraOpList = [], FilterIndexList = [],
     PointType = point_type, GroupType = 0, IsRet = False\<rparr>"

definition Clone_arg :: "point_arg \<Rightarrow> point_arg" where
  "Clone_arg a = a\<lparr>GroupType := 0, IsRet := False\<rparr>"

subsection \<open>The words of a type\<close>

text \<open>
  The cases of the two parsers: number types, \<open>ptr\<close>, \<open>str\<close>, \<open>std\<close>, arrays of numbers and of words with
  their number of elements, \<open>buf\<close> with no size, a size or a register, \<open>iovec\<close> (in a file), and any
  other name of a registered type.
\<close>

datatype type_word = Num_word | Ptr_word | Str_word | Std_word | Int_array u32 | Word_array u32
  | Buf_default | Buf_size u32 | Buf_register nat | Iovec_register nat | Type_named arg_type

fun word_type :: "type_word \<Rightarrow> arg_type" where
  "word_type Num_word = Number"
| "word_type Ptr_word = Number"
| "word_type Str_word = String_arg"
| "word_type Std_word = Std_string"
| "word_type (Int_array n) = Array (4 * n)"
| "word_type (Word_array n) = Array (8 * n)"
| "word_type Buf_default = Buffer_len 256"
| "word_type (Buf_size n) = Buffer_len n"
| "word_type (Buf_register v) = Buffer_reg v"
| "word_type (Iovec_register v) = Iovecs v"
| "word_type (Type_named ty) = ty"

text \<open>The words after which the group of the argument is set, on the command line and in a file.\<close>

fun command_group :: "type_word \<Rightarrow> bool" where
  "command_group Num_word = False"
| "command_group Ptr_word = False"
| "command_group w = True"

fun file_group :: "type_word \<Rightarrow> bool" where
  "file_group Num_word = False"
| "file_group Ptr_word = False"
| "file_group (Type_named ty) = False"
| "file_group w = True"

text \<open>An argument as it is written: its word, a star, a register, filters and the operations of its address.\<close>

record param_word =
  pw_word :: type_word
  pw_star :: bool
  pw_reg :: "nat option"
  pw_filters :: "u64 list"
  pw_ops :: "op_config_t list"

definition ToPointerType :: "point_arg \<Rightarrow> point_arg" where
  "ToPointerType a = a\<lparr>TypeIndex := Pointer_to (TypeIndex a)\<rparr>"

definition set_word :: "(type_word \<Rightarrow> bool) \<Rightarrow> param_word \<Rightarrow> point_arg \<Rightarrow> point_arg" where
  "set_word grouped w a =
     (let a = a\<lparr>TypeIndex := word_type (pw_word w)\<rparr>;
          a = (if grouped (pw_word w) then a\<lparr>GroupType := EBPF_UPROBE_ENTER\<rparr> else a);
          a = (if pw_star w then (ToPointerType a)\<lparr>GroupType := EBPF_UPROBE_ENTER\<rparr> else a)
      in a\<lparr>FilterIndexList := FilterIndexList a @ pw_filters w, ExtraOpList := ExtraOpList a @ pw_ops w\<rparr>)"

definition ParseArgType :: "param_word \<Rightarrow> point_arg \<Rightarrow> point_arg" where
  "ParseArgType w a = set_word command_group w a"

text \<open>The callers pass the three types of system calls and \<open>EBPF_UPROBE_ENTER\<close>; any other panics.\<close>

definition GetPointArg :: "nat \<Rightarrow> u32 \<Rightarrow> param_word \<Rightarrow> point_arg" where
  "GetPointArg i point_type w =
     (let q = (case pw_reg w of None \<Rightarrow> i | Some q \<Rightarrow> q)
      in set_word file_group w
           (if point_type = EBPF_UPROBE_ENTER then NewUprobePointArg q else NewSyscallPointArg q point_type))"

subsection \<open>The arguments of points\<close>

text \<open>A hook point of the command line; with a return probe its arguments are read at both ends.\<close>

fun hook_args :: "bool \<Rightarrow> nat \<Rightarrow> param_word list \<Rightarrow> point_arg list" where
  "hook_args uret i [] = []"
| "hook_args uret i (w # ws) =
     (let a = ParseArgType w (NewUprobePointArg i)
      in (if uret then a\<lparr>PointType := EBPF_SYS_ALL\<rparr> else a) # hook_args uret (i + 1) ws)"

definition hook_ret :: "param_word option \<Rightarrow> point_arg" where
  "hook_ret rw =
     (let a = (NewUprobePointArg 0)\<lparr>IsRet := True, PointType := EBPF_SYS_ALL\<rparr>
      in case rw of None \<Rightarrow> a | Some w \<Rightarrow> ParseArgType w a)"

text \<open>A hook point that is bound to a system call: its entry and exit arguments, without the return value.\<close>

definition UpdateSyscallPoint :: "bool \<Rightarrow> point_arg list \<Rightarrow> point_arg list \<times> point_arg list" where
  "UpdateSyscallPoint exit_read params =
     (let t = (if exit_read then EBPF_SYS_ALL else EBPF_SYS_ENTER)
      in (map (\<lambda>a. (Clone_arg a)\<lparr>GroupType := EBPF_SYS_ENTER, PointType := t\<rparr>) params,
          map (\<lambda>a. (Clone_arg a)\<lparr>GroupType := EBPF_SYS_EXIT, PointType := t\<rparr>) params))"

text \<open>
  The system calls of a file: name, \<open>more\<close> and word of each parameter. The return value ends the list;
  an unknown \<open>more\<close> panics.
\<close>

definition more_type :: "string \<Rightarrow> u32 option" where
  "more_type which =
     (if which = '''' \<or> which = ''enter'' then Some EBPF_SYS_ENTER else if which = ''exit'' then Some EBPF_SYS_EXIT
      else if which = ''all'' then Some EBPF_SYS_ALL else None)"

fun Parse_FileConfig ::
    "nat \<Rightarrow> (string \<times> string \<times> param_word) list \<Rightarrow> (point_arg list \<times> point_arg list \<times> point_arg option) option" where
  "Parse_FileConfig i [] = Some ([], [], None)"
| "Parse_FileConfig i ((name, which, w) # ps) =
     (if name = ''ret'' then Some ([], [], Some (GetPointArg (unat REG_ARM64_MAX) EBPF_SYS_EXIT w))
      else case more_type which of
        None \<Rightarrow> None
      | Some t \<Rightarrow>
          let a = GetPointArg i t w
          in map_option (\<lambda>(as, bs, ret). ((Clone_arg a)\<lparr>GroupType := EBPF_SYS_ENTER\<rparr> # as,
                 (Clone_arg a)\<lparr>GroupType := EBPF_SYS_EXIT\<rparr> # bs, ret)) (Parse_FileConfig (i + 1) ps))"

subsection \<open>What is saved is what is parsed\<close>

lemma set_word_fields:
  "PointType (set_word g w a) = PointType a" "IsRet (set_word g w a) = IsRet a"
  "TypeIndex (set_word g w a) = (if pw_star w then Pointer_to (word_type (pw_word w)) else word_type (pw_word w))"
  "GroupType (set_word g w a) = (if g (pw_word w) \<or> pw_star w then EBPF_UPROBE_ENTER else GroupType a)"
  by (simp_all add: set_word_def ToPointerType_def Let_def)

lemma command_ungrouped: "\<not> command_group w \<Longrightarrow> word_type w = Number"
  by (cases w) simp_all

lemma parsed_as_Cons:
  "parsed_as t (a # as) \<longleftrightarrow> (TypeIndex a = Number \<or> parse_more a t = ReadMore a) \<and> parsed_as t as"
  by (simp add: parsed_as_def)

lemma parsed_everywhere: "PointType a = EBPF_SYS_ALL \<Longrightarrow> parse_more a t = ReadMore a"
  by (simp add: parse_more_def ReadMore_def)

lemma hook_args_parsed:
  "parsed_as EBPF_UPROBE_ENTER (hook_args uret i ws)"
  "parsed_as EBPF_UPROBE_EXIT (hook_args True i ws)"
proof -
  show "parsed_as EBPF_UPROBE_ENTER (hook_args uret i ws)"
  proof (induction ws arbitrary: i)
    case (Cons w ws)
    let ?a = "ParseArgType w (NewUprobePointArg i)"
    have "TypeIndex ?a = Number \<or> parse_more ?a EBPF_UPROBE_ENTER = ReadMore ?a"
      using command_ungrouped [of "pw_word w"]
      by (auto simp: ParseArgType_def set_word_fields parse_more_def ReadMore_def NewUprobePointArg_def)
    then show ?case using Cons.IH parsed_everywhere by (auto simp: parsed_as_Cons Let_def)
  qed (simp add: parsed_as_def)
  show "parsed_as EBPF_UPROBE_EXIT (hook_args True i ws)"
    by (induction ws arbitrary: i) (simp_all add: parsed_as_Cons parsed_everywhere Let_def, simp add: parsed_as_def)
qed

lemma hook_ret_parsed: "parsed_as t [hook_ret rw]" and hook_ret_is_ret: "IsRet (hook_ret rw)"
proof -
  have "PointType (hook_ret rw) = EBPF_SYS_ALL"
    by (simp add: hook_ret_def ParseArgType_def set_word_fields Let_def split: option.split)
  then show "parsed_as t [hook_ret rw]" using parsed_everywhere by (simp add: parsed_as_def)
  show "IsRet (hook_ret rw)" by (simp add: hook_ret_def ParseArgType_def set_word_fields Let_def split: option.split)
qed

text \<open>With one type of event, being saved and being parsed are the same question.\<close>

lemma parsed_with_group:
  "PointType a = u \<Longrightarrow> GroupType a = t \<Longrightarrow> parse_more a t = ReadMore a"
  by (simp add: parse_more_def ReadMore_def)

lemma bound_args_parsed:
  "parsed_as EBPF_SYS_ENTER (fst (UpdateSyscallPoint exit_read params))"
  "parsed_as EBPF_SYS_EXIT (snd (UpdateSyscallPoint exit_read params))"
  by (simp_all add: UpdateSyscallPoint_def parsed_as_def list_all_iff parse_more_def ReadMore_def Let_def)

lemma file_syscall_parsed:
  "Parse_FileConfig i ps = Some (as, bs, ret) \<Longrightarrow>
    parsed_as EBPF_SYS_ENTER as \<and> parsed_as EBPF_SYS_EXIT bs \<and> length as = length bs"
proof (induction i ps arbitrary: as bs rule: Parse_FileConfig.induct)
  case (1 i)
  then show ?case by (simp add: parsed_as_def)
next
  case (2 i name which w ps)
  show ?case
  proof (cases "name = ''ret''")
    case True
    then show ?thesis using "2.prems" by (simp add: parsed_as_def)
  next
    case False
    obtain t where t: "more_type which = Some t" using "2.prems" False by (auto split: option.splits)
    let ?a = "GetPointArg i t w"
    obtain as' bs' where rest: "Parse_FileConfig (i + 1) ps = Some (as', bs', ret)"
      and abs: "as = (Clone_arg ?a)\<lparr>GroupType := EBPF_SYS_ENTER\<rparr> # as'" "bs = (Clone_arg ?a)\<lparr>GroupType := EBPF_SYS_EXIT\<rparr> # bs'"
      using "2.prems" False t by (auto simp: Let_def)
    from "2.IH" [OF False t refl rest] show ?thesis
      unfolding abs by (simp add: parsed_as_Cons parse_more_def ReadMore_def)
  qed
qed

subsection \<open>Structures of a uprobe point in a file\<close>

text \<open>
  For a registered type that is not one of the words, \<open>GetPointArg\<close> leaves the group unset, and only
  the points of system calls set it later: the value behind the argument is not saved but parsed.
\<close>

lemma named_type_unsaved:
  assumes "pw_word w = Type_named ty" and "\<not> pw_star w"
  shows "\<not> ReadMore (GetPointArg i EBPF_UPROBE_ENTER w)" and "parse_more (GetPointArg i EBPF_UPROBE_ENTER w) EBPF_UPROBE_ENTER"
    and "TypeIndex (GetPointArg i EBPF_UPROBE_ENTER w) = ty"
  using assms by (simp_all add: GetPointArg_def Let_def ReadMore_def parse_more_def set_word_fields NewUprobePointArg_def
    const_simps split: option.split)

lemma read_arg_nothing: "read_arg n [] = None"
  by (simp add: read_arg_def)

lemma parse_STRING_ARRAY_nothing: "0 < n \<Longrightarrow> parse_STRING_ARRAY n [] = None"
  by (cases n) (simp_all add: read_arg_nothing)

lemma type_parse_nothing: "ty \<noteq> Number \<Longrightarrow> type_parse ty p [] = None"
  by (cases ty) (simp_all add: read_payload_def parse_struct_def parse_ARRAY_def GetStructLen_def read_pointed_def parse_IOVEC_def parse_MSGHDR_def read_msghdr_def
    read_arg_nothing const_simps parse_STRING_ARRAY_nothing)

lemma named_type_panics:
  assumes w: "pw_word w = Type_named ty" "\<not> pw_star w" "ty \<noteq> Number"
  shows "parse_arg EBPF_UPROBE_ENTER (GetPointArg i EBPF_UPROBE_ENTER w)
    (concat (arg_frames K r (GetPointArg i EBPF_UPROBE_ENTER w) p j)) = None"
proof -
  have "read_arg 8 (j # le_bytes 8 p) = Some ((j, p), [])"
    using reg_codec.rd_enc [of "(j, p)" "[]"] by simp
  then show ?thesis
    using named_type_unsaved [OF w(1,2), of i] type_parse_nothing [OF w(3)] by (simp add: arg_frames_def parse_arg_def)
qed

end
