(* ===== verification/Example_Hooks.thy ===== *)
theory Example_Hooks
  imports Example_State Hook_Points Point_Config
begin

text \<open>
  Configurations of the example: a manager whose table is that of the example state and the
  operations of its uprobe point, a point with an exit and a return probe, six points, and a
  recursion of two calls.
\<close>

definition ex_manager :: "op_entry list" where
  "ex_manager =
     [\<lparr>o_name = ''SKIP'', o_index = 0, o_cfg = OPC_SKIP\<rparr>, \<lparr>o_name = ''READ_SAVE_REG'', o_index = 1, o_cfg = READ_SAVE_REG 0\<rparr>,
      \<lparr>o_name = ''MOVE_REG_VALUE'', o_index = 2, o_cfg = OPC_MOVE_REG_VALUE\<rparr>,
      \<lparr>o_name = ''READ_SAVE_REG'', o_index = 3, o_cfg = READ_SAVE_REG 31\<rparr>,
      \<lparr>o_name = ''SAVE_STRING'', o_index = 4, o_cfg = ROP OP_SAVE_STRING 0\<rparr>,
      \<lparr>o_name = ''READ_RET'', o_index = 5, o_cfg = ROP OP_READ_RET 0\<rparr>,
      \<lparr>o_name = ''SAVE_REG'', o_index = 6, o_cfg = ROP OP_SAVE_REG 0\<rparr>]"

definition ex_named_ops :: "(string \<times> op_config_t) list list" where
  "ex_named_ops =
     [[(''READ_SAVE_REG'', READ_SAVE_REG 0), (''MOVE_REG_VALUE'', OPC_MOVE_REG_VALUE), (''SAVE_STRING'', ROP OP_SAVE_STRING 0)],
      [(''READ_SAVE_REG'', READ_SAVE_REG 31), (''MOVE_REG_VALUE'', OPC_MOVE_REG_VALUE)]]"

lemma ex_manager_numbered: "numbered ex_manager"
  by (simp add: numbered_def ex_manager_def upt_rec)

lemma ex_manager_wf: "wf_manager ex_manager"
  using ex_manager_numbered by (simp add: wf_manager_def ex_manager_def)

lemma ex_manager_size: "length ex_manager \<le> capacity ''op_list''"
  by (simp add: ex_manager_def)

lemma ex_named_ops_of: "map (map snd) ex_named_ops = map GetOpList ex_params"
  by (simp add: ex_named_ops_def ex_params_def GetOpList_def const_simps)

lemma ex_config:
  "GetConfig (MAX_OP_COUNT MODULE_STACK) 0 0 ex_named_ops ex_manager = Some (ex_point MODULE_STACK 0, ex_manager)"
  unfolding ex_named_ops_def ex_manager_def ex_point_def by code_simp

lemma ex_op_table: "update_op_list (op_table ex_manager) [] = Some (op_list (ex_maps MODULE_STACK))"
  by (simp add: op_table_def ex_manager_def ex_maps_def bpf_map_update_elem_def)

text \<open>A point with an exit offset and a return probe.\<close>

definition ex_hook :: uprobe_point where
  "ex_hook = \<lparr>PointIndex = 0, EnterKey = 0, PointOffset = 0x100, PointArgs = ex_params, RetArg = None, ExitOffset = 0x200,
     KillSignal = 0, EnableUretprobe = True\<rparr>"

lemma ex_hook_parsed: "parsed_points [ex_hook]"
  by (simp add: parsed_points_def ex_hook_def)

lemma ex_hook_finished:
  "finish_points [ex_hook] = [ex_hook\<lparr>EnterKey := 1\<rparr>,
     \<lparr>PointIndex = 1, EnterKey = 1, PointOffset = 0x200, PointArgs = ex_params, RetArg = None, ExitOffset = 0,
      KillSignal = 0, EnableUretprobe = False\<rparr>]"
  by (simp add: finish_points_def finish_point_def GetExitPoint_def Let_def ex_hook_def)

lemma ex_hook_fields [simp]: "PointIndex ex_hook = 0" "EnableUretprobe ex_hook"
  by (simp_all add: ex_hook_def)

lemma ex_hook_tables:
  obtains t u
  where "update_stack_config (finish_points [ex_hook]) [ex_point MODULE_STACK 1, ex_point MODULE_STACK 1] [] = Some t"
    and "update_uretprobe_stack_config (finish_points [ex_hook]) [ex_ret_point MODULE_STACK 1, ex_ret_point MODULE_STACK 1] [] = Some u"
    and "bpf_map_lookup_elem u 0 = Some (ex_ret_point MODULE_STACK 1)"
  using that
  by (simp add: ex_hook_finished update_stack_config_def update_uretprobe_stack_config_def
      bpf_map_update_elem_def bpf_map_lookup_elem_def)

text \<open>Six points, the first with an exit offset.\<close>

definition ex_six_hooks :: "uprobe_point list" where
  "ex_six_hooks = map (\<lambda>i. \<lparr>PointIndex = i, EnterKey = 0, PointOffset = 0x100, PointArgs = [], RetArg = None,
     ExitOffset = (if i = 0 then 0x200 else 0), KillSignal = 0, EnableUretprobe = False\<rparr>) [0..<6]"

lemma ex_six_hooks_parsed: "parsed_points ex_six_hooks"
  by (simp add: parsed_points_def ex_six_hooks_def)

lemma ex_six_hooks_exits:
  "length ex_six_hooks = 6" "length (filter (\<lambda>p. ExitOffset p \<noteq> 0) ex_six_hooks) = 1"
  "\<exists>p \<in> set ex_six_hooks. ExitOffset p \<noteq> 0"
  by (simp_all add: ex_six_hooks_def upt_rec)

text \<open>Words without star, register and filters, and a system call with two parameters in a file.\<close>

definition ex_word :: "type_word \<Rightarrow> param_word" where
  "ex_word w = \<lparr>pw_word = w, pw_star = False, pw_reg = None, pw_filters = [], pw_ops = []\<rparr>"

lemma ex_word_simps [simp]: "pw_word (ex_word w) = w" "\<not> pw_star (ex_word w)"
  by (simp_all add: ex_word_def)

lemma ex_file_syscall:
  obtains enter_args exit_args ret
  where "Parse_FileConfig 0 [(''fd'', '''', ex_word Num_word), (''buf'', ''all'', ex_word (Buf_size 16)),
      (''ret'', '''', ex_word Num_word)] = Some (enter_args, exit_args, ret)"
    and "length enter_args = 2" and "ReadMore (exit_args ! 1)" and "\<not> ReadMore (exit_args ! 0)"
  using that by (simp add: more_type_def ReadMore_def Clone_arg_def GetPointArg_def set_word_def Let_def NewSyscallPointArg_def
    NewUprobePointArg_def const_simps split: option.splits)

text \<open>A function with a return probe that calls itself.\<close>

definition ex_recursive :: maps where
  "ex_recursive = (ex_maps MODULE_STACK)\<lparr>uretprobe_point_args := [(1, ex_ret_point MODULE_STACK 2)]\<rparr>"

lemma ex_recursive_simps:
  "wf_maps MODULE_STACK ex_recursive" "snapshot ex_recursive e t = None"
  "bpf_map_lookup_elem (uretprobe_point_args ex_recursive) 1 = Some (ex_ret_point MODULE_STACK 2)"
  using wf_ex_maps [of MODULE_STACK]
  by (simp_all add: ex_recursive_def wf_maps_def snapshot_def ex_maps_def bpf_map_lookup_elem_def)

lemma ex_recursion:
  obtains n S' where "call_run MODULE_STACK 2 1 ex_recursive [Fun_returned, Fun_returned, Fun_entered, Fun_entered] n S'"
proof -
  let ?m = MODULE_STACK and ?K = "ex_env MODULE_STACK"
  have enter: "\<exists>S2. probe_stack_warp ?K S1 64 1 = Some S2 \<and> wf_maps ?m S2"
    and return: "\<exists>S2. uretprobe_stack_warp ?K S1 64 1 = Some S2 \<and> wf_maps ?m S2" if "wf_maps ?m S1" for S1
    using probe_stack_warp_outcome [OF ex_env_laws [of ?m], of S1 64 1]
      uretprobe_stack_warp_outcome [OF ex_env_laws [of ?m], of S1 64 1] that by auto
  obtain S1 where S1: "probe_stack_warp ?K ex_recursive 64 1 = Some S1" "wf_maps ?m S1"
    using enter ex_recursive_simps(1) by blast
  obtain S2 where S2: "probe_stack_warp ?K S1 64 1 = Some S2" "wf_maps ?m S2" using enter S1(2) by blast
  obtain S3 where S3: "uretprobe_stack_warp ?K S2 64 1 = Some S3" "wf_maps ?m S3" using return S2(2) by blast
  obtain S4 where S4: "uretprobe_stack_warp ?K S3 64 1 = Some S4" "wf_maps ?m S4" using return S3(2) by blast
  note env = ex_env_laws [of ?m] ex_env_build [of ?m] ex_env_tid [of ?m]
  have "call_run ?m 2 1 ex_recursive [Fun_entered] 0 S1" by (rule call_entered [OF call_start env S1(1)])
  then have "call_run ?m 2 1 ex_recursive [Fun_entered, Fun_entered] 0 S2" by (rule call_entered [OF _ env S2(1)])
  note call_returned [OF call_returned [OF this env S3(1)] env S4(1)]
  then show ?thesis by (rule that)
qed

end
