(* ===== verification/Dirent_Exit.thy ===== *)
theory Dirent_Exit
  imports Syscall_Args Point_Config
begin

text \<open>
  The exit of \<open>getdents64\<close> as \<open>user/config/config_syscall_aarch64.json\<close> describes it: the program
  saves the 280 bytes of a directory entry, the parser it is registered with reads eight, and what
  follows the argument is read from the rest of the entry.
\<close>

subsection \<open>The description of the call\<close>

definition plain_word :: "type_word \<Rightarrow> param_word" where
  "plain_word w = \<lparr>pw_word = w, pw_star = False, pw_reg = None, pw_filters = [], pw_ops = []\<rparr>"

definition getdents64_params :: "(string \<times> string \<times> param_word) list" where
  "getdents64_params =
     [(''fd'', '''', plain_word Num_word),
      (''dirp'', ''exit'', plain_word (Type_named (Struct Dirent))),
      (''count'', '''', plain_word Num_word),
      (''ret'', '''', plain_word Num_word)]"

abbreviation exit_arg :: "nat \<Rightarrow> u32 \<Rightarrow> arg_type \<Rightarrow> point_arg" where
  "exit_arg q t ty \<equiv> \<lparr>RegIndex = q, TypeIndex = ty, ExtraOpList = [], FilterIndexList = [],
     PointType = t, GroupType = EBPF_SYS_EXIT, IsRet = False\<rparr>"

abbreviation getdents64_exit :: "point_arg list" where
  "getdents64_exit \<equiv> [exit_arg 0 EBPF_SYS_ENTER Number, exit_arg 1 EBPF_SYS_EXIT (Struct Dirent), exit_arg 2 EBPF_SYS_ENTER Number]"

lemma getdents64_parsed:
  obtains as ret where "Parse_FileConfig 0 getdents64_params = Some (as, getdents64_exit, ret)"
proof -
  have "\<exists>as ret. Parse_FileConfig 0 getdents64_params = Some (as, getdents64_exit, ret)"
    by (simp add: getdents64_params_def plain_word_def more_type_def GetPointArg_def set_word_def NewSyscallPointArg_def
      Clone_arg_def Let_def const_simps)
  then show ?thesis using that by blast
qed

lemma getdents64_read_more:
  "map ReadMore getdents64_exit = [False, True, False]" "map (\<lambda>a. parse_more a EBPF_SYS_EXIT) getdents64_exit = [False, True, False]"
  by (simp_all add: ReadMore_def parse_more_def const_simps)

subsection \<open>What user space makes of the record\<close>

lemma read_arg_word: "length ws = 8 \<Longrightarrow> read_arg 8 (i # ws @ rest) = Some ((i, le_word ws :: u64), rest)"
  by (simp add: read_arg_def read_le_def)

text \<open>The entry, cut where user space cuts it.\<close>

lemma dirent_cut:
  assumes "length b = 280"
  shows "drop 8 b = (b ! 8 # take 8 (drop 9 b)) @ (b ! 17 # take 8 (drop 18 b)) @ drop 26 b"
proof -
  have "drop 8 b = b ! 8 # drop 9 b" "drop 17 b = b ! 17 # drop 18 b"
    using assms Cons_nth_drop_Suc [of 8 b] Cons_nth_drop_Suc [of 17 b] by simp_all
  moreover have "drop 9 b = take 8 (drop 9 b) @ drop 17 b" "drop 18 b = take 8 (drop 18 b) @ drop 26 b"
    using append_take_drop_id [of 8 "drop 9 b"] append_take_drop_id [of 8 "drop 18 b"] by simp_all
  ultimately show ?thesis by (metis append.assoc append_Cons)
qed

lemma parse_getdents64:
  assumes K: "helper_laws K" and rd: "bytes_at K p 280 \<noteq> []" and rest: "length rest = 18"
  shows "\<exists>left. parse_args EBPF_SYS_EXIT getdents64_exit
      (concat [i # le_bytes 8 (x :: u64), j # le_bytes 8 p, payload_frame k (bytes_at K p 280)] @ rest) =
    Some ([Number_value x, Bytes_value p (take 8 (bytes_at K p 280)), Number_value (le_word (take 8 (drop 9 (bytes_at K p 280))))],
      (bytes_at K p 280 ! 17 # take 8 (drop 18 (bytes_at K p 280))) @ left) \<and> length left = 272"
proof -
  let ?b = "bytes_at K p 280"
  have len: "length ?b = 280" using length_bytes_at(2) [OF K, of p 280] rd by simp
  have hdr: "read_arg 8 ((i # le_bytes 8 (w :: u64)) @ bs) = Some ((i, w), bs)" for i w bs
    using reg_codec.rd_enc [of "(i, w)" bs] by simp
  have "read_arg 8 ((?b ! 8 # take 8 (drop 9 ?b)) @ bs) = Some ((?b ! 8, le_word (take 8 (drop 9 ?b)) :: u64), bs)" for bs
    using read_arg_word [of "take 8 (drop 9 ?b)" "?b ! 8" bs] len by simp
  note words = this hdr parse_dirent_bytes [OF K rd] dirent_cut [OF len]
  have "parse_args EBPF_SYS_EXIT getdents64_exit
      ((i # le_bytes 8 x) @ (j # le_bytes 8 p) @ payload_frame k ?b @ rest) =
    Some ([Number_value x, Bytes_value p (take 8 ?b), Number_value (le_word (take 8 (drop 9 ?b)))],
      (?b ! 17 # take 8 (drop 18 ?b)) @ drop 26 ?b @ rest)"
    using getdents64_read_more(2) words by (simp add: parse_arg_def del: append_Cons)
  moreover have "length (drop 26 ?b @ rest) = 272" using len rest by simp
  ultimately show ?thesis by (auto simp: simp del: append_Cons)
qed

lemma getdents64_runs:
  assumes prog: "program_at (build_module K) pa (op_list S) 0 (point_ops getdents64_exit)" and K: "helper_laws K"
  shows "runs_program K S pa r v getdents64_exit (map ((!) (ctx_regs_words r)) [0, 1, 2])"
proof -
  have more: "map ReadMore getdents64_exit = [False, True, False]" by (rule getdents64_read_more)
  have "length (bytes_at K (ctx_regs_words r ! 1) (saved_size Dirent)) \<le> 4096" by (rule length_bytes_at(1) [OF K])
  then have size: "length (concat (args_frames K r getdents64_exit (map ((!) (ctx_regs_words r)) [0, 1, 2]) 0)) \<le> ARGS_ROOM"
    using more by (simp add: arg_frames_def payload_frame_def ARGS_ROOM_def)
  have "list_all2 (arg_runs K S r v) getdents64_exit (map ((!) (ctx_regs_words r)) [0, 1, 2])"
    by (simp add: arg_runs_def arg_word_def filters_accept_def const_simps)
  moreover have "sum_list (map2 (arg_turns K r) getdents64_exit (map ((!) (ctx_regs_words r)) [0, 1, 2])) = 11"
    using more by (simp add: arg_turns_def)
  ultimately show ?thesis
    using prog size by (simp add: runs_program_def del: list_all2_Cons) (cases "build_module K"; simp)
qed

lemma getdents64_frames:
  "args_frames K r getdents64_exit (map ((!) (ctx_regs_words r)) [0, 1, 2]) 1 =
    [1 # le_bytes 8 (ctx_regs_words r ! 0), 2 # le_bytes 8 (ctx_regs_words r ! 1),
     payload_frame 3 (bytes_at K (ctx_regs_words r ! 1) 280), 4 # le_bytes 8 (ctx_regs_words r ! 2)]"
  using getdents64_read_more(1) by (simp add: arg_frames_def dirent_sizes)

lemma getdents64_exit_read:
  assumes K: "helper_laws K" and S0: "wf_maps (build_module K) S0" and tr: "sys_traced K S0 ctx S p f"
    and pa: "bpf_map_lookup_elem (sysexit_point_args S0) (syscall_number K (raw_pt_regs K ctx)) = Some pa"
    and cfg: "Parse_FileConfig 0 getdents64_params = Some (enter_args, exit_args, ret)"
    and prog: "program_at (build_module K) pa (op_list S0) 0 (point_ops exit_args)" and post: "no_pending S0"
    and snap: "snapshot S0 SYSCALL_ENTER (cur_tid K) = Some r" "flag r \<noteq> 1"
    and b: "b = bytes_at K (ctx_regs_words r ! 1) 280" "b \<noteq> []"
    and out: "\<forall>bs. perf_output_ret K bs = 0"
  shows "\<exists>S' bs c left. raw_syscalls_sys_exit K S0 ctx = Some S' \<and> perf_events S' = perf_events S0 @ [bs] \<and>
    read_sys_exit exit_args bs =
      Some ((c, syscall_number K (raw_pt_regs K ctx),
             [Number_value (ctx_regs_words r ! 0), Bytes_value (ctx_regs_words r ! 1) (take 8 b),
              Number_value (le_word (take 8 (drop 9 b)))], le_word (take 8 (drop 18 b))), left) \<and>
    length left = 272"
proof -
  let ?nr = "syscall_number K (raw_pt_regs K ctx)" and ?w = "(!) (ctx_regs_words r)"
  have args: "exit_args = getdents64_exit" using cfg getdents64_parsed by (metis Pair_inject option.inject)
  obtain S' bs c where S': "raw_syscalls_sys_exit K S0 ctx = Some S'" "perf_events S' = perf_events S0 @ [bs]" "wf_context c"
    and bs: "bs = context_bytes c @ concat ((0 # le_bytes 4 ?nr) # args_frames K r getdents64_exit (map ?w [0, 1, 2]) 1 @
      [(1 + of_nat (length (args_frames K r getdents64_exit (map ?w [0, 1, 2]) 1))) #
       le_bytes 8 (READ_KERN K 8 (raw_pt_regs K ctx + core_off K Regs_regs) :: u64)])"
    using sys_exit_record [OF K S0 tr pa getdents64_runs [OF prog [unfolded args] K] post snap out] by blast
  obtain rest where rest: "bs = context_bytes c @ (0 # le_bytes 4 ?nr) @ concat [1 # le_bytes 8 (?w 0), 2 # le_bytes 8 (?w 1),
      payload_frame 3 b] @ rest" "length rest = 18"
    using bs unfolding getdents64_frames b(1) by simp
  obtain left where parsed: "parse_args EBPF_SYS_EXIT getdents64_exit (concat [1 # le_bytes 8 (?w 0), 2 # le_bytes 8 (?w 1),
        payload_frame 3 b] @ rest) =
      Some ([Number_value (?w 0), Bytes_value (?w 1) (take 8 b), Number_value (le_word (take 8 (drop 9 b)))],
        (b ! 17 # take 8 (drop 18 b)) @ left)" "length left = 272"
    using parse_getdents64 [OF K b(2) [unfolded b(1)] rest(2)] b(1) by blast
  have "length b = 280" using length_bytes_at(2) [OF K, of "?w 1" 280] b by simp
  then have "read_arg 8 ((b ! 17 # take 8 (drop 18 b)) @ left) = Some ((b ! 17, le_word (take 8 (drop 18 b)) :: u64), left)"
    using read_arg_word [of "take 8 (drop 18 b)" "b ! 17" left] by simp
  moreover have "read_arg 4 ((0 # le_bytes 4 ?nr) @ tl) = Some ((0, ?nr), tl)" for tl
    using key_codec.rd_enc [of "(0, ?nr)" tl] by simp
  ultimately have "read_sys_exit exit_args bs = Some ((c, ?nr, [Number_value (?w 0), Bytes_value (?w 1) (take 8 b),
      Number_value (le_word (take 8 (drop 9 b)))], le_word (take 8 (drop 18 b))), left)"
    using context_codec.rd_enc [OF S'(3)] parsed(1) by (simp add: read_sys_exit_def args rest(1) del: append_Cons concat.simps parse_args.simps)
  with S'(1,2) parsed(2) show ?thesis by blast
qed

end
