(* ===== verification/Example_Dirent.thy ===== *)
theory Example_Dirent
  imports Dirent_Exit Example_Memory
begin

unbundle bit_operations_syntax

text \<open>
  A thread that leaves \<open>getdents64\<close>: the system call number is 61, the registers kept at its entry
  point at 280 readable bytes, each of them 65.
\<close>

definition ex_dirent_mem :: "u64 \<Rightarrow> u8 option" where
  "ex_dirent_mem a =
     (if a < 4 then Some (if a = 0 then 61 else 0) else if 0x2000 \<le> a \<and> a < 0x2118 then Some 65 else None)"

definition ex_dirent_env :: kenv where
  "ex_dirent_env = mem_kenv TARGET_ARCH_arm64 MODULE_SYSCALL 0x100000002 ex_dirent_mem"

definition ex_dirent_regs :: ctx_regs_t where
  "ex_dirent_regs = \<lparr>regs = [3, 0x2000, 280] @ replicate 28 0, sp = 8, pc = 9, flag = 0\<rparr>"

definition ex_dirent_maps :: maps where
  "ex_dirent_maps = (ex_ops_maps MODULE_SYSCALL (point_ops getdents64_exit))\<lparr>
     sysexit_point_args := [(61, ex_ops_point MODULE_SYSCALL)],
     ctx_regs_map := [(regs_key SYSCALL_ENTER 2, ex_dirent_regs)]\<rparr>"

lemma ex_dirent_env_simps [simp]:
  "helper_laws ex_dirent_env" "build_module ex_dirent_env = MODULE_SYSCALL" "build_arch ex_dirent_env = TARGET_ARCH_arm64"
  "mem_probe_read ex_dirent_env = mem_read ex_dirent_mem" "cur_tid ex_dirent_env = 2" "core_off ex_dirent_env k = 0"
  "perf_output_ret ex_dirent_env bs = 0" "get_current_task ex_dirent_env = 4096" "get_current_uid_gid ex_dirent_env = 0"
  by (simp_all add: ex_dirent_env_def, simp_all add: mem_kenv_def cur_tid_def)

lemma ex_unmapped:
  assumes "ex_dirent_mem (a + of_nat i) = None" and "i < n"
  shows "mem_read ex_dirent_mem a n = (-14, [])" and "READ_KERN ex_dirent_env n a = 0"
proof -
  show rd: "mem_read ex_dirent_mem a n = (-14, [])"
    using assms by (auto simp: mem_read_def Let_def list_all_iff)
  show "READ_KERN ex_dirent_env n a = 0" by (simp add: READ_KERN_def rd overlay_def)
qed

lemma ex_dirent_reads:
  "READ_KERN ex_dirent_env 8 4096 = (0 :: u64)" "READ_KERN ex_dirent_env 8 0 = (0 :: u64)" "READ_KERN ex_dirent_env 4 0 = (61 :: u32)"
  "READ_KERN ex_dirent_env 4 976 = (0 :: u32)" "raw_arg ex_dirent_env 64 0 = 0"
proof -
  show "READ_KERN ex_dirent_env 8 4096 = (0 :: u64)" by (rule ex_unmapped(2) [of _ 0]) (simp_all add: ex_dirent_mem_def)
  show "READ_KERN ex_dirent_env 8 0 = (0 :: u64)" by (rule ex_unmapped(2) [of _ 4]) (simp_all add: ex_dirent_mem_def)
  show "READ_KERN ex_dirent_env 4 976 = (0 :: u32)" by (rule ex_unmapped(2) [of _ 0]) (simp_all add: ex_dirent_mem_def)
  have "mem_read ex_dirent_mem 0 4 = (0, [61, 0, 0, 0])" by code_simp
  then show "READ_KERN ex_dirent_env 4 0 = (61 :: u32)" by (simp add: READ_KERN_def overlay_def)
  have "mem_read ex_dirent_mem 64 8 = (-14, [])" by (rule ex_unmapped(1) [of _ 0]) (simp_all add: ex_dirent_mem_def)
  then show "raw_arg ex_dirent_env 64 0 = 0" by (simp add: ex_dirent_env_def mem_kenv_def)
qed

lemma ex_dirent_number: "syscall_number ex_dirent_env (raw_pt_regs ex_dirent_env 64) = 61"
  by (simp add: syscall_number_def raw_pt_regs_def ex_dirent_reads)

lemma ex_dirent_pids: "get_task_ns_pid ex_dirent_env 4096 = 0" "get_task_ns_tgid ex_dirent_env 4096 = 0"
  by (simp_all add: get_task_ns_pid_def get_task_ns_tgid_def get_task_pid_vnr_def ex_dirent_reads sizeof_upid_def Let_def)

lemma ex_dirent_bytes: "bytes_at ex_dirent_env 0x2000 280 = replicate 280 65"
proof -
  have "ex_dirent_mem (0x2000 + of_nat i) = Some 65" if "i < 280" for i
  proof -
    have "unat (0x2000 + of_nat i :: u64) = 0x2000 + i" using that by (simp add: unat_word_ariths unat_of_nat)
    then show ?thesis using that by (simp add: ex_dirent_mem_def word_less_nat_alt word_le_nat_alt)
  qed
  then have "mem_read ex_dirent_mem 0x2000 280 = (0, map (\<lambda>_. 65) [0 ..< 280])"
    by (simp add: mem_read_def Let_def list_all_iff)
  then show ?thesis
    by (simp add: bytes_at_def struct_payload_def const_simps map_replicate_const)
qed

lemma ex_dirent_state:
  "wf_maps MODULE_SYSCALL ex_dirent_maps" "no_pending ex_dirent_maps" "perf_events ex_dirent_maps = []"
  "bpf_map_lookup_elem (sysexit_point_args ex_dirent_maps) 61 = Some (ex_ops_point MODULE_SYSCALL)"
  "snapshot ex_dirent_maps SYSCALL_ENTER 2 = Some ex_dirent_regs" "flag ex_dirent_regs \<noteq> 1"
  "ctx_regs_words ex_dirent_regs ! 0 = 3" "ctx_regs_words ex_dirent_regs ! 1 = 0x2000"
proof -
  show "wf_maps MODULE_SYSCALL ex_dirent_maps"
    using wf_ex_maps [of MODULE_SYSCALL] ex_ops_simps(1) [of MODULE_SYSCALL]
    by (simp add: wf_maps_def ex_dirent_maps_def ex_ops_maps_def ex_dirent_regs_def wf_ctx_regs_def ball_Un)
  show "no_pending ex_dirent_maps"
    using ex_ops_simps(2) [of MODULE_SYSCALL] by (simp add: ex_dirent_maps_def no_pending_def)
qed (simp_all add: ex_dirent_maps_def ex_ops_maps_def ex_maps_def bpf_map_lookup_elem_def snapshot_def ex_dirent_regs_def
  ctx_regs_words_def nth_append)

lemma ex_dirent_stored:
  "program_at MODULE_SYSCALL (ex_ops_point MODULE_SYSCALL) (op_list ex_dirent_maps) 0 (point_ops getdents64_exit)"
proof -
  have "length (point_ops getdents64_exit) = 9"
    by (simp add: point_ops_def GetOpList_def ReadMore_def const_simps)
  then have "program_at MODULE_SYSCALL (ex_ops_point MODULE_SYSCALL)
      (op_list (ex_ops_maps MODULE_SYSCALL (point_ops getdents64_exit))) 0 (point_ops getdents64_exit)"
    by (intro ex_ops_stored) simp
  then show ?thesis by (simp add: ex_dirent_maps_def)
qed

lemma ex_dirent_traced:
  obtains S p where "sys_traced ex_dirent_env ex_dirent_maps 64 S p \<lparr>is_32bit = 0, trace_mode = TRACE_ALL,
     trace_uid_group = GROUP_ROOT, signal = 0, tsignal = 0\<rparr>"
proof -
  obtain S p where ini: "init_program_data ex_dirent_env ex_dirent_maps 64 = (S, Some p)"
    and cfg: "pd_config p = \<lparr>stackplz_pid = 99, thread_whitelist = 0\<rparr>"
    by (auto simp: init_program_data_def init_context_def Let_def ex_dirent_maps_def ex_ops_maps_def ex_maps_def
      array_lookup_elem_def nth_opt_def ex_dirent_env_def mem_kenv_def split: prod.split)
  have frame: "S = ex_dirent_maps\<lparr>event_data_map := event_data_map S\<rparr>"
    using init_program_data_frame [of ex_dirent_env ex_dirent_maps 64] ini by simp
  have ctx: "pid (ev_context (pd_event p)) = 0" "uid (ev_context (pd_event p)) = 0"
    using init_program_data_context [OF ini] ex_dirent_pids by simp_all
  have "should_trace S p"
    using cfg ctx by (subst frame) (simp add: should_trace_def Let_def ex_dirent_maps_def ex_ops_maps_def ex_maps_def
      trace_by_id_def in_common_list_def bpf_map_lookup_elem_def trace_by_group_def in_group_def const_simps)
  moreover have "get_current_task ex_dirent_env \<noteq> 0" "\<not> wrong_bitness ex_dirent_env"
    by (simp_all add: wrong_bitness_def) (simp add: ex_dirent_env_def mem_kenv_def)
  moreover have "bpf_map_lookup_elem (common_filter ex_dirent_maps) 0 = Some \<lparr>is_32bit = 0, trace_mode = TRACE_ALL,
      trace_uid_group = GROUP_ROOT, signal = 0, tsignal = 0\<rparr>" "common_list ex_dirent_maps = []"
    by (simp_all add: ex_dirent_maps_def ex_ops_maps_def)
  ultimately show ?thesis
    using ini that by (auto simp: sys_traced_def syscall_listed_def in_common_list_def bpf_map_lookup_elem_def [of "[]"] const_simps)
qed

end
