(* ===== verification/Stale_Context.thy ===== *)
theory Stale_Context
  imports Probe Reader_Programs
begin

unbundle bit_operations_syntax

text \<open>
  What the reader's context still holds when the next event starts. \<open>sizeof(op_ctx)\<close> is the size of
  the pointer, so the clearing covers the first eight bytes of the structure and no more; a
  post-operation that was left pending runs at the start of the next event.
\<close>

lemma cleared_fields:
  "covered_fields sizeof_op_ctx_pointer op_ctx_layout =
    [''save_index'', ''reg_index'', ''loop_count'', ''break_count'', ''apply_filter'', ''skip_flag'',
     ''match_whitelist'', ''match_blacklist'']"
  "touched_fields sizeof_op_ctx_pointer op_ctx_layout = covered_fields sizeof_op_ctx_pointer op_ctx_layout"
  by (simp_all add: layout_defs const_simps)

lemma start_op_ctx_stale:
  "post_code (start_op_ctx v i c) = post_code c" "reg_value (start_op_ctx v i c) = reg_value c"
  "read_addr (start_op_ctx v i c) = read_addr c" "read_len (start_op_ctx v i c) = read_len c"
  "pointer_value (start_op_ctx v i c) = pointer_value c" "tmp_value (start_op_ctx v i c) = tmp_value c"
  "str_len (start_op_ctx v i c) = str_len c" "loop_index (start_op_ctx v i c) = loop_index c"
  by (simp_all add: start_op_ctx_def memset_op_ctx_def)

lemma start_op_ctx_fresh:
  "save_index (start_op_ctx v i c) = i" "reg_0 (start_op_ctx v i c) = v" "op_key_index (start_op_ctx v i c) = 0"
  "loop_count (start_op_ctx v i c) = 0" "break_count (start_op_ctx v i c) = 0"
  "match_blacklist (start_op_ctx v i c) = 0" "apply_filter (start_op_ctx v i c) = 0"
  "match_whitelist (start_op_ctx v i c) = 0" "skip_flag (start_op_ctx v i c) = 0"
  by (simp_all add: start_op_ctx_def memset_op_ctx_def)

text \<open>A pending \<open>OP_SAVE_REG\<close> and a point without operations: the old register value goes out.\<close>

lemma stale_save_reg_runs:
  assumes ops: "bpf_map_lookup_elem (op_list S) 0 = Some OPC_SKIP"
    and pa: "wf_point_args (build_module K) pa" "op_key_list pa ! 0 = 0"
    and stale: "post_code c = op_num OP_SAVE_REG" and off: "unat (buf_off e) \<le> 31889"
  shows "\<exists>st'. read_args K pa r \<lparr>rs_maps = S, rs_event = e, rs_ctx = start_op_ctx v i c\<rparr> = Some st' \<and>
    appended e (rs_event st') [i # le_bytes 8 (reg_value c)] \<and> skip_flag (rs_ctx st') = 0"
proof -
  let ?st = "\<lparr>rs_maps = S, rs_event = e, rs_ctx = start_op_ctx v i c\<rparr>"
  let ?c1 = "(start_op_ctx v i c)\<lparr>op_code := op_num OP_SAVE_REG, post_code := op_num OP_SKIP\<rparr>"
  let ?st1 = "save_u64 K (reg_value c) (?st\<lparr>rs_ctx := ?c1\<rparr>)"
  obtain n where n: "MAX_OP_COUNT (build_module K) = Suc (Suc n)"
    by (cases "build_module K") (simp_all add: numeral_eq_Suc)
  have fetch: "fetch (build_module K) (op_list (rs_maps ?st)) pa (Some OPC_SKIP) (rs_ctx ?st) = Fetched OPC_SKIP ?c1"
    using stale by (simp add: fetch_def start_op_ctx_stale)
  have exec: "exec_code K r OPC_SKIP (?st\<lparr>rs_ctx := ?c1\<rparr>) = (?st1, Next)"
    by (simp add: exec_code_num [where oc = OP_SAVE_REG] op_save_reg_def start_op_ctx_stale)
  have first: "read_loop K pa r (Suc (Suc n)) (Some OPC_SKIP) ?st = read_loop K pa r (Suc n) (Some OPC_SKIP) ?st1"
    by (rule read_loop_turn [OF fetch _ exec]) (simp_all add: save_u64_def start_op_ctx_fresh)
  have at1: "at_cfg K pa ?st1 0"
    using pa(1) by (simp add: at_cfg_def save_u64_def start_op_ctx_fresh)
  have "program_at (build_module K) pa (op_list (rs_maps ?st1)) 0 [OPC_SKIP]"
    using ops pa(2) by (simp add: save_u64_def)
  note last = read_loop_skip [OF at1 this, of r n "Some OPC_SKIP"]
  have "appended e (rs_event ?st1) [i # le_bytes 8 (reg_value c)]"
    using save_u64_commits [OF off] by (simp add: save_u64_def start_op_ctx_fresh)
  then show ?thesis
    using first last ops n
    by (simp add: read_args_def OPC_SKIP_def map_ctx_def skip_decision_def save_u64_def start_op_ctx_fresh)
qed

end
