(* ===== verification/Helper_Decls.thy ===== *)
theory Helper_Decls
  imports Main
begin

text \<open>
  The helper functions as \<open>src/src/bpf/bpf_helper_defs.h\<close> declares them. Each declaration is a pointer
  to a constant address, the number of the helper, with a return type and typed parameters; the
  comment before it documents its result and names the error codes and the constants it uses. A
  \<open>helper_decl\<close> has all of these: \<open>h_result\<close> is the kind of result of the part \<open>Returns\<close> of the
  comment, \<open>h_errors\<close> and \<open>h_consts\<close> the names in the order of their first mention.
  \<open>bpf_func_id\<close> is the numbering of the kernel headers the programs are built against,
  \<open>src/src/vmlinux_510.h\<close>.
\<close>

text \<open>A pointer type is spelled by the type it points to, with its qualifier.\<close>

datatype c_type = C_void | C_ptr string | C_u16 | C_u32 | C_u64 | C_s32 | C_s64 | C_int | C_long | C_ulong
  | C_be16 | C_wsum | C_varargs

text \<open>
  The documented results: 0 or a negative error; a positive number or a negative error; a number
  that is not negative or a negative error; a pointer or \<open>NULL\<close>; a pointer; a value; a value with 0 for
  its absence; always 0; nothing; the verdict on a packet; a test; and those of no common shape.
\<close>

datatype helper_result = Zero_or_error | Positive_or_error | Count_or_error | Pointer_or_null | Pointer
  | Value | Value_or_zero | Always_zero | No_result | Verdict | Test_result | Other_result

datatype helper_decl =
  Helper (h_name: string) (h_ret: c_type) (h_params: "(c_type \<times> string) list") (h_id: nat)
    (h_result: helper_result) (h_errors: "string list") (h_consts: "string list")

definition helper_decls_1 :: "helper_decl list" where
  "helper_decls_1 =
    [Helper ''bpf_map_lookup_elem'' (C_ptr ''void'') [(C_ptr ''void'', ''map''), (C_ptr ''const void'', ''key'')] 1
       Pointer_or_null [] [],
     Helper ''bpf_map_update_elem'' C_long [(C_ptr ''void'', ''map''), (C_ptr ''const void'', ''key''), (C_ptr ''const void'', ''value''), (C_u64, ''flags'')] 2
       Zero_or_error [] [''BPF_NOEXIST'', ''BPF_EXIST'', ''BPF_ANY'', ''BPF_MAP_TYPE_ARRAY'', ''BPF_MAP_TYPE_PERCPU_ARRAY''],
     Helper ''bpf_map_delete_elem'' C_long [(C_ptr ''void'', ''map''), (C_ptr ''const void'', ''key'')] 3
       Zero_or_error [] [],
     Helper ''bpf_probe_read'' C_long [(C_ptr ''void'', ''dst''), (C_u32, ''size''), (C_ptr ''const void'', ''unsafe_ptr'')] 4
       Zero_or_error [] [],
     Helper ''bpf_ktime_get_ns'' C_u64 [] 5
       Value [] [],
     Helper ''bpf_trace_printk'' C_long [(C_ptr ''const char'', ''fmt''), (C_u32, ''fmt_size''), (C_varargs, '''')] 6
       Count_or_error [''EINVAL''] [],
     Helper ''bpf_get_prandom_u32'' C_u32 [] 7
       Value [] []]"

definition helper_decls_2 :: "helper_decl list" where
  "helper_decls_2 =
    [Helper ''bpf_get_smp_processor_id'' C_u32 [] 8
       Value [] [],
     Helper ''bpf_skb_store_bytes'' C_long [(C_ptr ''struct __sk_buff'', ''skb''), (C_u32, ''offset''), (C_ptr ''const void'', ''from''), (C_u32, ''len''), (C_u64, ''flags'')] 9
       Zero_or_error [] [''BPF_F_RECOMPUTE_CSUM'', ''BPF_F_INVALIDATE_HASH''],
     Helper ''bpf_l3_csum_replace'' C_long [(C_ptr ''struct __sk_buff'', ''skb''), (C_u32, ''offset''), (C_u64, ''from''), (C_u64, ''to''), (C_u64, ''size'')] 10
       Zero_or_error [] [],
     Helper ''bpf_l4_csum_replace'' C_long [(C_ptr ''struct __sk_buff'', ''skb''), (C_u32, ''offset''), (C_u64, ''from''), (C_u64, ''to''), (C_u64, ''flags'')] 11
       Zero_or_error [] [''BPF_F_MARK_MANGLED_0'', ''BPF_F_MARK_ENFORCE'', ''BPF_F_PSEUDO_HDR''],
     Helper ''bpf_tail_call'' C_long [(C_ptr ''void'', ''ctx''), (C_ptr ''void'', ''prog_array_map''), (C_u32, ''index'')] 12
       Zero_or_error [] [''BPF_MAP_TYPE_PROG_ARRAY'']]"

definition helper_decls_3 :: "helper_decl list" where
  "helper_decls_3 =
    [Helper ''bpf_clone_redirect'' C_long [(C_ptr ''struct __sk_buff'', ''skb''), (C_u32, ''ifindex''), (C_u64, ''flags'')] 13
       Zero_or_error [] [''BPF_F_INGRESS''],
     Helper ''bpf_get_current_pid_tgid'' C_u64 [] 14
       Value [] [],
     Helper ''bpf_get_current_uid_gid'' C_u64 [] 15
       Value [] [],
     Helper ''bpf_get_current_comm'' C_long [(C_ptr ''void'', ''buf''), (C_u32, ''size_of_buf'')] 16
       Zero_or_error [] [],
     Helper ''bpf_get_cgroup_classid'' C_u32 [(C_ptr ''struct __sk_buff'', ''skb'')] 17
       Value_or_zero [] [],
     Helper ''bpf_skb_vlan_push'' C_long [(C_ptr ''struct __sk_buff'', ''skb''), (C_be16, ''vlan_proto''), (C_u16, ''vlan_tci'')] 18
       Zero_or_error [] [],
     Helper ''bpf_skb_vlan_pop'' C_long [(C_ptr ''struct __sk_buff'', ''skb'')] 19
       Zero_or_error [] []]"

definition helper_decls_4 :: "helper_decl list" where
  "helper_decls_4 =
    [Helper ''bpf_skb_get_tunnel_key'' C_long [(C_ptr ''struct __sk_buff'', ''skb''), (C_ptr ''struct bpf_tunnel_key'', ''key''), (C_u32, ''size''), (C_u64, ''flags'')] 20
       Zero_or_error [] [''BPF_F_TUNINFO_IPV6''],
     Helper ''bpf_skb_set_tunnel_key'' C_long [(C_ptr ''struct __sk_buff'', ''skb''), (C_ptr ''struct bpf_tunnel_key'', ''key''), (C_u32, ''size''), (C_u64, ''flags'')] 21
       Zero_or_error [] [''BPF_F_TUNINFO_IPV6'', ''BPF_F_ZERO_CSUM_TX'', ''BPF_F_DONT_FRAGMENT'', ''BPF_F_SEQ_NUMBER''],
     Helper ''bpf_perf_event_read'' C_u64 [(C_ptr ''void'', ''map''), (C_u64, ''flags'')] 22
       Count_or_error [] [''BPF_MAP_TYPE_PERF_EVENT_ARRAY'', ''BPF_F_INDEX_MASK'', ''BPF_F_CURRENT_CPU'']]"

definition helper_decls_5 :: "helper_decl list" where
  "helper_decls_5 =
    [Helper ''bpf_redirect'' C_long [(C_u32, ''ifindex''), (C_u64, ''flags'')] 23
       Verdict [] [''BPF_F_INGRESS''],
     Helper ''bpf_get_route_realm'' C_u32 [(C_ptr ''struct __sk_buff'', ''skb'')] 24
       Value_or_zero [] [],
     Helper ''bpf_perf_event_output'' C_long [(C_ptr ''void'', ''ctx''), (C_ptr ''void'', ''map''), (C_u64, ''flags''), (C_ptr ''void'', ''data''), (C_u64, ''size'')] 25
       Zero_or_error [] [''BPF_MAP_TYPE_PERF_EVENT_ARRAY'', ''BPF_F_INDEX_MASK'', ''BPF_F_CURRENT_CPU''],
     Helper ''bpf_skb_load_bytes'' C_long [(C_ptr ''const void'', ''skb''), (C_u32, ''offset''), (C_ptr ''void'', ''to''), (C_u32, ''len'')] 26
       Zero_or_error [] []]"

definition helper_decls_6 :: "helper_decl list" where
  "helper_decls_6 =
    [Helper ''bpf_get_stackid'' C_long [(C_ptr ''void'', ''ctx''), (C_ptr ''void'', ''map''), (C_u64, ''flags'')] 27
       Count_or_error [] [''BPF_MAP_TYPE_STACK_TRACE'', ''BPF_F_SKIP_FIELD_MASK'', ''BPF_F_USER_STACK'', ''BPF_F_FAST_STACK_CMP'', ''BPF_F_REUSE_STACKID''],
     Helper ''bpf_csum_diff'' C_s64 [(C_ptr ''__be32'', ''from''), (C_u32, ''from_size''), (C_ptr ''__be32'', ''to''), (C_u32, ''to_size''), (C_wsum, ''seed'')] 28
       Count_or_error [] [],
     Helper ''bpf_skb_get_tunnel_opt'' C_long [(C_ptr ''struct __sk_buff'', ''skb''), (C_ptr ''void'', ''opt''), (C_u32, ''size'')] 29
       Value [] [],
     Helper ''bpf_skb_set_tunnel_opt'' C_long [(C_ptr ''struct __sk_buff'', ''skb''), (C_ptr ''void'', ''opt''), (C_u32, ''size'')] 30
       Zero_or_error [] [],
     Helper ''bpf_skb_change_proto'' C_long [(C_ptr ''struct __sk_buff'', ''skb''), (C_be16, ''proto''), (C_u64, ''flags'')] 31
       Zero_or_error [] []]"

definition helper_decls_7 :: "helper_decl list" where
  "helper_decls_7 =
    [Helper ''bpf_skb_change_type'' C_long [(C_ptr ''struct __sk_buff'', ''skb''), (C_u32, ''type'')] 32
       Zero_or_error [] [''BPF_F_INGRESS''],
     Helper ''bpf_skb_under_cgroup'' C_long [(C_ptr ''struct __sk_buff'', ''skb''), (C_ptr ''void'', ''map''), (C_u32, ''index'')] 33
       Other_result [] [''BPF_MAP_TYPE_CGROUP_ARRAY''],
     Helper ''bpf_get_hash_recalc'' C_u32 [(C_ptr ''struct __sk_buff'', ''skb'')] 34
       Value [] [''BPF_F_INVALIDATE_HASH''],
     Helper ''bpf_get_current_task'' C_u64 [] 35
       Pointer [] [],
     Helper ''bpf_probe_write_user'' C_long [(C_ptr ''void'', ''dst''), (C_ptr ''const void'', ''src''), (C_u32, ''len'')] 36
       Zero_or_error [] [],
     Helper ''bpf_current_task_under_cgroup'' C_long [(C_ptr ''void'', ''map''), (C_u32, ''index'')] 37
       Other_result [] [''BPF_MAP_TYPE_CGROUP_ARRAY''],
     Helper ''bpf_skb_change_tail'' C_long [(C_ptr ''struct __sk_buff'', ''skb''), (C_u32, ''len''), (C_u64, ''flags'')] 38
       Zero_or_error [] []]"

definition helper_decls_8 :: "helper_decl list" where
  "helper_decls_8 =
    [Helper ''bpf_skb_pull_data'' C_long [(C_ptr ''struct __sk_buff'', ''skb''), (C_u32, ''len'')] 39
       Zero_or_error [] [],
     Helper ''bpf_csum_update'' C_s64 [(C_ptr ''struct __sk_buff'', ''skb''), (C_wsum, ''csum'')] 40
       Count_or_error [] [],
     Helper ''bpf_set_hash_invalid'' C_void [(C_ptr ''struct __sk_buff'', ''skb'')] 41
       No_result [] [],
     Helper ''bpf_get_numa_node_id'' C_long [] 42
       Value [] [],
     Helper ''bpf_skb_change_head'' C_long [(C_ptr ''struct __sk_buff'', ''skb''), (C_u32, ''len''), (C_u64, ''flags'')] 43
       Zero_or_error [] [],
     Helper ''bpf_xdp_adjust_head'' C_long [(C_ptr ''struct xdp_md'', ''xdp_md''), (C_int, ''delta'')] 44
       Zero_or_error [] [],
     Helper ''bpf_probe_read_str'' C_long [(C_ptr ''void'', ''dst''), (C_u32, ''size''), (C_ptr ''const void'', ''unsafe_ptr'')] 45
       Positive_or_error [] []]"

definition helper_decls_9 :: "helper_decl list" where
  "helper_decls_9 =
    [Helper ''bpf_get_socket_cookie'' C_u64 [(C_ptr ''void'', ''ctx'')] 46
       Value_or_zero [] [],
     Helper ''bpf_get_socket_uid'' C_u32 [(C_ptr ''struct __sk_buff'', ''skb'')] 47
       Value [] [],
     Helper ''bpf_set_hash'' C_long [(C_ptr ''struct __sk_buff'', ''skb''), (C_u32, ''hash'')] 48
       Always_zero [] [],
     Helper ''bpf_setsockopt'' C_long [(C_ptr ''void'', ''bpf_socket''), (C_int, ''level''), (C_int, ''optname''), (C_ptr ''void'', ''optval''), (C_int, ''optlen'')] 49
       Zero_or_error [] [''BPF_PROG_TYPE_SOCK_OPS'', ''BPF_CGROUP_INET4_CONNECT'', ''BPF_CGROUP_INET6_CONNECT''],
     Helper ''bpf_skb_adjust_room'' C_long [(C_ptr ''struct __sk_buff'', ''skb''), (C_s32, ''len_diff''), (C_u32, ''mode''), (C_u64, ''flags'')] 50
       Zero_or_error [] [''BPF_F_ADJ_ROOM_NO_CSUM_RESET'', ''BPF_ADJ_ROOM_MAC'', ''BPF_ADJ_ROOM_NET'', ''BPF_F_ADJ_ROOM_FIXED_GSO'', ''BPF_F_ADJ_ROOM_ENCAP_L3_IPV4'', ''BPF_F_ADJ_ROOM_ENCAP_L3_IPV6'', ''BPF_F_ADJ_ROOM_ENCAP_L4_GRE'', ''BPF_F_ADJ_ROOM_ENCAP_L4_UDP'', ''BPF_F_ADJ_ROOM_ENCAP_L2'', ''BPF_F_ADJ_ROOM_ENCAP_L2_ETH'']]"

definition helper_decls_10 :: "helper_decl list" where
  "helper_decls_10 =
    [Helper ''bpf_redirect_map'' C_long [(C_ptr ''void'', ''map''), (C_u32, ''key''), (C_u64, ''flags'')] 51
       Verdict [] [''BPF_F_BROADCAST'', ''BPF_F_EXCLUDE_INGRESS''],
     Helper ''bpf_sk_redirect_map'' C_long [(C_ptr ''struct __sk_buff'', ''skb''), (C_ptr ''void'', ''map''), (C_u32, ''key''), (C_u64, ''flags'')] 52
       Verdict [] [''BPF_MAP_TYPE_SOCKMAP'', ''BPF_F_INGRESS''],
     Helper ''bpf_sock_map_update'' C_long [(C_ptr ''struct bpf_sock_ops'', ''skops''), (C_ptr ''void'', ''map''), (C_ptr ''void'', ''key''), (C_u64, ''flags'')] 53
       Zero_or_error [] [''BPF_NOEXIST'', ''BPF_EXIST'', ''BPF_ANY''],
     Helper ''bpf_xdp_adjust_meta'' C_long [(C_ptr ''struct xdp_md'', ''xdp_md''), (C_int, ''delta'')] 54
       Zero_or_error [] []]"

definition helper_decls_11 :: "helper_decl list" where
  "helper_decls_11 =
    [Helper ''bpf_perf_event_read_value'' C_long [(C_ptr ''void'', ''map''), (C_u64, ''flags''), (C_ptr ''struct bpf_perf_event_value'', ''buf''), (C_u32, ''buf_size'')] 55
       Zero_or_error [] [''BPF_MAP_TYPE_PERF_EVENT_ARRAY'', ''BPF_F_INDEX_MASK'', ''BPF_F_CURRENT_CPU''],
     Helper ''bpf_perf_prog_read_value'' C_long [(C_ptr ''struct bpf_perf_event_data'', ''ctx''), (C_ptr ''struct bpf_perf_event_value'', ''buf''), (C_u32, ''buf_size'')] 56
       Zero_or_error [] [],
     Helper ''bpf_getsockopt'' C_long [(C_ptr ''void'', ''bpf_socket''), (C_int, ''level''), (C_int, ''optname''), (C_ptr ''void'', ''optval''), (C_int, ''optlen'')] 57
       Zero_or_error [] [''BPF_PROG_TYPE_SOCK_OPS'', ''BPF_CGROUP_INET4_CONNECT'', ''BPF_CGROUP_INET6_CONNECT''],
     Helper ''bpf_override_return'' C_long [(C_ptr ''struct pt_regs'', ''regs''), (C_u64, ''rc'')] 58
       Always_zero [] []]"

definition helper_decls_12 :: "helper_decl list" where
  "helper_decls_12 =
    [Helper ''bpf_sock_ops_cb_flags_set'' C_long [(C_ptr ''struct bpf_sock_ops'', ''bpf_sock''), (C_int, ''argval'')] 59
       Other_result [''EINVAL''] [''BPF_PROG_TYPE_SOCK_OPS'', ''BPF_SOCK_OPS_RTO_CB_FLAG'', ''BPF_SOCK_OPS_RETRANS_CB_FLAG'', ''BPF_SOCK_OPS_STATE_CB_FLAG'', ''BPF_SOCK_OPS_RTT_CB_FLAG''],
     Helper ''bpf_msg_redirect_map'' C_long [(C_ptr ''struct sk_msg_md'', ''msg''), (C_ptr ''void'', ''map''), (C_u32, ''key''), (C_u64, ''flags'')] 60
       Verdict [] [''BPF_MAP_TYPE_SOCKMAP'', ''BPF_F_INGRESS''],
     Helper ''bpf_msg_apply_bytes'' C_long [(C_ptr ''struct sk_msg_md'', ''msg''), (C_u32, ''bytes'')] 61
       Always_zero [] [],
     Helper ''bpf_msg_cork_bytes'' C_long [(C_ptr ''struct sk_msg_md'', ''msg''), (C_u32, ''bytes'')] 62
       Always_zero [] []]"

definition helper_decls_13 :: "helper_decl list" where
  "helper_decls_13 =
    [Helper ''bpf_msg_pull_data'' C_long [(C_ptr ''struct sk_msg_md'', ''msg''), (C_u32, ''start''), (C_u32, ''end''), (C_u64, ''flags'')] 63
       Zero_or_error [] [''BPF_PROG_TYPE_SK_MSG''],
     Helper ''bpf_bind'' C_long [(C_ptr ''struct bpf_sock_addr'', ''ctx''), (C_ptr ''struct sockaddr'', ''addr''), (C_int, ''addr_len'')] 64
       Zero_or_error [] [],
     Helper ''bpf_xdp_adjust_tail'' C_long [(C_ptr ''struct xdp_md'', ''xdp_md''), (C_int, ''delta'')] 65
       Zero_or_error [] [],
     Helper ''bpf_skb_get_xfrm_state'' C_long [(C_ptr ''struct __sk_buff'', ''skb''), (C_u32, ''index''), (C_ptr ''struct bpf_xfrm_state'', ''xfrm_state''), (C_u32, ''size''), (C_u64, ''flags'')] 66
       Zero_or_error [] [],
     Helper ''bpf_get_stack'' C_long [(C_ptr ''void'', ''ctx''), (C_ptr ''void'', ''buf''), (C_u32, ''size''), (C_u64, ''flags'')] 67
       Count_or_error [] [''BPF_F_SKIP_FIELD_MASK'', ''BPF_F_USER_STACK'', ''BPF_F_USER_BUILD_ID'']]"

definition helper_decls_14 :: "helper_decl list" where
  "helper_decls_14 =
    [Helper ''bpf_skb_load_bytes_relative'' C_long [(C_ptr ''const void'', ''skb''), (C_u32, ''offset''), (C_ptr ''void'', ''to''), (C_u32, ''len''), (C_u32, ''start_header'')] 68
       Zero_or_error [] [''BPF_HDR_START_MAC'', ''BPF_HDR_START_NET''],
     Helper ''bpf_fib_lookup'' C_long [(C_ptr ''void'', ''ctx''), (C_ptr ''struct bpf_fib_lookup'', ''params''), (C_int, ''plen''), (C_u32, ''flags'')] 69
       Other_result [] [''BPF_FIB_LOOKUP_DIRECT'', ''BPF_FIB_LOOKUP_OUTPUT'', ''BPF_FIB_LKUP_RET_FRAG_NEEDED''],
     Helper ''bpf_sock_hash_update'' C_long [(C_ptr ''struct bpf_sock_ops'', ''skops''), (C_ptr ''void'', ''map''), (C_ptr ''void'', ''key''), (C_u64, ''flags'')] 70
       Zero_or_error [] [''BPF_NOEXIST'', ''BPF_EXIST'', ''BPF_ANY''],
     Helper ''bpf_msg_redirect_hash'' C_long [(C_ptr ''struct sk_msg_md'', ''msg''), (C_ptr ''void'', ''map''), (C_ptr ''void'', ''key''), (C_u64, ''flags'')] 71
       Verdict [] [''BPF_MAP_TYPE_SOCKHASH'', ''BPF_F_INGRESS''],
     Helper ''bpf_sk_redirect_hash'' C_long [(C_ptr ''struct __sk_buff'', ''skb''), (C_ptr ''void'', ''map''), (C_ptr ''void'', ''key''), (C_u64, ''flags'')] 72
       Verdict [] [''BPF_MAP_TYPE_SOCKHASH'', ''BPF_F_INGRESS'']]"

definition helper_decls_15 :: "helper_decl list" where
  "helper_decls_15 =
    [Helper ''bpf_lwt_push_encap'' C_long [(C_ptr ''struct __sk_buff'', ''skb''), (C_u32, ''type''), (C_ptr ''void'', ''hdr''), (C_u32, ''len'')] 73
       Zero_or_error [] [''BPF_LWT_ENCAP_SEG6'', ''BPF_LWT_ENCAP_SEG6_INLINE'', ''BPF_LWT_ENCAP_IP'', ''BPF_PROG_TYPE_LWT_IN'', ''BPF_PROG_TYPE_LWT_XMIT''],
     Helper ''bpf_lwt_seg6_store_bytes'' C_long [(C_ptr ''struct __sk_buff'', ''skb''), (C_u32, ''offset''), (C_ptr ''const void'', ''from''), (C_u32, ''len'')] 74
       Zero_or_error [] [],
     Helper ''bpf_lwt_seg6_adjust_srh'' C_long [(C_ptr ''struct __sk_buff'', ''skb''), (C_u32, ''offset''), (C_s32, ''delta'')] 75
       Zero_or_error [] [],
     Helper ''bpf_lwt_seg6_action'' C_long [(C_ptr ''struct __sk_buff'', ''skb''), (C_u32, ''action''), (C_ptr ''void'', ''param''), (C_u32, ''param_len'')] 76
       Zero_or_error [] [],
     Helper ''bpf_rc_repeat'' C_long [(C_ptr ''void'', ''ctx'')] 77
       Always_zero [] []]"

definition helper_decls_16 :: "helper_decl list" where
  "helper_decls_16 =
    [Helper ''bpf_rc_keydown'' C_long [(C_ptr ''void'', ''ctx''), (C_u32, ''protocol''), (C_u64, ''scancode''), (C_u32, ''toggle'')] 78
       Always_zero [] [],
     Helper ''bpf_skb_cgroup_id'' C_u64 [(C_ptr ''struct __sk_buff'', ''skb'')] 79
       Value_or_zero [] [],
     Helper ''bpf_get_current_cgroup_id'' C_u64 [] 80
       Value [] [],
     Helper ''bpf_get_local_storage'' (C_ptr ''void'') [(C_ptr ''void'', ''map''), (C_u64, ''flags'')] 81
       Pointer [] [''BPF_ATOMIC''],
     Helper ''bpf_sk_select_reuseport'' C_long [(C_ptr ''struct sk_reuseport_md'', ''reuse''), (C_ptr ''void'', ''map''), (C_ptr ''void'', ''key''), (C_u64, ''flags'')] 82
       Zero_or_error [] [''BPF_MAP_TYPE_REUSEPORT_SOCKARRAY''],
     Helper ''bpf_skb_ancestor_cgroup_id'' C_u64 [(C_ptr ''struct __sk_buff'', ''skb''), (C_int, ''ancestor_level'')] 83
       Value_or_zero [] []]"

definition helper_decls_17 :: "helper_decl list" where
  "helper_decls_17 =
    [Helper ''bpf_sk_lookup_tcp'' (C_ptr ''struct bpf_sock'') [(C_ptr ''void'', ''ctx''), (C_ptr ''struct bpf_sock_tuple'', ''tuple''), (C_u32, ''tuple_size''), (C_u64, ''netns''), (C_u64, ''flags'')] 84
       Pointer_or_null [] [],
     Helper ''bpf_sk_lookup_udp'' (C_ptr ''struct bpf_sock'') [(C_ptr ''void'', ''ctx''), (C_ptr ''struct bpf_sock_tuple'', ''tuple''), (C_u32, ''tuple_size''), (C_u64, ''netns''), (C_u64, ''flags'')] 85
       Pointer_or_null [] [],
     Helper ''bpf_sk_release'' C_long [(C_ptr ''void'', ''sock'')] 86
       Zero_or_error [] [],
     Helper ''bpf_map_push_elem'' C_long [(C_ptr ''void'', ''map''), (C_ptr ''const void'', ''value''), (C_u64, ''flags'')] 87
       Zero_or_error [] [''BPF_EXIST''],
     Helper ''bpf_map_pop_elem'' C_long [(C_ptr ''void'', ''map''), (C_ptr ''void'', ''value'')] 88
       Zero_or_error [] [],
     Helper ''bpf_map_peek_elem'' C_long [(C_ptr ''void'', ''map''), (C_ptr ''void'', ''value'')] 89
       Zero_or_error [] [],
     Helper ''bpf_msg_push_data'' C_long [(C_ptr ''struct sk_msg_md'', ''msg''), (C_u32, ''start''), (C_u32, ''len''), (C_u64, ''flags'')] 90
       Zero_or_error [] [''BPF_PROG_TYPE_SK_MSG'']]"

definition helper_decls_18 :: "helper_decl list" where
  "helper_decls_18 =
    [Helper ''bpf_msg_pop_data'' C_long [(C_ptr ''struct sk_msg_md'', ''msg''), (C_u32, ''start''), (C_u32, ''len''), (C_u64, ''flags'')] 91
       Zero_or_error [] [],
     Helper ''bpf_rc_pointer_rel'' C_long [(C_ptr ''void'', ''ctx''), (C_s32, ''rel_x''), (C_s32, ''rel_y'')] 92
       Always_zero [] [],
     Helper ''bpf_spin_lock'' C_long [(C_ptr ''struct bpf_spin_lock'', ''lock'')] 93
       Always_zero [] [''BPF_MAP_TYPE_HASH'', ''BPF_MAP_TYPE_ARRAY'', ''BPF_LD_ABS'', ''BPF_LD_IND'', ''BPF_MAP_LOOKUP_ELEM'', ''BPF_MAP_UPDATE_ELEM''],
     Helper ''bpf_spin_unlock'' C_long [(C_ptr ''struct bpf_spin_lock'', ''lock'')] 94
       Always_zero [] [],
     Helper ''bpf_sk_fullsock'' (C_ptr ''struct bpf_sock'') [(C_ptr ''struct bpf_sock'', ''sk'')] 95
       Pointer_or_null [] [],
     Helper ''bpf_tcp_sock'' (C_ptr ''struct bpf_tcp_sock'') [(C_ptr ''struct bpf_sock'', ''sk'')] 96
       Pointer_or_null [] [],
     Helper ''bpf_skb_ecn_set_ce'' C_long [(C_ptr ''struct __sk_buff'', ''skb'')] 97
       Test_result [] [],
     Helper ''bpf_get_listener_sock'' (C_ptr ''struct bpf_sock'') [(C_ptr ''struct bpf_sock'', ''sk'')] 98
       Pointer_or_null [] []]"

definition helper_decls_19 :: "helper_decl list" where
  "helper_decls_19 =
    [Helper ''bpf_skc_lookup_tcp'' (C_ptr ''struct bpf_sock'') [(C_ptr ''void'', ''ctx''), (C_ptr ''struct bpf_sock_tuple'', ''tuple''), (C_u32, ''tuple_size''), (C_u64, ''netns''), (C_u64, ''flags'')] 99
       Pointer_or_null [] [],
     Helper ''bpf_tcp_check_syncookie'' C_long [(C_ptr ''void'', ''sk''), (C_ptr ''void'', ''iph''), (C_u32, ''iph_len''), (C_ptr ''struct tcphdr'', ''th''), (C_u32, ''th_len'')] 100
       Zero_or_error [] [],
     Helper ''bpf_sysctl_get_name'' C_long [(C_ptr ''struct bpf_sysctl'', ''ctx''), (C_ptr ''char'', ''buf''), (C_ulong, ''buf_len''), (C_u64, ''flags'')] 101
       Count_or_error [''E2BIG''] [''BPF_F_SYSCTL_BASE_NAME''],
     Helper ''bpf_sysctl_get_current_value'' C_long [(C_ptr ''struct bpf_sysctl'', ''ctx''), (C_ptr ''char'', ''buf''), (C_ulong, ''buf_len'')] 102
       Count_or_error [''E2BIG'', ''EINVAL'', ''EIO''] [],
     Helper ''bpf_sysctl_get_new_value'' C_long [(C_ptr ''struct bpf_sysctl'', ''ctx''), (C_ptr ''char'', ''buf''), (C_ulong, ''buf_len'')] 103
       Count_or_error [''E2BIG'', ''EINVAL''] [],
     Helper ''bpf_sysctl_set_new_value'' C_long [(C_ptr ''struct bpf_sysctl'', ''ctx''), (C_ptr ''const char'', ''buf''), (C_ulong, ''buf_len'')] 104
       Zero_or_error [''E2BIG'', ''EINVAL''] []]"

definition helper_decls_20 :: "helper_decl list" where
  "helper_decls_20 =
    [Helper ''bpf_strtol'' C_long [(C_ptr ''const char'', ''buf''), (C_ulong, ''buf_len''), (C_u64, ''flags''), (C_ptr ''long'', ''res'')] 105
       Positive_or_error [''EINVAL'', ''ERANGE''] [],
     Helper ''bpf_strtoul'' C_long [(C_ptr ''const char'', ''buf''), (C_ulong, ''buf_len''), (C_u64, ''flags''), (C_ptr ''unsigned long'', ''res'')] 106
       Positive_or_error [''EINVAL'', ''ERANGE''] [],
     Helper ''bpf_sk_storage_get'' (C_ptr ''void'') [(C_ptr ''void'', ''map''), (C_ptr ''void'', ''sk''), (C_ptr ''void'', ''value''), (C_u64, ''flags'')] 107
       Pointer_or_null [] [''BPF_MAP_TYPE_SK_STORAGE'', ''BPF_SK_STORAGE_GET_F_CREATE''],
     Helper ''bpf_sk_storage_delete'' C_long [(C_ptr ''void'', ''map''), (C_ptr ''void'', ''sk'')] 108
       Zero_or_error [''ENOENT'', ''EINVAL''] [],
     Helper ''bpf_send_signal'' C_long [(C_u32, ''sig'')] 109
       Zero_or_error [''EBUSY'', ''EINVAL'', ''EPERM'', ''EAGAIN''] []]"

definition helper_decls_21 :: "helper_decl list" where
  "helper_decls_21 =
    [Helper ''bpf_tcp_gen_syncookie'' C_s64 [(C_ptr ''void'', ''sk''), (C_ptr ''void'', ''iph''), (C_u32, ''iph_len''), (C_ptr ''struct tcphdr'', ''th''), (C_u32, ''th_len'')] 110
       Other_result [''EINVAL'', ''ENOENT'', ''EOPNOTSUPP'', ''EPROTONOSUPPORT''] [],
     Helper ''bpf_skb_output'' C_long [(C_ptr ''void'', ''ctx''), (C_ptr ''void'', ''map''), (C_u64, ''flags''), (C_ptr ''void'', ''data''), (C_u64, ''size'')] 111
       Zero_or_error [] [''BPF_MAP_TYPE_PERF_EVENT_ARRAY'', ''BPF_F_INDEX_MASK'', ''BPF_F_CURRENT_CPU''],
     Helper ''bpf_probe_read_user'' C_long [(C_ptr ''void'', ''dst''), (C_u32, ''size''), (C_ptr ''const void'', ''unsafe_ptr'')] 112
       Zero_or_error [] [],
     Helper ''bpf_probe_read_kernel'' C_long [(C_ptr ''void'', ''dst''), (C_u32, ''size''), (C_ptr ''const void'', ''unsafe_ptr'')] 113
       Zero_or_error [] [],
     Helper ''bpf_probe_read_user_str'' C_long [(C_ptr ''void'', ''dst''), (C_u32, ''size''), (C_ptr ''const void'', ''unsafe_ptr'')] 114
       Positive_or_error [] [],
     Helper ''bpf_probe_read_kernel_str'' C_long [(C_ptr ''void'', ''dst''), (C_u32, ''size''), (C_ptr ''const void'', ''unsafe_ptr'')] 115
       Positive_or_error [] [],
     Helper ''bpf_tcp_send_ack'' C_long [(C_ptr ''void'', ''tp''), (C_u32, ''rcv_nxt'')] 116
       Zero_or_error [] []]"

definition helper_decls_22 :: "helper_decl list" where
  "helper_decls_22 =
    [Helper ''bpf_send_signal_thread'' C_long [(C_u32, ''sig'')] 117
       Zero_or_error [''EBUSY'', ''EINVAL'', ''EPERM'', ''EAGAIN''] [],
     Helper ''bpf_jiffies64'' C_u64 [] 118
       Value [] [],
     Helper ''bpf_read_branch_records'' C_long [(C_ptr ''struct bpf_perf_event_data'', ''ctx''), (C_ptr ''void'', ''buf''), (C_u32, ''size''), (C_u64, ''flags'')] 119
       Count_or_error [''EINVAL'', ''ENOENT''] [''BPF_F_GET_BRANCH_RECORDS_SIZE''],
     Helper ''bpf_get_ns_current_pid_tgid'' C_long [(C_u64, ''dev''), (C_u64, ''ino''), (C_ptr ''struct bpf_pidns_info'', ''nsdata''), (C_u32, ''size'')] 120
       Zero_or_error [''EINVAL'', ''ENOENT''] [],
     Helper ''bpf_xdp_output'' C_long [(C_ptr ''void'', ''ctx''), (C_ptr ''void'', ''map''), (C_u64, ''flags''), (C_ptr ''void'', ''data''), (C_u64, ''size'')] 121
       Zero_or_error [] [''BPF_MAP_TYPE_PERF_EVENT_ARRAY'', ''BPF_F_INDEX_MASK'', ''BPF_F_CURRENT_CPU''],
     Helper ''bpf_get_netns_cookie'' C_u64 [(C_ptr ''void'', ''ctx'')] 122
       Value [] [],
     Helper ''bpf_get_current_ancestor_cgroup_id'' C_u64 [(C_int, ''ancestor_level'')] 123
       Value_or_zero [] []]"

definition helper_decls_23 :: "helper_decl list" where
  "helper_decls_23 =
    [Helper ''bpf_sk_assign'' C_long [(C_ptr ''void'', ''ctx''), (C_ptr ''void'', ''sk''), (C_u64, ''flags'')] 124
       Zero_or_error [''EINVAL'', ''ENOENT'', ''ENETUNREACH'', ''EOPNOTSUPP'', ''ESOCKTNOSUPPORT''] [''BPF_PROG_TYPE_SCHED_CLS'', ''BPF_PROG_TYPE_SCHED_ACT''],
     Helper ''bpf_ktime_get_boot_ns'' C_u64 [] 125
       Value [] [],
     Helper ''bpf_seq_printf'' C_long [(C_ptr ''struct seq_file'', ''m''), (C_ptr ''const char'', ''fmt''), (C_u32, ''fmt_size''), (C_ptr ''const void'', ''data''), (C_u32, ''data_len'')] 126
       Zero_or_error [''EBUSY'', ''EINVAL'', ''E2BIG'', ''EOVERFLOW''] [],
     Helper ''bpf_seq_write'' C_long [(C_ptr ''struct seq_file'', ''m''), (C_ptr ''const void'', ''data''), (C_u32, ''len'')] 127
       Zero_or_error [''EOVERFLOW''] [],
     Helper ''bpf_sk_cgroup_id'' C_u64 [(C_ptr ''void'', ''sk'')] 128
       Value_or_zero [] [],
     Helper ''bpf_sk_ancestor_cgroup_id'' C_u64 [(C_ptr ''void'', ''sk''), (C_int, ''ancestor_level'')] 129
       Value_or_zero [] []]"

definition helper_decls_24 :: "helper_decl list" where
  "helper_decls_24 =
    [Helper ''bpf_ringbuf_output'' C_long [(C_ptr ''void'', ''ringbuf''), (C_ptr ''void'', ''data''), (C_u64, ''size''), (C_u64, ''flags'')] 130
       Zero_or_error [] [''BPF_RB_NO_WAKEUP'', ''BPF_RB_FORCE_WAKEUP''],
     Helper ''bpf_ringbuf_reserve'' (C_ptr ''void'') [(C_ptr ''void'', ''ringbuf''), (C_u64, ''size''), (C_u64, ''flags'')] 131
       Pointer_or_null [] [],
     Helper ''bpf_ringbuf_submit'' C_void [(C_ptr ''void'', ''data''), (C_u64, ''flags'')] 132
       No_result [] [''BPF_RB_NO_WAKEUP'', ''BPF_RB_FORCE_WAKEUP''],
     Helper ''bpf_ringbuf_discard'' C_void [(C_ptr ''void'', ''data''), (C_u64, ''flags'')] 133
       No_result [] [''BPF_RB_NO_WAKEUP'', ''BPF_RB_FORCE_WAKEUP''],
     Helper ''bpf_ringbuf_query'' C_u64 [(C_ptr ''void'', ''ringbuf''), (C_u64, ''flags'')] 134
       Value_or_zero [] [''BPF_RB_AVAIL_DATA'', ''BPF_RB_RING_SIZE'', ''BPF_RB_CONS_POS'', ''BPF_RB_PROD_POS''],
     Helper ''bpf_csum_level'' C_long [(C_ptr ''struct __sk_buff'', ''skb''), (C_u64, ''level'')] 135
       Count_or_error [''EACCES''] [''BPF_F_ADJ_ROOM_NO_CSUM_RESET'', ''BPF_CSUM_LEVEL_DEC'', ''BPF_CSUM_LEVEL_INC'', ''BPF_CSUM_LEVEL_RESET'', ''BPF_CSUM_LEVEL_QUERY''],
     Helper ''bpf_skc_to_tcp6_sock'' (C_ptr ''struct tcp6_sock'') [(C_ptr ''void'', ''sk'')] 136
       Pointer_or_null [] [],
     Helper ''bpf_skc_to_tcp_sock'' (C_ptr ''struct tcp_sock'') [(C_ptr ''void'', ''sk'')] 137
       Pointer_or_null [] []]"

definition helper_decls_25 :: "helper_decl list" where
  "helper_decls_25 =
    [Helper ''bpf_skc_to_tcp_timewait_sock'' (C_ptr ''struct tcp_timewait_sock'') [(C_ptr ''void'', ''sk'')] 138
       Pointer_or_null [] [],
     Helper ''bpf_skc_to_tcp_request_sock'' (C_ptr ''struct tcp_request_sock'') [(C_ptr ''void'', ''sk'')] 139
       Pointer_or_null [] [],
     Helper ''bpf_skc_to_udp6_sock'' (C_ptr ''struct udp6_sock'') [(C_ptr ''void'', ''sk'')] 140
       Pointer_or_null [] [],
     Helper ''bpf_get_task_stack'' C_long [(C_ptr ''struct task_struct'', ''task''), (C_ptr ''void'', ''buf''), (C_u32, ''size''), (C_u64, ''flags'')] 141
       Count_or_error [] [''BPF_F_SKIP_FIELD_MASK'', ''BPF_F_USER_STACK'', ''BPF_F_USER_BUILD_ID''],
     Helper ''bpf_load_hdr_opt'' C_long [(C_ptr ''struct bpf_sock_ops'', ''skops''), (C_ptr ''void'', ''searchby_res''), (C_u32, ''len''), (C_u64, ''flags'')] 142
       Count_or_error [''EINVAL'', ''ENOMSG'', ''ENOENT'', ''ENOSPC'', ''EFAULT'', ''EPERM''] [''BPF_PROG_TYPE_SOCK_OPS'', ''BPF_LOAD_HDR_OPT_TCP_SYN'']]"

definition helper_decls_26 :: "helper_decl list" where
  "helper_decls_26 =
    [Helper ''bpf_store_hdr_opt'' C_long [(C_ptr ''struct bpf_sock_ops'', ''skops''), (C_ptr ''const void'', ''from''), (C_u32, ''len''), (C_u64, ''flags'')] 143
       Zero_or_error [''EINVAL'', ''ENOSPC'', ''EEXIST'', ''EFAULT'', ''EPERM''] [''BPF_SOCK_OPS_WRITE_HDR_OPT_CB''],
     Helper ''bpf_reserve_hdr_opt'' C_long [(C_ptr ''struct bpf_sock_ops'', ''skops''), (C_u32, ''len''), (C_u64, ''flags'')] 144
       Zero_or_error [''EINVAL'', ''ENOSPC'', ''EPERM''] [''BPF_SOCK_OPS_WRITE_HDR_OPT_CB'', ''BPF_SOCK_OPS_HDR_OPT_LEN_CB''],
     Helper ''bpf_inode_storage_get'' (C_ptr ''void'') [(C_ptr ''void'', ''map''), (C_ptr ''void'', ''inode''), (C_ptr ''void'', ''value''), (C_u64, ''flags'')] 145
       Pointer_or_null [] [''BPF_MAP_TYPE_INODE_STORAGE'', ''BPF_LOCAL_STORAGE_GET_F_CREATE''],
     Helper ''bpf_inode_storage_delete'' C_int [(C_ptr ''void'', ''map''), (C_ptr ''void'', ''inode'')] 146
       Zero_or_error [''ENOENT''] [],
     Helper ''bpf_d_path'' C_long [(C_ptr ''struct path'', ''path''), (C_ptr ''char'', ''buf''), (C_u32, ''sz'')] 147
       Positive_or_error [] [],
     Helper ''bpf_copy_from_user'' C_long [(C_ptr ''void'', ''dst''), (C_u32, ''size''), (C_ptr ''const void'', ''user_ptr'')] 148
       Zero_or_error [] []]"

definition helper_decls_27 :: "helper_decl list" where
  "helper_decls_27 =
    [Helper ''bpf_snprintf_btf'' C_long [(C_ptr ''char'', ''str''), (C_u32, ''str_size''), (C_ptr ''struct btf_ptr'', ''ptr''), (C_u32, ''btf_ptr_size''), (C_u64, ''flags'')] 149
       Count_or_error [] [],
     Helper ''bpf_seq_printf_btf'' C_long [(C_ptr ''struct seq_file'', ''m''), (C_ptr ''struct btf_ptr'', ''ptr''), (C_u32, ''ptr_size''), (C_u64, ''flags'')] 150
       Zero_or_error [] [],
     Helper ''bpf_skb_cgroup_classid'' C_u64 [(C_ptr ''struct __sk_buff'', ''skb'')] 151
       Value_or_zero [] [],
     Helper ''bpf_redirect_neigh'' C_long [(C_u32, ''ifindex''), (C_ptr ''struct bpf_redir_neigh'', ''params''), (C_int, ''plen''), (C_u64, ''flags'')] 152
       Verdict [] [],
     Helper ''bpf_per_cpu_ptr'' (C_ptr ''void'') [(C_ptr ''const void'', ''percpu_ptr''), (C_u32, ''cpu'')] 153
       Pointer_or_null [] [],
     Helper ''bpf_this_cpu_ptr'' (C_ptr ''void'') [(C_ptr ''const void'', ''percpu_ptr'')] 154
       Pointer [] [],
     Helper ''bpf_redirect_peer'' C_long [(C_u32, ''ifindex''), (C_u64, ''flags'')] 155
       Verdict [] []]"

definition helper_decls_28 :: "helper_decl list" where
  "helper_decls_28 =
    [Helper ''bpf_task_storage_get'' (C_ptr ''void'') [(C_ptr ''void'', ''map''), (C_ptr ''struct task_struct'', ''task''), (C_ptr ''void'', ''value''), (C_u64, ''flags'')] 156
       Pointer_or_null [] [''BPF_MAP_TYPE_TASK_STORAGE'', ''BPF_LOCAL_STORAGE_GET_F_CREATE''],
     Helper ''bpf_task_storage_delete'' C_long [(C_ptr ''void'', ''map''), (C_ptr ''struct task_struct'', ''task'')] 157
       Zero_or_error [''ENOENT''] [],
     Helper ''bpf_get_current_task_btf'' (C_ptr ''struct task_struct'') [] 158
       Pointer [] [],
     Helper ''bpf_bprm_opts_set'' C_long [(C_ptr ''struct linux_binprm'', ''bprm''), (C_u64, ''flags'')] 159
       Zero_or_error [''EINVAL''] [''BPF_F_BPRM_SECUREEXEC''],
     Helper ''bpf_ktime_get_coarse_ns'' C_u64 [] 160
       Value [] [],
     Helper ''bpf_ima_inode_hash'' C_long [(C_ptr ''struct inode'', ''inode''), (C_ptr ''void'', ''dst''), (C_u32, ''size'')] 161
       Count_or_error [''EOPNOTSUP'', ''EINVAL''] [],
     Helper ''bpf_sock_from_file'' (C_ptr ''struct socket'') [(C_ptr ''struct file'', ''file'')] 162
       Pointer_or_null [] []]"

definition helper_decls_29 :: "helper_decl list" where
  "helper_decls_29 =
    [Helper ''bpf_check_mtu'' C_long [(C_ptr ''void'', ''ctx''), (C_u32, ''ifindex''), (C_ptr ''__u32'', ''mtu_len''), (C_s32, ''len_diff''), (C_u64, ''flags'')] 163
       Other_result [] [''BPF_MTU_CHK_SEGS'', ''BPF_MTU_CHK_RET_FRAG_NEEDED'', ''BPF_MTU_CHK_RET_SEGS_TOOBIG''],
     Helper ''bpf_for_each_map_elem'' C_long [(C_ptr ''void'', ''map''), (C_ptr ''void'', ''callback_fn''), (C_ptr ''void'', ''callback_ctx''), (C_u64, ''flags'')] 164
       Count_or_error [''EINVAL''] [''BPF_MAP_TYPE_HASH'', ''BPF_MAP_TYPE_PERCPU_HASH'', ''BPF_MAP_TYPE_LRU_HASH'', ''BPF_MAP_TYPE_LRU_PERCPU_HASH'', ''BPF_MAP_TYPE_ARRAY'', ''BPF_MAP_TYPE_PERCPU_ARRAY''],
     Helper ''bpf_snprintf'' C_long [(C_ptr ''char'', ''str''), (C_u32, ''str_size''), (C_ptr ''const char'', ''fmt''), (C_ptr ''__u64'', ''data''), (C_u32, ''data_len'')] 165
       Positive_or_error [''EBUSY''] [],
     Helper ''bpf_sys_bpf'' C_long [(C_u32, ''cmd''), (C_ptr ''void'', ''attr''), (C_u32, ''attr_size'')] 166
       Value [] []]"

definition helper_decls_30 :: "helper_decl list" where
  "helper_decls_30 =
    [Helper ''bpf_btf_find_by_name_kind'' C_long [(C_ptr ''char'', ''name''), (C_int, ''name_sz''), (C_u32, ''kind''), (C_int, ''flags'')] 167
       Value [] [],
     Helper ''bpf_sys_close'' C_long [(C_u32, ''fd'')] 168
       Value [] [],
     Helper ''bpf_timer_init'' C_long [(C_ptr ''struct bpf_timer'', ''timer''), (C_ptr ''void'', ''map''), (C_u64, ''flags'')] 169
       Zero_or_error [''EBUSY'', ''EINVAL'', ''EPERM''] [],
     Helper ''bpf_timer_set_callback'' C_long [(C_ptr ''struct bpf_timer'', ''timer''), (C_ptr ''void'', ''callback_fn'')] 170
       Zero_or_error [''EINVAL'', ''EPERM''] [],
     Helper ''bpf_timer_start'' C_long [(C_ptr ''struct bpf_timer'', ''timer''), (C_u64, ''nsecs''), (C_u64, ''flags'')] 171
       Zero_or_error [''EINVAL''] [],
     Helper ''bpf_timer_cancel'' C_long [(C_ptr ''struct bpf_timer'', ''timer'')] 172
       Other_result [''EINVAL'', ''EDEADLK''] [],
     Helper ''bpf_get_func_ip'' C_u64 [(C_ptr ''void'', ''ctx'')] 173
       Value [] [],
     Helper ''bpf_get_attach_cookie'' C_u64 [(C_ptr ''void'', ''ctx'')] 174
       Value_or_zero [] [],
     Helper ''bpf_task_pt_regs'' C_long [(C_ptr ''struct task_struct'', ''task'')] 175
       Pointer [] []]"

definition helper_decls_31 :: "helper_decl list" where
  "helper_decls_31 =
    [Helper ''bpf_get_branch_snapshot'' C_long [(C_ptr ''void'', ''entries''), (C_u32, ''size''), (C_u64, ''flags'')] 176
       Count_or_error [''EINVAL'', ''ENOENT''] [],
     Helper ''bpf_trace_vprintk'' C_long [(C_ptr ''const char'', ''fmt''), (C_u32, ''fmt_size''), (C_ptr ''const void'', ''data''), (C_u32, ''data_len'')] 177
       Count_or_error [] [],
     Helper ''bpf_skc_to_unix_sock'' (C_ptr ''struct unix_sock'') [(C_ptr ''void'', ''sk'')] 178
       Pointer_or_null [] [],
     Helper ''bpf_kallsyms_lookup_name'' C_long [(C_ptr ''const char'', ''name''), (C_int, ''name_sz''), (C_int, ''flags''), (C_ptr ''__u64'', ''res'')] 179
       Zero_or_error [''EINVAL'', ''ENOENT'', ''EPERM''] [],
     Helper ''bpf_find_vma'' C_long [(C_ptr ''struct task_struct'', ''task''), (C_u64, ''addr''), (C_ptr ''void'', ''callback_fn''), (C_ptr ''void'', ''callback_ctx''), (C_u64, ''flags'')] 180
       Zero_or_error [''ENOENT'', ''EBUSY'', ''EINVAL''] [],
     Helper ''bpf_loop'' C_long [(C_u32, ''nr_loops''), (C_ptr ''void'', ''callback_fn''), (C_ptr ''void'', ''callback_ctx''), (C_u64, ''flags'')] 181
       Count_or_error [''EINVAL'', ''E2BIG''] [],
     Helper ''bpf_strncmp'' C_long [(C_ptr ''const char'', ''s1''), (C_u32, ''s1_sz''), (C_ptr ''const char'', ''s2'')] 182
       Value [] [],
     Helper ''bpf_get_func_arg'' C_long [(C_ptr ''void'', ''ctx''), (C_u32, ''n''), (C_ptr ''__u64'', ''value'')] 183
       Zero_or_error [''EINVAL''] []]"

definition helper_decls_32 :: "helper_decl list" where
  "helper_decls_32 =
    [Helper ''bpf_get_func_ret'' C_long [(C_ptr ''void'', ''ctx''), (C_ptr ''__u64'', ''value'')] 184
       Zero_or_error [''EOPNOTSUPP''] [''BPF_TRACE_FEXIT'', ''BPF_MODIFY_RETURN''],
     Helper ''bpf_get_func_arg_cnt'' C_long [(C_ptr ''void'', ''ctx'')] 185
       Value [] [],
     Helper ''bpf_get_retval'' C_int [] 186
       Value [] [],
     Helper ''bpf_set_retval'' C_int [(C_int, ''retval'')] 187
       Zero_or_error [] [],
     Helper ''bpf_xdp_get_buff_len'' C_u64 [(C_ptr ''struct xdp_md'', ''xdp_md'')] 188
       Value [] [],
     Helper ''bpf_xdp_load_bytes'' C_long [(C_ptr ''struct xdp_md'', ''xdp_md''), (C_u32, ''offset''), (C_ptr ''void'', ''buf''), (C_u32, ''len'')] 189
       Zero_or_error [] [],
     Helper ''bpf_xdp_store_bytes'' C_long [(C_ptr ''struct xdp_md'', ''xdp_md''), (C_u32, ''offset''), (C_ptr ''void'', ''buf''), (C_u32, ''len'')] 190
       Zero_or_error [] [],
     Helper ''bpf_copy_from_user_task'' C_long [(C_ptr ''void'', ''dst''), (C_u32, ''size''), (C_ptr ''const void'', ''user_ptr''), (C_ptr ''struct task_struct'', ''tsk''), (C_u64, ''flags'')] 191
       Zero_or_error [] []]"

definition helper_decls :: "helper_decl list" where
  "helper_decls =
     helper_decls_1 @ helper_decls_2 @ helper_decls_3 @ helper_decls_4 @ helper_decls_5 @
     helper_decls_6 @ helper_decls_7 @ helper_decls_8 @ helper_decls_9 @ helper_decls_10 @
     helper_decls_11 @ helper_decls_12 @ helper_decls_13 @ helper_decls_14 @ helper_decls_15 @
     helper_decls_16 @ helper_decls_17 @ helper_decls_18 @ helper_decls_19 @ helper_decls_20 @
     helper_decls_21 @ helper_decls_22 @ helper_decls_23 @ helper_decls_24 @ helper_decls_25 @
     helper_decls_26 @ helper_decls_27 @ helper_decls_28 @ helper_decls_29 @ helper_decls_30 @
     helper_decls_31 @ helper_decls_32"

lemmas helper_chunk_defs = helper_decls_1_def helper_decls_2_def helper_decls_3_def helper_decls_4_def helper_decls_5_def helper_decls_6_def helper_decls_7_def helper_decls_8_def helper_decls_9_def helper_decls_10_def helper_decls_11_def helper_decls_12_def helper_decls_13_def helper_decls_14_def helper_decls_15_def helper_decls_16_def helper_decls_17_def helper_decls_18_def helper_decls_19_def helper_decls_20_def helper_decls_21_def helper_decls_22_def helper_decls_23_def helper_decls_24_def helper_decls_25_def helper_decls_26_def helper_decls_27_def helper_decls_28_def helper_decls_29_def helper_decls_30_def helper_decls_31_def helper_decls_32_def

definition bpf_func_id_1 :: "(string \<times> nat) list" where
  "bpf_func_id_1 =
    [(''BPF_FUNC_unspec'', 0),
     (''BPF_FUNC_map_lookup_elem'', 1),
     (''BPF_FUNC_map_update_elem'', 2),
     (''BPF_FUNC_map_delete_elem'', 3),
     (''BPF_FUNC_probe_read'', 4),
     (''BPF_FUNC_ktime_get_ns'', 5),
     (''BPF_FUNC_trace_printk'', 6),
     (''BPF_FUNC_get_prandom_u32'', 7),
     (''BPF_FUNC_get_smp_processor_id'', 8),
     (''BPF_FUNC_skb_store_bytes'', 9),
     (''BPF_FUNC_l3_csum_replace'', 10),
     (''BPF_FUNC_l4_csum_replace'', 11),
     (''BPF_FUNC_tail_call'', 12),
     (''BPF_FUNC_clone_redirect'', 13),
     (''BPF_FUNC_get_current_pid_tgid'', 14),
     (''BPF_FUNC_get_current_uid_gid'', 15),
     (''BPF_FUNC_get_current_comm'', 16),
     (''BPF_FUNC_get_cgroup_classid'', 17),
     (''BPF_FUNC_skb_vlan_push'', 18),
     (''BPF_FUNC_skb_vlan_pop'', 19),
     (''BPF_FUNC_skb_get_tunnel_key'', 20),
     (''BPF_FUNC_skb_set_tunnel_key'', 21),
     (''BPF_FUNC_perf_event_read'', 22),
     (''BPF_FUNC_redirect'', 23),
     (''BPF_FUNC_get_route_realm'', 24),
     (''BPF_FUNC_perf_event_output'', 25),
     (''BPF_FUNC_skb_load_bytes'', 26),
     (''BPF_FUNC_get_stackid'', 27),
     (''BPF_FUNC_csum_diff'', 28),
     (''BPF_FUNC_skb_get_tunnel_opt'', 29),
     (''BPF_FUNC_skb_set_tunnel_opt'', 30),
     (''BPF_FUNC_skb_change_proto'', 31),
     (''BPF_FUNC_skb_change_type'', 32),
     (''BPF_FUNC_skb_under_cgroup'', 33),
     (''BPF_FUNC_get_hash_recalc'', 34),
     (''BPF_FUNC_get_current_task'', 35),
     (''BPF_FUNC_probe_write_user'', 36),
     (''BPF_FUNC_current_task_under_cgroup'', 37),
     (''BPF_FUNC_skb_change_tail'', 38),
     (''BPF_FUNC_skb_pull_data'', 39),
     (''BPF_FUNC_csum_update'', 40),
     (''BPF_FUNC_set_hash_invalid'', 41),
     (''BPF_FUNC_get_numa_node_id'', 42),
     (''BPF_FUNC_skb_change_head'', 43),
     (''BPF_FUNC_xdp_adjust_head'', 44),
     (''BPF_FUNC_probe_read_str'', 45),
     (''BPF_FUNC_get_socket_cookie'', 46),
     (''BPF_FUNC_get_socket_uid'', 47),
     (''BPF_FUNC_set_hash'', 48),
     (''BPF_FUNC_setsockopt'', 49),
     (''BPF_FUNC_skb_adjust_room'', 50),
     (''BPF_FUNC_redirect_map'', 51),
     (''BPF_FUNC_sk_redirect_map'', 52),
     (''BPF_FUNC_sock_map_update'', 53),
     (''BPF_FUNC_xdp_adjust_meta'', 54),
     (''BPF_FUNC_perf_event_read_value'', 55),
     (''BPF_FUNC_perf_prog_read_value'', 56),
     (''BPF_FUNC_getsockopt'', 57),
     (''BPF_FUNC_override_return'', 58),
     (''BPF_FUNC_sock_ops_cb_flags_set'', 59),
     (''BPF_FUNC_msg_redirect_map'', 60),
     (''BPF_FUNC_msg_apply_bytes'', 61),
     (''BPF_FUNC_msg_cork_bytes'', 62),
     (''BPF_FUNC_msg_pull_data'', 63),
     (''BPF_FUNC_bind'', 64),
     (''BPF_FUNC_xdp_adjust_tail'', 65),
     (''BPF_FUNC_skb_get_xfrm_state'', 66),
     (''BPF_FUNC_get_stack'', 67),
     (''BPF_FUNC_skb_load_bytes_relative'', 68),
     (''BPF_FUNC_fib_lookup'', 69),
     (''BPF_FUNC_sock_hash_update'', 70),
     (''BPF_FUNC_msg_redirect_hash'', 71),
     (''BPF_FUNC_sk_redirect_hash'', 72),
     (''BPF_FUNC_lwt_push_encap'', 73),
     (''BPF_FUNC_lwt_seg6_store_bytes'', 74),
     (''BPF_FUNC_lwt_seg6_adjust_srh'', 75),
     (''BPF_FUNC_lwt_seg6_action'', 76),
     (''BPF_FUNC_rc_repeat'', 77)]"

definition bpf_func_id_2 :: "(string \<times> nat) list" where
  "bpf_func_id_2 =
    [(''BPF_FUNC_rc_keydown'', 78),
     (''BPF_FUNC_skb_cgroup_id'', 79),
     (''BPF_FUNC_get_current_cgroup_id'', 80),
     (''BPF_FUNC_get_local_storage'', 81),
     (''BPF_FUNC_sk_select_reuseport'', 82),
     (''BPF_FUNC_skb_ancestor_cgroup_id'', 83),
     (''BPF_FUNC_sk_lookup_tcp'', 84),
     (''BPF_FUNC_sk_lookup_udp'', 85),
     (''BPF_FUNC_sk_release'', 86),
     (''BPF_FUNC_map_push_elem'', 87),
     (''BPF_FUNC_map_pop_elem'', 88),
     (''BPF_FUNC_map_peek_elem'', 89),
     (''BPF_FUNC_msg_push_data'', 90),
     (''BPF_FUNC_msg_pop_data'', 91),
     (''BPF_FUNC_rc_pointer_rel'', 92),
     (''BPF_FUNC_spin_lock'', 93),
     (''BPF_FUNC_spin_unlock'', 94),
     (''BPF_FUNC_sk_fullsock'', 95),
     (''BPF_FUNC_tcp_sock'', 96),
     (''BPF_FUNC_skb_ecn_set_ce'', 97),
     (''BPF_FUNC_get_listener_sock'', 98),
     (''BPF_FUNC_skc_lookup_tcp'', 99),
     (''BPF_FUNC_tcp_check_syncookie'', 100),
     (''BPF_FUNC_sysctl_get_name'', 101),
     (''BPF_FUNC_sysctl_get_current_value'', 102),
     (''BPF_FUNC_sysctl_get_new_value'', 103),
     (''BPF_FUNC_sysctl_set_new_value'', 104),
     (''BPF_FUNC_strtol'', 105),
     (''BPF_FUNC_strtoul'', 106),
     (''BPF_FUNC_sk_storage_get'', 107),
     (''BPF_FUNC_sk_storage_delete'', 108),
     (''BPF_FUNC_send_signal'', 109),
     (''BPF_FUNC_tcp_gen_syncookie'', 110),
     (''BPF_FUNC_skb_output'', 111),
     (''BPF_FUNC_probe_read_user'', 112),
     (''BPF_FUNC_probe_read_kernel'', 113),
     (''BPF_FUNC_probe_read_user_str'', 114),
     (''BPF_FUNC_probe_read_kernel_str'', 115),
     (''BPF_FUNC_tcp_send_ack'', 116),
     (''BPF_FUNC_send_signal_thread'', 117),
     (''BPF_FUNC_jiffies64'', 118),
     (''BPF_FUNC_read_branch_records'', 119),
     (''BPF_FUNC_get_ns_current_pid_tgid'', 120),
     (''BPF_FUNC_xdp_output'', 121),
     (''BPF_FUNC_get_netns_cookie'', 122),
     (''BPF_FUNC_get_current_ancestor_cgroup_id'', 123),
     (''BPF_FUNC_sk_assign'', 124),
     (''BPF_FUNC_ktime_get_boot_ns'', 125),
     (''BPF_FUNC_seq_printf'', 126),
     (''BPF_FUNC_seq_write'', 127),
     (''BPF_FUNC_sk_cgroup_id'', 128),
     (''BPF_FUNC_sk_ancestor_cgroup_id'', 129),
     (''BPF_FUNC_ringbuf_output'', 130),
     (''BPF_FUNC_ringbuf_reserve'', 131),
     (''BPF_FUNC_ringbuf_submit'', 132),
     (''BPF_FUNC_ringbuf_discard'', 133),
     (''BPF_FUNC_ringbuf_query'', 134),
     (''BPF_FUNC_csum_level'', 135),
     (''BPF_FUNC_skc_to_tcp6_sock'', 136),
     (''BPF_FUNC_skc_to_tcp_sock'', 137),
     (''BPF_FUNC_skc_to_tcp_timewait_sock'', 138),
     (''BPF_FUNC_skc_to_tcp_request_sock'', 139),
     (''BPF_FUNC_skc_to_udp6_sock'', 140),
     (''BPF_FUNC_get_task_stack'', 141),
     (''BPF_FUNC_load_hdr_opt'', 142),
     (''BPF_FUNC_store_hdr_opt'', 143),
     (''BPF_FUNC_reserve_hdr_opt'', 144),
     (''BPF_FUNC_inode_storage_get'', 145),
     (''BPF_FUNC_inode_storage_delete'', 146),
     (''BPF_FUNC_d_path'', 147),
     (''BPF_FUNC_copy_from_user'', 148),
     (''BPF_FUNC_snprintf_btf'', 149),
     (''BPF_FUNC_seq_printf_btf'', 150),
     (''BPF_FUNC_skb_cgroup_classid'', 151),
     (''BPF_FUNC_redirect_neigh'', 152),
     (''BPF_FUNC_per_cpu_ptr'', 153),
     (''BPF_FUNC_this_cpu_ptr'', 154),
     (''BPF_FUNC_redirect_peer'', 155),
     (''__BPF_FUNC_MAX_ID'', 156)]"

definition bpf_func_id :: "(string \<times> nat) list" where
  "bpf_func_id = bpf_func_id_1 @ bpf_func_id_2"

text \<open>A helper is in the kernel's numbering under the name without the prefixes.\<close>

definition known_to_kernel :: "helper_decl \<Rightarrow> bool" where
  "known_to_kernel h =
     list_ex (\<lambda>(n, i). i = h_id h \<and> drop 9 n = drop 4 (h_name h)) bpf_func_id"

fun find_helper :: "string \<Rightarrow> helper_decl list \<Rightarrow> helper_decl option" where
  "find_helper n [] = None"
| "find_helper n (h # hs) = (if h_name h = n then Some h else find_helper n hs)"

text \<open>A call passes the declared parameters, at least those before the variable ones.\<close>

definition call_ok :: "helper_decl \<Rightarrow> nat \<Rightarrow> bool" where
  "call_ok h n =
     (if C_varargs \<in> fst ` set (h_params h) then length (h_params h) - 1 \<le> n else n = length (h_params h))"

subsection \<open>Facts\<close>

lemma helper_ids: "map h_id helper_decls = [1..<192]"
  by code_simp

lemma helper_names:
  "map (\<lambda>(n, i). (drop 9 n, i)) (butlast (tl bpf_func_id)) =
    map (\<lambda>h. (drop 4 (h_name h), h_id h)) (take 155 helper_decls)"
  by code_simp

lemma set_tlD: "x \<in> set (tl xs) \<Longrightarrow> x \<in> set xs"
  by (cases xs) auto

lemma length_helper_decls: "length helper_decls = 191"
  using arg_cong [OF helper_ids, of length] by simp

lemma helper_at_id:
  assumes "h \<in> set helper_decls"
  shows "1 \<le> h_id h \<and> h_id h \<le> 191 \<and> helper_decls ! (h_id h - 1) = h"
proof -
  obtain j where j: "j < 191" "helper_decls ! j = h"
    using assms length_helper_decls by (auto simp: in_set_conv_nth)
  have "h_id h = map h_id helper_decls ! j" using j length_helper_decls by simp
  also have "\<dots> = Suc j" using j by (simp add: helper_ids)
  finally show ?thesis using j by simp
qed

lemma known_to_kernelI:
  assumes "h \<in> set helper_decls" and "h_id h \<le> 155"
  shows "known_to_kernel h"
proof -
  have "h \<in> set (take 155 helper_decls)"
    using helper_at_id [OF assms(1)] assms(2) length_helper_decls
    by (auto simp: in_set_conv_nth intro!: exI [of _ "h_id h - 1"])
  then have "(drop 4 (h_name h), h_id h) \<in> set (map (\<lambda>(n, i). (drop 9 n, i)) (butlast (tl bpf_func_id)))"
    unfolding helper_names by auto
  then obtain n where n: "(n, h_id h) \<in> set bpf_func_id" "drop 9 n = drop 4 (h_name h)"
    by (auto dest!: in_set_butlastD set_tlD)
  show ?thesis unfolding known_to_kernel_def list_ex_iff by (rule bexI [OF _ n(1)]) (use n(2) in simp)
qed

lemma found_bpf_trace_printk: "find_helper ''bpf_trace_printk'' helper_decls = Some (Helper ''bpf_trace_printk'' C_long [(C_ptr ''const char'', ''fmt''), (C_u32, ''fmt_size''), (C_varargs, '''')] 6
       Count_or_error [''EINVAL''] [])"
  by code_simp

end
