(* ===== verification/Helper_Macros.thy ===== *)
theory Helper_Macros
  imports Prelude Helper_Decls
begin

text \<open>
  The macros of \<open>src/src/bpf/bpf_helpers.h\<close> that compute at compile time: counting the arguments of a
  variadic macro, filling an array with them, choosing the helper that prints them and packing its
  arguments, the tail call with
  a constant slot, version numbers and \<open>container_of\<close>. A macro argument list is a list of tokens.
\<close>

subsection \<open>Counting arguments\<close>

text \<open>What stands in the argument list of a selecting macro: an argument of the call, or a literal.\<close>

datatype ('a, 'b) token = Underscore | Given 'a | Literal 'b

text \<open>The thirteen parameters before \<open>N\<close> are dropped; fewer arguments do not expand.\<close>

definition bpf_nth :: "'t list \<Rightarrow> 't option" where
  "bpf_nth ts = (if 13 < length ts then Some (ts ! 13) else None)"

definition bpf_narg :: "'a list \<Rightarrow> ('a, nat) token option" where
  "bpf_narg args = bpf_nth (Underscore # map Given args @ map Literal [12, 11, 10, 9, 8, 7, 6, 5, 4, 3, 2, 1, 0])"

text \<open>
  \<open>___bpf_apply\<close> pastes the count to the name of a macro; \<open>n\<close> is the last of the numbered macros, and
  another name is not defined.
\<close>

definition bpf_apply :: "nat \<Rightarrow> 'a list \<Rightarrow> nat option" where
  "bpf_apply n args = (case bpf_narg args of Some (Literal k) \<Rightarrow> if k \<le> n then Some k else None | _ \<Rightarrow> None)"

lemma count_down: "[12, 11, 10, 9, 8, 7, 6, 5, 4, 3, 2, 1, 0 :: nat] = rev [0..<13]"
  by (simp add: upt_rec)

lemma bpf_nth_select:
  assumes "length xs \<le> 12" and "length ys = 13"
  shows "bpf_nth (x # xs @ ys) = Some (ys ! (12 - length xs))"
  using assms by (simp add: bpf_nth_def nth_append)

lemma bpf_narg_count: "length args \<le> 12 \<Longrightarrow> bpf_narg args = Some (Literal (length args))"
  unfolding bpf_narg_def count_down by (subst bpf_nth_select) (simp_all add: rev_nth)

text \<open>With more than twelve arguments the count is an argument of the call.\<close>

lemma bpf_narg_overflow: "12 < length args \<Longrightarrow> bpf_narg args = Some (Given (args ! 12))"
  by (simp add: bpf_narg_def bpf_nth_def nth_append)

lemma bpf_apply_count: "bpf_apply n args = (if length args \<le> 12 \<and> length args \<le> n then Some (length args) else None)"
  using bpf_narg_count [of args] bpf_narg_overflow [of args] by (cases "length args \<le> 12") (auto simp: bpf_apply_def)

subsection \<open>Filling an array\<close>

fun bpf_fill_n :: "nat \<Rightarrow> 'v list \<Rightarrow> nat \<Rightarrow> 'v list \<Rightarrow> 'v list option" where
  "bpf_fill_n 0 arr p args = Some arr"
| "bpf_fill_n (Suc n) arr p (x # args) = (if p < length arr then bpf_fill_n n (arr[p := x]) (p + 1) args else None)"
| "bpf_fill_n (Suc n) arr p [] = None"

definition bpf_fill :: "'v list \<Rightarrow> 'v list \<Rightarrow> 'v list option" where
  "bpf_fill arr args = (case bpf_apply 12 args of None \<Rightarrow> None | Some n \<Rightarrow> bpf_fill_n n arr 0 args)"

lemma bpf_fill_n_all:
  "length arr = p + length args \<Longrightarrow> bpf_fill_n (length args) arr p args = Some (take p arr @ args)"
proof (induction args arbitrary: arr p)
  case (Cons x args)
  then have "bpf_fill_n (length args) (arr[p := x]) (p + 1) args = Some (take (p + 1) (arr[p := x]) @ args)"
    by (intro Cons.IH) simp
  with Cons.prems show ?case by (simp add: take_Suc_conv_app_nth)
qed simp

lemma bpf_fill_all: "length args \<le> 12 \<Longrightarrow> length arr = length args \<Longrightarrow> bpf_fill arr args = Some args"
  by (simp add: bpf_fill_def bpf_apply_count bpf_fill_n_all)

subsection \<open>Printing\<close>

text \<open>
  The calls the printing macros expand to: the format with its size, and the values as arguments of
  the helper or as an array with its size in bytes. \<open>junk\<close> is the array before it is filled.
\<close>

datatype 'v print_call = Trace_printk string nat "'v list" | Trace_vprintk string nat "'v list" nat
  | Seq_printf 'v string nat "'v list" nat | Snprintf 'v nat string "'v list" nat

definition bpf_param :: "(nat \<Rightarrow> 'v) \<Rightarrow> 'v list \<Rightarrow> ('v list \<times> nat) option" where
  "bpf_param junk args =
     (case bpf_apply 12 args of None \<Rightarrow> None
      | Some n \<Rightarrow> map_option (\<lambda>param. (param, 8 * n)) (bpf_fill (map junk [0..<n]) args))"

lemma bpf_param_all:
  "bpf_param junk args = (if length args \<le> 12 then Some (args, 8 * length args) else None)"
  by (simp add: bpf_param_def bpf_apply_count bpf_fill_all)

definition BPF_SEQ_PRINTF :: "(nat \<Rightarrow> 'v) \<Rightarrow> 'v \<Rightarrow> string \<Rightarrow> 'v list \<Rightarrow> 'v print_call option" where
  "BPF_SEQ_PRINTF junk sq fmt args =
     map_option (\<lambda>(param, n). Seq_printf sq fmt (length fmt + 1) param n) (bpf_param junk args)"

definition BPF_SNPRINTF :: "(nat \<Rightarrow> 'v) \<Rightarrow> 'v \<Rightarrow> nat \<Rightarrow> string \<Rightarrow> 'v list \<Rightarrow> 'v print_call option" where
  "BPF_SNPRINTF junk out out_size fmt args =
     map_option (\<lambda>(param, n). Snprintf out out_size fmt param n) (bpf_param junk args)"

datatype print_macro = Printk | Vprintk

definition bpf_printk_values :: "string \<Rightarrow> 'v list \<Rightarrow> 'v print_call option" where
  "bpf_printk_values fmt args = Some (Trace_printk fmt (length fmt + 1) args)"

definition bpf_vprintk :: "(nat \<Rightarrow> 'v) \<Rightarrow> string \<Rightarrow> 'v list \<Rightarrow> 'v print_call option" where
  "bpf_vprintk junk fmt args =
     map_option (\<lambda>(param, n). Trace_vprintk fmt (length fmt + 1) param n) (bpf_param junk args)"

definition bpf_pick_printk :: "'v list \<Rightarrow> ('v, print_macro) token option" where
  "bpf_pick_printk args =
     bpf_nth (Underscore # map Given args @ map Literal
       [Vprintk, Vprintk, Vprintk, Vprintk, Vprintk, Vprintk, Vprintk, Vprintk, Vprintk, Printk, Printk, Printk, Printk])"

definition bpf_printk :: "(nat \<Rightarrow> 'v) \<Rightarrow> string \<Rightarrow> 'v list \<Rightarrow> 'v print_call option" where
  "bpf_printk junk fmt args =
     (case bpf_pick_printk args of
        Some (Literal Printk) \<Rightarrow> bpf_printk_values fmt args
      | Some (Literal Vprintk) \<Rightarrow> bpf_vprintk junk fmt args
      | _ \<Rightarrow> None)"

lemma bpf_pick_printk_short:
  assumes "length args \<le> 12"
  shows "bpf_pick_printk args = Some (Literal (if length args \<le> 3 then Printk else Vprintk))"
proof -
  have pick: "[Vprintk, Vprintk, Vprintk, Vprintk, Vprintk, Vprintk, Vprintk, Vprintk, Vprintk, Printk, Printk, Printk, Printk] =
      replicate 9 Vprintk @ replicate 4 Printk"
    by (simp add: eval_nat_numeral)
  show ?thesis unfolding bpf_pick_printk_def pick
    using assms by (subst bpf_nth_select) (auto simp: nth_append)
qed

text \<open>How many arguments the helper gets, and the helper.\<close>

fun print_helper :: "'v print_call \<Rightarrow> string \<times> nat" where
  "print_helper (Trace_printk fmt n args) = (''bpf_trace_printk'', 2 + length args)"
| "print_helper (Trace_vprintk fmt n args k) = (''bpf_trace_vprintk'', 4)"
| "print_helper (Seq_printf sq fmt n args k) = (''bpf_seq_printf'', 5)"
| "print_helper (Snprintf out m fmt args k) = (''bpf_snprintf'', 5)"

lemma bpf_printk_expands:
  assumes "length args \<le> 12"
  shows "bpf_printk junk fmt args =
    Some (if length args \<le> 3 then Trace_printk fmt (length fmt + 1) args
          else Trace_vprintk fmt (length fmt + 1) args (8 * length args))"
  using assms by (simp add: bpf_printk_def bpf_pick_printk_short bpf_printk_values_def bpf_vprintk_def bpf_param_all)

text \<open>The call passes what the helper declares, at most the five arguments of a helper.\<close>

lemma found_bpf_trace_vprintk:
  "find_helper ''bpf_trace_vprintk'' helper_decls = Some (Helper ''bpf_trace_vprintk'' C_long
     [(C_ptr ''const char'', ''fmt''), (C_u32, ''fmt_size''), (C_ptr ''const void'', ''data''), (C_u32, ''data_len'')]
     177 Count_or_error [] [])"
  by code_simp

text \<open>The helper with an array is younger than the kernel the programs are built against.\<close>

lemma known_printers:
  "known_to_kernel (Helper ''bpf_trace_printk'' C_long [(C_ptr ''const char'', ''fmt''), (C_u32, ''fmt_size''), (C_varargs, '''')] 6
     Count_or_error [''EINVAL''] [])"
  "\<not> known_to_kernel (Helper ''bpf_trace_vprintk'' C_long
     [(C_ptr ''const char'', ''fmt''), (C_u32, ''fmt_size''), (C_ptr ''const void'', ''data''), (C_u32, ''data_len'')]
     177 Count_or_error [] [])"
  by code_simp+

lemma print_helper_fits:
  assumes "bpf_printk junk fmt args = Some c" and "length args \<le> 12"
  shows "\<exists>h. find_helper (fst (print_helper c)) helper_decls = Some h \<and> call_ok h (snd (print_helper c)) \<and>
    snd (print_helper c) \<le> 5 \<and> known_to_kernel h = (length args \<le> 3)"
proof (cases "length args \<le> 3")
  case True
  then have "c = Trace_printk fmt (length fmt + 1) args" using assms by (simp add: bpf_printk_expands)
  with True show ?thesis by (simp add: found_bpf_trace_printk known_printers) (simp add: call_ok_def)
next
  case False
  then have "c = Trace_vprintk fmt (length fmt + 1) args (8 * length args)" using assms by (simp add: bpf_printk_expands)
  with False show ?thesis by (simp add: found_bpf_trace_vprintk known_printers) (simp add: call_ok_def)
qed

lemma found_packing_helpers:
  "map_option (\<lambda>h. length (h_params h)) (find_helper ''bpf_seq_printf'' helper_decls) = Some 5"
  "map_option (\<lambda>h. length (h_params h)) (find_helper ''bpf_snprintf'' helper_decls) = Some 5"
  by code_simp+

text \<open>The other two wrappers pass all values in one array, to a helper with as many parameters.\<close>

lemma packing_macros_fit:
  assumes "c = BPF_SEQ_PRINTF junk sq fmt args \<or> c = BPF_SNPRINTF junk out n fmt args" and "length args \<le> 12"
  shows "\<exists>call h. c = Some call \<and> find_helper (fst (print_helper call)) helper_decls = Some h \<and>
    length (h_params h) = snd (print_helper call)"
  using assms found_packing_helpers by (auto simp: BPF_SEQ_PRINTF_def BPF_SNPRINTF_def bpf_param_all)

lemma bpf_printk_overflow: "12 < length args \<Longrightarrow> bpf_printk junk fmt args = None"
  by (simp add: bpf_printk_def bpf_pick_printk_def bpf_nth_def nth_append)

subsection \<open>Tail calls\<close>

text \<open>The instructions of \<open>bpf_tail_call_static\<close>: the argument registers are loaded, a helper is called by number.\<close>

datatype 'v bpf_instr = Load nat 'v | Call nat

definition bpf_tail_call_static :: "'v \<Rightarrow> 'v \<Rightarrow> 'v \<Rightarrow> 'v bpf_instr list" where
  "bpf_tail_call_static ctx tab slot = [Load 1 ctx, Load 2 tab, Load 3 slot, Call 12]"

fun run_instrs :: "(nat \<rightharpoonup> 'v) \<Rightarrow> 'v bpf_instr list \<Rightarrow> (nat \<times> (nat \<rightharpoonup> 'v)) list" where
  "run_instrs R [] = []"
| "run_instrs R (Load i v # cs) = run_instrs (R(i \<mapsto> v)) cs"
| "run_instrs R (Call n # cs) = (n, R) # run_instrs R cs"

text \<open>One call, of the helper declared as \<open>bpf_tail_call\<close>, with its three parameters in their order.\<close>

lemma tail_call_static_calls:
  "run_instrs R (bpf_tail_call_static ctx tab slot) = [(12, R(1 \<mapsto> ctx, 2 \<mapsto> tab, 3 \<mapsto> slot))]"
  "\<exists>h \<in> set helper_decls. h_id h = 12 \<and> h_name h = ''bpf_tail_call'' \<and>
     map snd (h_params h) = [''ctx'', ''prog_array_map'', ''index'']"
  by (simp add: bpf_tail_call_static_def) code_simp

subsection \<open>Versions and containers\<close>

definition KERNEL_VERSION :: "nat \<Rightarrow> nat \<Rightarrow> nat \<Rightarrow> nat" where
  "KERNEL_VERSION a b c = a * 2 ^ 16 + b * 2 ^ 8 + (if c > 255 then 255 else c)"

lemma KERNEL_VERSION_mono:
  assumes "b \<le> 255" and "b' \<le> 255" and "a < a' \<or> a = a' \<and> (b < b' \<or> b = b' \<and> c \<le> c')"
  shows "KERNEL_VERSION a b c \<le> KERNEL_VERSION a' b' c'"
  using assms by (auto simp: KERNEL_VERSION_def)

definition container_of :: "u64 \<Rightarrow> u64 \<Rightarrow> u64" where
  "container_of p off = p - off"

lemma container_of_member: "container_of (a + off) off = a"
  by (simp add: container_of_def)

end
