(* ===== verification/Trace_Macros.thy ===== *)
theory Trace_Macros
  imports Kernel_Offsets Helper_Macros
begin

unbundle bit_operations_syntax

text \<open>
  The macros of \<open>src/src/bpf/bpf_tracing.h\<close> and \<open>src/src/common/arch.h\<close>: which target is built, which
  field of the saved registers each selection macro reads on it, and what the wrappers of probe
  functions pass to the function they declare. On arm64, the target of this program, the selections
  are compared with the registers that the programs copy and number themselves.
\<close>

subsection \<open>The target\<close>

datatype bpf_target = Target_x86 | Target_s390 | Target_arm | Target_arm64 | Target_mips | Target_powerpc
  | Target_sparc | Target_riscv

text \<open>The macros the build defines, then those of the compiler; \<open>xlen\<close> is \<open>__riscv_xlen\<close>.\<close>

definition build_targets :: "(string \<times> bpf_target) list" where
  "build_targets =
     [(''__TARGET_ARCH_x86'', Target_x86), (''__TARGET_ARCH_s390'', Target_s390), (''__TARGET_ARCH_arm'', Target_arm),
      (''__TARGET_ARCH_arm64'', Target_arm64), (''__TARGET_ARCH_mips'', Target_mips),
      (''__TARGET_ARCH_powerpc'', Target_powerpc), (''__TARGET_ARCH_sparc'', Target_sparc),
      (''__TARGET_ARCH_riscv'', Target_riscv)]"

definition compiler_targets :: "nat \<Rightarrow> (string \<times> bpf_target) list" where
  "compiler_targets xlen =
     [(''__x86_64__'', Target_x86), (''__s390__'', Target_s390), (''__arm__'', Target_arm), (''__aarch64__'', Target_arm64),
      (''__mips__'', Target_mips), (''__powerpc__'', Target_powerpc), (''__sparc__'', Target_sparc)]
     @ (if xlen = 64 then [(''__riscv'', Target_riscv)] else [])"

fun first_defined :: "string list \<Rightarrow> (string \<times> bpf_target) list \<Rightarrow> bpf_target option" where
  "first_defined defs [] = None"
| "first_defined defs ((m, t) # tabs) = (if m \<in> set defs then Some t else first_defined defs tabs)"

definition bpf_target_of :: "string list \<Rightarrow> nat \<Rightarrow> bpf_target option" where
  "bpf_target_of defs xlen =
     (case first_defined defs build_targets of Some t \<Rightarrow> Some t | None \<Rightarrow> first_defined defs (compiler_targets xlen))"

subsection \<open>The fields behind the selections\<close>

datatype pt_sel = PARM1 | PARM2 | PARM3 | PARM4 | PARM5 | RET | FP | RC | SP | IP

text \<open>A field as the header spells it: a name, an element of an array by a number or by a constant of other headers.\<close>

datatype pt_field = Named string | Element string nat | Element_at string string | Unsupported

fun PT_x86_kernel :: "pt_sel \<Rightarrow> pt_field" where
  "PT_x86_kernel PARM1 = Named ''di''"
| "PT_x86_kernel PARM2 = Named ''si''"
| "PT_x86_kernel PARM3 = Named ''dx''"
| "PT_x86_kernel PARM4 = Named ''cx''"
| "PT_x86_kernel PARM5 = Named ''r8''"
| "PT_x86_kernel RET = Named ''sp''"
| "PT_x86_kernel FP = Named ''bp''"
| "PT_x86_kernel RC = Named ''ax''"
| "PT_x86_kernel SP = Named ''sp''"
| "PT_x86_kernel IP = Named ''ip''"

fun PT_i386 :: "pt_sel \<Rightarrow> pt_field" where
  "PT_i386 PARM1 = Named ''eax''"
| "PT_i386 PARM2 = Named ''edx''"
| "PT_i386 PARM3 = Named ''ecx''"
| "PT_i386 PARM4 = Unsupported"
| "PT_i386 PARM5 = Unsupported"
| "PT_i386 RET = Named ''esp''"
| "PT_i386 FP = Named ''ebp''"
| "PT_i386 RC = Named ''eax''"
| "PT_i386 SP = Named ''esp''"
| "PT_i386 IP = Named ''eip''"

fun PT_x86_64 :: "pt_sel \<Rightarrow> pt_field" where
  "PT_x86_64 PARM1 = Named ''rdi''"
| "PT_x86_64 PARM2 = Named ''rsi''"
| "PT_x86_64 PARM3 = Named ''rdx''"
| "PT_x86_64 PARM4 = Named ''rcx''"
| "PT_x86_64 PARM5 = Named ''r8''"
| "PT_x86_64 RET = Named ''rsp''"
| "PT_x86_64 FP = Named ''rbp''"
| "PT_x86_64 RC = Named ''rax''"
| "PT_x86_64 SP = Named ''rsp''"
| "PT_x86_64 IP = Named ''rip''"

fun PT_s390 :: "pt_sel \<Rightarrow> pt_field" where
  "PT_s390 PARM1 = Element ''gprs'' 2"
| "PT_s390 PARM2 = Element ''gprs'' 3"
| "PT_s390 PARM3 = Element ''gprs'' 4"
| "PT_s390 PARM4 = Element ''gprs'' 5"
| "PT_s390 PARM5 = Element ''gprs'' 6"
| "PT_s390 RET = Element ''grps'' 14"
| "PT_s390 FP = Element ''gprs'' 11"
| "PT_s390 RC = Element ''gprs'' 2"
| "PT_s390 SP = Element ''gprs'' 15"
| "PT_s390 IP = Named ''psw.addr''"

fun PT_arm :: "pt_sel \<Rightarrow> pt_field" where
  "PT_arm PARM1 = Element ''uregs'' 0"
| "PT_arm PARM2 = Element ''uregs'' 1"
| "PT_arm PARM3 = Element ''uregs'' 2"
| "PT_arm PARM4 = Element ''uregs'' 3"
| "PT_arm PARM5 = Element ''uregs'' 4"
| "PT_arm RET = Element ''uregs'' 14"
| "PT_arm FP = Element ''uregs'' 11"
| "PT_arm RC = Element ''uregs'' 0"
| "PT_arm SP = Element ''uregs'' 13"
| "PT_arm IP = Element ''uregs'' 12"

fun PT_arm64 :: "pt_sel \<Rightarrow> pt_field" where
  "PT_arm64 PARM1 = Element ''regs'' 0"
| "PT_arm64 PARM2 = Element ''regs'' 1"
| "PT_arm64 PARM3 = Element ''regs'' 2"
| "PT_arm64 PARM4 = Element ''regs'' 3"
| "PT_arm64 PARM5 = Element ''regs'' 4"
| "PT_arm64 RET = Element ''regs'' 30"
| "PT_arm64 FP = Element ''regs'' 29"
| "PT_arm64 RC = Element ''regs'' 0"
| "PT_arm64 SP = Named ''sp''"
| "PT_arm64 IP = Named ''pc''"

fun PT_mips :: "pt_sel \<Rightarrow> pt_field" where
  "PT_mips PARM1 = Element ''regs'' 4"
| "PT_mips PARM2 = Element ''regs'' 5"
| "PT_mips PARM3 = Element ''regs'' 6"
| "PT_mips PARM4 = Element ''regs'' 7"
| "PT_mips PARM5 = Element ''regs'' 8"
| "PT_mips RET = Element ''regs'' 31"
| "PT_mips FP = Element ''regs'' 30"
| "PT_mips RC = Element ''regs'' 2"
| "PT_mips SP = Element ''regs'' 29"
| "PT_mips IP = Named ''cp0_epc''"

fun PT_powerpc :: "pt_sel \<Rightarrow> pt_field" where
  "PT_powerpc PARM1 = Element ''gpr'' 3"
| "PT_powerpc PARM2 = Element ''gpr'' 4"
| "PT_powerpc PARM3 = Element ''gpr'' 5"
| "PT_powerpc PARM4 = Element ''gpr'' 6"
| "PT_powerpc PARM5 = Element ''gpr'' 7"
| "PT_powerpc RET = Element ''regs'' 31"
| "PT_powerpc FP = Unsupported"
| "PT_powerpc RC = Element ''gpr'' 3"
| "PT_powerpc SP = Named ''sp''"
| "PT_powerpc IP = Named ''nip''"

fun PT_sparc :: "bool \<Rightarrow> pt_sel \<Rightarrow> pt_field" where
  "PT_sparc arch64 PARM1 = Element_at ''u_regs'' ''UREG_I0''"
| "PT_sparc arch64 PARM2 = Element_at ''u_regs'' ''UREG_I1''"
| "PT_sparc arch64 PARM3 = Element_at ''u_regs'' ''UREG_I2''"
| "PT_sparc arch64 PARM4 = Element_at ''u_regs'' ''UREG_I3''"
| "PT_sparc arch64 PARM5 = Element_at ''u_regs'' ''UREG_I4''"
| "PT_sparc arch64 RET = Element_at ''u_regs'' ''UREG_I7''"
| "PT_sparc arch64 FP = Unsupported"
| "PT_sparc arch64 RC = Element_at ''u_regs'' ''UREG_I0''"
| "PT_sparc arch64 SP = Element_at ''u_regs'' ''UREG_FP''"
| "PT_sparc arch64 IP = Named (if arch64 then ''tpc'' else ''pc'')"

fun PT_riscv :: "pt_sel \<Rightarrow> pt_field" where
  "PT_riscv PARM1 = Named ''a0''"
| "PT_riscv PARM2 = Named ''a1''"
| "PT_riscv PARM3 = Named ''a2''"
| "PT_riscv PARM4 = Named ''a3''"
| "PT_riscv PARM5 = Named ''a4''"
| "PT_riscv RET = Named ''ra''"
| "PT_riscv FP = Named ''s0''"
| "PT_riscv RC = Named ''a5''"
| "PT_riscv SP = Named ''sp''"
| "PT_riscv IP = Named ''pc''"

fun PT_REG :: "string list \<Rightarrow> bpf_target \<Rightarrow> pt_sel \<Rightarrow> pt_field" where
  "PT_REG defs Target_x86 s =
     (if ''__KERNEL__'' \<in> set defs \<or> ''__VMLINUX_H__'' \<in> set defs then PT_x86_kernel s
      else if ''__i386__'' \<in> set defs then PT_i386 s else PT_x86_64 s)"
| "PT_REG defs Target_s390 s = PT_s390 s"
| "PT_REG defs Target_arm s = PT_arm s"
| "PT_REG defs Target_arm64 s = PT_arm64 s"
| "PT_REG defs Target_mips s = PT_mips s"
| "PT_REG defs Target_powerpc s = PT_powerpc s"
| "PT_REG defs Target_sparc s = PT_sparc (''__arch64__'' \<in> set defs) s"
| "PT_REG defs Target_riscv s = PT_riscv s"

text \<open>The structure the context is cast to.\<close>

fun PT_REGS_CAST :: "bpf_target \<Rightarrow> string" where
  "PT_REGS_CAST Target_s390 = ''user_pt_regs''"
| "PT_REGS_CAST Target_arm64 = ''struct user_pt_regs''"
| "PT_REGS_CAST Target_riscv = ''struct user_regs_struct''"
| "PT_REGS_CAST t = ''struct pt_regs''"

text \<open>The sixth argument, of \<open>arch.h\<close>.\<close>

definition PT_REGS_PARM6 :: "string list \<Rightarrow> pt_field option" where
  "PT_REGS_PARM6 defs =
     (if ''__TARGET_ARCH_x86'' \<in> set defs then Some (Named ''r9'')
      else if ''__TARGET_ARCH_arm64'' \<in> set defs then Some (Element ''regs'' 5) else None)"

subsection \<open>Arguments of system calls\<close>

text \<open>
  The plain and the CO-RE variant of \<open>PT_REGS_PARMn_SYSCALL\<close>: a field of the registers, a field of
  another structure, or an error of the compiler.
\<close>

datatype syscall_field = Reg_field pt_field | Other_field string string | Compile_error

definition x86_with_r10 :: "string list \<Rightarrow> bool" where
  "x86_with_r10 defs \<longleftrightarrow>
     ''__KERNEL__'' \<in> set defs \<or> ''__VMLINUX_H__'' \<in> set defs \<or> ''__i386__'' \<notin> set defs"

definition PT_SYSCALL :: "string list \<Rightarrow> bpf_target \<Rightarrow> pt_sel \<Rightarrow> syscall_field" where
  "PT_SYSCALL defs t s =
     (if s = PARM1 \<and> (t = Target_s390 \<or> t = Target_arm64) then Compile_error
      else if s = PARM4 \<and> t = Target_x86 \<and> x86_with_r10 defs then Reg_field (Named ''r10'')
      else Reg_field (PT_REG defs t s))"

definition PT_CORE_SYSCALL :: "string list \<Rightarrow> bpf_target \<Rightarrow> pt_sel \<Rightarrow> syscall_field" where
  "PT_CORE_SYSCALL defs t s =
     (if s = PARM1 \<and> t = Target_s390 then Other_field ''pt_regs___s390'' ''orig_gpr2''
      else if s = PARM1 \<and> t = Target_arm64 then Other_field ''pt_regs___arm64'' ''orig_x0''
      else if s = PARM4 \<and> t = Target_x86 \<and> x86_with_r10 defs then Reg_field (Named ''r10'')
      else Reg_field (PT_REG defs t s))"

text \<open>Where a probe of a system call finds its registers: in its context, or behind the first argument.\<close>

datatype syscall_regs = In_context | Behind pt_sel

fun PT_REGS_SYSCALL_REGS :: "bpf_target \<Rightarrow> syscall_regs" where
  "PT_REGS_SYSCALL_REGS Target_powerpc = In_context"
| "PT_REGS_SYSCALL_REGS Target_riscv = In_context"
| "PT_REGS_SYSCALL_REGS t = Behind PARM1"

text \<open>The return address: a field, or a word read at an address in a register, with an offset.\<close>

datatype return_ip = In_field pt_field | Read_at pt_sel nat

fun BPF_KPROBE_READ_RET_IP :: "string list \<Rightarrow> bpf_target \<Rightarrow> return_ip" where
  "BPF_KPROBE_READ_RET_IP defs Target_powerpc = In_field (Named ''link'')"
| "BPF_KPROBE_READ_RET_IP defs Target_sparc = In_field (PT_REG defs Target_sparc RET)"
| "BPF_KPROBE_READ_RET_IP defs t = Read_at RET 0"

fun BPF_KRETPROBE_READ_RET_IP :: "string list \<Rightarrow> bpf_target \<Rightarrow> return_ip" where
  "BPF_KRETPROBE_READ_RET_IP defs Target_powerpc = In_field (Named ''link'')"
| "BPF_KRETPROBE_READ_RET_IP defs Target_sparc = In_field (PT_REG defs Target_sparc RET)"
| "BPF_KRETPROBE_READ_RET_IP defs t = Read_at FP 8"

subsection \<open>What the wrappers pass\<close>

text \<open>The context itself, a word of it, a selected register, or a selected argument of a system call.\<close>

datatype passed = Ctx | Ctx_word nat | Reg_arg pt_sel | Syscall_arg pt_sel

fun bpf_ctx_cast_n :: "nat \<Rightarrow> passed list" where
  "bpf_ctx_cast_n 0 = [Ctx]"
| "bpf_ctx_cast_n (Suc n) = bpf_ctx_cast_n n @ [Ctx_word n]"

definition bpf_ctx_cast :: "'a list \<Rightarrow> passed list option" where
  "bpf_ctx_cast xs = map_option bpf_ctx_cast_n (bpf_apply 12 xs)"

definition parms :: "pt_sel list" where
  "parms = [PARM1, PARM2, PARM3, PARM4, PARM5]"

fun bpf_kprobe_args_n :: "nat \<Rightarrow> passed list" where
  "bpf_kprobe_args_n 0 = [Ctx]"
| "bpf_kprobe_args_n (Suc n) = bpf_kprobe_args_n n @ [Reg_arg (parms ! n)]"

definition bpf_kprobe_args :: "'a list \<Rightarrow> passed list option" where
  "bpf_kprobe_args xs = map_option bpf_kprobe_args_n (bpf_apply 5 xs)"

fun bpf_kretprobe_args_n :: "nat \<Rightarrow> passed list" where
  "bpf_kretprobe_args_n 0 = [Ctx]"
| "bpf_kretprobe_args_n (Suc n) = [Ctx, Reg_arg RC]"

definition bpf_kretprobe_args :: "'a list \<Rightarrow> passed list option" where
  "bpf_kretprobe_args xs = map_option bpf_kretprobe_args_n (bpf_apply 1 xs)"

fun bpf_syscall_args_n :: "nat \<Rightarrow> passed list" where
  "bpf_syscall_args_n 0 = [Ctx]"
| "bpf_syscall_args_n (Suc n) = bpf_syscall_args_n n @ [Syscall_arg (parms ! n)]"

definition bpf_syscall_args :: "'a list \<Rightarrow> passed list option" where
  "bpf_syscall_args xs = map_option bpf_syscall_args_n (bpf_apply 5 xs)"

lemma length_parms: "length parms = 5"
  by (simp add: parms_def)

lemma bpf_ctx_cast_n_all: "bpf_ctx_cast_n n = Ctx # map Ctx_word [0..<n]"
  by (induction n) simp_all

lemma bpf_kprobe_args_n_all: "n \<le> 5 \<Longrightarrow> bpf_kprobe_args_n n = Ctx # map Reg_arg (take n parms)"
  by (induction n) (simp_all add: take_Suc_conv_app_nth length_parms)

lemma bpf_syscall_args_n_all: "n \<le> 5 \<Longrightarrow> bpf_syscall_args_n n = Ctx # map Syscall_arg (take n parms)"
  by (induction n) (simp_all add: take_Suc_conv_app_nth length_parms)

text \<open>The declared arguments get the words or registers in their order; more than there are do not expand.\<close>

lemma wrappers_pass_in_order:
  "bpf_ctx_cast xs = (if length xs \<le> 12 then Some (Ctx # map Ctx_word [0..<length xs]) else None)"
  "bpf_kprobe_args xs = (if length xs \<le> 5 then Some (Ctx # map Reg_arg (take (length xs) parms)) else None)"
  "bpf_syscall_args xs = (if length xs \<le> 5 then Some (Ctx # map Syscall_arg (take (length xs) parms)) else None)"
  "bpf_kretprobe_args xs =
     (if length xs \<le> 1 then Some (Ctx # map (\<lambda>_. Reg_arg RC) xs) else None)"
proof -
  show "bpf_kretprobe_args xs = (if length xs \<le> 1 then Some (Ctx # map (\<lambda>_. Reg_arg RC) xs) else None)"
    by (cases xs) (auto simp: bpf_kretprobe_args_def bpf_apply_count)
qed (auto simp: bpf_ctx_cast_def bpf_kprobe_args_def bpf_syscall_args_def bpf_apply_count
  bpf_ctx_cast_n_all bpf_kprobe_args_n_all bpf_syscall_args_n_all)

subsection \<open>The selections on arm64\<close>

text \<open>The place of a field in a structure, in bytes; the elements of its arrays have eight bytes.\<close>

fun pt_place :: "ctype \<Rightarrow> pt_field \<Rightarrow> (nat \<times> nat) option" where
  "pt_place t (Named f) = member_at t f"
| "pt_place t (Element f i) =
     (case member_at t f of
        Some (o1, n) \<Rightarrow> if 8 * i + 8 \<le> n then Some (o1 + 8 * i, 8) else None
      | None \<Rightarrow> None)"
| "pt_place t f = None"

lemma user_pt_regs_places:
  "member_at struct_user_pt_regs ''regs'' = Some (0, 248)"
  "member_at struct_user_pt_regs ''sp'' = Some (248, 8)"
  "member_at struct_user_pt_regs ''pc'' = Some (256, 8)"
  by (simp_all add: struct_user_pt_regs_def member_simps)

lemma arm64_places: "\<exists>i < 33. pt_place struct_user_pt_regs (PT_arm64 s) = Some (8 * i, 8)"
  by (cases s; simp add: user_pt_regs_places; presburger)

text \<open>What a selection reads is what the programs find in their copy under that number.\<close>

lemma READ_KERN_copied:
  assumes "header_kernel K" and "i < 33"
  shows "READ_KERN K 8 (a + of_nat (8 * i)) = ctx_regs_words (copy_pt_regs K a) ! i"
proof -
  consider "i < 31" | "i = 31" | "i = 32" using assms(2) by linarith
  then show ?thesis
    using assms(1) by cases (simp_all add: copy_pt_regs_def ctx_regs_words_def header_kernel_def header_offs nth_append)
qed

lemma arm64_selects:
  assumes "header_kernel K"
  shows "\<exists>off i. pt_place struct_user_pt_regs (PT_arm64 s) = Some (off, 8) \<and> i < 33 \<and>
    READ_KERN K 8 (a + of_nat off) = ctx_regs_words (copy_pt_regs K a) ! i"
  using READ_KERN_copied [OF assms] arm64_places [of s] by blast

end
