(* ===== verification/Spec2Isabelle.thy ===== *)
theory Spec2Isabelle
  imports Example_Inputs Example_Pairs Example_Kernel Example_Memory Example_Hooks Example_Dirent Reader_Saves
    Stale_Context Trace_Macros Helper_Macros
begin

unbundle bit_operations_syntax

text \<open>
  stackplz is a tracer for Android: eBPF programs on uprobes, uretprobes and the raw system call
  tracepoints read arguments of the traced threads and send one record per event through a perf
  buffer to a Go program, which has stored in BPF maps what to trace and what to read. This
  development models the C part, \<open>src/src\<close> and the loader \<open>src/user/event/load_so.c\<close>, and of the Go
  part what the C part is compared with: the tables it fills and the readers of the records.

  \<^bold>\<open>How a run goes.\<close> A program sets up its event (\<open>init_program_data\<close>), decides whether the thread is
  traced (\<open>should_trace\<close>), looks up the point it was reached at, keeps or loads a snapshot of the
  registers, writes the fixed arguments (key and call site), clears the reader's context and runs the
  argument reader (\<open>read_args\<close>), an interpreter for the operations that user space has stored for
  the point. Unless a filter operation skips the event, the event is submitted and signals are sent.
  A program here takes the environment (a \<open>kenv\<close>), the maps and its context, and returns the new maps,
  or \<open>None\<close> where the C code would access an array out of bounds.

  \<^bold>\<open>Theories and sources.\<close>
  \<^item> \<open>Prelude\<close>: words, little-endian bytes, ranges of arrays. \<open>Consts\<close>, \<open>Types\<close>: \<open>common/consts.h\<close>,
    \<open>types.h\<close>, with the memory layout of the structures of the programs.
  \<^item> \<open>BPF_Maps\<close>: the maps of \<open>maps.h\<close> as one record, and lookup, update and delete as the kernel
    documents them. Maps with keys are interpretations of the locales \<open>bpf_dict\<close> and \<open>bpf_hash\<close>.
  \<^item> \<open>Kernel_Env\<close>: what a run finds in the kernel, and \<open>common/common.h\<close>, \<open>common/task.h\<close>, \<open>memory.h\<close>
    and \<open>common/context.h\<close>. \<open>Filtering\<close>: \<open>common/filtering.h\<close>, the fork handler, and the id lists as
    \<open>user/module/stack.go\<close> fills them. \<open>Saved_Regs\<close>: \<open>common/arguments.h\<close>.
  \<^item> \<open>Submit_Buffer\<close>, \<open>Str_Match\<close>: \<open>common/buffer.h\<close>. \<open>Read_Args\<close>: \<open>utils.h\<close>, one definition per
    operation, the fetch of the next operation, the bounded loop and the skip decision.
  \<^item> \<open>Probe\<close>, \<open>Stack_Probe\<close>, \<open>Syscall_Trace\<close>: the programs of \<open>stack.c\<close> and \<open>syscall.c\<close>; \<open>Probe\<close>
    holds the code the four have in common.
  \<^item> \<open>Frames\<close>: the wire format as user space reads it (\<open>event_context.go\<close>, \<open>ievent.go\<close>,
    \<open>event_uprobe.go\<close>), encoders and readers as instances of a codec locale.
  \<^item> \<open>Go_Structs\<close>: the structures that user space registers as argument types (\<open>iargtype.go\<close>,
    \<open>config_struct.go\<close>), with the bytes that the program saves of each (\<open>unsafe.Sizeof\<close>) and the bytes
    that its registered parser reads (\<open>binary.Read\<close>): the same, but for \<open>dirent\<close>.
  \<^item> \<open>Arg_Types\<close>, \<open>Arg_Runs\<close>, \<open>Arg_Values\<close>, \<open>Point_Args\<close>: the typed arguments of user space: the operations that a
    type is compiled to (\<open>argtype_complex.go\<close>, \<open>op_helper.go\<close>), the bytes these save, the value the
    bytes stand for and the parsers that read it back (\<open>argtype_base.go\<close>), address expressions
    (\<open>ParseArgType\<close> of \<open>config_module.go\<close>) and the operations and filters of a whole argument
    (\<open>GetOpList\<close> of \<open>config_point_arg.go\<close>). \<open>Point_Config\<close>: the arguments that the words of the command
    line (\<open>ParseArgType\<close>, \<open>Parse_HookPoint\<close>) and of a file (\<open>config_file.go\<close>, \<open>Parse_FileConfig\<close>,
    \<open>UpdateSyscallPoint\<close>) make. \<open>Dirent_Exit\<close>: the entry of \<open>getdents64\<close> in
    \<open>config_syscall_aarch64.json\<close>.
  \<^item> \<open>Op_Manager\<close>, \<open>Hook_Points\<close>: the manager that numbers the operations (\<open>op_helper.go\<close>), the
    configuration of a point (\<open>config_uprobe.go\<close>, \<open>iconfig.go\<close>), the points added for exits (the end of
    \<open>Parse_HookPoint\<close>), and the tables \<open>op_list\<close>, \<open>uprobe_point_args\<close> and \<open>uretprobe_point_args\<close> as
    \<open>user/module/stack.go\<close> fills them.
  \<^item> \<open>Unwinder\<close>: \<open>load_so.c\<close> as a state machine over the dynamic linker.
  \<^item> \<open>C_Layout\<close>, \<open>Kernel_Types\<close>, \<open>Kernel_Offsets\<close>: the rules of C layout, the structures of
    \<open>vmlinux_510.h\<close> that the programs name, those of identity, files and mounts that their members
    point at, with all they hold by value, and the fields the programs read.
  \<^item> \<open>Helper_Decls\<close>: \<open>bpf/bpf_helper_defs.h\<close> and the enumeration of the helpers in the kernel header.
    \<open>Helper_Macros\<close>, \<open>Trace_Macros\<close>: the macros of \<open>bpf/bpf_helpers.h\<close>, \<open>bpf/bpf_tracing.h\<close> and
    \<open>common/arch.h\<close> that compute something: argument counts, the printing helper, the register that a
    selection reads on each target, what the wrappers of programs pass.

  \<^bold>\<open>What the lemmas show.\<close>
  \<^item> \<open>Reader_Facts\<close>: for every list of operations the reader ends, reads in bounds and only appends
    whole, numbered frames. \<open>Reader_Programs\<close>, \<open>Reader_Loop\<close>, \<open>Reader_Saves\<close>, \<open>Value_Filter\<close>: what
    stored programs do (registers, counted loops, structures, strings, filters), turn by turn.
  \<^item> \<open>Reader_Segments\<close>, \<open>Reader_Parts\<close>: \<open>performs\<close>, a triple of the reader's context before a part of a
    stored program, the frames the part saves and the context after, in exactly a number of turns; parts
    compose, loops are one of them, and \<open>performs_type\<close>, \<open>performs_address\<close> and \<open>performs_args\<close> build
    whole programs from them.
  \<^item> \<open>Arg_Limits\<close>, \<open>Turn_Limit\<close>, \<open>Dirent_Exit\<close>: where the operations and the parsers do not fit
    together. \<open>Turn_Limit\<close> has the lemma for a loop that uses up the turns (\<open>cut_in_loop\<close>).
  \<^item> \<open>Probe_Facts\<close>, \<open>Stack_Facts\<close>, \<open>Syscall_Facts\<close>: every run of a program ends, keeps \<open>wf_maps\<close>, and is
    silent or sends one well-formed record. \<open>Uprobe_Args\<close>, \<open>Syscall_Args\<close>: the values that user space
    reads back from such a record are those the arguments stand for, in the right registers.
    They ask for two things: that the operations of every argument run (\<open>arg_runs\<close>: registers that
    exist, one-register addresses whose pointers can be read, value filters that accept, iovec
    elements that can be read) and that the parser reads what they save (\<open>type_reads\<close>: not \<open>dirent\<close>, no
    array above 4096 bytes, at most six iovec).
  \<^item> \<open>Syscall_Protocol\<close>: runs of entries, exits and forks in any interleaving, as a step relation, and
    their invariant. \<open>Thread_Isolation\<close>: no program changes the
    tables of user space or a snapshot of another thread, so that an exit or a return reports its own
    entry whatever runs in between. \<open>Nested_Calls\<close>: runs of entries, returns and exits of one function, in which a record
    costs the snapshot of an entry. \<open>Op_Manager\<close> shows that a configured point has the program of its
    arguments, \<open>Hook_Points\<close> which keys connect the points, \<open>Point_Config\<close> that what is saved of a
    configured argument is what is parsed, except for structures in a file. \<open>Stale_Context\<close>: what the undersized \<open>memset\<close> of the reader's context leaves.
  \<^item> \<open>Example_State\<close>, \<open>Example_Inputs\<close>, \<open>Example_Pairs\<close>, \<open>Example_Memory\<close>, \<open>Example_Kernel\<close>,
    \<open>Example_Hooks\<close>, \<open>Example_Dirent\<close>: the concrete inputs at which the properties below are applied, over an executable memory.

  \<^bold>\<open>Bounds.\<close> Integers have the width of the C types and wrap around. The only loops are the reader's
  and that of \<open>save_str_arr_to_buf\<close>; both are recursions over the bound the code itself gives
  (\<open>MAX_OP_COUNT\<close> turns, \<open>MAX_STR_ARR_ELEM\<close> elements), so there is no fuel beside the code's, and a
  program that needs more operations ends where the code ends it (\<open>Turn_Limit\<close>). \<open>performs\<close>
  counts turns, and an argument program is only called one (\<open>runs_program\<close>, \<open>arg_program\<close>) when they are
  fewer than the module has, 64 for uprobes and 256 for system calls: a single string array fits into
  64 turns up to 18 strings, an array of iovec up to 4 elements, a \<open>msghdr\<close> up to 3, and each of them
  fits into 256. The program also keeps
  within \<open>ARGS_ROOM\<close>, 27800 bytes, so that the largest frame still fits before every save (\<open>SAVE_ROOM\<close>). The array in an event is a function
  on offsets, so that a write past its end can be expressed; that none occurs is proved.

  \<^bold>\<open>Assumptions.\<close> \<open>helper_laws\<close> states the documented contract of the memory read helpers (as many
  bytes as asked for on success, never more); what they read is arbitrary. Each map helper acts as
  documented, with LRU maps free to evict. Where a theorem needs the perf buffer to accept a record,
  or a map to have room, it says so. The record of the perf buffer has a size before the bytes that
  the library in user space removes; \<open>read_context\<close> starts behind it. A program is atomic: two
  programs on different processors can interleave in the kernel on shared hash maps, which the step
  relations of the runs do not split further (the event and the reader's context are per processor).

  \<^bold>\<open>Not modelled.\<close> The verifier and the compilation of the programs; of \<open>perf_mmap.c\<close> there are only
  two map declarations (its program is commented out); the macros of \<open>bpf_helpers.h\<close> and
  \<open>bpf_tracing.h\<close> that name sections, attributes and types; \<open>BPF_READ\<close>, which no program uses and
  which expands through a header outside the repository; the rest of the kernel header, which
  declares types that no program reads; the Go program except for the tables, argument types and readers
  named above: of the hook points not the splitting of their strings into words and the names of
  registers, libraries and functions in them, and not the formatting of values as text.
\<close>

section \<open>Properties\<close>

subsection \<open>Records, from the probe to user space\<close>

text \<open>C1. A traced thread reaches a uprobe point whose stored operations are those of typed arguments (numbers, strings, std::string, every registered structure but dirent, arrays of up to 4096 bytes, buffers with a fixed length or one in a register, string arrays, arrays of one to six readable iovec, msghdr with one to six of them, and pointers to any of these; read from a register or an address expression with one register, whose pointers can be read; with value filters that accept; for string arrays, a read of no bytes at address 0 succeeds and a string read there fails). The operations need fewer turns than the module has (64: a string array alone has to end within 18 strings, an iovec array within 4, a msghdr within 3) and the arguments fill at most 27800 bytes. Then the program ends, appends exactly one record (the perf buffer takes it), and user space reads back from its bytes the header, the point's key, the call site and exactly the values that the arguments stand for in the registers and the memory, with nothing left over; no operation stays pending for the next event.\<close>

theorem uprobe_arguments_read_back:
  assumes "helper_laws K" and "wf_maps (build_module K) S0"
    and "init_program_data K S0 ctx = (S, Some p)" and "should_trace S p"
    and "bpf_map_lookup_elem (uprobe_point_args S0) key = Some pa" and "enter_key pa \<in> {0, key + 1}"
    and "arg_program K S0 pa (copy_pt_regs K ctx) (regs (copy_pt_regs K ctx) ! 0) params ps"
    and "parsed_as EBPF_UPROBE_ENTER params"
    and "bpf_map_lookup_elem (common_filter S0) 0 = Some f"
    and "no_pending S0" and "\<forall>bs. perf_output_ret K bs = 0"
  shows "\<exists>S' bs c. probe_stack_warp K S0 ctx key = Some S' \<and> perf_events S' = perf_events S0 @ [bs] \<and>
    read_uprobe EBPF_UPROBE_ENTER params bs =
      Some ((c, key, [call_site_lr K f ctx, call_site_sp K f ctx, call_site_pc K ctx],
             map2 (arg_value K (copy_pt_regs K ctx)) params ps), []) \<and>
    eventid c = UPROBE_ENTER \<and> tid c = tid (ev_context (pd_event p)) \<and> pid c = pid (ev_context (pd_event p)) \<and>
    argnum c = of_nat (4 + length (args_frames K (copy_pt_regs K ctx) params ps 4)) \<and> no_pending S'"
  by (rule uprobe_args [OF assms])

theorem uprobe_arguments_read_back_witness:
  "\<exists>S' bs c ws. probe_stack_warp (ex_env MODULE_STACK) (ex_maps MODULE_STACK) 64 0 = Some S' \<and>
    perf_events S' = [bs] \<and>
    read_uprobe EBPF_UPROBE_ENTER ex_params bs = Some ((c, 0, ws, [Bytes_value 0 [], Number_value 0]), []) \<and>
    eventid c = UPROBE_ENTER"
proof -
  obtain S p where "init_program_data (ex_env MODULE_STACK) (ex_maps MODULE_STACK) 64 = (S, Some p)" "should_trace S p"
    by (rule ex_traced)
  note uprobe_arguments_read_back [OF ex_env_laws _ this ex_tables(2) _ ex_arg_program(1) ex_parsed(1) ex_tables(1)
      ex_no_pending(1), unfolded ex_eval ex_env_build ex_point_fields, OF wf_ex_maps]
  then show ?thesis using ex_env_output by blast
qed

text \<open>C2. From the configuration to the record: user space registers the operations of a point's arguments with its manager, later points may add more, every entry of the manager is stored in op_list in any order, and the point gets the configuration that GetConfig makes. Then a traced thread that reaches the point gives one record from which user space reads back exactly the values of the configured arguments, if these are of the kinds, and within the limits on turns and bytes, that the property on uprobe arguments names.\<close>

theorem configured_arguments_read_back:
  assumes "helper_laws K" and "wf_maps (build_module K) S0"
    and "init_program_data K S0 ctx = (S, Some p)" and "should_trace S p"
    and "wf_manager m" and "GetConfig (MAX_OP_COUNT (build_module K)) enter sig opss m = Some (pa, m')"
    and "map (map snd) opss = map GetOpList params" and "enter \<in> {0, key + 1}"
    and "numbered (m' @ new)" and "length (m' @ new) \<le> capacity ''op_list''"
    and "mset kvs = mset (op_table (m' @ new))" and "update_op_list kvs [] = Some (op_list S0)"
    and "bpf_map_lookup_elem (uprobe_point_args S0) key = Some pa"
    and "list_all2 (arg_ok K S0 (copy_pt_regs K ctx) (regs (copy_pt_regs K ctx) ! 0)) params ps"
    and "sum_list (map2 (arg_turns K (copy_pt_regs K ctx)) params ps) < MAX_OP_COUNT (build_module K)"
    and "length (concat (args_frames K (copy_pt_regs K ctx) params ps 0)) \<le> ARGS_ROOM"
    and "parsed_as EBPF_UPROBE_ENTER params" and "bpf_map_lookup_elem (common_filter S0) 0 = Some f"
    and "no_pending S0" and "\<forall>bs. perf_output_ret K bs = 0"
  shows "\<exists>S' bs c. probe_stack_warp K S0 ctx key = Some S' \<and> perf_events S' = perf_events S0 @ [bs] \<and>
    read_uprobe EBPF_UPROBE_ENTER params bs =
      Some ((c, key, [call_site_lr K f ctx, call_site_sp K f ctx, call_site_pc K ctx],
             map2 (arg_value K (copy_pt_regs K ctx)) params ps), [])"
proof -
  note program = configured_arg_program [OF assms(5-7,9-12,14-16)]
  show ?thesis
    using uprobe_args [OF assms(1-4) assms(13) _ program(1) assms(17-20)] program(2) assms(8) by blast
qed

theorem configured_arguments_read_back_witness:
  "\<exists>pa S' bs c ws. GetConfig (MAX_OP_COUNT MODULE_STACK) 0 0 ex_named_ops ex_manager = Some (pa, ex_manager) \<and>
    probe_stack_warp (ex_env MODULE_STACK) (ex_maps MODULE_STACK) 64 0 = Some S' \<and> perf_events S' = [bs] \<and>
    read_uprobe EBPF_UPROBE_ENTER ex_params bs = Some ((c, 0, ws, [Bytes_value 0 [], Number_value 0]), [])"
proof -
  obtain S p where "init_program_data (ex_env MODULE_STACK) (ex_maps MODULE_STACK) 64 = (S, Some p)" "should_trace S p"
    by (rule ex_traced)
  note configured_arguments_read_back [OF ex_env_laws _ this ex_manager_wf _ ex_named_ops_of _ _ _ _ _ ex_tables(2)
      ex_arg_ok(1) ex_arg_sizes(1,3) ex_parsed(1) ex_tables(1) ex_no_pending(1), unfolded ex_eval ex_env_build,
      OF wf_ex_maps ex_config _ _ _ refl, of "[]", unfolded append_Nil2, OF _ ex_manager_numbered ex_manager_size ex_op_table]
  then show ?thesis using ex_env_output ex_config by blast
qed

text \<open>C3. A traced thread enters a listed system call whose stored operations are those of typed arguments (the kinds of the first property, every structure but dirent; fewer than 256 turns, which every single argument of these kinds keeps, and at most 27800 bytes), the perf buffer takes the record and the snapshot map has room: one record goes out with the call number, the call site and the argument values in order, as user space reads them back, and the registers are kept for the exit of the same thread; no operation stays pending.\<close>

theorem syscall_entry_arguments_read_back:
  assumes "helper_laws K" and "wf_maps (build_module K) S0" and "sys_traced K S0 ctx S p f"
    and "bpf_map_lookup_elem (sysenter_point_args S0) (syscall_number K (raw_pt_regs K ctx)) = Some pa"
    and "arg_program K S0 pa (copy_pt_regs K (raw_pt_regs K ctx))
      (regs (copy_pt_regs K (raw_pt_regs K ctx)) ! 0) params ps"
    and "parsed_as EBPF_SYS_ENTER params" and "no_pending S0" and "snapshot_room S0"
    and "\<forall>bs. perf_output_ret K bs = 0"
  shows "\<exists>S' bs c. raw_syscalls_sys_enter K S0 ctx = Some S' \<and> perf_events S' = perf_events S0 @ [bs] \<and>
    read_sys_enter params bs =
      Some ((c, syscall_number K (raw_pt_regs K ctx),
             [call_site_lr K f (raw_pt_regs K ctx), call_site_sp K f (raw_pt_regs K ctx), call_site_pc K (raw_pt_regs K ctx)],
             map2 (arg_value K (copy_pt_regs K (raw_pt_regs K ctx))) params ps), []) \<and>
    eventid c = SYSCALL_ENTER \<and> snapshot S' SYSCALL_ENTER (cur_tid K) = Some (copy_pt_regs K (raw_pt_regs K ctx)) \<and>
    no_pending S'"
  by (rule sys_enter_args [OF assms])

theorem syscall_entry_arguments_read_back_witness:
  "\<exists>S' bs c ws. raw_syscalls_sys_enter (ex_env MODULE_SYSCALL) (ex_maps MODULE_SYSCALL) 64 = Some S' \<and>
    perf_events S' = [bs] \<and>
    read_sys_enter ex_params bs = Some ((c, 0, ws, [Bytes_value 0 [], Number_value 0]), []) \<and>
    eventid c = SYSCALL_ENTER"
proof -
  obtain S p where "sys_traced (ex_env MODULE_SYSCALL) (ex_maps MODULE_SYSCALL) 64 S p \<lparr>is_32bit = 0,
      trace_mode = TRACE_ALL, trace_uid_group = GROUP_ROOT, signal = 0, tsignal = 0\<rparr>"
    by (rule ex_sys_traced)
  note syscall_entry_arguments_read_back [OF ex_env_laws _ this, unfolded ex_syscall ex_env_build,
    OF wf_ex_maps ex_tables(5) ex_arg_program(1) ex_parsed(1) ex_no_pending(1) ex_room, unfolded ex_eval]
  then show ?thesis using ex_env_output by blast
qed





text \<open>C6. In every run of a function with a return probe on one thread, entries, returns and configured exits in any order and programs of any other threads between, the records of returns and exits are at most the events that follow an entry at once: a recursion of any depth gives one record for all its returns.\<close>

theorem nested_returns_lost:
  assumes "call_run m t key S h n S'" and "wf_maps m S" and "key + 1 \<noteq> 0"
    and "\<forall>pa. bpf_map_lookup_elem (uretprobe_point_args S) key = Some pa \<longrightarrow> enter_key pa = key + 1"
    and "snapshot S (UPROBE_ENTER + (key + 1)) t = None"
  shows "n \<le> reportable h \<and> (h = replicate d Fun_returned @ replicate k Fun_entered \<longrightarrow> n \<le> 1)"
proof -
  have "n \<le> reportable h" using call_run_bound [OF assms(1-3) _ assms(5)] assms(4) by blast
  then show ?thesis using reportable_recursion [of d k] by (auto intro: order_trans)
qed

theorem nested_returns_lost_witness:
  "\<exists>n S'. call_run MODULE_STACK 2 1 ex_recursive [Fun_returned, Fun_returned, Fun_entered, Fun_entered] n S' \<and> n \<le> 1"
proof -
  obtain n S' where run: "call_run MODULE_STACK 2 1 ex_recursive [Fun_returned, Fun_returned, Fun_entered, Fun_entered] n S'"
    by (rule ex_recursion)
  have "[Fun_returned, Fun_returned, Fun_entered, Fun_entered] = replicate 2 Fun_returned @ replicate 2 Fun_entered"
    by (simp add: numeral_2_eq_2)
  with nested_returns_lost [OF run, where d = 2 and k = 2] have "n \<le> 1"
    by (simp add: ex_recursive_simps)
  with run show ?thesis by blast
qed

subsection \<open>Runs and outcomes of the programs\<close>

text \<open>C7. In every run of the syscall programs, with entries, exits and forks of any threads interleaved in any order, and after every prefix of its records, no thread has more exit records than entry records (while the perf buffer drops nothing).\<close>

theorem syscall_records_paired:
  assumes "sys_run m S0 log S" and "wf_maps m S0" and "\<forall>t. \<not> live S0 t"
  shows "count_list (take k log) (Exited t) \<le> count_list (take k log) (Entered t)"
  by (rule sys_run_prefix [OF assms])

theorem syscall_records_paired_witness:
  "\<exists>S. sys_run MODULE_SYSCALL (ex_maps MODULE_SYSCALL) [Entered 2] S \<and>
    count_list (take 1 [Entered 2]) (Exited 2) \<le> count_list (take 1 [Entered 2]) (Entered 2)"
proof -
  obtain S where "sys_run MODULE_SYSCALL (ex_maps MODULE_SYSCALL) [Entered 2] S" by (rule ex_sys_run)
  then show ?thesis using syscall_records_paired [OF _ wf_ex_maps, of MODULE_SYSCALL "[Entered 2]" S 1 2] by auto
qed

text \<open>C8. The uprobe and the uretprobe program end without an access out of bounds on every well-formed state and keep it well formed; each either sends nothing at all, or the thread was to be traced and one record was submitted: header, key, call site, then numbered argument frames, within the argument buffer.\<close>

theorem stack_program_outcomes:
  assumes "helper_laws K" and "wf_maps (build_module K) S0"
  shows "(\<exists>S'. probe_stack_warp K S0 ctx key = Some S' \<and> wf_maps (build_module K) S' \<and>
      stack_outcome K S0 ctx key UPROBE_ENTER S') \<and>
    (\<exists>S'. uretprobe_stack_warp K S0 ctx key = Some S' \<and> wf_maps (build_module K) S' \<and>
      stack_outcome K S0 ctx key UPROBE_EXIT S')"
  using probe_stack_warp_outcome [OF assms] uretprobe_stack_warp_outcome [OF assms] by simp

theorem stack_program_outcomes_witness:
  "(\<exists>S'. probe_stack_warp (ex_env MODULE_STACK) (ex_maps MODULE_STACK) 64 1 = Some S' \<and> wf_maps MODULE_STACK S') \<and>
    (\<exists>S'. uretprobe_stack_warp (ex_env MODULE_STACK) (ex_maps MODULE_STACK) 64 0 = Some S' \<and> wf_maps MODULE_STACK S')"
  using stack_program_outcomes [of "ex_env MODULE_STACK" "ex_maps MODULE_STACK" 64 1]
    stack_program_outcomes [of "ex_env MODULE_STACK" "ex_maps MODULE_STACK" 64 0] by auto

text \<open>C9. The two system call programs end without a fault and keep the state well formed; the snapshots of all other threads stay as they are. An entry that is not traced, not listed or has no point sends nothing and leaves every snapshot as it is. One that is taken up either is filtered out, sends nothing and leaves no live snapshot of its thread, whatever there was before, or sends one record and keeps the registers (if the map has room). An exit that is not taken up changes nothing; one that is uses up the snapshot of its thread, and sends a record only if that snapshot was live.\<close>

theorem syscall_program_outcomes:
  assumes "helper_laws K" and "wf_maps (build_module K) S0"
  shows "(\<exists>S'. raw_syscalls_sys_enter K S0 ctx = Some S' \<and> wf_maps (build_module K) S' \<and> enter_outcome K S0 ctx S') \<and>
    (\<exists>S'. raw_syscalls_sys_exit K S0 ctx = Some S' \<and> wf_maps (build_module K) S' \<and> exit_outcome K S0 ctx S')"
  using sys_enter_outcome [OF assms] sys_exit_outcome [OF assms] by simp

theorem syscall_program_outcomes_witness:
  "(\<exists>S'. raw_syscalls_sys_enter (ex_env MODULE_SYSCALL) (ex_maps MODULE_SYSCALL) 64 = Some S' \<and> wf_maps MODULE_SYSCALL S' \<and>
      enter_outcome (ex_env MODULE_SYSCALL) (ex_maps MODULE_SYSCALL) 64 S') \<and>
    (\<exists>S'. raw_syscalls_sys_exit (ex_env MODULE_SYSCALL) (ex_entered MODULE_SYSCALL) 64 = Some S' \<and> wf_maps MODULE_SYSCALL S' \<and>
      exit_outcome (ex_env MODULE_SYSCALL) (ex_entered MODULE_SYSCALL) 64 S')"
  using syscall_program_outcomes [of "ex_env MODULE_SYSCALL" "ex_maps MODULE_SYSCALL" 64]
    syscall_program_outcomes [of "ex_env MODULE_SYSCALL" "ex_entered MODULE_SYSCALL" 64] by auto



text \<open>C11. When the current process is stackplz itself, each of the four programs stops at the trace decision: it sends no record and no signal and leaves the register snapshots alone.\<close>

theorem own_process_never_reported:
  assumes "init_program_data K S0 ctx = (S, Some p)" and "stackplz_pid (pd_config p) = pid (ev_context (pd_event p))"
  shows "probe_stack_warp K S0 ctx key = Some S \<and> uretprobe_stack_warp K S0 ctx key = Some S \<and>
    raw_syscalls_sys_enter K S0 ctx \<in> {Some S0, Some S} \<and> raw_syscalls_sys_exit K S0 ctx \<in> {Some S0, Some S} \<and>
    silent S0 S \<and> ctx_regs_map S = ctx_regs_map S0"
  using should_trace_own_process [OF assms(2), of S] silent_init [of S0 K ctx] init_program_data_other [of K S0 ctx] assms(1)
  by (simp add: probe_stack_warp_def uretprobe_stack_warp_def raw_syscalls_sys_enter_def raw_syscalls_sys_exit_def)

theorem own_process_never_reported_witness:
  "\<exists>S. probe_stack_warp (ex_env MODULE_STACK) ((ex_maps MODULE_STACK)\<lparr>base_config := [\<lparr>stackplz_pid = 0, thread_whitelist = 0\<rparr>]\<rparr>)
     64 0 = Some S \<and> perf_events S = []"
proof -
  let ?S0 = "(ex_maps MODULE_STACK)\<lparr>base_config := [\<lparr>stackplz_pid = 0, thread_whitelist = 0\<rparr>]\<rparr>"
  obtain S p where ini: "init_program_data (ex_env MODULE_STACK) ?S0 64 = (S, Some p)"
    and cfg: "pd_config p = \<lparr>stackplz_pid = 0, thread_whitelist = 0\<rparr>"
    by (auto simp: init_program_data_def init_context_def Let_def ex_maps_def array_lookup_elem_def
      nth_opt_def ex_env_def mem_kenv_def split: prod.split)
  have "stackplz_pid (pd_config p) = pid (ev_context (pd_event p))"
    using cfg init_program_data_context(2) [OF ini] by simp
  from own_process_never_reported [OF ini this, where key = 0] show ?thesis by (auto simp: silent_def)
qed

text \<open>C12. On a kernel with the layout of the header, the thread and process ids of a record are the numbers that the process structures of the current task and of its group leader have in their innermost namespace.\<close>

theorem reported_ids_are_namespace_numbers:
  assumes "header_kernel K" and "init_program_data K S ctx = (S', Some p)"
    and "task_number_is K (get_current_task K) n"
    and "field_holds K Task_group_leader (get_current_task K) g" and "task_number_is K g m"
  shows "tid (ev_context (pd_event p)) = n \<and> pid (ev_context (pd_event p)) = m"
  by (rule init_program_data_numbers [OF assms])

theorem reported_ids_are_namespace_numbers_witness:
  "\<exists>S p. init_program_data ex_task_env (ex_maps MODULE_STACK) 64 = (S, Some p) \<and>
    tid (ev_context (pd_event p)) = 42 \<and> pid (ev_context (pd_event p)) = 42"
proof -
  obtain S p where init: "init_program_data ex_task_env (ex_maps MODULE_STACK) 64 = (S, Some p)"
    by (rule ex_task_init)
  show ?thesis
    using reported_ids_are_namespace_numbers [OF ex_task_env_header init, of 42 4096 42] init
    by (auto simp: ex_task_env_task ex_task_number ex_task_leader)
qed

subsection \<open>The argument reader\<close>

text \<open>C13. The argument reader returns on every program of operations, well formed or not, as long as the key list has the declared length: its turns are bounded and every register index it uses is checked first.\<close>

theorem reader_never_faults:
  assumes "wf_ctx_regs r" and "wf_point_args (build_module K) pa"
  shows "\<exists>st'. read_args K pa r st = Some st'"
  by (rule read_args_Some [OF assms])

theorem reader_never_faults_witness:
  "\<exists>st'. read_args (ex_env MODULE_STACK) (ex_point MODULE_STACK 0) ex_regs
     \<lparr>rs_maps = ex_maps MODULE_STACK, rs_event = ex_event, rs_ctx = ex_op_ctx\<rparr> = Some st'"
  by (rule reader_never_faults) (simp_all add: ex_regs_def wf_ctx_regs_def)



text \<open>C15. FOR_BREAK, a body and FOR_BREAK again run the body as often as break_count says (once when it says 0), then go on after the loop with the loop variables cleared, for exactly the stated number of turns.\<close>

theorem for_loop_turns:
  assumes "at_cfg K pa st i" and "list_all body_cfg body"
    and "program_at (build_module K) pa (op_list (rs_maps st)) i (FOR_BREAK # body @ [FOR_BREAK])"
    and "loop_count (rs_ctx st) = 0" and "match_blacklist (rs_ctx st) \<noteq> 1"
    and "loop_passes K r body (max 1 (unat (break_count (rs_ctx st)))) (for_break_state st) = Some st'"
  shows "(\<exists>op'. \<forall>n. read_loop K pa r
        (Suc (max 1 (unat (break_count (rs_ctx st))) * Suc (block_turns body)) + n) op st =
      read_loop K pa r n op' st') \<and>
    loop_exit K pa (i + length body + 2) st' \<and> op_list (rs_maps st') = op_list (rs_maps st)"
  by (rule read_loop_for [OF assms])

theorem for_loop_turns_witness:
  "\<exists>st'. loop_passes (ex_env MODULE_STACK) ex_regs [OPC_MOVE_REG_VALUE] 2 (for_break_state ex_loop_state) = Some st' \<and>
    loop_exit (ex_env MODULE_STACK) ex_loop_point 3 st'"
proof -
  obtain st' where st': "loop_passes (ex_env MODULE_STACK) ex_regs [OPC_MOVE_REG_VALUE]
     (max 1 (unat (break_count (rs_ctx ex_loop_state)))) (for_break_state ex_loop_state) = Some st'"
    using ex_loop(6) by blast
  have two: "max 1 (unat (break_count (rs_ctx ex_loop_state))) = 2" by (simp add: ex_loop_state_def)
  have "loop_exit (ex_env MODULE_STACK) ex_loop_point (0 + length [OPC_MOVE_REG_VALUE] + 2) st'"
    using for_loop_turns [OF ex_loop(1-5) st'] by blast
  then show ?thesis using st' [unfolded two] by (auto simp: eval_nat_numeral)
qed

text \<open>C16. A filter on an integer argument skips the event exactly if: the type is EQUAL and the register differs from the number, or GREATER and the register is not below the number, or LESS and the register is not above it.\<close>

theorem value_filter_decides:
  assumes "at_cfg K pa st 0"
    and "program_at (build_module K) pa (op_list (rs_maps st)) 0
      [READ_SAVE_REG v, OPC_MOVE_REG_VALUE, OPC_FILTER_VALUE k, OPC_SKIP]"
    and "wf_ctx_regs r" and "v < 33" and "unat (buf_off (rs_event st)) \<le> 31889"
    and "match_blacklist (rs_ctx st) = 0" and "apply_filter (rs_ctx st) = 0" and "skip_flag (rs_ctx st) = 0"
    and "bpf_map_lookup_elem (arg_filter (rs_maps st)) k = Some f"
  shows "\<exists>st'. read_args K pa r st = Some st' \<and>
    skip_flag (rs_ctx st') =
      (if filter_type f = arg_filter_num EQUAL_FILTER \<and> ctx_regs_words r ! v \<noteq> num_val f \<or>
          filter_type f = arg_filter_num GREATER_FILTER \<and> \<not> ctx_regs_words r ! v < num_val f \<or>
          filter_type f = arg_filter_num LESS_FILTER \<and> \<not> num_val f < ctx_regs_words r ! v then 1 else 0)"
proof -
  have "value_mismatch f w \<longleftrightarrow> filter_type f = arg_filter_num EQUAL_FILTER \<and> w \<noteq> num_val f \<or>
      filter_type f = arg_filter_num GREATER_FILTER \<and> \<not> w < num_val f \<or>
      filter_type f = arg_filter_num LESS_FILTER \<and> \<not> num_val f < w" for w
    by (auto simp: value_mismatch_def)
  then show ?thesis using read_args_value_filter [OF assms] by (simp only:)
qed

theorem value_filter_decides_witness:
  "\<exists>st'. read_args (ex_env MODULE_STACK) ex_filter_point ex_regs ex_filter_state = Some st' \<and> skip_flag (rs_ctx st') = 1"
proof -
  have "\<exists>st'. read_args (ex_env MODULE_STACK) ex_filter_point ex_regs ex_filter_state = Some st' \<and>
      skip_flag (rs_ctx st') = (if arg_filter_num GREATER_FILTER = arg_filter_num EQUAL_FILTER \<and> ctx_regs_words ex_regs ! 0 \<noteq> 5 \<or>
          arg_filter_num GREATER_FILTER = arg_filter_num GREATER_FILTER \<and> \<not> ctx_regs_words ex_regs ! 0 < 5 \<or>
          arg_filter_num GREATER_FILTER = arg_filter_num LESS_FILTER \<and> \<not> 5 < ctx_regs_words ex_regs ! 0 then 1 else 0)"
    using value_filter_decides [of "ex_env MODULE_STACK" ex_filter_point ex_filter_state 0 6 ex_regs]
    by (simp add: ex_filter_state_def ex_filter_point_def at_cfg_def wf_point_args_def ex_op_ctx_def ex_event_def
      bpf_map_lookup_elem_def ex_regs_def wf_ctx_regs_def)
  moreover have "ctx_regs_words ex_regs ! 0 = 7" by (simp add: ctx_regs_words_def ex_regs_def)
  ultimately show ?thesis by simp
qed

subsection \<open>Typed arguments\<close>

text \<open>C17. For every argument type but the structure dirent: its operations, wherever they stand in a stored program, end after exactly the stated number of turns and save exactly the frames of the type, and the parser of user space reads back from these bytes the value the memory holds there, leaving the rest of the stream alone (strings and structures that cannot be read give an empty payload; a pointer type gives the word, and then the other type read at the same address). An array has at most 4096 bytes; an array of iovec, alone or in a msghdr, has one to six elements, which can be read; for string arrays a read of no bytes at address 0 succeeds and a string read there fails.\<close>

theorem argument_types_read_back:
  assumes "helper_laws K" and "wf_ctx_regs r" and "match_blacklist c \<noteq> 1" and "loop_count c = 0"
    and "type_runs K r ty (read_addr c)" and "type_reads K r ty (read_addr c)"
  shows "(\<exists>d. performs K S r (type_turns K r ty (read_addr c)) (type_ops ty) c (type_frames K r ty (read_addr c) (save_index c)) d \<and> keeps c d) \<and>
    type_parse ty p (concat (type_frames K r ty (read_addr c) (save_index c)) @ rest) =
      Some (type_value K r ty (read_addr c) p, rest)"
  using performs_type [OF assms(1-5)] type_parse_frames [OF assms(1,5,6)] by blast

theorem argument_types_read_back_witness:
  "type_parse String_array 16 (concat (type_frames (ex_mem_env MODULE_SYSCALL) ex_mem_regs String_array 16 4) @ [5]) =
     Some (type_value (ex_mem_env MODULE_SYSCALL) ex_mem_regs String_array 16 16, [5]) \<and>
   type_parse (Pointer_to String_arg) 16 (concat (type_frames (ex_mem_env MODULE_SYSCALL) ex_mem_regs (Pointer_to String_arg) 16 4) @ [5]) =
     Some (type_value (ex_mem_env MODULE_SYSCALL) ex_mem_regs (Pointer_to String_arg) 16 16, [5])"
  using argument_types_read_back [of "ex_mem_env MODULE_SYSCALL" ex_mem_regs "ex_op_ctx\<lparr>read_addr := 16, save_index := 4\<rparr>"
      String_array undefined 16 "[5]"]
    argument_types_read_back [of "ex_mem_env MODULE_SYSCALL" ex_mem_regs "ex_op_ctx\<lparr>read_addr := 16, save_index := 4\<rparr>"
      "Pointer_to String_arg" undefined 16 "[5]"]
  by (simp add: ex_op_ctx_def const_simps del: type_parse.simps type_frames.simps type_value.simps)

text \<open>C18. The operations of an address expression with one register, offsets and dots that read pointers save the address that the documentation of the syntax gives it, when the pointers on the way can be read.\<close>

theorem address_expression_value:
  assumes "helper_laws K" and "PTR_SIZE (build_arch K) = 8" and "wf_ctx_regs r"
    and "RegIndex a \<noteq> unat REG_ARM64_MAX" and "\<not> IsRet a" and "FilterIndexList a = []" and "\<not> ReadMore a"
    and "one_register gs" and "address_ops gs = Some (ExtraOpList a)" and "address_value K r gs = Some p"
    and "program_at (build_module K) pa (op_list S) 0 (point_ops [a])"
    and "block_turns (ExtraOpList a) < MAX_OP_COUNT (build_module K)"
    and "wf_point_args (build_module K) pa" and "no_pending S"
    and "array_lookup_elem (op_ctx_map S) i = Some c" and "unat (buf_off e) \<le> 32"
  shows "\<exists>st. read_args K pa r \<lparr>rs_maps = S, rs_event = e, rs_ctx = start_op_ctx v idx c\<rparr> = Some st \<and>
    appended e (rs_event st) [idx # le_bytes 8 p]"
  by (rule address_read [OF assms])

theorem address_expression_value_witness:
  "\<exists>st. read_args (ex_mem_env MODULE_STACK) (ex_ops_point MODULE_STACK) ex_mem_regs
      \<lparr>rs_maps = ex_ops_maps MODULE_STACK [READ_MOVE_REG 0, ROP OP_ADD_OFFSET 8, ROP OP_SAVE_ADDR 0, OPC_SKIP],
       rs_event = ex_event, rs_ctx = start_op_ctx 0 0 ex_op_ctx\<rparr> = Some st \<and>
    appended ex_event (rs_event st) [0 # le_bytes 8 (24 :: u64)]"
proof -
  let ?ops = "[READ_MOVE_REG 0, ROP OP_ADD_OFFSET 8, ROP OP_SAVE_ADDR 0]"
  have ops: "point_ops [ex_arg Number ?ops False False] = ?ops @ [OPC_SKIP]"
    by (simp add: point_ops_def GetOpList_def const_simps)
  have "program_at MODULE_STACK (ex_ops_point MODULE_STACK)
      (op_list (ex_ops_maps MODULE_STACK (?ops @ [OPC_SKIP]))) 0 (point_ops [ex_arg Number ?ops False False])"
    unfolding ops by (rule ex_ops_stored) simp
  from address_expression_value [of "ex_mem_env MODULE_STACK" ex_mem_regs "ex_arg Number ?ops False False"
      "[[(False, Reg_term 0), (False, Num_term 8)]]" 24, unfolded ex_mem_env_simps, OF _ _ _ _ _ _ _ _ _ _ this,
      of 0 ex_op_ctx ex_event 0 0]
  show ?thesis
    by (simp add: const_simps offsets_only_def block_turns_def turns_of_def READ_MOVE_REG_def ROP_def)
qed

text \<open>C19. An address expression with two registers does not give their sum or difference: reading the second register overwrites the address, so x0+x1 is saved as 2*x1 and x0-x1 as 0.\<close>

theorem two_register_address_wrong:
  assumes "helper_laws K" and "wf_ctx_regs r" and "q1 < 33" and "q2 < 33"
    and "RegIndex a \<noteq> unat REG_ARM64_MAX" and "\<not> IsRet a" and "FilterIndexList a = []" and "\<not> ReadMore a"
    and "address_ops [[(False, Reg_term q1), (neg, Reg_term q2)]] = Some (ExtraOpList a)"
    and "program_at (build_module K) pa (op_list S) 0 (point_ops [a])"
    and "wf_point_args (build_module K) pa" and "no_pending S"
    and "array_lookup_elem (op_ctx_map S) i = Some c" and "unat (buf_off e) \<le> 32"
  shows "address_value K r [[(False, Reg_term q1), (neg, Reg_term q2)]] =
      Some (if neg then ctx_regs_words r ! q1 - ctx_regs_words r ! q2 else ctx_regs_words r ! q1 + ctx_regs_words r ! q2) \<and>
    (\<exists>st. read_args K pa r \<lparr>rs_maps = S, rs_event = e, rs_ctx = start_op_ctx v idx c\<rparr> = Some st \<and>
      appended e (rs_event st) [idx # le_bytes 8 (if neg then 0 else 2 * ctx_regs_words r ! q2)])"
  using two_registers_read [OF assms] by simp

theorem two_register_address_wrong_witness:
  "address_value (ex_mem_env MODULE_STACK) ex_mem_regs [[(False, Reg_term 1), (False, Reg_term 0)]] = Some 0x1010 \<and>
   (\<exists>st. read_args (ex_mem_env MODULE_STACK) (ex_ops_point MODULE_STACK) ex_mem_regs
      \<lparr>rs_maps = ex_ops_maps MODULE_STACK [READ_MOVE_REG 1, READ_MOVE_REG 0, ROP OP_ADD_REG 0, ROP OP_SAVE_ADDR 0, OPC_SKIP],
       rs_event = ex_event, rs_ctx = start_op_ctx 0 0 ex_op_ctx\<rparr> = Some st \<and>
    appended ex_event (rs_event st) [0 # le_bytes 8 (32 :: u64)])"
proof -
  let ?ops = "[READ_MOVE_REG 1, READ_MOVE_REG 0, ROP OP_ADD_REG 0, ROP OP_SAVE_ADDR 0]"
  have ops: "point_ops [ex_arg Number ?ops False False] = ?ops @ [OPC_SKIP]"
    by (simp add: point_ops_def GetOpList_def const_simps)
  have "program_at MODULE_STACK (ex_ops_point MODULE_STACK)
      (op_list (ex_ops_maps MODULE_STACK (?ops @ [OPC_SKIP]))) 0 (point_ops [ex_arg Number ?ops False False])"
    unfolding ops by (rule ex_ops_stored) simp
  from two_register_address_wrong [of "ex_mem_env MODULE_STACK" ex_mem_regs 1 0 "ex_arg Number ?ops False False" False,
      unfolded ex_mem_env_simps, OF _ _ _ _ _ _ _ _ _ this, of 0 ex_op_ctx ex_event 0 0]
  show ?thesis by (simp add: const_simps)
qed

text \<open>C20. A return value with a string type: the operations save the returned pointer but do not move it to the read address, so the string saved with it is the one at the read address that an earlier event left, whatever the function returned.\<close>

theorem returned_string_at_stale_address:
  assumes "helper_laws K"
    and "RegIndex a \<noteq> unat REG_ARM64_MAX" and "IsRet a" and "FilterIndexList a = []" and "ReadMore a" and "TypeIndex a = String_arg"
    and "program_at (build_module K) pa (op_list S) 0 (point_ops [a])"
    and "wf_point_args (build_module K) pa" and "no_pending S"
    and "array_lookup_elem (op_ctx_map S) i = Some c" and "unat (buf_off e) \<le> 32"
  shows "\<exists>st. read_args K pa r \<lparr>rs_maps = S, rs_event = e, rs_ctx = start_op_ctx v idx c\<rparr> = Some st \<and>
    appended e (rs_event st) [idx # le_bytes 8 v, payload_frame (idx + 1) (text_at K (read_addr c))]"
  by (rule returned_string_read [OF assms])

theorem returned_string_at_stale_address_witness:
  "\<exists>st. read_args (ex_mem_env MODULE_STACK) (ex_ops_point MODULE_STACK) ex_mem_regs
      \<lparr>rs_maps = ex_ops_maps MODULE_STACK [ROP OP_READ_RET 0, ROP OP_SAVE_REG 0, ROP OP_SAVE_STRING 0, OPC_SKIP],
       rs_event = ex_event, rs_ctx = start_op_ctx 0x1000 0 ex_op_ctx\<rparr> = Some st \<and>
    appended ex_event (rs_event st) [0 # le_bytes 8 (0x1000 :: u64), payload_frame 1 []]"
proof -
  let ?ops = "[ROP OP_READ_RET 0, ROP OP_SAVE_REG 0, ROP OP_SAVE_STRING 0]"
  have ops: "point_ops [ex_arg String_arg [] True True] = ?ops @ [OPC_SKIP]"
    by (simp add: point_ops_def GetOpList_def const_simps)
  have "program_at MODULE_STACK (ex_ops_point MODULE_STACK)
      (op_list (ex_ops_maps MODULE_STACK (?ops @ [OPC_SKIP]))) 0 (point_ops [ex_arg String_arg [] True True])"
    unfolding ops by (rule ex_ops_stored) simp
  from returned_string_at_stale_address [of "ex_mem_env MODULE_STACK" "ex_arg String_arg [] True True",
      unfolded ex_mem_env_simps, OF _ _ _ _ _ _ this, of 0 ex_op_ctx ex_event ex_mem_regs "0x1000" 0]
  show ?thesis by (simp add: const_simps text_at_def string_payload_def ex_read_addr)
qed

text \<open>C21. The exit of getdents64, as the configuration file describes it, with a directory entry that can be read: the program saves its 280 bytes, but the structure is registered with the parser of pollfd, which reads eight of them. User space then reports bytes 9 to 16 of the entry as the count argument and bytes 18 to 25 as the return value of the call, and 272 bytes of the record are left over.\<close>

theorem directory_entry_cut:
  assumes "helper_laws K" and "wf_maps (build_module K) S0" and "sys_traced K S0 ctx S p f"
    and "bpf_map_lookup_elem (sysexit_point_args S0) (syscall_number K (raw_pt_regs K ctx)) = Some pa"
    and "Parse_FileConfig 0 getdents64_params = Some (enter_args, exit_args, ret)"
    and "program_at (build_module K) pa (op_list S0) 0 (point_ops exit_args)" and "no_pending S0"
    and "snapshot S0 SYSCALL_ENTER (cur_tid K) = Some r" and "flag r \<noteq> 1"
    and "b = bytes_at K (ctx_regs_words r ! 1) 280" and "b \<noteq> []"
    and "\<forall>bs. perf_output_ret K bs = 0"
  shows "\<exists>S' bs c left. raw_syscalls_sys_exit K S0 ctx = Some S' \<and> perf_events S' = perf_events S0 @ [bs] \<and>
    read_sys_exit exit_args bs =
      Some ((c, syscall_number K (raw_pt_regs K ctx),
             [Number_value (ctx_regs_words r ! 0), Bytes_value (ctx_regs_words r ! 1) (take 8 b),
              Number_value (le_word (take 8 (drop 9 b)))], le_word (take 8 (drop 18 b))), left) \<and>
    length left = 272"
  by (rule getdents64_exit_read [OF assms])

theorem directory_entry_cut_witness:
  "\<exists>enter_args exit_args ret S' bs c left.
    Parse_FileConfig 0 getdents64_params = Some (enter_args, exit_args, ret) \<and>
    raw_syscalls_sys_exit ex_dirent_env ex_dirent_maps 64 = Some S' \<and> perf_events S' = [bs] \<and>
    read_sys_exit exit_args bs =
      Some ((c, 61, [Number_value 3, Bytes_value 0x2000 (replicate 8 65), Number_value 0x4141414141414141],
        0x4141414141414141), left) \<and>
    length left = 272"
proof -
  obtain enter_args ret where args: "Parse_FileConfig 0 getdents64_params = Some (enter_args, getdents64_exit, ret)"
    by (rule getdents64_parsed)
  obtain S p where tr: "sys_traced ex_dirent_env ex_dirent_maps 64 S p \<lparr>is_32bit = 0, trace_mode = TRACE_ALL,
      trace_uid_group = GROUP_ROOT, signal = 0, tsignal = 0\<rparr>"
    by (rule ex_dirent_traced)
  have "le_word (replicate 8 65) = (0x4141414141414141 :: u64)" by code_simp
  moreover have "take 8 (drop k (replicate 280 (65 :: u8))) = replicate 8 65" if "k \<le> 272" for k
    using that by (simp add: take_replicate drop_replicate)
  moreover have "take 8 (replicate 280 (65 :: u8)) = replicate 8 65" by (simp add: take_replicate)
  ultimately have cut: "take 8 (replicate 280 (65 :: u8)) = replicate 8 65"
    "(le_word (take 8 (drop 9 (replicate 280 (65 :: u8)))) :: u64) = 0x4141414141414141"
    "(le_word (take 8 (drop 18 (replicate 280 (65 :: u8)))) :: u64) = 0x4141414141414141" by simp_all
  have "replicate 280 (65 :: u8) \<noteq> []" by simp
  note directory_entry_cut [OF ex_dirent_env_simps(1) _ tr, unfolded ex_dirent_env_simps ex_dirent_number,
      OF ex_dirent_state(1,4) args ex_dirent_stored ex_dirent_state(2,5,6) refl, unfolded ex_dirent_state(7,8) ex_dirent_bytes cut,
      OF this, unfolded ex_dirent_state(3) append_Nil]
  then show ?thesis using args by blast
qed



text \<open>C23. In the uprobe module a string array of twenty or more readable strings needs more than the 64 turns of the reader: the run is cut off after the twentieth element without an end marker, and the parser of user space runs out of bytes and panics.\<close>

theorem long_string_array_cut_off:
  assumes "helper_laws K" and "fst (mem_probe_read K 0 0) = 0" and "build_module K = MODULE_STACK"
    and "wf_ctx_regs r" and "RegIndex a < 33"
    and "RegIndex a \<noteq> unat REG_ARM64_MAX" and "\<not> IsRet a" and "ExtraOpList a = []" and "FilterIndexList a = []"
    and "ReadMore a" and "TypeIndex a = String_array"
    and "strings_ok K (ctx_regs_words r ! RegIndex a) 20"
    and "program_at (build_module K) pa (op_list S) 0 (point_ops [a])"
    and "wf_point_args (build_module K) pa" and "no_pending S"
    and "array_lookup_elem (op_ctx_map S) i = Some c"
    and "fs = (idx # le_bytes 8 (ctx_regs_words r ! RegIndex a)) # strings_frames K (ctx_regs_words r ! RegIndex a) 20 (idx + 1)"
    and "has_room e fs"
    and "parse_more a t" and "fst (mem_probe_read_str K 0 MAX_STRING_SIZE) < 0"
  shows "(\<exists>st. read_args K pa r \<lparr>rs_maps = S, rs_event = e, rs_ctx = start_op_ctx v idx c\<rparr> = Some st \<and>
      appended e (rs_event st) fs) \<and> parse_uprobe_args t [a] (concat fs) = None"
  using string_array_cut_off [OF assms(1-18)] cut_record_not_parsed [OF assms(1,20,19,11,12,17)] by simp

theorem long_string_array_cut_off_witness:
  "let K = ex_mem_env MODULE_STACK; a = ex_arg String_array [] True False; fs = (4 # le_bytes 8 (16 :: u64)) # strings_frames K 16 20 5
   in (\<exists>st. read_args K (ex_ops_point MODULE_STACK) ex_mem_regs
         \<lparr>rs_maps = ex_ops_maps MODULE_STACK (point_ops [a]), rs_event = ex_event, rs_ctx = start_op_ctx 0 4 ex_op_ctx\<rparr> = Some st \<and>
         appended ex_event (rs_event st) fs) \<and> parse_uprobe_args EBPF_UPROBE_ENTER [a] (concat fs) = None"
proof -
  let ?K = "ex_mem_env MODULE_STACK" and ?a = "ex_arg String_array [] True False"
  let ?fs = "(4 # le_bytes 8 (16 :: u64)) # strings_frames ?K 16 20 5"
  have "point_ops [?a] = [READ_SAVE_REG 0, OPC_MOVE_REG_VALUE, ROP OP_SET_BREAK_COUNT (ucast MAX_LOOP_COUNT), FOR_BREAK,
      ROP OP_SAVE_PTR_STRING 0, ROP OP_ADD_OFFSET 8, FOR_BREAK, OPC_SKIP]"
    by (simp add: point_ops_def GetOpList_def const_simps)
  then have prog: "program_at MODULE_STACK (ex_ops_point MODULE_STACK) (op_list (ex_ops_maps MODULE_STACK (point_ops [?a]))) 0 (point_ops [?a])"
    by (intro ex_ops_stored) simp
  have room: "has_room ex_event ?fs" using ex_mem_strings(2) [of MODULE_STACK 5] by (simp add: has_room_def SAVE_ROOM_def)
  have null: "fst (mem_read_str ex_mem 0 MAX_STRING_SIZE) < 0" by (simp add: const_simps)
  note long_string_array_cut_off [of ?K ex_mem_regs ?a, unfolded ex_mem_env_simps ex_arg_simps ex_mem_regs,
    OF _ _ _ _ _ _ _ _ _ _ _ ex_mem_strings(1) prog _ _ _ refl _ ex_arg_simps(7) null, where e = ex_event and idx = 4 and c = ex_op_ctx
      and i = 0 and v = 0]
  then show ?thesis using room by (simp add: const_simps Let_def del: parse_uprobe_args.simps)
qed

text \<open>C24. In the uprobe module an array of six or more iovec needs more than the 64 turns of the reader: the run is cut off in the fifth pass, when its element is saved, and the parser of user space, which reads six, runs out of bytes and panics.\<close>

theorem long_iovec_array_cut_off:
  assumes "helper_laws K" and "build_module K = MODULE_STACK"
    and "wf_ctx_regs r" and "RegIndex a < 33" and "v < 33"
    and "\<not> IsRet a" and "ExtraOpList a = []" and "FilterIndexList a = []" and "ReadMore a" and "TypeIndex a = Iovecs v"
    and "parse_more a t" and "MAX_IOV_COUNT \<le> n" and "n < 2 ^ 63" and "ctx_regs_words r ! v = of_nat n"
    and "iovs_readable K (ctx_regs_words r ! RegIndex a) 5"
    and "program_at (build_module K) pa (op_list S) 0 (point_ops [a])"
    and "wf_point_args (build_module K) pa" and "no_pending S"
    and "array_lookup_elem (op_ctx_map S) i = Some c"
    and "fs = (idx # le_bytes 8 (ctx_regs_words r ! RegIndex a)) # ((idx + 1) # le_bytes 8 (of_nat n :: u64)) #
      iovec_frames K (ctx_regs_words r ! RegIndex a) 5 (idx + 2)"
    and "has_room e fs"
  shows "(\<exists>st. read_args K pa r \<lparr>rs_maps = S, rs_event = e, rs_ctx = start_op_ctx w idx c\<rparr> = Some st \<and>
      appended e (rs_event st) fs) \<and> parse_uprobe_args t [a] (concat fs) = None"
  using iovec_array_cut_off [OF assms] by blast

theorem long_iovec_array_cut_off_witness:
  "let K = ex_iov_env MODULE_STACK; a = ex_arg (Iovecs 2) [] True False;
     fs = (4 # le_bytes 8 (16 :: u64)) # (5 # le_bytes 8 (7 :: u64)) # iovec_frames K 16 5 6
   in (\<exists>st. read_args K (ex_ops_point MODULE_STACK) ex_mem_regs
         \<lparr>rs_maps = ex_ops_maps MODULE_STACK (point_ops [a]), rs_event = ex_event, rs_ctx = start_op_ctx 0 4 ex_op_ctx\<rparr> = Some st \<and>
         appended ex_event (rs_event st) fs) \<and> parse_uprobe_args EBPF_UPROBE_ENTER [a] (concat fs) = None"
proof -
  let ?K = "ex_iov_env MODULE_STACK" and ?a = "ex_arg (Iovecs 2) [] True False"
  let ?fs = "(4 # le_bytes 8 (16 :: u64)) # (5 # le_bytes 8 (7 :: u64)) # iovec_frames ?K 16 5 6"
  have "length (point_ops [?a]) = 17"
    by (simp add: point_ops_def GetOpList_def iovec_ops_def const_simps)
  then have prog: "program_at MODULE_STACK (ex_ops_point MODULE_STACK)
      (op_list (ex_ops_maps MODULE_STACK (point_ops [?a]))) 0 (point_ops [?a])"
    by (intro ex_ops_stored) simp
  have room: "has_room ex_event ?fs"
    using ex_seven_iovs(2) [of 5 MODULE_STACK 6] by (simp add: has_room_def SAVE_ROOM_def)
  have five: "(5 :: nat) \<le> 7" by simp
  note long_iovec_array_cut_off [of ?K ex_mem_regs ?a 2 EBPF_UPROBE_ENTER 7, unfolded ex_iov_env_simps ex_arg_simps ex_mem_regs,
    OF _ _ _ _ _ _ _ _ _ _ ex_arg_simps(7) _ _ _ ex_seven_iovs(1) [OF five] prog _ _ _ refl, where e = ex_event and idx = 4
      and c = ex_op_ctx and i = 0 and w = 0]
  then show ?thesis using room by (simp add: const_simps Let_def del: parse_uprobe_args.simps)
qed

text \<open>C25. An operation left pending in the per-cpu reader context by an earlier event (post_code is not cleared) runs first for the next event: its stale register value is saved as an argument of an event whose program is empty.\<close>

theorem stale_operation_runs:
  assumes "bpf_map_lookup_elem (op_list S) 0 = Some OPC_SKIP" and "wf_point_args (build_module K) pa"
    and "op_key_list pa ! 0 = 0" and "post_code c = op_num OP_SAVE_REG" and "unat (buf_off e) \<le> 31889"
  shows "\<exists>st'. read_args K pa r \<lparr>rs_maps = S, rs_event = e, rs_ctx = start_op_ctx v i c\<rparr> = Some st' \<and>
    appended e (rs_event st') [i # le_bytes 8 (reg_value c)] \<and> skip_flag (rs_ctx st') = 0"
  by (rule stale_save_reg_runs [OF assms(1-3) assms(4,5)])

theorem stale_operation_runs_witness:
  "\<exists>st'. read_args (ex_env MODULE_STACK) ((ex_point MODULE_STACK 0)\<lparr>op_key_list := replicate 64 0\<rparr>) ex_regs
     \<lparr>rs_maps = ex_maps MODULE_STACK, rs_event = ex_event,
      rs_ctx = start_op_ctx 0 4 (ex_op_ctx\<lparr>post_code := op_num OP_SAVE_REG, reg_value := 5\<rparr>)\<rparr> = Some st' \<and>
    appended ex_event (rs_event st') [4 # le_bytes 8 (5 :: u64)]"
  using stale_operation_runs [of "ex_maps MODULE_STACK" "ex_env MODULE_STACK"
      "(ex_point MODULE_STACK 0)\<lparr>op_key_list := replicate 64 0\<rparr>"
      "ex_op_ctx\<lparr>post_code := op_num OP_SAVE_REG, reg_value := 5\<rparr>" ex_event ex_regs 0 4]
  by (auto simp: ex_maps_def bpf_map_lookup_elem_def wf_point_args_def ex_event_def)

subsection \<open>Configuration\<close>

text \<open>C26. In the tables that user space fills from the parsed hook points, every point is present; its key is 0, its own (the registers are kept there) or that of another point that keeps its registers (an exit); and a return probe names its own entry, which keeps its registers.\<close>

theorem hook_point_keys:
  assumes "parsed_points ps" and "qs = finish_points ps"
    and "list_all2 (\<lambda>q pa. enter_key pa = EnterKey q) qs configs"
    and "list_all2 (\<lambda>q pa. enter_key pa = EnterKey q) qs uret_configs"
    and "update_stack_config qs configs [] = Some t" and "update_uretprobe_stack_config qs uret_configs [] = Some u"
    and "j < length qs"
  shows "(\<exists>pa. bpf_map_lookup_elem t (of_nat j) = Some pa \<and>
      (enter_key pa \<in> {0, of_nat j + 1} \<or>
       (\<exists>k pa'. k \<noteq> j \<and> enter_key pa = of_nat k + 1 \<and> bpf_map_lookup_elem t (of_nat k) = Some pa' \<and>
          enter_key pa' = of_nat k + 1))) \<and>
    (\<forall>pa. bpf_map_lookup_elem u (of_nat j) = Some pa \<longrightarrow> enter_key pa = of_nat j + 1 \<and>
      (\<exists>pa'. bpf_map_lookup_elem t (of_nat j) = Some pa' \<and> enter_key pa' = enter_key pa))"
  using hook_tables [OF assms] by blast

theorem hook_point_keys_witness:
  "\<exists>t u pa pa'. update_stack_config (finish_points [ex_hook]) [ex_point MODULE_STACK 1, ex_point MODULE_STACK 1] [] = Some t \<and>
    update_uretprobe_stack_config (finish_points [ex_hook]) [ex_ret_point MODULE_STACK 1, ex_ret_point MODULE_STACK 1] [] = Some u \<and>
    bpf_map_lookup_elem u 0 = Some pa \<and> bpf_map_lookup_elem t 0 = Some pa' \<and> enter_key pa = 1 \<and> enter_key pa' = 1"
proof -
  obtain t u where t: "update_stack_config (finish_points [ex_hook]) [ex_point MODULE_STACK 1, ex_point MODULE_STACK 1] [] = Some t"
    and u: "update_uretprobe_stack_config (finish_points [ex_hook]) [ex_ret_point MODULE_STACK 1, ex_ret_point MODULE_STACK 1] [] = Some u"
    and found: "bpf_map_lookup_elem u 0 = Some (ex_ret_point MODULE_STACK 1)" by (rule ex_hook_tables)
  from hook_point_keys [OF ex_hook_parsed refl _ _ t u, of 0] show ?thesis
    using t u found by (auto simp: ex_hook_finished)
qed

text \<open>C27. With six hook points, as many as the parser takes, and an exit offset on one of them, the seventh point has no program and the table has no room for it: filling the table fails, which user space turns into a panic.\<close>

theorem exit_point_without_program:
  assumes "parsed_points ps" and "length ps = 6" and "\<exists>p \<in> set ps. ExitOffset p \<noteq> 0"
    and "length configs = length (finish_points ps)"
  shows "nth_opt stack_point_keys (PointIndex (finish_points ps ! 6)) = None \<and>
    update_stack_config (finish_points ps) configs [] = None"
  using exit_point_beyond_programs [OF assms] by simp

theorem exit_point_without_program_witness:
  "update_stack_config (finish_points ex_six_hooks) (replicate 7 (ex_point MODULE_STACK 0)) [] = None"
  using exit_point_without_program [OF ex_six_hooks_parsed, of "replicate 7 (ex_point MODULE_STACK 0)"]
  by (simp add: length_finish_points [OF ex_six_hooks_parsed] ex_six_hooks_exits)

text \<open>C28. For hook points of the command line (at the entry, and at the return with the return value), for system calls bound to a hook point and for those described in a file: what the programs save behind each argument is exactly what user space parses for that kind of event, as the properties on records ask.\<close>

theorem configured_args_parsed:
  assumes "Parse_FileConfig i ps = Some (enter_args, exit_args, ret)"
  shows "parsed_as EBPF_UPROBE_ENTER (hook_args uret j ws) \<and>
    parsed_as EBPF_UPROBE_EXIT (hook_ret rw # hook_args True j ws) \<and>
    parsed_as EBPF_SYS_ENTER (fst (UpdateSyscallPoint exit_read params)) \<and>
    parsed_as EBPF_SYS_EXIT (snd (UpdateSyscallPoint exit_read params)) \<and>
    parsed_as EBPF_SYS_ENTER enter_args \<and> parsed_as EBPF_SYS_EXIT exit_args"
  using hook_args_parsed(1) [of uret j ws] hook_args_parsed(2) [of j ws] hook_ret_parsed [of EBPF_UPROBE_EXIT rw]
    bound_args_parsed file_syscall_parsed [OF assms]
  by (simp add: parsed_as_Cons)

theorem configured_args_parsed_witness:
  "\<exists>enter_args exit_args ret. Parse_FileConfig 0 [(''fd'', '''', ex_word Num_word), (''buf'', ''all'', ex_word (Buf_size 16)),
      (''ret'', '''', ex_word Num_word)] = Some (enter_args, exit_args, ret) \<and> length enter_args = 2 \<and>
    parsed_as EBPF_SYS_EXIT exit_args \<and> ReadMore (exit_args ! 1) \<and> \<not> ReadMore (exit_args ! 0)"
proof -
  obtain enter_args exit_args ret where ps: "Parse_FileConfig 0 [(''fd'', '''', ex_word Num_word), (''buf'', ''all'', ex_word (Buf_size 16)),
      (''ret'', '''', ex_word Num_word)] = Some (enter_args, exit_args, ret)"
    and facts: "length enter_args = 2" "ReadMore (exit_args ! 1)" "\<not> ReadMore (exit_args ! 0)"
    by (rule ex_file_syscall)
  from configured_args_parsed [OF ps] facts ps show ?thesis by blast
qed

text \<open>C29. An argument of a uprobe point in a file whose type is a registered structure (or any other registered name) is not read by the program, because GetPointArg leaves its group unset, but is parsed by user space: with nothing behind the register the parser panics.\<close>

theorem file_structure_panics:
  assumes "pw_word w = Type_named ty" and "\<not> pw_star w" and "ty \<noteq> Number"
  shows "\<not> ReadMore (GetPointArg i EBPF_UPROBE_ENTER w) \<and> parse_more (GetPointArg i EBPF_UPROBE_ENTER w) EBPF_UPROBE_ENTER \<and>
    parse_arg EBPF_UPROBE_ENTER (GetPointArg i EBPF_UPROBE_ENTER w)
      (concat (arg_frames K r (GetPointArg i EBPF_UPROBE_ENTER w) p j)) = None"
  using named_type_unsaved(1,2) [OF assms(1,2)] named_type_panics [OF assms] by simp

theorem file_structure_panics_witness:
  "parse_arg EBPF_UPROBE_ENTER (GetPointArg 1 EBPF_UPROBE_ENTER (ex_word (Type_named (Struct Timespec))))
    (concat (arg_frames (ex_mem_env MODULE_STACK) ex_mem_regs (GetPointArg 1 EBPF_UPROBE_ENTER (ex_word (Type_named (Struct Timespec)))) 0x1000 4)) =
    None"
  using file_structure_panics [of "ex_word (Type_named (Struct Timespec))" "Struct Timespec" 1 "ex_mem_env MODULE_STACK" ex_mem_regs "0x1000" 4]
  by simp

subsection \<open>Filtering\<close>

text \<open>C30. With ids below 1024, the trace decision over the one table of ids that user space fills is equivalent to the policy over its six sets: own process, thread name, thread, process, forked, user and user group, in this order of precedence.\<close>

theorem should_trace_is_policy:
  assumes "update_common_filter cf [] = Some (common_list S)" and "small_conf cf"
    and "bpf_map_lookup_elem (common_filter S) 0 = Some f"
    and "unat (tid (ev_context (pd_event p))) < 1024" and "unat (pid (ev_context (pd_event p))) < 1024"
    and "unat (uid (ev_context (pd_event p))) < 1024"
  shows "should_trace S p = trace_policy cf (forked_pids S) f (bpf_map_lookup_elem (thread_filter S))
    (pd_config p) (ev_context (pd_event p))"
  by (rule should_trace_policy [OF assms])

theorem should_trace_is_policy_witness:
  "should_trace ((ex_maps MODULE_STACK)\<lparr>common_list := [(0x1C05, 0x1C05)]\<rparr>) (ex_program_data 5)"
proof -
  let ?S = "(ex_maps MODULE_STACK)\<lparr>common_list := [(0x1C05, 0x1C05)]\<rparr>"
  have "should_trace ?S (ex_program_data 5) = trace_policy (ex_conf [5]) (forked_pids ?S)
      \<lparr>is_32bit = 0, trace_mode = TRACE_ALL, trace_uid_group = GROUP_ROOT, signal = 0, tsignal = 0\<rparr>
      (bpf_map_lookup_elem (thread_filter ?S)) (pd_config (ex_program_data 5)) (ev_context (pd_event (ex_program_data 5)))"
    by (rule should_trace_is_policy)
      (simp_all add: ex_conf_list ex_program_data_def ex_context_def, simp add: small_conf_def ex_conf_def)
  then show ?thesis
    by (simp add: trace_policy_def policy_by_id_def ex_program_data_def ex_context_def ex_conf_def ex_maps_def
      bpf_map_lookup_elem_def)
qed

text \<open>C31. Outside that range the lists collide: whitelisting thread t + 0x400 makes every event of thread t be dropped (unless its name decides), because both use the same key.\<close>

theorem tid_lists_collide:
  assumes "update_common_filter cf [] = Some (common_list S)" and "t + 0x400 \<in> set (TidWhitelist cf)"
    and "tid (ev_context (pd_event p)) = t"
    and "bpf_map_lookup_elem (thread_filter S) \<lparr>thread_name = comm (ev_context (pd_event p))\<rparr> = None"
  shows "\<not> should_trace S p"
proof -
  have "TID_BLACKLIST_START + t \<in> common_keys cf"
  proof -
    have "TID_BLACKLIST_START + t = (t + 0x400) + TID_WHITELIST_START"
      using tid_whitelist_collides [of t] by (simp only: add.commute)
    then have "TID_BLACKLIST_START + t \<in> (\<lambda>v. v + TID_WHITELIST_START) ` set (TidWhitelist cf)"
      using assms(2) by (rule image_eqI)
    then show ?thesis by (simp only: common_keys_def Un_iff simp_thms)
  qed
  then have "\<not> trace_by_id S (ev_context (pd_event p))"
    using update_common_filter_keys [OF assms(1)] assms(3) by (simp add: trace_by_id_def in_common_list_def)
  then show ?thesis using assms(4) by (simp add: should_trace_def Let_def)
qed

theorem tid_lists_collide_witness:
  "\<not> should_trace ((ex_maps MODULE_STACK)\<lparr>common_list := [(0x2005, 0x2005)]\<rparr>) (ex_program_data 5)"
  by (rule tid_lists_collide [where cf = "ex_conf [0x405]" and t = 5])
    (use ex_conf_list [of "0x405"] in \<open>simp_all add: ex_conf_def ex_program_data_def ex_context_def ex_maps_def bpf_map_lookup_elem_def\<close>)

text \<open>C32. String comparison by map lookup is equivalent to a prefix test: it gives 1 exactly if the argument is at least as long as the rule's string and starts with it, and it leaves the scratch map empty.\<close>

theorem string_filter_is_prefix_test:
  assumes "helper_laws K" and "str_buf_gen S \<noteq> []" and "str_buf S = []" and "padded_rule f pat"
    and "fst (mem_probe_read K (read_addr oc) (length pat)) = 0"
  shows "snd (strcmp_by_map K S oc f) =
      (if filter_str_len f \<le> str_len oc \<and> snd (mem_probe_read K (read_addr oc) (length pat)) = pat then 1 else 0) \<and>
    str_buf (fst (strcmp_by_map K S oc f)) = []"
  using strcmp_by_map_prefix [OF assms(1-4) _ assms(5)] strcmp_by_map_short [of oc f K S] strcmp_by_map_restores [OF assms(3)]
  by (cases "filter_str_len f \<le> str_len oc") (simp_all add: not_le)

theorem string_filter_is_prefix_test_witness:
  "snd (strcmp_by_map (mem_kenv TARGET_ARCH_arm64 MODULE_STACK 7 (\<lambda>a. if a = 16 then Some 65 else Some 66)) (ex_maps MODULE_STACK)
     (ex_op_ctx\<lparr>read_addr := 16, str_len := 3\<rparr>)
     \<lparr>filter_type = 4, filter_str_val = [65, 66] @ replicate 254 0, filter_str_len = 2, num_val = 0\<rparr>) = 1"
  using string_filter_is_prefix_test [OF mem_kenv_laws, where S = "ex_maps MODULE_STACK" and pat = "[65, 66]" and
    oc = "ex_op_ctx\<lparr>read_addr := 16, str_len := 3\<rparr>" and
    f = "\<lparr>filter_type = 4, filter_str_val = [65, 66] @ replicate 254 0, filter_str_len = 2, num_val = 0\<rparr>"]
  by (simp add: ex_maps_def padded_rule_def mem_read_def Let_def)

text \<open>C33. Of a table in which every entry points at a root (an entry that points at itself), the fork handler keeps this shape except in exactly one case: the handler is not stopped early, the parent is a root, and the child's number is that of another root which some other entry points at. (Entries are never removed, so a process number that is used again is such a child.) When the parent of a fork is itself a tracked child, the table stays as it is, so the new process is not tracked.\<close>

theorem fork_table_keeps_roots:
  assumes "fork_inv (child_parent_map S)"
  shows "(fork_inv (child_parent_map (sched_process_fork K S ctx)) \<longleftrightarrow>
      snd (init_program_data K S ctx) = None \<or>
      \<not> fork_breaks (fst (fork_pids K ctx)) (snd (fork_pids K ctx)) (child_parent_map S)) \<and>
    (\<forall>root. bpf_map_lookup_elem (child_parent_map S) (fst (fork_pids K ctx)) = Some root \<and> root \<noteq> fst (fork_pids K ctx) \<longrightarrow>
      child_parent_map (sched_process_fork K S ctx) = child_parent_map S)"
proof
  show "fork_inv (child_parent_map (sched_process_fork K S ctx)) \<longleftrightarrow>
      snd (init_program_data K S ctx) = None \<or>
      \<not> fork_breaks (fst (fork_pids K ctx)) (snd (fork_pids K ctx)) (child_parent_map S)"
    using fork_entry_inv [OF assms] assms by (auto simp: sched_process_fork_table)
  show "\<forall>root. bpf_map_lookup_elem (child_parent_map S) (fst (fork_pids K ctx)) = Some root \<and> root \<noteq> fst (fork_pids K ctx) \<longrightarrow>
      child_parent_map (sched_process_fork K S ctx) = child_parent_map S"
    using fork_entry_grandchild [of "child_parent_map S" "fst (fork_pids K ctx)" _ "snd (fork_pids K ctx)"]
    by (auto simp: sched_process_fork_table)
qed

theorem fork_table_keeps_roots_witness:
  "fork_inv (child_parent_map (sched_process_fork (ex_env MODULE_STACK) (ex_maps MODULE_STACK) 64)) \<and>
    child_parent_map (sched_process_fork (ex_env MODULE_STACK) ((ex_maps MODULE_STACK)\<lparr>child_parent_map := [(7, 7), (0, 7)]\<rparr>) 64) =
      [(7, 7), (0, 7)] \<and>
    fork_inv [(7, 7), (8, 8), (9, 8 :: u32)] \<and> \<not> fork_inv (child_parent_map (sched_process_fork ex_fork_env ex_reused 256))"
proof -
  have "fork_inv (child_parent_map (ex_maps MODULE_STACK))" "fork_inv [(7, 7), (0, 7 :: u32)]"
    by (auto simp: fork_inv_def ex_maps_def bpf_map_lookup_elem_def split: if_splits)
  moreover have "\<not> fork_inv (child_parent_map (sched_process_fork ex_fork_env ex_reused 256))"
    using fork_table_keeps_roots [OF ex_reused_inv(1), of ex_fork_env 256] ex_reused_inv(2,3) by (simp add: ex_fork_pids)
  moreover have "fork_inv [(7, 7), (8, 8), (9, 8 :: u32)]"
    using ex_reused_inv(1) by (simp add: ex_reused_def)
  ultimately show ?thesis
    using fork_table_keeps_roots [of "ex_maps MODULE_STACK" "ex_env MODULE_STACK" 64]
      fork_table_keeps_roots [of "(ex_maps MODULE_STACK)\<lparr>child_parent_map := [(7, 7), (0, 7)]\<rparr>" "ex_env MODULE_STACK" 64]
    by (simp add: ex_maps_def bpf_map_lookup_elem_def fork_pids_def fork_breaks_def)
qed

subsection \<open>Buffers and snapshots\<close>

text \<open>C34. events_perf_submit hands over the event header followed by exactly the committed argument bytes, and the reader of user space gives back the header and those bytes.\<close>

theorem record_is_header_and_arguments:
  assumes "wf_context (ev_context e)" and "buf_ok e"
  shows "read_context (fst (snd (events_perf_submit K e i))) = Some ((ev_context e)\<lparr>eventid := i\<rparr>, buf_bytes e)"
proof -
  have "wf_context ((ev_context e)\<lparr>eventid := i\<rparr>)" using assms(1) by (simp add: wf_context_def)
  then show ?thesis
    unfolding events_perf_submit_record [OF assms] by (rule context_codec.rd_enc)
qed

theorem record_is_header_and_arguments_witness:
  "read_context (fst (snd (events_perf_submit (ex_env MODULE_STACK) ex_event 456))) =
    Some (ex_context\<lparr>eventid := 456\<rparr>, [])"
  using record_is_header_and_arguments [of ex_event "ex_env MODULE_STACK" 456]
  by (simp add: ex_event_def wf_context_def ex_context_def buf_ok_def buf_bytes_def range_of_def const_simps)

text \<open>C35. save_to_submit_buf commits one frame, index and bytes, exactly if there is room and the read succeeds; otherwise it returns 0 and the committed part, the count and everything beyond the buffer are as before.\<close>

theorem save_to_submit_buf_all_branches:
  assumes "helper_laws K" and "ptr_ok p (unat n)" and "0 < n" and "unat n \<le> MAX_ELEMENT_SIZE"
  shows "if unat (buf_off e) \<le> 31889 \<and> fst (bpf_probe_read K p (unat n)) = 0
    then snd (save_to_submit_buf K e p n idx) = 1 \<and>
      appended e (fst (save_to_submit_buf K e p n idx)) [idx # snd (bpf_probe_read K p (unat n))]
    else snd (save_to_submit_buf K e p n idx) = 0 \<and>
      appended e (fst (save_to_submit_buf K e p n idx)) []"
  by (rule save_to_submit_buf_result [OF assms])

theorem save_to_submit_buf_all_branches_witness:
  "snd (save_to_submit_buf (ex_env MODULE_STACK) (ex_event\<lparr>buf_off := 31890\<rparr>) (Obj [1, 2]) 2 0) = 0 \<and>
    appended ex_event (fst (save_to_submit_buf (ex_env MODULE_STACK) ex_event (Obj [1, 2]) 2 0)) [[0, 1, 2]]"
  using save_to_submit_buf_all_branches [OF ex_env_laws [of MODULE_STACK], of "Obj [1, 2]" 2 ex_event 0]
    save_to_submit_buf_all_branches [OF ex_env_laws [of MODULE_STACK], of "Obj [1, 2]" 2 "ex_event\<lparr>buf_off := 31890\<rparr>" 0]
  by (simp add: ex_event_def MAX_ELEMENT_SIZE_def)

text \<open>C36. Saving, loading and deleting registers refine an abstract map from event number and thread to registers: a save is an update at the current thread, a load gives it back, a delete removes it, and no other key is touched.\<close>

theorem register_snapshots_refine_a_map:
  assumes "snapshot_room S \<or> snapshot S e (cur_tid K) \<noteq> None" and "wf_ctx_regs r"
  shows "(\<forall>e' t. snapshot (fst (save_regs K S r e)) e' t =
      ((\<lambda>(e', t). snapshot S e' t)((e, cur_tid K) \<mapsto> r)) (e', t)) \<and>
    load_regs K (fst (save_regs K S r e)) r0 e = (r, 0) \<and>
    (\<forall>e' t. snapshot (fst (del_regs K (fst (save_regs K S r e)) e)) e' t =
      ((\<lambda>(e', t). snapshot S e' t)((e, cur_tid K) := None)) (e', t))"
proof -
  note same = snapshot_save_same [OF assms(1), of r]
  show ?thesis
    using same load_regs_Some [OF same assms(2), of r0]
    by (auto simp: snapshot_save_other snapshot_del)
qed

theorem register_snapshots_refine_a_map_witness:
  "load_regs (ex_env MODULE_STACK) (fst (save_regs (ex_env MODULE_STACK) (ex_maps MODULE_STACK) ex_regs 5)) zero_ctx_regs 5 =
    (ex_regs, 0)"
  using register_snapshots_refine_a_map [of "ex_maps MODULE_STACK" 5 "ex_env MODULE_STACK" ex_regs zero_ctx_regs]
  by (simp add: ex_regs_def wf_ctx_regs_def)

subsection \<open>The unwinding library\<close>

text \<open>C37. After any sequence of loads and closes of the unwinding library, at most one handle is open, it is the remembered one, and with no open handle the unwinding calls return NULL instead of going through a pointer.\<close>

theorem unwinder_never_dangles:
  assumes "unwinder_reach D u" and "dlsym_law D"
  shows "length (open_handles u) \<le> 1 \<and> (g_handle u \<noteq> 0 \<longleftrightarrow> open_handles u = [g_handle u]) \<and>
    (open_handles u = [] \<longrightarrow> get_stack u call a = 0 \<and> get_stackv2 u call a = 0)"
  using unwinder_reach_inv [OF assms] by (auto simp: unwinder_inv_def get_stack_def get_stackv2_def split: if_splits)

theorem unwinder_never_dangles_witness:
  "length (open_handles (fst (init_stack_unwinder ex_dl ''/data'' no_unwinder))) \<le> 1"
proof -
  have "unwinder_reach ex_dl (fst (init_stack_unwinder ex_dl ''/data'' no_unwinder))"
    by (intro reach_init reach_start)
  moreover have "dlsym_law ex_dl" by (simp add: dlsym_law_def ex_dl_def)
  ultimately show ?thesis using unwinder_never_dangles [where call = "\<lambda>_ _. 0" and a = "()"] by blast
qed

subsection \<open>The helpers\<close>

text \<open>C38. bpf_printk with up to three values, which is what the fork handlers use, calls bpf_trace_printk with the format, its size and the values; with four to twelve it calls bpf_trace_vprintk with an array that holds all values in their order and its size in bytes; with more it does not expand. The helper is declared, takes as many arguments as it is passed (at most the five of a helper), and is one that the 5.10 kernel of the header has exactly if there are at most three values.\<close>

theorem printing_macro_expands:
  "bpf_printk junk fmt ws =
     (if length ws \<le> 3 then Some (Trace_printk fmt (length fmt + 1) ws)
      else if length ws \<le> 12 then Some (Trace_vprintk fmt (length fmt + 1) ws (8 * length ws))
      else None) \<and>
   (bpf_printk junk fmt ws = Some c \<longrightarrow>
     (\<exists>h. find_helper (fst (print_helper c)) helper_decls = Some h \<and> call_ok h (snd (print_helper c)) \<and>
       snd (print_helper c) \<le> 5 \<and> (known_to_kernel h \<longleftrightarrow> length ws \<le> 3)))"
proof (cases "length ws \<le> 12")
  case True
  then show ?thesis using bpf_printk_expands [OF True, of junk fmt] print_helper_fits [OF _ True, of junk fmt c] by simp
next
  case False
  then show ?thesis using bpf_printk_overflow [of ws junk fmt] by simp
qed

theorem printing_macro_expands_witness:
  "\<exists>h. find_helper ''bpf_trace_printk'' helper_decls = Some h \<and> call_ok h 3 \<and> known_to_kernel h \<and>
    bpf_printk (\<lambda>_. 0) (''[stack] parent pid from map:%d'' @ [CHR 0x0A]) [12345 :: nat] =
      Some (Trace_printk (''[stack] parent pid from map:%d'' @ [CHR 0x0A]) 32 [12345])"
  using printing_macro_expands [of "\<lambda>_. 0" "''[stack] parent pid from map:%d'' @ [CHR 0x0A]" "[12345 :: nat]"
    "Trace_printk (''[stack] parent pid from map:%d'' @ [CHR 0x0A]) 32 [12345]"]
  by simp

end
